(* ===== verification/AvPrelude.thy ===== *)
theory AvPrelude
  imports Main "HOL-Library.Word"
begin

text \<open>
  Shared vocabulary of the development: machine integers, the error numbers the C code
  returns, C strings and the character classification the kernel uses, the kernel
  services that are not part of the repository, and the generic list and word lemmas
  that the component theories rely on.

  A C string is modelled by the list of its bytes before the terminating NUL, so every
  \<open>string\<close> below stands for a NUL-free \<open>char *\<close>; \<open>cstr\<close> cuts a raw buffer at its first
  NUL. Kernel services that the sources only call (the name hash, the bucket reduction
  of \<^verbatim>\<open>linux/hashtable.h\<close>, the jiffies conversion) are fields of the record \<open>kapi\<close> and
  an argument of every definition that uses them.
\<close>

unbundle bit_operations_syntax

named_theorems cstr_simps \<open>definitions of the C string helpers\<close>
named_theorems inv_intros \<open>preservation of the component invariants\<close>

type_synonym u8 = "8 word"
type_synonym u32 = "32 word"
type_synonym u64 = "64 word"
type_synonym 'a buckets = "'a list list"

section \<open>Error numbers and results\<close>

datatype errno =
    EPERM | ENOENT | EIO | ENOMEM | EFAULT | EEXIST | EINVAL | EFBIG | ENOSPC
  | EMSGSIZE | ENOTCONN | ETIMEDOUT | ECONNREFUSED

text \<open>A call that returns 0 or a negative error number is an \<open>errno + unit\<close>.\<close>

type_synonym ret = "errno + unit"
type_synonym 'a ret_val = "errno + 'a"

abbreviation OK :: ret where "OK \<equiv> Inr ()"

fun errno_nr :: "errno \<Rightarrow> nat" where
  "errno_nr EPERM = 1" | "errno_nr ENOENT = 2" | "errno_nr EIO = 5" | "errno_nr ENOMEM = 12"
| "errno_nr EFAULT = 14" | "errno_nr EEXIST = 17" | "errno_nr EINVAL = 22" | "errno_nr EFBIG = 27"
| "errno_nr ENOSPC = 28" | "errno_nr EMSGSIZE = 90" | "errno_nr ENOTCONN = 107"
| "errno_nr ETIMEDOUT = 110" | "errno_nr ECONNREFUSED = 111"

text \<open>Decimal output, as \<^verbatim>\<open>%u\<close> and, with a sign, \<^verbatim>\<open>%d\<close>.\<close>

fun show_nat :: "nat \<Rightarrow> string" where
  "show_nat n = (if n < 10 then [char_of (48 + n)] else show_nat (n div 10) @ [char_of (48 + n mod 10)])"

declare show_nat.simps [simp del]

definition show_int :: "int \<Rightarrow> string" where
  "show_int i = (if i < 0 then CHR ''-'' # show_nat (nat (- i)) else show_nat (nat i))"

section \<open>Kernel services\<close>

record kapi =
  full_name_hash :: "string \<Rightarrow> u32"
  hash_min :: "u32 \<Rightarrow> nat \<Rightarrow> nat"
  jiffies_to_msecs :: "u64 \<Rightarrow> u32"

text \<open>A concrete instance: the hash is the length of the name, the bucket the hash itself, and a
  jiffy a millisecond.\<close>

definition kapi0 :: kapi where
  "kapi0 = \<lparr>full_name_hash = (\<lambda>s. of_nat (length s)), hash_min = (\<lambda>k bits. unat k),
            jiffies_to_msecs = ucast\<rparr>"

section \<open>Characters and C strings\<close>

definition ccode :: "char \<Rightarrow> nat" where
  "ccode c = of_char c"

definition NUL :: char where "NUL = CHR 0x00"
definition NL :: char where "NL = CHR 0x0A"
definition CR :: char where "CR = CHR 0x0D"
definition TAB :: char where "TAB = CHR 0x09"

text \<open>\<^verbatim>\<open>linux/ctype.h\<close>: the classification table covers Latin-1, not only ASCII.\<close>

definition isupper :: "char \<Rightarrow> bool" where
  "isupper c \<longleftrightarrow> (65 \<le> ccode c \<and> ccode c \<le> 90) \<or> (192 \<le> ccode c \<and> ccode c \<le> 222 \<and> ccode c \<noteq> 215)"

definition tolower :: "char \<Rightarrow> char" where
  "tolower c = (if isupper c then char_of (ccode c + 32) else c)"

definition isspace :: "char \<Rightarrow> bool" where
  "isspace c \<longleftrightarrow> (9 \<le> ccode c \<and> ccode c \<le> 13) \<or> ccode c = 32 \<or> ccode c = 160"

definition isxdigit :: "char \<Rightarrow> bool" where
  "isxdigit c \<longleftrightarrow> (48 \<le> ccode c \<and> ccode c \<le> 57) \<or> (65 \<le> ccode c \<and> ccode c \<le> 70)
     \<or> (97 \<le> ccode c \<and> ccode c \<le> 102)"

definition cstr :: "string \<Rightarrow> string" where
  "cstr buf = takeWhile (\<lambda>c. c \<noteq> NUL) buf"

text \<open>\<open>strcaseeq s t\<close> is \<^verbatim>\<open>!strcasecmp(s, t)\<close>, \<open>strncaseeq n s t\<close> is \<^verbatim>\<open>!strncasecmp(s, t, n)\<close>
  and \<open>strneq n s t\<close> is \<^verbatim>\<open>!strncmp(s, t, n)\<close>; \<open>strscpy n s\<close> is the string left in an
  \<open>n\<close>-byte buffer, and \<open>hex_tolower\<close> the string after lowering every byte.\<close>

definition strcaseeq :: "string \<Rightarrow> string \<Rightarrow> bool" where
  "strcaseeq s t \<longleftrightarrow> map tolower s = map tolower t"

definition strncaseeq :: "nat \<Rightarrow> string \<Rightarrow> string \<Rightarrow> bool" where
  "strncaseeq n s t \<longleftrightarrow> map tolower (take n s) = map tolower (take n t)"

definition strneq :: "nat \<Rightarrow> string \<Rightarrow> string \<Rightarrow> bool" where
  "strneq n s t \<longleftrightarrow> take n s = take n t"

definition strscpy :: "nat \<Rightarrow> string \<Rightarrow> string" where
  "strscpy n s = take (n - 1) s"

definition skip_spaces :: "string \<Rightarrow> string" where
  "skip_spaces s = dropWhile isspace s"

text \<open>\<open>strstr_at\<close> is the suffix at the first occurrence of the needle, \<open>strrchr_after\<close> the
  text after the last occurrence of a character.\<close>

fun strstr :: "string \<Rightarrow> string \<Rightarrow> string option" where
  "strstr [] needle = (if needle = [] then Some [] else None)"
| "strstr (c # s) needle =
     (if take (length needle) (c # s) = needle then Some (c # s) else strstr s needle)"

fun strrchr_after :: "char \<Rightarrow> string \<Rightarrow> string option" where
  "strrchr_after ch [] = None"
| "strrchr_after ch (c # s) =
     (case strrchr_after ch s of Some t \<Rightarrow> Some t | None \<Rightarrow> if c = ch then Some s else None)"

section \<open>The kernel's \<open>sscanf\<close>\<close>

text \<open>
  The conversions the sources use: \<^verbatim>\<open>%Ns\<close> (skip white space, then at most \<open>N\<close> bytes up to
  white space; a conversion attempted at the end of the input stops the scan) and
  \<^verbatim>\<open>%N[^\n]\<close> (at most \<open>N\<close> bytes up to a newline, at least one). A blank in the format
  skips white space.
\<close>

definition scan_s :: "nat \<Rightarrow> string \<Rightarrow> (string \<times> string) option" where
  "scan_s w s =
     (if s = [] then None
      else let t = skip_spaces s; tok = take w (takeWhile (\<lambda>c. \<not> isspace c) t)
           in Some (tok, drop (length tok) t))"

definition scan_line :: "nat \<Rightarrow> string \<Rightarrow> (string \<times> string) option" where
  "scan_line w s =
     (let tok = take w (takeWhile (\<lambda>c. c \<noteq> NL) s)
      in if tok = [] then None else Some (tok, drop (length tok) s))"

datatype conv = ConvS nat | ConvLine nat

definition conv_scan :: "conv \<Rightarrow> string \<Rightarrow> (string \<times> string) option" where
  "conv_scan c s = (case c of ConvS w \<Rightarrow> scan_s w s | ConvLine w \<Rightarrow> scan_line w s)"

text \<open>\<open>sscanf cs s\<close> is the list of the fields converted by a format whose conversions \<open>cs\<close>
  are separated by blanks; its length is the value \<^verbatim>\<open>sscanf\<close> returns.\<close>

fun sscanf :: "conv list \<Rightarrow> string \<Rightarrow> string list" where
  "sscanf [] s = []"
| "sscanf (c # cs) s =
     (case conv_scan c s of None \<Rightarrow> [] | Some (tok, r) \<Rightarrow> tok # sscanf cs (skip_spaces r))"

section \<open>Buckets of the kernel hash table\<close>

text \<open>
  \<^verbatim>\<open>DEFINE_HASHTABLE(name, bits)\<close> is an array of \<open>2 ^ bits\<close> chains. \<^verbatim>\<open>hash_add\<close> pushes at
  the head of the chain of the key, \<^verbatim>\<open>hash_for_each_possible\<close> walks that chain from its
  head, \<^verbatim>\<open>hash_for_each\<close> walks every chain in bucket order. \<^verbatim>\<open>hash_min\<close> returns an index
  of the array, so reducing it by the number of buckets is the identity on what it
  returns.
\<close>

definition hash_init :: "nat \<Rightarrow> 'e buckets" where
  "hash_init bits = replicate (2 ^ bits) []"

definition bucket :: "kapi \<Rightarrow> nat \<Rightarrow> u32 \<Rightarrow> nat" where
  "bucket K bits key = hash_min K key bits mod 2 ^ bits"

definition hchain :: "'e buckets \<Rightarrow> nat \<Rightarrow> 'e list" where
  "hchain t i = (if i < length t then t ! i else [])"

definition set_chain :: "'e buckets \<Rightarrow> nat \<Rightarrow> 'e list \<Rightarrow> 'e buckets" where
  "set_chain t i c = t[i := c]"

definition hash_add :: "'e buckets \<Rightarrow> nat \<Rightarrow> 'e \<Rightarrow> 'e buckets" where
  "hash_add t i e = set_chain t i (e # hchain t i)"

definition hash_for_each :: "'e buckets \<Rightarrow> 'e list" where
  "hash_for_each t = concat t"

fun remove_first :: "('e \<Rightarrow> bool) \<Rightarrow> 'e list \<Rightarrow> 'e list" where
  "remove_first P [] = []"
| "remove_first P (e # es) = (if P e then es else e # remove_first P es)"

text \<open>Writing through the pointer a lookup returned: the first matching node is changed in place.\<close>

fun update_first :: "('e \<Rightarrow> bool) \<Rightarrow> ('e \<Rightarrow> 'e) \<Rightarrow> 'e list \<Rightarrow> 'e list" where
  "update_first P f [] = []"
| "update_first P f (e # es) = (if P e then f e # es else e # update_first P f es)"

text \<open>
  What a table keyed by \<open>ekey\<close> keeps: the array has \<open>nb\<close> chains, every node is in the chain
  of its key, and no two nodes have the same key.
\<close>

definition table_inv :: "nat \<Rightarrow> ('k \<Rightarrow> nat) \<Rightarrow> ('e \<Rightarrow> 'k) \<Rightarrow> 'e buckets \<Rightarrow> bool" where
  "table_inv nb idx ekey t \<longleftrightarrow> length t = nb \<and>
     (\<forall>i < nb. \<forall>e \<in> set (t ! i). idx (ekey e) = i) \<and> distinct (map ekey (hash_for_each t))"

section \<open>Generic lemmas\<close>

subsection \<open>Characters and strings\<close>

lemma ccode_less [simp]: "ccode c < 256"
  unfolding ccode_def by (rule nat_of_char_less_256)

lemma ccode_char_of [simp]: "n < 256 \<Longrightarrow> ccode (char_of n) = n"
  by (simp add: ccode_def)

lemma tolower_not_upper: "\<not> isupper (tolower c)"
proof (cases "isupper c")
  case True
  then have "ccode c + 32 < 256" and "\<not> (65 \<le> ccode c + 32 \<and> ccode c + 32 \<le> 90)"
    and "\<not> (192 \<le> ccode c + 32 \<and> ccode c + 32 \<le> 222 \<and> ccode c + 32 \<noteq> 215)"
    by (auto simp: isupper_def)
  with True show ?thesis by (simp add: tolower_def isupper_def)
next
  case False
  then show ?thesis by (simp add: tolower_def)
qed

lemma tolower_idem [simp]: "tolower (tolower c) = tolower c"
  using tolower_not_upper [of c] by (simp add: tolower_def [of "tolower c"])

lemma map_tolower_idem [simp]: "map tolower (map tolower s) = map tolower s"
  by (simp add: comp_def)

lemma length_strscpy: "length (strscpy n s) = min (length s) (n - 1)"
  by (simp add: strscpy_def)

lemma strscpy_fits: "length s < n \<Longrightarrow> strscpy n s = s"
  by (simp add: strscpy_def)

lemma strneq_prefix: "strneq (length p) s p \<longleftrightarrow> (\<exists>r. s = p @ r)"
  by (auto simp: strneq_def) (metis append_take_drop_id)

lemma strncaseeq_canonical:
  assumes "map tolower s = s" and "map tolower t = t" and "length s = n" and "length t = n"
  shows "strncaseeq n s t \<longleftrightarrow> s = t"
  using assms by (simp add: strncaseeq_def)

lemma strcaseeq_refl [simp]: "strcaseeq s s"
  by (simp add: strcaseeq_def)

lemma cstr_noNUL [simp]: "NUL \<notin> set (cstr s)"
  by (auto simp: cstr_def dest: set_takeWhileD)

lemma cstr_id: "NUL \<notin> set s \<Longrightarrow> cstr s = s"
  unfolding cstr_def by (rule takeWhile_eq_all_conv [THEN iffD2]) auto

lemma strstr_Some: "strstr s p = Some t \<Longrightarrow> (\<exists>u. s = u @ t) \<and> (\<exists>r. t = p @ r)"
proof (induction s)
  case Nil
  then show ?case by (auto split: if_splits)
next
  case (Cons c s)
  show ?case
  proof (cases "take (length p) (c # s) = p")
    case True
    with Cons.prems have "t = c # s" by simp
    with True show ?thesis by (metis append_Nil append_take_drop_id)
  next
    case False
    with Cons obtain u where "s = u @ t" and "\<exists>r. t = p @ r" by auto
    then show ?thesis by (metis append_Cons)
  qed
qed

lemma strstr_None: "strstr s p = None \<longleftrightarrow> (\<forall>u r. s \<noteq> u @ p @ r)"
proof (induction s)
  case Nil
  then show ?case by auto
next
  case (Cons c s)
  show ?case
  proof (cases "take (length p) (c # s) = p")
    case True
    then have "c # s = [] @ p @ drop (length p) (c # s)" by (metis append_Nil append_take_drop_id)
    with True show ?thesis by (metis option.distinct(1) strstr.simps(2))
  next
    case False
    have "(\<forall>u r. c # s \<noteq> u @ p @ r) \<longleftrightarrow> (\<forall>u r. s \<noteq> u @ p @ r)"
    proof
      assume "\<forall>u r. c # s \<noteq> u @ p @ r"
      then show "\<forall>u r. s \<noteq> u @ p @ r" by (metis append_Cons)
    next
      assume *: "\<forall>u r. s \<noteq> u @ p @ r"
      show "\<forall>u r. c # s \<noteq> u @ p @ r"
      proof (intro allI notI)
        fix u r
        assume eq: "c # s = u @ p @ r"
        show False
        proof (cases u)
          case Nil
          with eq False show False by simp
        next
          case (Cons a u')
          with eq * show False by simp
        qed
      qed
    qed
    with False Cons.IH show ?thesis by simp
  qed
qed

subsection \<open>Scanning\<close>

lemma skip_spaces_stop: "s = [] \<or> \<not> isspace (hd s) \<Longrightarrow> skip_spaces s = s"
  by (cases s) (auto simp: skip_spaces_def)

lemma takeWhile_stop:
  "\<forall>c \<in> set tok. P c \<Longrightarrow> r = [] \<or> \<not> P (hd r) \<Longrightarrow> takeWhile P (tok @ r) = tok"
  by (cases r) (auto simp: takeWhile_append)

lemma dropWhile_stop:
  "\<forall>c \<in> set tok. P c \<Longrightarrow> r = [] \<or> \<not> P (hd r) \<Longrightarrow> dropWhile P (tok @ r) = r"
  by (cases r) (auto simp: dropWhile_append)

lemma scan_s_token:
  assumes "tok \<noteq> []" and "\<forall>c \<in> set tok. \<not> isspace c" and "length tok \<le> w"
    and "r = [] \<or> isspace (hd r)"
  shows "scan_s w (tok @ r) = Some (tok, r)"
proof -
  have "skip_spaces (tok @ r) = tok @ r"
    using assms(1,2) by (intro skip_spaces_stop) (cases tok, auto)
  moreover have "takeWhile (\<lambda>c. \<not> isspace c) (tok @ r) = tok"
    using assms(2,4) by (intro takeWhile_stop) auto
  ultimately show ?thesis using assms(1,3) by (simp add: scan_s_def Let_def)
qed

lemma scan_line_token:
  assumes "tok \<noteq> []" and "NL \<notin> set tok" and "length tok \<le> w" and "r = [] \<or> hd r = NL"
  shows "scan_line w (tok @ r) = Some (tok, r)"
proof -
  have "takeWhile (\<lambda>c. c \<noteq> NL) (tok @ r) = tok"
    using assms(2,4) by (intro takeWhile_stop) auto
  then show ?thesis using assms(1,3) by (simp add: scan_line_def Let_def)
qed

lemma isspace_simps [simp]:
  "isspace CHR '' ''" "isspace NL" "isspace TAB" "isspace CR" "\<not> isspace NUL"
  by code_simp+

text \<open>A command line of two or three words and a rest, as the management tool writes it.\<close>

lemma sscanf_word_end:
  assumes "tok \<noteq> []" and "\<forall>c \<in> set tok. \<not> isspace c" and "length tok \<le> w"
  shows "sscanf (ConvS w # cs) (tok @ [NL]) = tok # sscanf cs []"
    and "sscanf [ConvS w] tok = [tok]"
  using scan_s_token [OF assms, of "[NL]"] scan_s_token [OF assms, of "[]"]
  by (simp_all add: conv_scan_def skip_spaces_def)

lemma sscanf_word:
  assumes "tok \<noteq> []" and "\<forall>c \<in> set tok. \<not> isspace c" and "length tok \<le> w"
    and "r \<noteq> []" and "\<not> isspace (hd r)"
  shows "sscanf (ConvS w # cs) (tok @ CHR '' '' # r) = tok # sscanf cs r"
  using scan_s_token [OF assms(1,2,3), of "CHR '' '' # r"] skip_spaces_stop [of r] assms(4,5)
  by (simp add: conv_scan_def skip_spaces_def)

lemma sscanf_line_end:
  assumes "tok \<noteq> []" and "NL \<notin> set tok" and "length tok \<le> w"
  shows "sscanf [ConvLine w] (tok @ [NL]) = [tok]"
  using scan_line_token [OF assms, of "[NL]"] by (simp add: conv_scan_def)

lemma sscanf_nothing [simp]: "sscanf cs [] = []"
  by (cases cs) (simp_all add: conv_scan_def scan_s_def scan_line_def split: conv.split)

subsection \<open>Removing the first match of a chain\<close>

lemma remove_first_none: "\<forall>e \<in> set es. \<not> P e \<Longrightarrow> remove_first P es = es"
  by (induction es) auto

lemma remove_first_filter:
  assumes "distinct (map f es)" and "\<And>e. e \<in> set es \<Longrightarrow> P e \<longleftrightarrow> f e = k"
  shows "remove_first P es = filter (\<lambda>e. \<not> P e) es"
  using assms
proof (induction es)
  case Nil
  then show ?case by simp
next
  case (Cons e es)
  show ?case
  proof (cases "P e")
    case True
    with Cons.prems(2) [of e] have "f e = k" by simp
    with Cons.prems have "\<forall>x \<in> set es. \<not> P x" by (auto simp: image_iff)
    with True show ?thesis by (simp add: filter_id_conv)
  next
    case False
    with Cons show ?thesis by simp
  qed
qed

subsection \<open>Chains of a table\<close>

lemma concat_split_at:
  "i < length t \<Longrightarrow> concat t = concat (take i t) @ t ! i @ concat (drop (Suc i) t)"
  by (metis concat.simps(2) concat_append id_take_nth_drop)

lemma concat_update_at:
  "i < length t \<Longrightarrow> concat (t[i := c]) = concat (take i t) @ c @ concat (drop (Suc i) t)"
  by (simp add: upd_conv_take_nth_drop)

lemma distinct_map_replace:
  assumes "distinct (map f (a @ b @ z))" and "distinct (map f c)"
    and "\<And>e. e \<in> set c \<Longrightarrow> f e \<notin> f ` (set a \<union> set z)"
  shows "distinct (map f (a @ c @ z))"
proof -
  have "f ` set c \<inter> f ` set a = {}" and "f ` set c \<inter> f ` set z = {}"
    using assms(3) by blast+
  with assms(1,2) show ?thesis by auto
qed

lemma distinct_map_middle:
  assumes "distinct (map f (a @ b @ z))" and "e \<in> set b"
  shows "f e \<notin> f ` (set a \<union> set z)"
proof -
  have "f ` set b \<inter> f ` set a = {}" and "f ` set b \<inter> f ` set z = {}"
    using assms(1) by auto
  with assms(2) show ?thesis by blast
qed

lemma distinct_of_map: "distinct (map f xs) \<Longrightarrow> distinct xs"
  by (simp add: distinct_map)

lemma set_hash_for_each: "set (hash_for_each t) = (\<Union>i < length t. set (t ! i))"
  by (auto simp: hash_for_each_def set_conv_nth [of t])

lemma bucket_less [simp]: "bucket K bits key < 2 ^ bits"
  by (simp add: bucket_def)

lemma hash_for_each_init [simp]: "hash_for_each (hash_init bits) = []"
  by (simp add: hash_for_each_def hash_init_def)

lemma length_hash_init [simp]: "length (hash_init bits) = 2 ^ bits"
  by (simp add: hash_init_def)

lemma table_inv_init: "table_inv (2 ^ bits) idx ekey (hash_init bits)"
  by (simp add: table_inv_def) (simp add: hash_init_def)

lemma unat_pred32: "unat (c :: u32) = Suc n \<Longrightarrow> unat (c - 1) = n"
  by (metis diff_Suc_1 nat.distinct(1) unat_0 unat_minus_one)

lemma unat_inc32: "unat c < 2 ^ 32 - 1 \<Longrightarrow> unat (c + 1 :: u32) = Suc (unat c)"
  by (simp add: unat_word_ariths)

end
