(* ===== verification/Admission.thy ===== *)
theory Admission
  imports AvPrelude
begin

text \<open>
  The admission gate of the hooks (\<^verbatim>\<open>av/main.c\<close>): one atomic counter of the work items in flight,
  with a cap for the exec hooks and a lower one for all others. Admission is two atomic
  operations when it fails, an increment and the decrement that takes it back, so the
  interleaving counts the threads that stand between the two.
\<close>

section \<open>The gate\<close>

definition AV_MAX_INFLIGHT_WORK :: u32 where "AV_MAX_INFLIGHT_WORK = 4096"
definition AV_EXEC_RESERVED_WORK :: u32 where "AV_EXEC_RESERVED_WORK = 512"

definition admit_inc :: "u32 \<Rightarrow> u32 \<Rightarrow> bool \<times> u32" where
  "admit_inc cap c = (let c' = c + 1 in (\<not> cap < c', c'))"

definition av_work_release :: "u32 \<Rightarrow> u32" where
  "av_work_release c = c - 1"

definition av_work_admit_capped :: "u32 \<Rightarrow> u32 \<Rightarrow> bool \<times> u32" where
  "av_work_admit_capped cap c =
     (case admit_inc cap c of (True, c') \<Rightarrow> (True, c') | (False, c') \<Rightarrow> (False, c' - 1))"

definition av_work_admit :: "u32 \<Rightarrow> bool \<times> u32" where
  "av_work_admit c = av_work_admit_capped AV_MAX_INFLIGHT_WORK c"

definition av_work_admit_nonexec :: "u32 \<Rightarrow> bool \<times> u32" where
  "av_work_admit_nonexec c = av_work_admit_capped (AV_MAX_INFLIGHT_WORK - AV_EXEC_RESERVED_WORK) c"

lemma admit_capped_spec:
  "av_work_admit_capped cap c = (if c + 1 \<le> cap then (True, c + 1) else (False, c))"
  by (simp add: av_work_admit_capped_def admit_inc_def Let_def not_less)

section \<open>Interleaving\<close>

text \<open>The counter with the admitted exec and other items, and the threads that were turned away and
  have not decremented yet. A hook runs without preemption, so at most \<open>ncpu\<close> threads stand
  there at once.\<close>

record gate =
  g_count :: u32
  g_exec :: nat
  g_other :: nat
  g_turned :: nat

definition gate_zero :: gate where
  "gate_zero = \<lparr>g_count = 0, g_exec = 0, g_other = 0, g_turned = 0\<rparr>"

inductive gate_step :: "nat \<Rightarrow> gate \<Rightarrow> gate \<Rightarrow> bool" for ncpu where
  g_admit_exec: "admit_inc AV_MAX_INFLIGHT_WORK (g_count g) = (True, c') \<Longrightarrow>
    gate_step ncpu g (g\<lparr>g_count := c', g_exec := Suc (g_exec g)\<rparr>)"
| g_admit_other: "admit_inc (AV_MAX_INFLIGHT_WORK - AV_EXEC_RESERVED_WORK) (g_count g) = (True, c') \<Longrightarrow>
    gate_step ncpu g (g\<lparr>g_count := c', g_other := Suc (g_other g)\<rparr>)"
| g_turn_exec: "admit_inc AV_MAX_INFLIGHT_WORK (g_count g) = (False, c') \<Longrightarrow> g_turned g < ncpu \<Longrightarrow>
    gate_step ncpu g (g\<lparr>g_count := c', g_turned := Suc (g_turned g)\<rparr>)"
| g_turn_other: "admit_inc (AV_MAX_INFLIGHT_WORK - AV_EXEC_RESERVED_WORK) (g_count g) = (False, c') \<Longrightarrow>
    g_turned g < ncpu \<Longrightarrow> gate_step ncpu g (g\<lparr>g_count := c', g_turned := Suc (g_turned g)\<rparr>)"
| g_undo: "g_turned g = Suc t \<Longrightarrow> gate_step ncpu g (g\<lparr>g_count := g_count g - 1, g_turned := t\<rparr>)"
| g_release_exec: "g_exec g = Suc n \<Longrightarrow>
    gate_step ncpu g (g\<lparr>g_count := av_work_release (g_count g), g_exec := n\<rparr>)"
| g_release_other: "g_other g = Suc n \<Longrightarrow>
    gate_step ncpu g (g\<lparr>g_count := av_work_release (g_count g), g_other := n\<rparr>)"

inductive gate_reach :: "nat \<Rightarrow> gate \<Rightarrow> bool" for ncpu where
  gr_init: "gate_reach ncpu gate_zero"
| gr_step: "gate_reach ncpu g \<Longrightarrow> gate_step ncpu g g' \<Longrightarrow> gate_reach ncpu g'"

definition gate_inv :: "nat \<Rightarrow> gate \<Rightarrow> bool" where
  "gate_inv ncpu g \<longleftrightarrow> unat (g_count g) = g_exec g + g_other g + g_turned g \<and> g_turned g \<le> ncpu \<and>
     g_exec g + g_other g \<le> 4096 \<and> g_other g \<le> 3584"

lemmas cap_defs = AV_MAX_INFLIGHT_WORK_def AV_EXEC_RESERVED_WORK_def

lemma admit_inc_unat:
  assumes "unat c < 2 ^ 32 - 1"
  shows "admit_inc cap c = (Suc (unat c) \<le> unat cap, c + 1)"
  using unat_inc32 [OF assms] by (auto simp: admit_inc_def Let_def word_less_nat_alt)

lemma gate_inv_step:
  assumes "gate_step ncpu g g'" and "gate_inv ncpu g" and "ncpu + 4096 < 2 ^ 32 - 1"
  shows "gate_inv ncpu g'"
proof -
  have lt: "unat (g_count g) < 2 ^ 32 - 1" using assms(2,3) by (simp add: gate_inv_def)
  have caps: "unat AV_MAX_INFLIGHT_WORK = 4096"
    "unat (AV_MAX_INFLIGHT_WORK - AV_EXEC_RESERVED_WORK) = 3584" by (simp_all add: cap_defs)
  show ?thesis
    using assms(1,2) unat_inc32 [OF lt] unat_pred32 [of "g_count g"]
    by (cases rule: gate_step.cases)
      (auto simp: gate_inv_def admit_inc_unat [OF lt] caps av_work_release_def)
qed

text \<open>C13. Admission is sound under any interleaving of hooks and workers: the counter equals the
  work items in flight plus the threads being turned away, at most 4096 items are ever in flight,
  at most 3584 of them from the open, unlink and rename hooks, so that these never starve exec:
  an exec hook is admitted whenever fewer than 512 exec items and turned-away threads exist.\<close>

theorem admission_bounded:
  assumes "gate_reach ncpu g" and "ncpu + 4096 < 2 ^ 32 - 1"
  shows "unat (g_count g) = g_exec g + g_other g + g_turned g \<and>
    g_exec g + g_other g \<le> 4096 \<and> g_other g \<le> 3584 \<and>
    (g_exec g + g_turned g < 512 \<longrightarrow> av_work_admit (g_count g) = (True, g_count g + 1)) \<and>
    (3584 \<le> g_exec g + g_other g \<longrightarrow> av_work_admit_nonexec (g_count g) = (False, g_count g))"
proof -
  have inv: "gate_inv ncpu g"
    using assms(1)
  proof (induction rule: gate_reach.induct)
    case gr_init
    then show ?case by (simp add: gate_inv_def gate_zero_def)
  next
    case (gr_step g g')
    then show ?case using gate_inv_step assms(2) by blast
  qed
  then have lt: "unat (g_count g) < 2 ^ 32 - 1" using assms(2) by (simp add: gate_inv_def)
  show ?thesis
    using inv unat_inc32 [OF lt]
    by (auto simp: gate_inv_def av_work_admit_def av_work_admit_nonexec_def admit_capped_spec
        word_le_nat_alt cap_defs)
qed

theorem admission_bounded_witness:
  "gate_reach 8 (gate_zero\<lparr>g_count := 1, g_other := 1\<rparr>) \<and> av_work_admit 1 = (True, 2)"
proof -
  have "gate_step 8 gate_zero (gate_zero\<lparr>g_count := 1, g_other := Suc (g_other gate_zero)\<rparr>)"
    by (rule g_admit_other) (simp add: admit_inc_def gate_zero_def cap_defs)
  then have r: "gate_reach 8 (gate_zero\<lparr>g_count := 1, g_other := 1\<rparr>)"
    using gr_step [OF gr_init] by (simp add: gate_zero_def)
  with admission_bounded [OF r] show ?thesis by (simp add: gate_zero_def)
qed

end
