(* ===== verification/KHash.thy ===== *)
theory KHash
  imports AvPrelude "HOL-Library.Multiset"
begin

text \<open>
  The contract of a kernel hash table whose nodes carry a key: the module keeps four
  such tables (signatures, trusted hashes, protected paths, per-process behaviour).
  The locale \<open>keyed_table\<close> states what a table relies on, the index of a key is a
  bucket of the array, and derives what insertion, lookup and removal do to the set of
  stored nodes. Each table interprets it on its own key and index functions.
\<close>

section \<open>Counting a list through its multiset\<close>

lemma length_of_mset: "mset xs = add_mset e (mset ys) \<Longrightarrow> length xs = Suc (length ys)"
  by (metis size_add_mset size_mset)

lemma length_filter_mset: "length (filter P xs) = size (filter_mset P (mset xs))"
  by (metis mset_filter size_mset)

lemma length_filter_of_mset:
  "mset xs = add_mset e (mset ys) \<Longrightarrow>
   length (filter P xs) = (if P e then 1 else 0) + length (filter P ys)"
  unfolding length_filter_mset by simp

lemma set_of_mset: "mset xs = add_mset e (mset ys) \<Longrightarrow> set xs = insert e (set ys)"
  by (metis set_mset_add_mset_insert set_mset_mset)

section \<open>The map a list of keyed nodes stands for\<close>

definition node_map :: "('e \<Rightarrow> 'k) \<Rightarrow> ('e \<Rightarrow> 'v) \<Rightarrow> 'e list \<Rightarrow> 'k \<rightharpoonup> 'v" where
  "node_map f g es = map_of (map (\<lambda>e. (f e, g e)) es)"

lemma node_map_Nil [simp]: "node_map f g [] = Map.empty"
  by (simp add: node_map_def)

lemma dom_node_map: "dom (node_map f g es) = f ` set es"
  by (simp add: node_map_def dom_map_of_conv_image_fst image_image)

lemma node_map_Some:
  "distinct (map f es) \<Longrightarrow> node_map f g es k = Some v \<longleftrightarrow> (\<exists>e \<in> set es. f e = k \<and> g e = v)"
  by (auto simp: node_map_def comp_def image_iff)

lemma distinct_keys_Cons:
  assumes "mset xs = add_mset e (mset ys)" and "distinct (map f xs)"
  shows "distinct (map f (e # ys))"
proof -
  have "mset (map f xs) = mset (map f (e # ys))" using assms(1) by simp
  with assms(2) show ?thesis using mset_eq_imp_distinct_iff by blast
qed

lemma node_map_insert:
  assumes "mset xs = add_mset e (mset ys)" and "distinct (map f xs)"
  shows "node_map f g xs = (node_map f g ys)(f e \<mapsto> g e)"
proof -
  have "distinct (map f (e # ys))" by (rule distinct_keys_Cons [OF assms])
  then have "node_map f g xs = node_map f g (e # ys)"
    unfolding node_map_def using assms set_of_mset [OF assms(1)]
    by (intro map_of_inject_set [THEN iffD2]) (simp_all add: comp_def)
  then show ?thesis by (simp add: node_map_def)
qed

lemma node_map_remove:
  assumes "mset xs = add_mset e (mset ys)" and "distinct (map f xs)"
  shows "node_map f g ys = (node_map f g xs)(f e := None)"
proof -
  have "f e \<notin> f ` set ys" using distinct_keys_Cons [OF assms] by simp
  then have "node_map f g ys (f e) = None" using dom_node_map [of f g ys] by auto
  then show ?thesis using node_map_insert [OF assms, of g] by auto
qed

section \<open>The contract\<close>

locale keyed_table =
  fixes nb :: nat
    and idx :: "'k \<Rightarrow> nat"
    and ekey :: "'e \<Rightarrow> 'k"
  assumes idx_less: "idx k < nb"
begin

lemma inv_length: "table_inv nb idx ekey t \<Longrightarrow> length t = nb"
  by (simp add: table_inv_def)

lemma chain_nth: "table_inv nb idx ekey t \<Longrightarrow> hchain t (idx k) = t ! idx k"
  using idx_less [of k] by (simp add: table_inv_def hchain_def)

lemma chain_subset:
  assumes "table_inv nb idx ekey t"
  shows "set (hchain t (idx k)) \<subseteq> set (hash_for_each t)"
  using assms idx_less [of k] chain_nth [OF assms, of k]
  by (auto simp: set_hash_for_each table_inv_def)

lemma mem_chain:
  assumes "table_inv nb idx ekey t"
  shows "e \<in> set (hchain t (idx k)) \<longleftrightarrow> e \<in> set (hash_for_each t) \<and> idx (ekey e) = idx k"
proof
  assume "e \<in> set (hchain t (idx k))"
  with assms idx_less [of k] chain_nth [OF assms, of k] chain_subset [OF assms, of k]
  show "e \<in> set (hash_for_each t) \<and> idx (ekey e) = idx k"
    by (auto simp: table_inv_def)
next
  assume e: "e \<in> set (hash_for_each t) \<and> idx (ekey e) = idx k"
  then obtain i where i: "i < nb" "e \<in> set (t ! i)"
    using assms by (auto simp: set_hash_for_each table_inv_def)
  with assms have "idx (ekey e) = i" by (simp add: table_inv_def)
  with e i chain_nth [OF assms, of k] show "e \<in> set (hchain t (idx k))" by simp
qed

lemma key_inj:
  assumes "table_inv nb idx ekey t"
    and "e \<in> set (hash_for_each t)" and "e' \<in> set (hash_for_each t)" and "ekey e = ekey e'"
  shows "e = e'"
  using assms by (auto simp: table_inv_def distinct_map inj_on_def)

lemma chain_distinct:
  assumes "table_inv nb idx ekey t"
  shows "distinct (map ekey (hchain t (idx k)))"
proof -
  have "idx k < length t" using assms idx_less by (simp add: table_inv_def)
  then show ?thesis
    using assms concat_split_at [of "idx k" t] chain_nth [OF assms, of k]
    by (simp add: table_inv_def hash_for_each_def)
qed

lemma length_add:
  assumes "table_inv nb idx ekey t"
  shows "length (hash_for_each (hash_add t (idx k) e)) = Suc (length (hash_for_each t))"
proof -
  have i: "idx k < length t" using assms idx_less by (simp add: table_inv_def)
  then show ?thesis
    by (simp add: hash_add_def set_chain_def hash_for_each_def concat_update_at
        concat_split_at [OF i] hchain_def)
qed

lemma set_add:
  assumes "table_inv nb idx ekey t"
  shows "set (hash_for_each (hash_add t (idx k) e)) = insert e (set (hash_for_each t))"
proof -
  have i: "idx k < length t" using assms idx_less by (simp add: table_inv_def)
  then show ?thesis
    by (auto simp: hash_add_def set_chain_def hash_for_each_def concat_update_at
        concat_split_at [OF i] hchain_def)
qed

lemma inv_set_chain:
  assumes inv: "table_inv nb idx ekey t"
    and members: "\<And>e. e \<in> set c \<Longrightarrow> idx (ekey e) = idx k"
    and dist: "distinct (map ekey c)"
    and fresh: "\<And>e. e \<in> set c \<Longrightarrow> e \<notin> set (hchain t (idx k)) \<Longrightarrow>
      ekey e \<notin> ekey ` set (hash_for_each t)"
  shows "table_inv nb idx ekey (set_chain t (idx k) c)"
proof -
  have i: "idx k < length t" using inv idx_less by (simp add: table_inv_def)
  let ?a = "concat (take (idx k) t)" and ?z = "concat (drop (Suc (idx k)) t)"
  have split: "hash_for_each t = ?a @ hchain t (idx k) @ ?z"
    using concat_split_at [OF i] chain_nth [OF inv, of k] by (simp add: hash_for_each_def)
  have d: "distinct (map ekey (?a @ hchain t (idx k) @ ?z))"
    using inv split by (simp add: table_inv_def)
  have disj: "ekey e \<notin> ekey ` (set ?a \<union> set ?z)" if "e \<in> set c" for e
  proof (cases "e \<in> set (hchain t (idx k))")
    case True
    with d show ?thesis by (rule distinct_map_middle)
  next
    case False
    from fresh [OF that False] show ?thesis by (auto simp: split)
  qed
  have "distinct (map ekey (?a @ c @ ?z))"
    by (rule distinct_map_replace [OF d dist disj])
  then have dist': "distinct (map ekey (hash_for_each (set_chain t (idx k) c)))"
    by (simp add: set_chain_def hash_for_each_def concat_update_at [OF i])
  have place: "\<forall>j < nb. \<forall>e \<in> set (t[idx k := c] ! j). idx (ekey e) = j"
    using inv members i by (auto simp: table_inv_def nth_list_update)
  show ?thesis
    using inv dist' place by (simp add: table_inv_def set_chain_def)
qed

lemma inv_add:
  assumes "table_inv nb idx ekey t" and "ekey e \<notin> ekey ` set (hash_for_each t)"
  shows "table_inv nb idx ekey (hash_add t (idx (ekey e)) e)"
  unfolding hash_add_def
proof (rule inv_set_chain [OF assms(1)])
  show "idx (ekey x) = idx (ekey e)" if "x \<in> set (e # hchain t (idx (ekey e)))" for x
    using that mem_chain [OF assms(1), of x "ekey e"] by auto
  show "distinct (map ekey (e # hchain t (idx (ekey e))))"
    using chain_distinct [OF assms(1)] chain_subset [OF assms(1), of "ekey e"] assms(2) by auto
  show "ekey x \<notin> ekey ` set (hash_for_each t)"
    if "x \<in> set (e # hchain t (idx (ekey e)))" and "x \<notin> set (hchain t (idx (ekey e)))" for x
    using that assms(2) by auto
qed

lemma inv_filter:
  assumes "table_inv nb idx ekey t"
  shows "table_inv nb idx ekey (set_chain t (idx k) (filter P (hchain t (idx k))))"
proof (rule inv_set_chain [OF assms])
  show "idx (ekey e) = idx k" if "e \<in> set (filter P (hchain t (idx k)))" for e
    using that mem_chain [OF assms, of e k] by simp
  show "distinct (map ekey (filter P (hchain t (idx k))))"
    using chain_distinct [OF assms, of k] by (rule distinct_map_filter)
qed auto

lemma set_filter_chain:
  assumes "table_inv nb idx ekey t"
  shows "set (hash_for_each (set_chain t (idx k) (filter P (hchain t (idx k))))) =
    {e \<in> set (hash_for_each t). idx (ekey e) = idx k \<longrightarrow> P e}"
proof -
  have i: "idx k < length t" using assms idx_less by (simp add: table_inv_def)
  have out: "idx (ekey e) \<noteq> idx k" if "e \<in> set (t ! j)" and "j < length t" and "j \<noteq> idx k" for e j
    using assms that by (auto simp: table_inv_def)
  have inn: "idx (ekey e) = idx k" if "e \<in> set (t ! idx k)" for e
    using assms that idx_less [of k] by (auto simp: table_inv_def)
  show ?thesis (is "?L = ?R")
  proof (rule set_eqI, rule iffI)
    fix x
    assume "x \<in> ?L"
    then show "x \<in> ?R"
      using i out inn
      by (auto simp: set_hash_for_each set_chain_def hchain_def nth_list_update split: if_splits)
  next
    fix x
    assume x: "x \<in> ?R"
    then obtain j where j: "j < length t" "x \<in> set (t ! j)" by (auto simp: set_hash_for_each)
    with x i inn have "x \<in> set (t[idx k := filter P (hchain t (idx k))] ! j)"
      by (auto simp: hchain_def nth_list_update)
    with j show "x \<in> ?L" by (auto simp: set_hash_for_each set_chain_def)
  qed
qed

lemma mset_add:
  assumes "table_inv nb idx ekey t"
  shows "mset (hash_for_each (hash_add t (idx k) e)) = add_mset e (mset (hash_for_each t))"
proof -
  have i: "idx k < length t" using assms idx_less by (simp add: table_inv_def)
  then show ?thesis
    by (simp add: hash_add_def set_chain_def hash_for_each_def concat_update_at
        concat_split_at [OF i] hchain_def)
qed

text \<open>Removing the one node of key \<open>k\<close> from its chain removes that node from the table.\<close>

lemma remove_node:
  assumes inv: "table_inv nb idx ekey t"
    and P: "\<And>e. e \<in> set (hchain t (idx k)) \<Longrightarrow> P e \<longleftrightarrow> ekey e = k"
    and e: "e \<in> set (hash_for_each t)" "ekey e = k"
  defines "t' \<equiv> set_chain t (idx k) (remove_first P (hchain t (idx k)))"
  shows "table_inv nb idx ekey t'"
    and "set (hash_for_each t') = set (hash_for_each t) - {e}"
    and "mset (hash_for_each t) = add_mset e (mset (hash_for_each t'))"
proof -
  have t': "t' = set_chain t (idx k) (filter (\<lambda>e. \<not> P e) (hchain t (idx k)))"
    unfolding t'_def using remove_first_filter [OF chain_distinct [OF inv, of k] P] by simp
  show inv': "table_inv nb idx ekey t'" unfolding t' by (rule inv_filter [OF inv])
  have "P x \<longleftrightarrow> x = e" if "x \<in> set (hash_for_each t)" and "idx (ekey x) = idx k" for x
    using that P e mem_chain [OF inv, of x k] key_inj [OF inv, of x e] by auto
  then show set': "set (hash_for_each t') = set (hash_for_each t) - {e}"
    unfolding t' using set_filter_chain [OF inv, of k "\<lambda>e. \<not> P e"] e(2) by auto
  have "distinct (hash_for_each t)" and "distinct (hash_for_each t')"
    using inv inv' by (auto simp: table_inv_def dest: distinct_of_map)
  then have "mset (hash_for_each t) = mset_set (insert e (set (hash_for_each t')))"
    and "mset (hash_for_each t') = mset_set (set (hash_for_each t'))"
    using e(1) set' by (simp_all add: mset_set_set insert_absorb flip: mset_set_set)
  then show "mset (hash_for_each t) = add_mset e (mset (hash_for_each t'))"
    using set' mset_set.insert_remove [of "set (hash_for_each t)" e] by simp
qed

end

section \<open>Changing the first match of a chain\<close>

lemma update_first_map:
  assumes "distinct (map f es)" and "\<And>e. e \<in> set es \<Longrightarrow> P e \<longleftrightarrow> f e = k"
  shows "update_first P g es = map (\<lambda>e. if f e = k then g e else e) es"
  using assms
proof (induction es)
  case (Cons e es)
  show ?case
  proof (cases "P e")
    case True
    with Cons.prems(2) [of e] have "f e = k" by simp
    with Cons.prems have "\<forall>x \<in> set es. f x \<noteq> k" by (auto simp: image_iff)
    then have "map (\<lambda>e. if f e = k then g e else e) es = es" by (intro map_idI) auto
    with True \<open>f e = k\<close> show ?thesis by simp
  next
    case False
    with Cons.prems(2) [of e] have "f e \<noteq> k" by simp
    with False Cons show ?thesis by simp
  qed
qed simp

section \<open>Stores queried by a predicate\<close>

text \<open>
  A store compares a query with the nodes of one chain by a predicate \<open>hit\<close>; on well-formed
  nodes the predicate decides whether the node has the key \<open>qkey\<close> of the query.
\<close>

definition store_inv :: "nat \<Rightarrow> ('k \<Rightarrow> nat) \<Rightarrow> ('e \<Rightarrow> 'k) \<Rightarrow> ('e \<Rightarrow> bool) \<Rightarrow> 'e buckets \<Rightarrow> bool" where
  "store_inv nb idx ekey ok t \<longleftrightarrow>
     table_inv nb idx ekey t \<and> (\<forall>e \<in> set (hash_for_each t). ok e)"

lemma store_inv_init: "store_inv (2 ^ bits) idx ekey ok (hash_init bits)"
  by (simp add: store_inv_def table_inv_init)

lemma map_eqI: "(\<And>k v. f k = Some v \<longleftrightarrow> g k = Some v) \<Longrightarrow> f = g"
  by (rule ext) (metis not_Some_eq)

locale keyed_store = keyed_table nb idx ekey
  for nb :: nat and idx :: "'k \<Rightarrow> nat" and ekey :: "'e \<Rightarrow> 'k" +
  fixes ok :: "'e \<Rightarrow> bool"
    and qkey :: "'q \<Rightarrow> 'k"
    and hit :: "'q \<Rightarrow> 'e \<Rightarrow> bool"
  assumes hit_iff: "ok e \<Longrightarrow> hit q e \<longleftrightarrow> ekey e = qkey q"
begin

lemma store_inv_table: "store_inv nb idx ekey ok t \<Longrightarrow> table_inv nb idx ekey t"
  by (simp add: store_inv_def)

lemma store_distinct: "store_inv nb idx ekey ok t \<Longrightarrow> distinct (map ekey (hash_for_each t))"
  by (simp add: store_inv_def table_inv_def)

lemma chain_hit:
  assumes "store_inv nb idx ekey ok t"
  shows "e \<in> set (hchain t (idx (qkey q))) \<and> hit q e \<longleftrightarrow> e \<in> set (hash_for_each t) \<and> ekey e = qkey q"
  using assms mem_chain [of t e "qkey q"] hit_iff [of e q] by (auto simp: store_inv_def)

lemma exists_hit:
  assumes "store_inv nb idx ekey ok t"
  shows "(\<exists>e \<in> set (hchain t (idx (qkey q))). hit q e) \<longleftrightarrow> qkey q \<in> ekey ` set (hash_for_each t)"
  unfolding Bex_def chain_hit [OF assms] by (force simp: image_iff)

lemma find_hit:
  assumes "store_inv nb idx ekey ok t"
  shows "map_option g (find (hit q) (hchain t (idx (qkey q)))) = node_map ekey g (hash_for_each t) (qkey q)"
proof (cases "find (hit q) (hchain t (idx (qkey q)))")
  case None
  then have "qkey q \<notin> dom (node_map ekey g (hash_for_each t))"
    unfolding dom_node_map exists_hit [OF assms, symmetric] by (simp add: find_None_iff)
  with None show ?thesis by (simp add: domIff)
next
  case (Some e)
  then have "e \<in> set (hchain t (idx (qkey q))) \<and> hit q e" by (auto simp: find_Some_iff)
  then have "node_map ekey g (hash_for_each t) (qkey q) = Some (g e)"
    using chain_hit [OF assms, of e q]
      node_map_Some [OF store_distinct [OF assms], of g "qkey q" "g e"] by auto
  with Some show ?thesis by simp
qed

lemma store_add:
  assumes "store_inv nb idx ekey ok t" and "ok e" and "ekey e \<notin> ekey ` set (hash_for_each t)"
  shows "store_inv nb idx ekey ok (hash_add t (idx (ekey e)) e)"
    and "node_map ekey g (hash_for_each (hash_add t (idx (ekey e)) e)) =
      (node_map ekey g (hash_for_each t))(ekey e \<mapsto> g e)"
proof -
  note m = mset_add [OF store_inv_table [OF assms(1)], of "ekey e" e]
  show inv: "store_inv nb idx ekey ok (hash_add t (idx (ekey e)) e)"
    using assms inv_add [of t e] set_of_mset [OF m] by (simp add: store_inv_def)
  show "node_map ekey g (hash_for_each (hash_add t (idx (ekey e)) e)) =
      (node_map ekey g (hash_for_each t))(ekey e \<mapsto> g e)"
    by (rule node_map_insert [OF m store_distinct [OF inv]])
qed

lemma remove_hits:
  assumes "store_inv nb idx ekey ok t"
  shows "remove_first (hit q) (hchain t (idx (qkey q))) =
    filter (\<lambda>e. \<not> hit q e) (hchain t (idx (qkey q)))"
proof (rule remove_first_filter [where k = "qkey q"])
  show "distinct (map ekey (hchain t (idx (qkey q))))"
    by (rule chain_distinct [OF store_inv_table [OF assms]])
  show "hit q e \<longleftrightarrow> ekey e = qkey q" if "e \<in> set (hchain t (idx (qkey q)))" for e
    using assms that mem_chain [of t e "qkey q"] hit_iff [of e q] by (auto simp: store_inv_def)
qed

lemma store_remove:
  fixes q :: 'q
  assumes inv: "store_inv nb idx ekey ok t"
  defines "t' \<equiv> set_chain t (idx (qkey q)) (filter (\<lambda>e. \<not> hit q e) (hchain t (idx (qkey q))))"
  shows "store_inv nb idx ekey ok t'"
    and "node_map ekey g (hash_for_each t') = (node_map ekey g (hash_for_each t))(qkey q := None)"
proof -
  have tab: "table_inv nb idx ekey t'"
    unfolding t'_def by (rule inv_filter [OF store_inv_table [OF inv]])
  have set': "set (hash_for_each t') = {e \<in> set (hash_for_each t). ekey e \<noteq> qkey q}"
    unfolding t'_def set_filter_chain [OF store_inv_table [OF inv]]
    using inv hit_iff by (auto simp: store_inv_def)
  show inv': "store_inv nb idx ekey ok t'" using tab set' inv by (simp add: store_inv_def)
  show "node_map ekey g (hash_for_each t') = (node_map ekey g (hash_for_each t))(qkey q := None)"
    by (rule map_eqI)
      (auto simp: node_map_Some [OF store_distinct [OF inv]] node_map_Some [OF store_distinct [OF inv']] set')
qed

lemma update_hits:
  assumes "store_inv nb idx ekey ok t"
  shows "update_first (hit q) f (hchain t (idx (qkey q))) =
    map (\<lambda>e. if ekey e = qkey q then f e else e) (hchain t (idx (qkey q)))"
proof (rule update_first_map)
  show "distinct (map ekey (hchain t (idx (qkey q))))"
    by (rule chain_distinct [OF store_inv_table [OF assms]])
  show "hit q e \<longleftrightarrow> ekey e = qkey q" if "e \<in> set (hchain t (idx (qkey q)))" for e
    using assms that mem_chain [of t e "qkey q"] hit_iff [of e q] by (auto simp: store_inv_def)
qed

lemma hash_for_each_update:
  assumes "store_inv nb idx ekey ok t"
  shows "hash_for_each (set_chain t (idx (qkey q)) (update_first (hit q) f (hchain t (idx (qkey q))))) =
    map (\<lambda>e. if ekey e = qkey q then f e else e) (hash_for_each t)"
proof -
  let ?i = "idx (qkey q)" and ?g = "\<lambda>e. if ekey e = qkey q then f e else e"
  have tab: "table_inv nb idx ekey t" using assms by (rule store_inv_table)
  have i: "?i < length t" using tab idx_less by (simp add: table_inv_def)
  have same: "map ?g (t ! j) = t ! j" if "j < length t" "j \<noteq> ?i" for j
  proof (rule map_idI)
    fix e
    assume "e \<in> set (t ! j)"
    then have "idx (ekey e) = j" using tab that by (simp add: table_inv_def)
    with that show "?g e = e" by auto
  qed
  have "t[?i := map ?g (t ! ?i)] = map (map ?g) t"
  proof (rule nth_equalityI)
    show "t[?i := map ?g (t ! ?i)] ! j = map (map ?g) t ! j" if "j < length (t[?i := map ?g (t ! ?i)])" for j
      using that same [of j] by (cases "j = ?i") simp_all
  qed simp
  then show ?thesis
    unfolding update_hits [OF assms] unfolding chain_nth [OF tab]
    by (simp add: set_chain_def hash_for_each_def map_concat)
qed

lemma store_update:
  assumes inv: "store_inv nb idx ekey ok t"
    and f: "\<And>e. ok e \<Longrightarrow> ekey e = qkey q \<Longrightarrow> ok (f e) \<and> ekey (f e) = ekey e"
  shows "store_inv nb idx ekey ok (set_chain t (idx (qkey q)) (update_first (hit q) f (hchain t (idx (qkey q)))))"
proof -
  let ?i = "idx (qkey q)" and ?g = "\<lambda>e. if ekey e = qkey q then f e else e"
  let ?t' = "set_chain t ?i (update_first (hit q) f (hchain t ?i))"
  have tab: "table_inv nb idx ekey t" and oks: "\<forall>e \<in> set (hash_for_each t). ok e"
    using inv by (simp_all add: store_inv_def)
  note all = hash_for_each_update [OF inv, of q f]
  have key: "ekey (?g e) = ekey e" if "e \<in> set (hash_for_each t)" for e using f that oks by auto
  have "map ekey (hash_for_each ?t') = map ekey (hash_for_each t)"
    unfolding all using key by simp
  moreover have "idx (ekey e) = j" if "j < nb" and "e \<in> set (?t' ! j)" for j e
  proof (cases "j = ?i")
    case True
    then have "e \<in> ?g ` set (hchain t ?i)"
      using that tab by (simp add: set_chain_def table_inv_def update_hits [OF inv])
    then obtain x where x: "x \<in> set (hchain t ?i)" "e = ?g x" by blast
    then show ?thesis using mem_chain [OF tab, of x "qkey q"] key [of x] True by simp
  next
    case False
    with that tab show ?thesis by (simp add: set_chain_def table_inv_def)
  qed
  ultimately have "table_inv nb idx ekey ?t'"
    using tab by (simp add: table_inv_def set_chain_def)
  moreover have "\<forall>e \<in> set (hash_for_each ?t'). ok e" unfolding all using f oks by auto
  ultimately show ?thesis by (simp add: store_inv_def)
qed

lemma node_map_update:
  assumes inv: "store_inv nb idx ekey ok t"
    and f: "\<And>e. ok e \<Longrightarrow> ekey e = qkey q \<Longrightarrow> ok (f e) \<and> ekey (f e) = ekey e"
    and e: "node_map ekey id (hash_for_each t) (qkey q) = Some e"
  shows "node_map ekey id
      (hash_for_each (set_chain t (idx (qkey q)) (update_first (hit q) f (hchain t (idx (qkey q)))))) =
    (node_map ekey id (hash_for_each t))(qkey q \<mapsto> f e)"
proof -
  let ?g = "\<lambda>e. if ekey e = qkey q then f e else e"
  note all = hash_for_each_update [OF inv, of q f]
  have d: "distinct (map ekey (hash_for_each t))" by (rule store_distinct [OF inv])
  have d': "distinct (map ekey (map ?g (hash_for_each t)))"
    using store_distinct [OF store_update [where q = q and f = f, OF inv]] f unfolding all by blast
  have e': "e \<in> set (hash_for_each t)" "ekey e = qkey q"
    using e node_map_Some [OF d, of id "qkey q" e] by auto
  have u: "x = e" if "x \<in> set (hash_for_each t)" "ekey x = qkey q" for x
    using key_inj [OF store_inv_table [OF inv]] that e' by metis
  have fe: "ekey (f e) = qkey q" using f [of e] e' inv by (simp add: store_inv_def)
  have "node_map ekey id (map ?g (hash_for_each t)) k = Some v \<longleftrightarrow>
      ((node_map ekey id (hash_for_each t))(qkey q \<mapsto> f e)) k = Some v" for k v
  proof (cases "k = qkey q")
    case True
    have "x \<in> ?g ` set (hash_for_each t) \<and> ekey x = qkey q \<longleftrightarrow> x = f e" for x
    proof
      assume "x \<in> ?g ` set (hash_for_each t) \<and> ekey x = qkey q"
      then obtain y where y: "y \<in> set (hash_for_each t)" "x = ?g y" "ekey x = qkey q" by blast
      then have "ekey y = qkey q" by (cases "ekey y = qkey q") simp_all
      with y u [OF y(1)] show "x = f e" by simp
    next
      assume "x = f e"
      then have "x = ?g e" using e'(2) by simp
      with e'(1) fe \<open>x = f e\<close> show "x \<in> ?g ` set (hash_for_each t) \<and> ekey x = qkey q" by blast
    qed
    with True node_map_Some [OF d', of id k v] show ?thesis by (auto simp: all)
  next
    case False
    have "x \<in> ?g ` set (hash_for_each t) \<and> ekey x = k \<longleftrightarrow> x \<in> set (hash_for_each t) \<and> ekey x = k" for x
    proof
      assume "x \<in> ?g ` set (hash_for_each t) \<and> ekey x = k"
      then obtain y where y: "y \<in> set (hash_for_each t)" "x = ?g y" "ekey x = k" by blast
      have "ekey y \<noteq> qkey q" using y u [OF y(1)] fe False by auto
      with y show "x \<in> set (hash_for_each t) \<and> ekey x = k" by simp
    next
      assume x: "x \<in> set (hash_for_each t) \<and> ekey x = k"
      then have "x = ?g x" using False by simp
      with x show "x \<in> ?g ` set (hash_for_each t) \<and> ekey x = k" by blast
    qed
    with False node_map_Some [OF d', of id k v] node_map_Some [OF d, of id k v] show ?thesis
      by (auto simp: all)
  qed
  then show ?thesis unfolding all by (rule map_eqI)
qed

end

end
