(* ===== verification/SigTable.thy ===== *)
theory SigTable
  imports KHash
begin

text \<open>
  The signature store of the kernel module (\<^verbatim>\<open>av/sigtable.c\<close>, \<^verbatim>\<open>av/sigtable.h\<close>): the hash
  table of known-bad digests, its counters, and the write handler of
  \<^verbatim>\<open>/proc/kernel_av_signatures\<close>. Every operation runs under \<^verbatim>\<open>sig_lock\<close>, so it is one
  step of the state. Whether an allocation succeeds is an argument.
\<close>

section \<open>Data\<close>

datatype av_algo = AV_ALGO_MD5 | AV_ALGO_SHA1 | AV_ALGO_SHA256 | AV_ALGO_COUNT

record av_digest =
  md5 :: string
  sha1 :: string
  sha256 :: string

record av_sig_entry =
  se_algo :: av_algo
  se_name :: string
  se_hex :: string

record sig_state =
  sig_table :: "av_sig_entry buckets"
  sig_count :: u64
  sig_count_algo :: "av_algo \<Rightarrow> u64"

definition SIGTABLE_BITS :: nat where "SIGTABLE_BITS = 10"
definition MAX_SIG_ENTRIES :: u64 where "MAX_SIG_ENTRIES = 8192"
definition AV_SIG_NAME_LEN :: nat where "AV_SIG_NAME_LEN = 64"
definition AV_HASH_HEX_MAXLEN :: nat where "AV_HASH_HEX_MAXLEN = 64"

text \<open>The array has no entry for \<^verbatim>\<open>AV_ALGO_COUNT\<close>: insertion rejects it before the read, and
  lookup and removal compare it with a stored algorithm first.\<close>

fun algo_hexlen :: "av_algo \<Rightarrow> nat" where
  "algo_hexlen AV_ALGO_MD5 = 32"
| "algo_hexlen AV_ALGO_SHA1 = 40"
| "algo_hexlen AV_ALGO_SHA256 = 64"
| "algo_hexlen AV_ALGO_COUNT = 0"

fun algo_names :: "av_algo \<Rightarrow> string" where
  "algo_names AV_ALGO_MD5 = ''md5''"
| "algo_names AV_ALGO_SHA1 = ''sha1''"
| "algo_names AV_ALGO_SHA256 = ''sha256''"
| "algo_names AV_ALGO_COUNT = ''''"

section \<open>Operations\<close>

definition hex_key :: "kapi \<Rightarrow> string \<Rightarrow> u32" where
  "hex_key K hex = full_name_hash K hex"

definition hex_tolower :: "string \<Rightarrow> string" where
  "hex_tolower hex = map tolower hex"

fun digest_for_algo :: "av_digest \<Rightarrow> av_algo \<Rightarrow> string option" where
  "digest_for_algo d AV_ALGO_MD5 = Some (md5 d)"
| "digest_for_algo d AV_ALGO_SHA1 = Some (sha1 d)"
| "digest_for_algo d AV_ALGO_SHA256 = Some (sha256 d)"
| "digest_for_algo d AV_ALGO_COUNT = None"

definition parse_algo :: "string \<Rightarrow> av_algo option" where
  "parse_algo s =
     (if strcaseeq s ''md5'' then Some AV_ALGO_MD5
      else if strcaseeq s ''sha1'' then Some AV_ALGO_SHA1
      else if strcaseeq s ''sha256'' then Some AV_ALGO_SHA256
      else None)"

definition sig_index :: "kapi \<Rightarrow> string \<Rightarrow> nat" where
  "sig_index K hex = bucket K SIGTABLE_BITS (hex_key K hex)"

definition sig_hit :: "av_algo \<Rightarrow> string \<Rightarrow> av_sig_entry \<Rightarrow> bool" where
  "sig_hit algo hex e \<longleftrightarrow> se_algo e = algo \<and> strncaseeq (algo_hexlen algo) (se_hex e) hex"

definition av_sigtable_init :: sig_state where
  "av_sigtable_init = \<lparr>sig_table = hash_init SIGTABLE_BITS, sig_count = 0, sig_count_algo = (\<lambda>_. 0)\<rparr>"

definition av_sigtable_add ::
  "kapi \<Rightarrow> bool \<Rightarrow> av_algo \<Rightarrow> string \<Rightarrow> string \<Rightarrow> sig_state \<Rightarrow> ret \<times> sig_state" where
  "av_sigtable_add K mem algo hex name st =
     (if algo = AV_ALGO_COUNT then (Inl EINVAL, st)
      else if length hex \<noteq> algo_hexlen algo then (Inl EINVAL, st)
      else if \<exists>c \<in> set (take (algo_hexlen algo) hex). \<not> isxdigit c then (Inl EINVAL, st)
      else if \<not> mem then (Inl ENOMEM, st)
      else
        let e = \<lparr>se_algo = algo, se_name = strscpy AV_SIG_NAME_LEN name,
                 se_hex = hex_tolower (strscpy (AV_HASH_HEX_MAXLEN + 1) hex)\<rparr>;
            i = sig_index K (se_hex e)
        in if \<exists>existing \<in> set (hchain (sig_table st) i). sig_hit algo (se_hex e) existing
           then (Inl EEXIST, st)
           else if MAX_SIG_ENTRIES \<le> sig_count st then (Inl ENOSPC, st)
           else (OK, st\<lparr>sig_table := hash_add (sig_table st) i e,
                        sig_count := sig_count st + 1,
                        sig_count_algo := (sig_count_algo st)(algo := sig_count_algo st algo + 1)\<rparr>))"

definition av_sigtable_del :: "kapi \<Rightarrow> av_algo \<Rightarrow> string \<Rightarrow> sig_state \<Rightarrow> ret \<times> sig_state" where
  "av_sigtable_del K algo hex st =
     (let lower_hex = hex_tolower (strscpy (AV_HASH_HEX_MAXLEN + 1) hex);
          i = sig_index K lower_hex;
          c = hchain (sig_table st) i
      in if \<exists>e \<in> set c. sig_hit algo hex e
         then (OK, st\<lparr>sig_table := set_chain (sig_table st) i (remove_first (sig_hit algo hex) c),
                      sig_count := sig_count st - 1,
                      sig_count_algo := (sig_count_algo st)(algo := sig_count_algo st algo - 1)\<rparr>)
         else (Inl ENOENT, st))"

text \<open>The loop of \<^verbatim>\<open>av_sigtable_match()\<close> over the algorithms from \<^verbatim>\<open>0\<close> to \<^verbatim>\<open>AV_ALGO_COUNT - 1\<close>,
  leaving at the first hit.\<close>

fun match_algos :: "kapi \<Rightarrow> sig_state \<Rightarrow> av_digest \<Rightarrow> av_algo list \<Rightarrow> string option" where
  "match_algos K st d [] = None"
| "match_algos K st d (algo # algos) =
     (case digest_for_algo d algo of
        None \<Rightarrow> match_algos K st d algos
      | Some hex \<Rightarrow>
          (case find (sig_hit algo hex) (hchain (sig_table st) (sig_index K hex)) of
             Some e \<Rightarrow> Some (se_name e)
           | None \<Rightarrow> match_algos K st d algos))"

definition all_algos :: "av_algo list" where
  "all_algos = [AV_ALGO_MD5, AV_ALGO_SHA1, AV_ALGO_SHA256]"

definition av_sigtable_match :: "kapi \<Rightarrow> sig_state \<Rightarrow> av_digest \<Rightarrow> nat \<Rightarrow> string option" where
  "av_sigtable_match K st d name_out_len =
     map_option (strscpy name_out_len) (match_algos K st d all_algos)"

definition av_sigtable_count :: "sig_state \<Rightarrow> u64" where
  "av_sigtable_count st = sig_count st"

definition av_sigtable_algo_count :: "sig_state \<Rightarrow> av_algo \<Rightarrow> u64" where
  "av_sigtable_algo_count st algo = (if algo = AV_ALGO_COUNT then 0 else sig_count_algo st algo)"

definition sig_proc_line :: "av_sig_entry \<Rightarrow> string" where
  "sig_proc_line e = algo_names (se_algo e) @ '' '' @ se_hex e @ '' '' @ se_name e @ [NL]"

definition sig_proc_show :: "sig_state \<Rightarrow> string" where
  "sig_proc_show st = concat (map sig_proc_line (hash_for_each (sig_table st)))"

definition sig_proc_write ::
  "kapi \<Rightarrow> bool \<Rightarrow> bool \<Rightarrow> bool \<Rightarrow> string \<Rightarrow> sig_state \<Rightarrow> nat ret_val \<times> sig_state" where
  "sig_proc_write K capable mem fault ubuf st =
     (if \<not> capable then (Inl EPERM, st)
      else if 256 \<le> length ubuf then (Inl EINVAL, st)
      else if fault then (Inl EFAULT, st)
      else
        let fields = sscanf [ConvS 7, ConvS 7, ConvS 64, ConvLine 63] (cstr ubuf)
        in if length fields < 3 then (Inl EINVAL, st)
           else
             (case parse_algo (fields ! 1) of
                None \<Rightarrow> (Inl EINVAL, st)
              | Some algo \<Rightarrow>
                  if strcaseeq (fields ! 0) ''add'' then
                    if length fields < 4 then (Inl EINVAL, st)
                    else
                      (case av_sigtable_add K mem algo (fields ! 2) (fields ! 3) st of
                         (Inl err, st') \<Rightarrow> (Inl err, st')
                       | (Inr _, st') \<Rightarrow> (Inr (length ubuf), st'))
                  else if strcaseeq (fields ! 0) ''del'' then
                    (case av_sigtable_del K algo (fields ! 2) st of
                       (Inl _, st') \<Rightarrow> (Inl ENOENT, st')
                     | (Inr _, st') \<Rightarrow> (Inr (length ubuf), st'))
                  else (Inl EINVAL, st)))"

text \<open>Module unload frees every node; the counters are not read again.\<close>

definition av_sigtable_exit :: "sig_state \<Rightarrow> sig_state" where
  "av_sigtable_exit st = st\<lparr>sig_table := map (\<lambda>_. []) (sig_table st)\<rparr>"

section \<open>Invariant and abstract view\<close>

definition sig_key :: "av_sig_entry \<Rightarrow> av_algo \<times> string" where
  "sig_key e = (se_algo e, se_hex e)"

definition sig_entry_wf :: "av_sig_entry \<Rightarrow> bool" where
  "sig_entry_wf e \<longleftrightarrow> se_algo e \<noteq> AV_ALGO_COUNT \<and> length (se_hex e) = algo_hexlen (se_algo e) \<and>
     map tolower (se_hex e) = se_hex e \<and> length (se_name e) < AV_SIG_NAME_LEN"

definition sig_inv :: "kapi \<Rightarrow> sig_state \<Rightarrow> bool" where
  "sig_inv K st \<longleftrightarrow>
     table_inv (2 ^ SIGTABLE_BITS) (\<lambda>k. sig_index K (snd k)) sig_key (sig_table st) \<and>
     (\<forall>e \<in> set (hash_for_each (sig_table st)). sig_entry_wf e) \<and>
     unat (sig_count st) = length (hash_for_each (sig_table st)) \<and>
     sig_count st \<le> MAX_SIG_ENTRIES \<and>
     (\<forall>a. unat (sig_count_algo st a) =
        length (filter (\<lambda>e. se_algo e = a) (hash_for_each (sig_table st))))"

text \<open>The store as the finite map from an algorithm and a lower-case digest to a name.\<close>

definition sig_abs :: "sig_state \<Rightarrow> av_algo \<times> string \<rightharpoonup> string" where
  "sig_abs st = node_map sig_key se_name (hash_for_each (sig_table st))"

definition sig_valid :: "av_algo \<Rightarrow> string \<Rightarrow> bool" where
  "sig_valid algo hex \<longleftrightarrow>
     algo \<noteq> AV_ALGO_COUNT \<and> length hex = algo_hexlen algo \<and> (\<forall>c \<in> set hex. isxdigit c)"

definition sig_spec_add ::
  "bool \<Rightarrow> av_algo \<Rightarrow> string \<Rightarrow> string \<Rightarrow> (av_algo \<times> string \<rightharpoonup> string) \<Rightarrow>
   ret \<times> (av_algo \<times> string \<rightharpoonup> string)" where
  "sig_spec_add mem algo hex name m =
     (if \<not> sig_valid algo hex then (Inl EINVAL, m)
      else if \<not> mem then (Inl ENOMEM, m)
      else if (algo, map tolower hex) \<in> dom m then (Inl EEXIST, m)
      else if 8192 \<le> card (dom m) then (Inl ENOSPC, m)
      else (OK, m((algo, map tolower hex) \<mapsto> take 63 name)))"

definition sig_spec_del ::
  "av_algo \<Rightarrow> string \<Rightarrow> (av_algo \<times> string \<rightharpoonup> string) \<Rightarrow> ret \<times> (av_algo \<times> string \<rightharpoonup> string)" where
  "sig_spec_del algo hex m =
     (if (algo, map tolower hex) \<in> dom m then (OK, m((algo, map tolower hex) := None))
      else (Inl ENOENT, m))"

text \<open>A digest as the hashing pass produces it: each field is lower-case hex of its
  algorithm's length, or empty when that algorithm was skipped.\<close>

definition digest_wf :: "av_digest \<Rightarrow> bool" where
  "digest_wf d \<longleftrightarrow> (\<forall>a h. digest_for_algo d a = Some h \<longrightarrow>
     h = [] \<or> length h = algo_hexlen a \<and> map tolower h = h)"

interpretation sigt: keyed_table "2 ^ SIGTABLE_BITS" "\<lambda>k. sig_index K (snd k)" sig_key for K
  by unfold_locales (simp add: sig_index_def)

section \<open>Lemmas\<close>

lemma algo_hexlen_le: "algo_hexlen a \<le> 64"
  by (cases a) simp_all

lemma algo_hexlen_pos: "a \<noteq> AV_ALGO_COUNT \<Longrightarrow> 0 < algo_hexlen a"
  by (cases a) simp_all

lemma length_hex_tolower [simp]: "length (hex_tolower h) = length h"
  by (simp add: hex_tolower_def)

lemma sig_hit_iff:
  assumes "sig_entry_wf e" and "length hex = algo_hexlen algo"
  shows "sig_hit algo hex e \<longleftrightarrow> sig_key e = (algo, map tolower hex)"
  using assms by (auto simp: sig_hit_def sig_key_def sig_entry_wf_def strncaseeq_def)

lemma sig_hit_empty: "sig_entry_wf e \<Longrightarrow> \<not> sig_hit algo [] e"
  using algo_hexlen_pos [of algo] by (auto simp: sig_hit_def sig_entry_wf_def strncaseeq_def)

lemma sig_inv_init: "sig_inv K av_sigtable_init"
  by (simp add: sig_inv_def av_sigtable_init_def table_inv_init)

lemma sig_inv_table:
  "sig_inv K st \<Longrightarrow> table_inv (2 ^ SIGTABLE_BITS) (\<lambda>k. sig_index K (snd k)) sig_key (sig_table st)"
  by (simp add: sig_inv_def)

lemma sig_inv_wf: "sig_inv K st \<Longrightarrow> e \<in> set (hash_for_each (sig_table st)) \<Longrightarrow> sig_entry_wf e"
  by (simp add: sig_inv_def)

lemmas sig_chain = sigt.mem_chain [OF sig_inv_table, where k = "(a, h)" for a h, simplified]

lemma sig_chain_hits:
  assumes "sig_inv K st" and "length hex = algo_hexlen algo"
    and "e \<in> set (hchain (sig_table st) (sig_index K h))"
  shows "sig_hit algo hex e \<longleftrightarrow> sig_key e = (algo, map tolower hex)"
  using assms sig_chain [OF assms(1), of e h] by (auto intro!: sig_hit_iff dest: sig_inv_wf)

lemma dom_sig_abs: "dom (sig_abs st) = sig_key ` set (hash_for_each (sig_table st))"
  by (simp add: sig_abs_def dom_node_map)

lemma card_sig_abs: "sig_inv K st \<Longrightarrow> card (dom (sig_abs st)) = length (hash_for_each (sig_table st))"
  unfolding dom_sig_abs using sig_inv_table [of K st]
  by (metis distinct_card length_map set_map table_inv_def)

lemma sig_distinct: "sig_inv K st \<Longrightarrow> distinct (map sig_key (hash_for_each (sig_table st)))"
  by (simp add: sig_inv_def table_inv_def)

lemma sig_abs_Some:
  "sig_inv K st \<Longrightarrow> sig_abs st k = Some n \<longleftrightarrow>
    (\<exists>e \<in> set (hash_for_each (sig_table st)). sig_key e = k \<and> se_name e = n)"
  unfolding sig_abs_def by (rule node_map_Some [OF sig_distinct])

lemma sig_dup_iff:
  assumes "sig_inv K st" and "length hex = algo_hexlen algo"
  shows "(\<exists>e \<in> set (hchain (sig_table st) (sig_index K (map tolower hex))). sig_hit algo hex e) \<longleftrightarrow>
    (algo, map tolower hex) \<in> dom (sig_abs st)"
proof -
  have "e \<in> set (hchain (sig_table st) (sig_index K (map tolower hex))) \<and> sig_hit algo hex e \<longleftrightarrow>
     e \<in> set (hash_for_each (sig_table st)) \<and> sig_key e = (algo, map tolower hex)" for e
    using sig_chain [OF assms(1), of e "map tolower hex"] sig_inv_wf [OF assms(1), of e]
      sig_hit_iff [OF _ assms(2), of e]
    by (auto simp: sig_key_def)
  then show ?thesis unfolding dom_sig_abs by force
qed

lemma hex_buffer: "length hex \<le> 64 \<Longrightarrow> hex_tolower (strscpy (AV_HASH_HEX_MAXLEN + 1) hex) = map tolower hex"
  by (simp add: hex_tolower_def AV_HASH_HEX_MAXLEN_def strscpy_def)

lemma sig_hit_lower: "sig_hit algo (map tolower hex) e \<longleftrightarrow> sig_hit algo hex e"
  by (simp add: sig_hit_def strncaseeq_def take_map comp_def)

subsection \<open>Insertion\<close>

definition sig_node :: "av_algo \<Rightarrow> string \<Rightarrow> string \<Rightarrow> av_sig_entry" where
  "sig_node algo hex name =
     \<lparr>se_algo = algo, se_name = strscpy AV_SIG_NAME_LEN name, se_hex = map tolower hex\<rparr>"

definition sig_insert :: "kapi \<Rightarrow> av_algo \<Rightarrow> string \<Rightarrow> string \<Rightarrow> sig_state \<Rightarrow> sig_state" where
  "sig_insert K algo hex name st =
     st\<lparr>sig_table := hash_add (sig_table st) (sig_index K (map tolower hex)) (sig_node algo hex name),
        sig_count := sig_count st + 1,
        sig_count_algo := (sig_count_algo st)(algo := sig_count_algo st algo + 1)\<rparr>"

lemma sig_valid_iff:
  "sig_valid algo hex \<longleftrightarrow> \<not> (algo = AV_ALGO_COUNT \<or> length hex \<noteq> algo_hexlen algo \<or>
     (\<exists>c \<in> set (take (algo_hexlen algo) hex). \<not> isxdigit c))"
  by (auto simp: sig_valid_def)

lemma av_sigtable_add_cases:
  assumes "sig_inv K st"
  shows "av_sigtable_add K mem algo hex name st =
     (if \<not> sig_valid algo hex then (Inl EINVAL, st)
      else if \<not> mem then (Inl ENOMEM, st)
      else if (algo, map tolower hex) \<in> dom (sig_abs st) then (Inl EEXIST, st)
      else if MAX_SIG_ENTRIES \<le> sig_count st then (Inl ENOSPC, st)
      else (OK, sig_insert K algo hex name st))"
proof (cases "sig_valid algo hex")
  case False
  then show ?thesis by (auto simp: av_sigtable_add_def sig_valid_iff)
next
  case True
  then have len: "length hex = algo_hexlen algo" by (simp add: sig_valid_def)
  then have buf: "hex_tolower (strscpy (AV_HASH_HEX_MAXLEN + 1) hex) = map tolower hex"
    using hex_buffer algo_hexlen_le by simp
  from True show ?thesis
    unfolding av_sigtable_add_def buf sig_valid_iff
    by (simp add: Let_def sig_hit_lower sig_dup_iff [OF assms len] sig_insert_def sig_node_def)
qed

lemma sig_node_wf: "sig_valid algo hex \<Longrightarrow> sig_entry_wf (sig_node algo hex name)"
  by (simp add: sig_valid_def sig_entry_wf_def sig_node_def strscpy_def AV_SIG_NAME_LEN_def)

lemma sig_node_sel [simp]:
  "sig_key (sig_node algo hex name) = (algo, map tolower hex)"
  "se_algo (sig_node algo hex name) = algo"
  "se_name (sig_node algo hex name) = take 63 name"
  by (simp_all add: sig_key_def sig_node_def strscpy_def AV_SIG_NAME_LEN_def)

lemma sig_insert_mset:
  assumes "sig_inv K st"
  shows "mset (hash_for_each (sig_table (sig_insert K algo hex name st))) =
    add_mset (sig_node algo hex name) (mset (hash_for_each (sig_table st)))"
  using sigt.mset_add [OF sig_inv_table [OF assms], of "(algo, map tolower hex)"]
  by (simp add: sig_insert_def)

lemma unat_Suc_bound: "unat (c :: u64) = n \<Longrightarrow> n < 2 ^ 63 \<Longrightarrow> unat (c + 1) = Suc n"
  by (subst unat_word_ariths) simp

lemma sig_count_unat: "sig_inv K st \<Longrightarrow> unat (sig_count st) = length (hash_for_each (sig_table st))"
  by (simp add: sig_inv_def)

lemma sig_full_iff: "sig_inv K st \<Longrightarrow> MAX_SIG_ENTRIES \<le> sig_count st \<longleftrightarrow> 8192 \<le> card (dom (sig_abs st))"
  by (simp add: card_sig_abs sig_count_unat [symmetric] MAX_SIG_ENTRIES_def word_le_nat_alt)

lemma sig_algo_count_unat:
  "sig_inv K st \<Longrightarrow> unat (sig_count_algo st a) =
     length (filter (\<lambda>e. se_algo e = a) (hash_for_each (sig_table st)))"
  by (simp add: sig_inv_def)

lemma sig_algo_count_less:
  assumes "sig_inv K st"
  shows "unat (sig_count_algo st a) \<le> 8192"
proof -
  have "unat (sig_count_algo st a) \<le> length (hash_for_each (sig_table st))"
    using assms by (simp add: sig_inv_def)
  also have "\<dots> \<le> 8192"
    using assms by (simp add: sig_inv_def MAX_SIG_ENTRIES_def word_le_nat_alt)
  finally show ?thesis .
qed

lemma sig_inv_insert:
  assumes inv: "sig_inv K st" and v: "sig_valid algo hex"
    and new: "(algo, map tolower hex) \<notin> dom (sig_abs st)" and room: "\<not> MAX_SIG_ENTRIES \<le> sig_count st"
  shows "sig_inv K (sig_insert K algo hex name st)" (is "sig_inv K ?st'")
proof -
  note m = sig_insert_mset [OF inv, of algo hex name]
  have n: "unat (sig_count st) < 8192"
    using room by (simp add: MAX_SIG_ENTRIES_def word_le_nat_alt)
  then have c: "unat (sig_count ?st') = Suc (unat (sig_count st))"
    using unat_Suc_bound [of "sig_count st"] by (simp add: sig_insert_def)
  have "table_inv (2 ^ SIGTABLE_BITS) (\<lambda>k. sig_index K (snd k)) sig_key (sig_table ?st')"
    using sigt.inv_add [OF sig_inv_table [OF inv], of "sig_node algo hex name"] new
    by (simp add: dom_sig_abs sig_insert_def)
  moreover have "\<forall>e \<in> set (hash_for_each (sig_table ?st')). sig_entry_wf e"
    using set_of_mset [OF m] sig_inv_wf [OF inv] sig_node_wf [OF v] by auto
  moreover have "unat (sig_count ?st') = length (hash_for_each (sig_table ?st'))"
    using length_of_mset [OF m] c sig_count_unat [OF inv] by simp
  moreover have "sig_count ?st' \<le> MAX_SIG_ENTRIES"
    using n c by (simp add: MAX_SIG_ENTRIES_def word_le_nat_alt)
  moreover have "unat (sig_count_algo ?st' a) =
      length (filter (\<lambda>e. se_algo e = a) (hash_for_each (sig_table ?st')))" for a
    unfolding length_filter_of_mset [OF m] sig_algo_count_unat [OF inv, symmetric]
    using unat_Suc_bound [of "sig_count_algo st a", OF refl] sig_algo_count_less [OF inv, of a]
    by (simp add: sig_insert_def)
  ultimately show ?thesis by (simp add: sig_inv_def)
qed

lemma sig_abs_insert:
  assumes "sig_inv K st" and "sig_inv K (sig_insert K algo hex name st)"
  shows "sig_abs (sig_insert K algo hex name st) =
    (sig_abs st)((algo, map tolower hex) \<mapsto> take 63 name)"
  unfolding sig_abs_def
  using node_map_insert [OF sig_insert_mset [OF assms(1)] sig_distinct [OF assms(2)], of se_name]
  by simp

subsection \<open>Removal\<close>

definition sig_cut :: "av_algo \<Rightarrow> string \<Rightarrow> av_algo \<times> string" where
  "sig_cut algo hex = (algo, map tolower (take (algo_hexlen algo) hex))"

lemma sig_hit_cut: "sig_entry_wf e \<Longrightarrow> sig_hit algo hex e \<longleftrightarrow> sig_key e = sig_cut algo hex"
  by (auto simp: sig_hit_def sig_key_def sig_cut_def sig_entry_wf_def strncaseeq_def)

definition sig_remove :: "av_algo \<Rightarrow> nat \<Rightarrow> string \<Rightarrow> sig_state \<Rightarrow> sig_state" where
  "sig_remove algo i hex st =
     st\<lparr>sig_table := set_chain (sig_table st) i (remove_first (sig_hit algo hex) (hchain (sig_table st) i)),
        sig_count := sig_count st - 1,
        sig_count_algo := (sig_count_algo st)(algo := sig_count_algo st algo - 1)\<rparr>"

lemma sig_remove_table:
  assumes inv: "sig_inv K st" and e: "e \<in> set (hchain (sig_table st) (sig_index K h))" "sig_hit algo hex e"
  defines "t' \<equiv> sig_table (sig_remove algo (sig_index K h) hex st)"
  shows "table_inv (2 ^ SIGTABLE_BITS) (\<lambda>k. sig_index K (snd k)) sig_key t'"
    and "mset (hash_for_each (sig_table st)) = add_mset e (mset (hash_for_each t'))"
proof -
  have mem: "e \<in> set (hash_for_each (sig_table st))" and i: "sig_index K (se_hex e) = sig_index K h"
    using sig_chain [OF inv, of e h] e(1) by (simp_all add: sig_key_def)
  have P: "sig_hit algo hex x \<longleftrightarrow> sig_key x = sig_key e"
    if "x \<in> set (hchain (sig_table st) (sig_index K (snd (sig_key e))))" for x
  proof -
    have "sig_entry_wf x" using sig_inv_wf [OF inv] sig_chain [OF inv, of x "se_hex e"] that
      by (simp add: sig_key_def)
    moreover have "sig_key e = sig_cut algo hex"
      using sig_hit_cut [OF sig_inv_wf [OF inv mem]] e(2) by simp
    ultimately show ?thesis using sig_hit_cut by simp
  qed
  note rn = sigt.remove_node [where k = "sig_key e", OF sig_inv_table [OF inv] P mem refl]
  show "table_inv (2 ^ SIGTABLE_BITS) (\<lambda>k. sig_index K (snd k)) sig_key t'"
    and "mset (hash_for_each (sig_table st)) = add_mset e (mset (hash_for_each t'))"
    using rn(1,3) i by (simp_all add: t'_def sig_remove_def sig_key_def)
qed

lemma unat_pred: "unat (c :: u64) = Suc n \<Longrightarrow> unat (c - 1) = n"
  by (metis diff_Suc_1 nat.distinct(1) unat_0 unat_minus_one)

lemma sig_inv_remove:
  assumes inv: "sig_inv K st" and e: "e \<in> set (hchain (sig_table st) (sig_index K h))" "sig_hit algo hex e"
  shows "sig_inv K (sig_remove algo (sig_index K h) hex st)" (is "sig_inv K ?st'")
proof -
  note m = sig_remove_table(2) [OF inv e]
  have a: "se_algo e = algo" using e(2) by (simp add: sig_hit_def)
  have c: "unat (sig_count st) = Suc (length (hash_for_each (sig_table ?st')))"
    using length_of_mset [OF m] sig_count_unat [OF inv] by simp
  have c': "unat (sig_count ?st') = length (hash_for_each (sig_table ?st'))"
    using unat_pred [OF c] by (simp add: sig_remove_def)
  moreover have "sig_count ?st' \<le> MAX_SIG_ENTRIES"
    using inv c c' by (simp add: sig_inv_def MAX_SIG_ENTRIES_def word_le_nat_alt)
  moreover have "\<forall>x \<in> set (hash_for_each (sig_table ?st')). sig_entry_wf x"
    using set_of_mset [OF m] sig_inv_wf [OF inv] by auto
  moreover have "unat (sig_count_algo ?st' b) =
      length (filter (\<lambda>e. se_algo e = b) (hash_for_each (sig_table ?st')))" for b
    using length_filter_of_mset [OF m, of "\<lambda>e. se_algo e = b"] sig_algo_count_unat [OF inv, of b] a
      unat_pred [of "sig_count_algo st b"]
    by (cases "b = algo") (simp_all add: sig_remove_def)
  ultimately show ?thesis using sig_remove_table(1) [OF inv e] by (simp add: sig_inv_def)
qed

lemma sig_abs_remove:
  assumes inv: "sig_inv K st" and e: "e \<in> set (hchain (sig_table st) (sig_index K h))" "sig_hit algo hex e"
  shows "sig_abs (sig_remove algo (sig_index K h) hex st) = (sig_abs st)(sig_cut algo hex := None)"
proof -
  have "sig_key e = sig_cut algo hex"
    using e sig_hit_cut [of e] sig_inv_wf [OF inv, of e] sig_chain [OF inv, of e h] by simp
  then show ?thesis
    using node_map_remove [OF sig_remove_table(2) [OF inv e] sig_distinct [OF inv], of se_name]
    by (simp add: sig_abs_def)
qed

lemma av_sigtable_del_cases:
  assumes "h = hex_tolower (strscpy (AV_HASH_HEX_MAXLEN + 1) hex)"
  shows "av_sigtable_del K algo hex st =
    (if \<exists>e \<in> set (hchain (sig_table st) (sig_index K h)). sig_hit algo hex e
     then (OK, sig_remove algo (sig_index K h) hex st) else (Inl ENOENT, st))"
  by (simp add: av_sigtable_del_def sig_remove_def Let_def assms)

subsection \<open>Every operation keeps the invariant\<close>

lemma av_sigtable_add_inv [inv_intros]:
  assumes "sig_inv K st"
  shows "sig_inv K (snd (av_sigtable_add K mem algo hex name st))"
  using assms sig_inv_insert [OF assms, of algo hex name] by (simp add: av_sigtable_add_cases)

lemma av_sigtable_del_inv [inv_intros]:
  assumes "sig_inv K st"
  shows "sig_inv K (snd (av_sigtable_del K algo hex st))"
  using assms sig_inv_remove [OF assms] by (auto simp: av_sigtable_del_cases [OF refl])

lemma av_sigtable_add_invD: "av_sigtable_add K mem algo hex name st = (r, st') \<Longrightarrow> sig_inv K st \<Longrightarrow> sig_inv K st'"
  using av_sigtable_add_inv [of K st mem algo hex name] by simp

lemma av_sigtable_del_invD: "av_sigtable_del K algo hex st = (r, st') \<Longrightarrow> sig_inv K st \<Longrightarrow> sig_inv K st'"
  using av_sigtable_del_inv [of K st algo hex] by simp

lemma sig_proc_write_inv [inv_intros]:
  assumes "sig_inv K st"
  shows "sig_inv K (snd (sig_proc_write K capable mem fault ubuf st))"
  using assms
  by (simp add: sig_proc_write_def Let_def split: option.split prod.split sum.split)
    (blast dest: av_sigtable_add_invD av_sigtable_del_invD)

lemma map_tolower_nonempty_hit:
  assumes "sig_inv K st" and "h = [] \<or> length h = algo_hexlen algo \<and> map tolower h = h"
    and "algo \<noteq> AV_ALGO_COUNT"
  shows "map_option se_name (find (sig_hit algo h) (hchain (sig_table st) (sig_index K h))) =
    sig_abs st (algo, h)"
proof -
  let ?c = "hchain (sig_table st) (sig_index K h)"
  have mem: "e \<in> set ?c \<longleftrightarrow> e \<in> set (hash_for_each (sig_table st)) \<and> sig_index K (se_hex e) = sig_index K h" for e
    using sig_chain [OF assms(1), of e h] by (simp add: sig_key_def)
  have hit: "sig_hit algo h e \<longleftrightarrow> sig_key e = (algo, h)" if "e \<in> set (hash_for_each (sig_table st))" for e
    using sig_inv_wf [OF assms(1) that] sig_hit_cut [of e algo h] assms(2,3) algo_hexlen_pos [of algo]
    by (auto simp: sig_cut_def)
  show ?thesis
  proof (cases "find (sig_hit algo h) ?c")
    case None
    then have "\<not> (\<exists>e \<in> set (hash_for_each (sig_table st)). sig_key e = (algo, h))"
      using mem hit by (force simp: find_None_iff sig_key_def)
    then have "sig_abs st (algo, h) = None"
      using sig_abs_Some [OF assms(1), of "(algo, h)"] by (metis not_Some_eq)
    with None show ?thesis by simp
  next
    case (Some e)
    then have "e \<in> set ?c" and "sig_hit algo h e" by (auto simp: find_Some_iff)
    with mem hit have "e \<in> set (hash_for_each (sig_table st))" and "sig_key e = (algo, h)" by auto
    then have "sig_abs st (algo, h) = Some (se_name e)" using sig_abs_Some [OF assms(1)] by blast
    with Some show ?thesis by simp
  qed
qed

fun first_some :: "'a option list \<Rightarrow> 'a option" where
  "first_some [] = None"
| "first_some (None # xs) = first_some xs"
| "first_some (Some x # xs) = Some x"

lemma first_some_Cons: "first_some (x # xs) = (case x of None \<Rightarrow> first_some xs | Some y \<Rightarrow> Some y)"
  by (cases x) simp_all

lemma av_sigtable_add_abs:
  assumes "sig_inv K st"
  shows "map_prod id sig_abs (av_sigtable_add K mem algo hex name st) =
    sig_spec_add mem algo hex name (sig_abs st)"
  using sig_abs_insert [OF assms sig_inv_insert [OF assms]]
  by (auto simp: av_sigtable_add_cases [OF assms] sig_spec_add_def sig_full_iff [OF assms])

lemma match_algos_first:
  assumes inv: "sig_inv K st" and wf: "digest_wf d" and algos: "AV_ALGO_COUNT \<notin> set algos"
  shows "match_algos K st d algos =
    first_some (map (\<lambda>a. sig_abs st (a, the (digest_for_algo d a))) algos)"
  using algos
proof (induction algos)
  case Nil
  then show ?case by simp
next
  case (Cons a algos)
  then obtain h where h: "digest_for_algo d a = Some h" by (cases a) auto
  with wf have "h = [] \<or> length h = algo_hexlen a \<and> map tolower h = h" by (simp add: digest_wf_def)
  from map_tolower_nonempty_hit [OF inv this] Cons.prems
  have "sig_abs st (a, h) =
      map_option se_name (find (sig_hit a h) (hchain (sig_table st) (sig_index K h)))"
    by auto
  with h Cons show ?case
    by (simp add: first_some_Cons split: option.split)
qed

section \<open>Properties\<close>

text \<open>C1. Insertion refines the map specification: on a table satisfying the invariant,
  \<^verbatim>\<open>av_sigtable_add()\<close> returns the specified code on every branch (malformed digest, no
  memory, duplicate up to letter case, full table, success), its effect on the abstract
  store is the specified one, and the invariant holds afterwards.\<close>

theorem sigtable_add_refines:
  assumes "sig_inv K st"
  shows "map_prod id sig_abs (av_sigtable_add K mem algo hex name st) =
      sig_spec_add mem algo hex name (sig_abs st) \<and>
    sig_inv K (snd (av_sigtable_add K mem algo hex name st))"
  using av_sigtable_add_inv [OF assms] av_sigtable_add_abs [OF assms] by blast

lemma sig_abs_init [simp]: "sig_abs av_sigtable_init = Map.empty"
  by (simp add: sig_abs_def av_sigtable_init_def)

lemma hex_digit_A [simp]: "isxdigit CHR ''A''" "tolower CHR ''A'' = CHR ''a''"
  by code_simp+

theorem sigtable_add_refines_witness:
  "sig_inv kapi0 av_sigtable_init \<and>
   map_prod id sig_abs (av_sigtable_add kapi0 True AV_ALGO_MD5 (replicate 32 CHR ''A'') ''Eicar'' av_sigtable_init)
     = (OK, [(AV_ALGO_MD5, replicate 32 CHR ''a'') \<mapsto> ''Eicar''])"
  using sigtable_add_refines [OF sig_inv_init [of kapi0], of True AV_ALGO_MD5 "replicate 32 CHR ''A''" "''Eicar''"]
  by (simp add: sig_inv_init sig_spec_add_def sig_valid_def)

text \<open>Removal refines the map specification for a digest of its algorithm's length:
  the entry is removed whatever the letter case of the request, an absent one gives
  \<^verbatim>\<open>-ENOENT\<close> and changes nothing, and the invariant holds afterwards.\<close>

theorem sigtable_del_refines:
  assumes "sig_inv K st" and "length hex = algo_hexlen algo"
  shows "map_prod id sig_abs (av_sigtable_del K algo hex st) = sig_spec_del algo hex (sig_abs st) \<and>
    sig_inv K (snd (av_sigtable_del K algo hex st))"
proof -
  have h: "hex_tolower (strscpy (AV_HASH_HEX_MAXLEN + 1) hex) = map tolower hex"
    using hex_buffer assms(2) algo_hexlen_le by simp
  have "sig_abs (sig_remove algo (sig_index K (map tolower hex)) hex st) =
      (sig_abs st)((algo, map tolower hex) := None)"
    if dom: "(algo, map tolower hex) \<in> dom (sig_abs st)"
  proof -
    from dom obtain e where
      e: "e \<in> set (hchain (sig_table st) (sig_index K (map tolower hex)))" "sig_hit algo hex e"
      unfolding sig_dup_iff [OF assms, symmetric] by blast
    from sig_abs_remove [OF assms(1) e] assms(2) show ?thesis by (simp add: sig_cut_def)
  qed
  then show ?thesis
    using av_sigtable_del_inv [OF assms(1), of algo hex]
    by (simp add: av_sigtable_del_cases [OF h [symmetric]] sig_dup_iff [OF assms] sig_spec_del_def)
qed

theorem sigtable_del_refines_witness:
  "sig_inv kapi0 av_sigtable_init \<and>
   map_prod id sig_abs (av_sigtable_del kapi0 AV_ALGO_MD5 (replicate 32 CHR ''A'') av_sigtable_init)
     = (Inl ENOENT, Map.empty)"
  using sigtable_del_refines [OF sig_inv_init [of kapi0], of "replicate 32 CHR ''A''" AV_ALGO_MD5]
  by (simp add: sig_inv_init sig_spec_del_def)

text \<open>C2. Matching a file's digests is a lookup in the abstract store, MD5 before SHA-1 before
  SHA-256, the first hit giving the name (cut to the caller's buffer); it holds for every
  digest the hashing pass can produce, an empty field included.\<close>

theorem sigtable_match_lookup:
  assumes "sig_inv K st" and "digest_wf d"
  shows "av_sigtable_match K st d n = map_option (strscpy n)
    (first_some [sig_abs st (AV_ALGO_MD5, md5 d), sig_abs st (AV_ALGO_SHA1, sha1 d),
                 sig_abs st (AV_ALGO_SHA256, sha256 d)])"
  using match_algos_first [OF assms, of all_algos]
  by (simp add: av_sigtable_match_def all_algos_def)

lemma digest_wf_simple:
  "digest_wf \<lparr>md5 = replicate 32 CHR ''a'', sha1 = [], sha256 = []\<rparr>"
  unfolding digest_wf_def
proof (intro allI impI)
  fix a h
  assume "digest_for_algo \<lparr>md5 = replicate 32 CHR ''a'', sha1 = [], sha256 = []\<rparr> a = Some h"
  moreover have "tolower CHR ''a'' = CHR ''a''" by code_simp
  ultimately show "h = [] \<or> length h = algo_hexlen a \<and> map tolower h = h"
    by (cases a) auto
qed

theorem sigtable_match_lookup_witness:
  "let st = snd (av_sigtable_add kapi0 True AV_ALGO_MD5 (replicate 32 CHR ''A'') ''Eicar'' av_sigtable_init)
   in av_sigtable_match kapi0 st \<lparr>md5 = replicate 32 CHR ''a'', sha1 = [], sha256 = []\<rparr> 64 = Some ''Eicar''"
proof -
  let ?st = "snd (av_sigtable_add kapi0 True AV_ALGO_MD5 (replicate 32 CHR ''A'') ''Eicar'' av_sigtable_init)"
  have v: "sig_valid AV_ALGO_MD5 (replicate 32 CHR ''A'')" by (simp add: sig_valid_def)
  have "?st = sig_insert kapi0 AV_ALGO_MD5 (replicate 32 CHR ''A'') ''Eicar'' av_sigtable_init"
    using v by (simp add: av_sigtable_add_cases [OF sig_inv_init])
      (simp add: av_sigtable_init_def MAX_SIG_ENTRIES_def)
  then have "sig_abs ?st = [(AV_ALGO_MD5, replicate 32 CHR ''a'') \<mapsto> ''Eicar'']"
    using sig_abs_insert [OF sig_inv_init sig_inv_insert [OF sig_inv_init v]]
    by (simp add: av_sigtable_init_def MAX_SIG_ENTRIES_def sig_abs_def)
  then show ?thesis
    using sigtable_match_lookup [OF av_sigtable_add_inv [OF sig_inv_init] digest_wf_simple,
        of kapi0 True AV_ALGO_MD5 "replicate 32 CHR ''A''" "''Eicar''" 64]
    by (simp add: strscpy_def)
qed

text \<open>The state after a sequence of writes to the proc file, each with the capability and
  allocation outcomes it met.\<close>

fun sig_run :: "kapi \<Rightarrow> (bool \<times> bool \<times> bool \<times> string) list \<Rightarrow> sig_state \<Rightarrow> sig_state" where
  "sig_run K [] st = st"
| "sig_run K ((capable, mem, fault, ubuf) # ws) st =
     sig_run K ws (snd (sig_proc_write K capable mem fault ubuf st))"

lemma sig_run_inv: "sig_inv K st \<Longrightarrow> sig_inv K (sig_run K ws st)"
  by (induction K ws st rule: sig_run.induct) (simp_all add: inv_intros)

lemma length_filter_algos:
  "\<forall>e \<in> set es. se_algo e \<noteq> AV_ALGO_COUNT \<Longrightarrow>
   length es = length (filter (\<lambda>e. se_algo e = AV_ALGO_MD5) es) +
     length (filter (\<lambda>e. se_algo e = AV_ALGO_SHA1) es) +
     length (filter (\<lambda>e. se_algo e = AV_ALGO_SHA256) es)"
proof (induction es)
  case (Cons e es)
  then show ?case by (cases "se_algo e") auto
qed simp

text \<open>After any sequence of writes to the signature proc file, by privileged and
  unprivileged writers, with malformed, duplicate or oversized commands and failing
  allocations, the table is well formed, the 8192-entry cap holds, and the per-algorithm
  counters add up to the total without ever having wrapped.\<close>

theorem sigtable_writes_safe:
  "sig_inv K (sig_run K ws av_sigtable_init) \<and>
   unat (av_sigtable_count (sig_run K ws av_sigtable_init)) \<le> 8192 \<and>
   unat (av_sigtable_count (sig_run K ws av_sigtable_init)) =
     card (dom (sig_abs (sig_run K ws av_sigtable_init))) \<and>
   unat (av_sigtable_count (sig_run K ws av_sigtable_init)) =
     (\<Sum>a \<leftarrow> all_algos. unat (av_sigtable_algo_count (sig_run K ws av_sigtable_init) a))"
proof -
  let ?st = "sig_run K ws av_sigtable_init"
  have inv: "sig_inv K ?st" by (rule sig_run_inv [OF sig_inv_init])
  then have "\<forall>e \<in> set (hash_for_each (sig_table ?st)). se_algo e \<noteq> AV_ALGO_COUNT"
    by (simp add: sig_inv_def sig_entry_wf_def)
  from length_filter_algos [OF this] show ?thesis
    using inv sig_count_unat [OF inv] card_sig_abs [OF inv] sig_algo_count_unat [OF inv]
    by (simp add: av_sigtable_count_def av_sigtable_algo_count_def all_algos_def sig_inv_def
        MAX_SIG_ENTRIES_def word_le_nat_alt)
qed

end
