(* ===== verification/TrustList.thy ===== *)
theory TrustList
  imports SigTable
begin

text \<open>
  The trusted-binary list of the behaviour engine (\<^verbatim>\<open>av/behavior.c\<close>): a hash table of
  SHA-256 digests with a display name, filled through \<^verbatim>\<open>/proc/kernel_av_trusted\<close>. It is
  consulted when a process execs. Every operation runs under \<^verbatim>\<open>trust_lock\<close>.
\<close>

section \<open>Data\<close>

definition TRUST_BITS :: nat where "TRUST_BITS = 8"
definition SHA256_HEX_LEN :: nat where "SHA256_HEX_LEN = 64"
definition TRUST_NAME_LEN :: nat where "TRUST_NAME_LEN = 64"

record av_trust_entry =
  te_sha256_hex :: string
  te_name :: string

type_synonym trust_table = "av_trust_entry buckets"

section \<open>Operations\<close>

definition trust_index :: "kapi \<Rightarrow> string \<Rightarrow> nat" where
  "trust_index K hex = bucket K TRUST_BITS (full_name_hash K hex)"

definition trust_hit :: "string \<Rightarrow> av_trust_entry \<Rightarrow> bool" where
  "trust_hit hex e \<longleftrightarrow> strncaseeq SHA256_HEX_LEN (te_sha256_hex e) hex"

text \<open>The name of the trusted binary, cut to the caller's buffer, or \<open>None\<close> when the hash is
  not on the list.\<close>

definition hash_is_trusted :: "kapi \<Rightarrow> trust_table \<Rightarrow> string \<Rightarrow> nat \<Rightarrow> string option" where
  "hash_is_trusted K t sha256_hex name_out_len =
     map_option (\<lambda>e. strscpy name_out_len (te_name e))
       (find (trust_hit sha256_hex) (hchain t (trust_index K sha256_hex)))"

definition av_behavior_trust_add ::
  "kapi \<Rightarrow> bool \<Rightarrow> string \<Rightarrow> string \<Rightarrow> trust_table \<Rightarrow> ret \<times> trust_table" where
  "av_behavior_trust_add K mem sha256_hex name t =
     (if length sha256_hex \<noteq> SHA256_HEX_LEN then (Inl EINVAL, t)
      else
        let lower_hex = hex_tolower (strscpy (SHA256_HEX_LEN + 1) sha256_hex);
            i = trust_index K lower_hex
        in if \<not> mem then (Inl ENOMEM, t)
           else if \<exists>existing \<in> set (hchain t i). trust_hit lower_hex existing then (Inl EEXIST, t)
           else (OK, hash_add t i \<lparr>te_sha256_hex = strscpy (SHA256_HEX_LEN + 1) lower_hex,
                                   te_name = strscpy TRUST_NAME_LEN name\<rparr>))"

text \<open>Removal walks the whole chain: it deletes every matching node.\<close>

definition av_behavior_trust_del :: "kapi \<Rightarrow> string \<Rightarrow> trust_table \<Rightarrow> ret \<times> trust_table" where
  "av_behavior_trust_del K sha256_hex t =
     (if length sha256_hex \<noteq> SHA256_HEX_LEN then (Inl EINVAL, t)
      else
        let lower_hex = hex_tolower (strscpy (SHA256_HEX_LEN + 1) sha256_hex);
            i = trust_index K lower_hex;
            c = hchain t i
        in (if \<exists>e \<in> set c. trust_hit lower_hex e then OK else Inl ENOENT,
            set_chain t i (filter (\<lambda>e. \<not> trust_hit lower_hex e) c)))"

definition trust_proc_line :: "av_trust_entry \<Rightarrow> string" where
  "trust_proc_line e = te_sha256_hex e @ '' '' @ te_name e @ [NL]"

definition trust_proc_show :: "trust_table \<Rightarrow> string" where
  "trust_proc_show t = concat (map trust_proc_line (hash_for_each t))"

text \<open>Unlike the signature handler, every failure of an \<^verbatim>\<open>add\<close> is reported as \<^verbatim>\<open>-EINVAL\<close>.\<close>

definition trust_proc_write ::
  "kapi \<Rightarrow> bool \<Rightarrow> bool \<Rightarrow> bool \<Rightarrow> string \<Rightarrow> trust_table \<Rightarrow> nat ret_val \<times> trust_table" where
  "trust_proc_write K capable mem fault ubuf t =
     (if \<not> capable then (Inl EPERM, t)
      else if 192 \<le> length ubuf then (Inl EINVAL, t)
      else if fault then (Inl EFAULT, t)
      else
        let fields = sscanf [ConvS 7, ConvS 64, ConvLine 63] (cstr ubuf)
        in if length fields < 2 then (Inl EINVAL, t)
           else if strcaseeq (fields ! 0) ''add'' then
             if length fields < 3 then (Inl EINVAL, t)
             else
               (case av_behavior_trust_add K mem (fields ! 1) (fields ! 2) t of
                  (Inl _, t') \<Rightarrow> (Inl EINVAL, t')
                | (Inr _, t') \<Rightarrow> (Inr (length ubuf), t'))
           else if strcaseeq (fields ! 0) ''del'' then
             (case av_behavior_trust_del K (fields ! 1) t of
                (Inl _, t') \<Rightarrow> (Inl ENOENT, t')
              | (Inr _, t') \<Rightarrow> (Inr (length ubuf), t'))
           else (Inl EINVAL, t))"

definition trust_table_destroy :: "trust_table \<Rightarrow> trust_table" where
  "trust_table_destroy t = map (\<lambda>_. []) t"

section \<open>Invariant and specification\<close>

definition trust_entry_wf :: "av_trust_entry \<Rightarrow> bool" where
  "trust_entry_wf e \<longleftrightarrow> length (te_sha256_hex e) = 64 \<and>
     map tolower (te_sha256_hex e) = te_sha256_hex e \<and> length (te_name e) < 64"

abbreviation trust_inv :: "kapi \<Rightarrow> trust_table \<Rightarrow> bool" where
  "trust_inv K \<equiv> store_inv (2 ^ TRUST_BITS) (trust_index K) te_sha256_hex trust_entry_wf"

definition trust_abs :: "trust_table \<Rightarrow> string \<rightharpoonup> string" where
  "trust_abs t = node_map te_sha256_hex te_name (hash_for_each t)"

definition trust_spec_add ::
  "bool \<Rightarrow> string \<Rightarrow> string \<Rightarrow> (string \<rightharpoonup> string) \<Rightarrow> ret \<times> (string \<rightharpoonup> string)" where
  "trust_spec_add mem hex name m =
     (if length hex \<noteq> 64 then (Inl EINVAL, m)
      else if \<not> mem then (Inl ENOMEM, m)
      else if map tolower hex \<in> dom m then (Inl EEXIST, m)
      else (OK, m(map tolower hex \<mapsto> take 63 name)))"

definition trust_spec_del :: "string \<Rightarrow> (string \<rightharpoonup> string) \<Rightarrow> ret \<times> (string \<rightharpoonup> string)" where
  "trust_spec_del hex m =
     (if length hex \<noteq> 64 then (Inl EINVAL, m)
      else if map tolower hex \<in> dom m then (OK, m(map tolower hex := None))
      else (Inl ENOENT, m))"

interpretation trust: keyed_store "2 ^ TRUST_BITS" "trust_index K" te_sha256_hex
    trust_entry_wf "\<lambda>h. map tolower (take 64 h)" trust_hit for K
proof unfold_locales
  show "trust_index K k < 2 ^ TRUST_BITS" for k by (simp add: trust_index_def)
  show "trust_hit q e \<longleftrightarrow> te_sha256_hex e = map tolower (take 64 q)" if "trust_entry_wf e" for e q
    using that by (auto simp: trust_hit_def trust_entry_wf_def strncaseeq_def SHA256_HEX_LEN_def)
qed

section \<open>Lemmas\<close>

lemma trust_buffer:
  "length hex = SHA256_HEX_LEN \<Longrightarrow> hex_tolower (strscpy (SHA256_HEX_LEN + 1) hex) = map tolower hex"
  by (simp add: hex_tolower_def strscpy_def SHA256_HEX_LEN_def)

lemma trust_buffer64: "length hex = 64 \<Longrightarrow> hex_tolower (strscpy 65 hex) = map tolower hex"
  by (simp add: hex_tolower_def strscpy_def)

lemma trust_inv_init: "trust_inv K (hash_init TRUST_BITS)"
  by (rule store_inv_init)

lemma trust_abs_init [simp]: "trust_abs (hash_init TRUST_BITS) = Map.empty"
  by (simp add: trust_abs_def)

lemma dom_trust_abs: "dom (trust_abs t) = te_sha256_hex ` set (hash_for_each t)"
  by (simp add: trust_abs_def dom_node_map)

lemma trust_dup_iff:
  assumes "trust_inv K t" and "length hex = 64"
  shows "(\<exists>e \<in> set (hchain t (trust_index K (map tolower hex))). trust_hit (map tolower hex) e) \<longleftrightarrow>
    map tolower hex \<in> dom (trust_abs t)"
  using trust.exists_hit [OF assms(1), of "map tolower hex"] assms(2) by (simp add: dom_trust_abs comp_def)

lemma trust_add_refined:
  assumes inv: "trust_inv K t"
  shows "map_prod id trust_abs (av_behavior_trust_add K mem hex name t) =
      trust_spec_add mem hex name (trust_abs t) \<and>
    trust_inv K (snd (av_behavior_trust_add K mem hex name t))"
proof (cases "length hex = SHA256_HEX_LEN \<and> mem \<and> map tolower hex \<notin> dom (trust_abs t)")
  case True
  then have len: "length hex = 64" by (simp add: SHA256_HEX_LEN_def)
  let ?e = "\<lparr>te_sha256_hex = map tolower hex, te_name = take 63 name\<rparr>"
  have res: "av_behavior_trust_add K mem hex name t = (OK, hash_add t (trust_index K (te_sha256_hex ?e)) ?e)"
    using True trust_dup_iff [OF inv len]
    by (simp add: av_behavior_trust_add_def trust_buffer Let_def)
      (simp add: strscpy_def SHA256_HEX_LEN_def TRUST_NAME_LEN_def hex_tolower_def)
  have wf: "trust_entry_wf ?e" using len by (simp add: trust_entry_wf_def)
  have new: "te_sha256_hex ?e \<notin> te_sha256_hex ` set (hash_for_each t)"
    using True by (simp add: dom_trust_abs)
  note a = trust.store_add [OF inv wf new]
  from a(1) a(2) [where g = te_name] res True len show ?thesis
    by (simp add: trust_abs_def trust_spec_add_def)
next
  case False
  then show ?thesis
    using trust_dup_iff [OF inv, of hex] inv
    by (auto simp: av_behavior_trust_add_def trust_buffer64 Let_def trust_spec_add_def SHA256_HEX_LEN_def)
qed

lemma trust_del_refined:
  assumes inv: "trust_inv K t"
  shows "map_prod id trust_abs (av_behavior_trust_del K hex t) = trust_spec_del hex (trust_abs t) \<and>
    trust_inv K (snd (av_behavior_trust_del K hex t))"
proof (cases "length hex = 64")
  case True
  have q: "map tolower (take 64 (map tolower hex)) = map tolower hex" using True by (simp add: comp_def)
  note r = trust.store_remove [OF inv, where q = "map tolower hex", unfolded q]
  have "(trust_abs t)(map tolower hex := None) = trust_abs t" if "map tolower hex \<notin> dom (trust_abs t)"
    using that by (simp add: domIff fun_upd_idem)
  with r(1) r(2) [where g = te_name] True show ?thesis
    by (simp add: av_behavior_trust_del_def SHA256_HEX_LEN_def trust_buffer64 Let_def
         trust_spec_del_def trust_dup_iff [OF inv True] trust_abs_def [symmetric])
next
  case False
  with inv show ?thesis by (simp add: av_behavior_trust_del_def SHA256_HEX_LEN_def trust_spec_del_def)
qed

lemma trust_lookup:
  assumes "trust_inv K t" and "h = [] \<or> length h = 64 \<and> map tolower h = h"
  shows "hash_is_trusted K t h n = map_option (strscpy n) (trust_abs t h)"
proof -
  have "map tolower (take 64 h) = h" using assms(2) by auto
  with trust.find_hit [OF assms(1), of "\<lambda>e. te_name e" h]
  show ?thesis by (simp add: hash_is_trusted_def trust_abs_def option.map_comp [symmetric])
    (metis (no_types, lifting) comp_apply option.map_comp option.map_cong0)
qed

section \<open>Properties\<close>

text \<open>The trust list refines a map from lower-case SHA-256 digests to names: insertion and
  removal return the specified code on every branch and have the specified effect, the
  lookup made at exec time agrees with the map for every digest the hashing pass can
  produce, and the invariant holds after each operation.\<close>

theorem trust_store_refines:
  assumes "trust_inv K t"
  shows "map_prod id trust_abs (av_behavior_trust_add K mem hex name t) =
      trust_spec_add mem hex name (trust_abs t) \<and>
    map_prod id trust_abs (av_behavior_trust_del K hex t) = trust_spec_del hex (trust_abs t) \<and>
    trust_inv K (snd (av_behavior_trust_add K mem hex name t)) \<and>
    trust_inv K (snd (av_behavior_trust_del K hex t)) \<and>
    (h = [] \<or> length h = 64 \<and> map tolower h = h \<longrightarrow>
       hash_is_trusted K t h n = map_option (strscpy n) (trust_abs t h))"
  using trust_add_refined [OF assms] trust_del_refined [OF assms] trust_lookup [OF assms] by blast

theorem trust_store_refines_witness:
  "trust_inv kapi0 (hash_init TRUST_BITS) \<and>
   map_prod id trust_abs (av_behavior_trust_add kapi0 True (replicate 64 CHR ''A'') ''app'' (hash_init TRUST_BITS))
     = (OK, [replicate 64 CHR ''a'' \<mapsto> ''app'']) \<and>
   hash_is_trusted kapi0 (hash_init TRUST_BITS) [] 64 = None"
  using trust_store_refines [OF trust_inv_init [of kapi0], of True "replicate 64 CHR ''A''" "''app''" "[]" 64]
  by (simp add: trust_inv_init trust_spec_add_def)

text \<open>A sequence of writes to the proc file.\<close>

fun trust_run :: "kapi \<Rightarrow> (bool \<times> bool \<times> bool \<times> string) list \<Rightarrow> trust_table \<Rightarrow> trust_table" where
  "trust_run K [] t = t"
| "trust_run K ((capable, mem, fault, ubuf) # ws) t =
     trust_run K ws (snd (trust_proc_write K capable mem fault ubuf t))"

lemma trust_add_invD: "av_behavior_trust_add K mem hex name t = (r, t') \<Longrightarrow> trust_inv K t \<Longrightarrow> trust_inv K t'"
  using trust_add_refined [of K t mem hex name] by simp

lemma trust_del_invD: "av_behavior_trust_del K hex t = (r, t') \<Longrightarrow> trust_inv K t \<Longrightarrow> trust_inv K t'"
  using trust_del_refined [of K t hex] by simp

lemma trust_proc_write_inv [inv_intros]:
  assumes "trust_inv K t"
  shows "trust_inv K (snd (trust_proc_write K capable mem fault ubuf t))"
  using assms
  by (simp add: trust_proc_write_def Let_def split: prod.split sum.split)
    (blast dest: trust_add_invD trust_del_invD)

lemma trust_run_inv: "trust_inv K t \<Longrightarrow> trust_inv K (trust_run K ws t)"
  by (induction K ws t rule: trust_run.induct) (simp_all add: inv_intros)

lemma trust_del_command:
  assumes "length hex = 64" and "\<forall>c \<in> set hex. \<not> isspace c \<and> c \<noteq> NUL"
  shows "trust_proc_write K True mem False (''del '' @ hex @ [NL]) t =
    (case av_behavior_trust_del K hex t of
       (Inl _, t') \<Rightarrow> (Inl ENOENT, t') | (Inr _, t') \<Rightarrow> (Inr 69, t'))"
proof -
  define ubuf where "ubuf = ''del '' @ hex @ [NL]"
  have ne: "hex \<noteq> []" using assms(1) by auto
  have hd: "\<not> isspace (hd hex)" using assms(2) ne by (cases hex) auto
  have "NUL \<notin> set ubuf" using assms(2) by (auto simp: ubuf_def NUL_def NL_def)
  then have c: "cstr ubuf = ''del'' @ CHR '' '' # (hex @ [NL])" by (simp add: cstr_id) (simp add: ubuf_def)
  have d: "\<forall>c \<in> set ''del''. \<not> isspace c" by code_simp
  have f: "sscanf [ConvS 7, ConvS 64, ConvLine 63] (cstr ubuf) = [''del'', hex]"
    unfolding c using sscanf_word [OF _ d, of 7 "hex @ [NL]"] sscanf_word_end(1) [OF ne, of 64] ne hd assms
    by simp
  have n: "length ubuf = 69" using assms(1) by (simp add: ubuf_def)
  have k: "\<not> strcaseeq ''del'' ''add''" "strcaseeq ''del'' ''del''" by code_simp+
  show ?thesis unfolding ubuf_def [symmetric] trust_proc_write_def f n by (simp add: k)
qed

text \<open>Revocation works whatever the history of the proc file: after any sequence of writes,
  a privileged \<^verbatim>\<open>del\<close> of a digest, in any letter case, leaves a state in which that digest is
  not trusted at exec time and every other digest is trusted exactly as before.\<close>

theorem trust_revocation:
  assumes "length hex = 64" and "\<forall>c \<in> set hex. \<not> isspace c \<and> c \<noteq> NUL"
    and "length h = 64" and "map tolower h = h"
  shows "hash_is_trusted K
      (snd (trust_proc_write K True mem False (''del '' @ hex @ [NL]) (trust_run K ws (hash_init TRUST_BITS)))) h n =
    (if h = map tolower hex then None
     else hash_is_trusted K (trust_run K ws (hash_init TRUST_BITS)) h n)"
proof -
  let ?t = "trust_run K ws (hash_init TRUST_BITS)"
  let ?t' = "snd (av_behavior_trust_del K hex ?t)"
  have inv: "trust_inv K ?t" by (rule trust_run_inv [OF trust_inv_init])
  note d = trust_del_refined [OF inv, of hex]
  have "snd (trust_proc_write K True mem False (''del '' @ hex @ [NL]) ?t) = ?t'"
    unfolding trust_del_command [OF assms(1,2)] by (simp split: prod.split sum.split)
  moreover have "trust_abs ?t' = (trust_abs ?t)(map tolower hex := None)"
  proof -
    have "trust_abs ?t' = snd (map_prod id trust_abs (av_behavior_trust_del K hex ?t))" by simp
    also have "\<dots> = (trust_abs ?t)(map tolower hex := None)"
      using d assms(1) by (auto simp: trust_spec_del_def domIff fun_upd_idem)
    finally show ?thesis .
  qed
  ultimately show ?thesis
    using trust_lookup [of K ?t' h n] trust_lookup [OF inv, of h n] d assms(3,4) by simp
qed

theorem trust_revocation_witness:
  "hash_is_trusted kapi0
     (snd (trust_proc_write kapi0 True True False (''del '' @ replicate 64 CHR ''A'' @ [NL])
        (trust_run kapi0 [(True, True, False, ''add '' @ replicate 64 CHR ''A'' @ '' app'' @ [NL])]
          (hash_init TRUST_BITS))))
     (replicate 64 CHR ''a'') 64 = None"
proof -
  have "tolower CHR ''a'' = CHR ''a''" "\<not> isspace CHR ''A''" "CHR ''A'' \<noteq> NUL" by code_simp+
  then show ?thesis
    using trust_revocation [of "replicate 64 CHR ''A''" "replicate 64 CHR ''a''" kapi0 True
        "[(True, True, False, ''add '' @ replicate 64 CHR ''A'' @ '' app'' @ [NL])]" 64]
    by simp
qed

end
