(* ===== verification/ProtectedList.thy ===== *)
theory ProtectedList
  imports TrustList
begin

text \<open>
  The protected-path allow-list (\<^verbatim>\<open>av/behavior.c\<close>): exact absolute executable paths whose
  processes are never killed, filled through \<^verbatim>\<open>/proc/kernel_av_protected\<close>, and the check of
  a kill target against it.
\<close>

section \<open>Data\<close>

definition PATH_MAX :: nat where "PATH_MAX = 4096"
definition PROTECTED_PATH_LEN :: nat where "PROTECTED_PATH_LEN = PATH_MAX"
definition PROTECTED_WRITE_MAXLEN :: nat where "PROTECTED_WRITE_MAXLEN = PATH_MAX + 16"

record av_protected_entry =
  pe_path :: string

type_synonym protected_table = "av_protected_entry buckets"

text \<open>
  What the kernel reports of a kill target: whether it has an address space, and the result
  of \<^verbatim>\<open>d_path()\<close> on its executable, if it has one. A target whose task is gone is \<open>None\<close>.
\<close>

record task_view =
  tv_has_mm :: bool
  tv_exe :: "string ret_val option"

section \<open>Operations\<close>

definition path_key :: "kapi \<Rightarrow> string \<Rightarrow> u32" where
  "path_key K path = full_name_hash K path"

definition protected_index :: "kapi \<Rightarrow> string \<Rightarrow> nat" where
  "protected_index K path = bucket K TRUST_BITS (path_key K path)"

definition protected_hit :: "string \<Rightarrow> av_protected_entry \<Rightarrow> bool" where
  "protected_hit path e \<longleftrightarrow> pe_path e = path"

definition path_is_on_protected_list :: "kapi \<Rightarrow> protected_table \<Rightarrow> string \<Rightarrow> bool" where
  "path_is_on_protected_list K t path \<longleftrightarrow>
     (\<exists>e \<in> set (hchain t (protected_index K path)). protected_hit path e)"

definition av_behavior_protect_add ::
  "kapi \<Rightarrow> bool \<Rightarrow> string \<Rightarrow> protected_table \<Rightarrow> ret \<times> protected_table" where
  "av_behavior_protect_add K mem path t =
     (if take 1 path \<noteq> ''/'' \<or> PROTECTED_PATH_LEN \<le> length path then (Inl EINVAL, t)
      else if \<not> mem then (Inl ENOMEM, t)
      else
        let e = \<lparr>pe_path = strscpy PROTECTED_PATH_LEN path\<rparr>;
            i = protected_index K (pe_path e)
        in if \<exists>existing \<in> set (hchain t i). protected_hit (pe_path e) existing then (Inl EEXIST, t)
           else (OK, hash_add t i e))"

definition av_behavior_protect_del :: "kapi \<Rightarrow> string \<Rightarrow> protected_table \<Rightarrow> ret \<times> protected_table" where
  "av_behavior_protect_del K path t =
     (let i = protected_index K path; c = hchain t i
      in if \<exists>e \<in> set c. protected_hit path e
         then (OK, set_chain t i (remove_first (protected_hit path) c))
         else (Inl ENOENT, t))"

text \<open>The path of the protected executable, cut to the caller's buffer, when the target is
  protected. \<open>mem\<close> is the allocation of the \<^verbatim>\<open>d_path()\<close> buffer.\<close>

definition av_behavior_target_is_protected ::
  "kapi \<Rightarrow> bool \<Rightarrow> protected_table \<Rightarrow> task_view option \<Rightarrow> nat \<Rightarrow> string option" where
  "av_behavior_target_is_protected K mem t task path_out_len =
     (case task of
        None \<Rightarrow> None
      | Some tv \<Rightarrow>
          if \<not> tv_has_mm tv then None
          else
            (case tv_exe tv of
               None \<Rightarrow> None
             | Some resolved \<Rightarrow>
                 if \<not> mem then None
                 else
                   (case resolved of
                      Inl _ \<Rightarrow> None
                    | Inr p \<Rightarrow>
                        if path_is_on_protected_list K t p then Some (strscpy path_out_len p) else None)))"

definition protected_proc_show :: "protected_table \<Rightarrow> string" where
  "protected_proc_show t = concat (map (\<lambda>e. pe_path e @ [NL]) (hash_for_each t))"

definition is_blank :: "char \<Rightarrow> bool" where
  "is_blank c \<longleftrightarrow> c = CHR '' '' \<or> c = TAB"

text \<open>The path argument of a command: what follows the first run of blanks, with the mandatory
  newline and an optional carriage return before it stripped.\<close>

definition protected_arg :: "string \<Rightarrow> string option" where
  "protected_arg kbuf =
     (let rest = dropWhile is_blank (dropWhile (\<lambda>c. \<not> is_blank c) kbuf)
      in if rest = [] \<or> last rest \<noteq> NL then None
         else
           let r1 = butlast rest;
               r2 = (if r1 \<noteq> [] \<and> last r1 = CR then butlast r1 else r1)
           in if r2 = [] \<or> PATH_MAX \<le> length r2 then None else Some (strscpy PATH_MAX r2))"

definition protected_proc_write ::
  "kapi \<Rightarrow> bool \<Rightarrow> nat \<Rightarrow> bool \<Rightarrow> bool \<Rightarrow> bool \<Rightarrow> string \<Rightarrow> protected_table \<Rightarrow>
   nat ret_val \<times> protected_table" where
  "protected_proc_write K capable ppos bufs mem fault ubuf t =
     (if \<not> capable then (Inl EPERM, t)
      else if ppos \<noteq> 0 then (Inl EINVAL, t)
      else if PROTECTED_WRITE_MAXLEN \<le> length ubuf then (Inl EINVAL, t)
      else if \<not> bufs then (Inl ENOMEM, t)
      else if fault then (Inl EFAULT, t)
      else
        (case sscanf [ConvS 7] (cstr ubuf) of
           [] \<Rightarrow> (Inl EINVAL, t)
         | cmd # _ \<Rightarrow>
             (case protected_arg (cstr ubuf) of
                None \<Rightarrow> (Inl EINVAL, t)
              | Some path \<Rightarrow>
                  if strcaseeq cmd ''add'' then
                    (case av_behavior_protect_add K mem path t of
                       (Inl err, t') \<Rightarrow> (Inl err, t')
                     | (Inr _, t') \<Rightarrow> (Inr (length ubuf), t'))
                  else if strcaseeq cmd ''del'' then
                    (case av_behavior_protect_del K path t of
                       (Inl _, t') \<Rightarrow> (Inl ENOENT, t')
                     | (Inr _, t') \<Rightarrow> (Inr (length ubuf), t'))
                  else (Inl EINVAL, t))))"

definition protected_table_destroy :: "protected_table \<Rightarrow> protected_table" where
  "protected_table_destroy t = map (\<lambda>_. []) t"

section \<open>Invariant and specification\<close>

definition protected_entry_wf :: "av_protected_entry \<Rightarrow> bool" where
  "protected_entry_wf e \<longleftrightarrow> take 1 (pe_path e) = ''/'' \<and> length (pe_path e) < 4096"

abbreviation protected_inv :: "kapi \<Rightarrow> protected_table \<Rightarrow> bool" where
  "protected_inv K \<equiv> store_inv (2 ^ TRUST_BITS) (protected_index K) pe_path protected_entry_wf"

definition protected_abs :: "protected_table \<Rightarrow> string set" where
  "protected_abs t = pe_path ` set (hash_for_each t)"

interpretation prot: keyed_store "2 ^ TRUST_BITS" "protected_index K" pe_path
    protected_entry_wf "\<lambda>p. p" protected_hit for K
  by unfold_locales (simp_all add: protected_index_def protected_hit_def)

section \<open>Lemmas\<close>

lemma protected_inv_init: "protected_inv K (hash_init TRUST_BITS)"
  by (rule store_inv_init)

lemma protected_abs_init [simp]: "protected_abs (hash_init TRUST_BITS) = {}"
  by (simp add: protected_abs_def)

lemma protected_abs_dom: "protected_abs t = dom (node_map pe_path (\<lambda>_. ()) (hash_for_each t))"
  by (simp add: protected_abs_def dom_node_map)

lemma protected_lookup:
  "protected_inv K t \<Longrightarrow> path_is_on_protected_list K t path \<longleftrightarrow> path \<in> protected_abs t"
  unfolding path_is_on_protected_list_def protected_abs_def by (rule prot.exists_hit)

lemma protect_add_refined:
  assumes inv: "protected_inv K t"
  shows "map_prod id protected_abs (av_behavior_protect_add K mem path t) =
     (if take 1 path \<noteq> ''/'' \<or> 4096 \<le> length path then (Inl EINVAL, protected_abs t)
      else if \<not> mem then (Inl ENOMEM, protected_abs t)
      else if path \<in> protected_abs t then (Inl EEXIST, protected_abs t)
      else (OK, insert path (protected_abs t))) \<and>
    protected_inv K (snd (av_behavior_protect_add K mem path t))"
proof (cases "take 1 path = ''/'' \<and> length path < 4096 \<and> mem")
  case True
  then have fit: "strscpy 4096 path = path" by (simp add: strscpy_def)
  note dup = prot.exists_hit [OF inv, of path, folded protected_abs_def]
  let ?e = "\<lparr>pe_path = path\<rparr>"
  show ?thesis
  proof (cases "path \<in> protected_abs t")
    case True': True
    with True fit dup inv show ?thesis
      by (simp add: av_behavior_protect_add_def PROTECTED_PATH_LEN_def PATH_MAX_def Let_def)
  next
    case new: False
    have wf: "protected_entry_wf ?e" using True by (simp add: protected_entry_wf_def)
    have fresh: "pe_path ?e \<notin> pe_path ` set (hash_for_each t)" using new by (simp add: protected_abs_def)
    note a = prot.store_add [OF inv wf fresh]
    have "av_behavior_protect_add K mem path t = (OK, hash_add t (protected_index K path) ?e)"
      using True fit dup new
      by (simp add: av_behavior_protect_add_def PROTECTED_PATH_LEN_def PATH_MAX_def Let_def)
    with True new a(1) a(2) [where g = "\<lambda>_. ()"] show ?thesis
      by (simp add: protected_abs_dom)
  qed
next
  case False
  with inv show ?thesis
    by (auto simp: av_behavior_protect_add_def PROTECTED_PATH_LEN_def PATH_MAX_def Let_def)
qed

lemma protect_del_refined:
  assumes inv: "protected_inv K t"
  shows "map_prod id protected_abs (av_behavior_protect_del K path t) =
     (if path \<in> protected_abs t then (OK, protected_abs t - {path}) else (Inl ENOENT, protected_abs t)) \<and>
    protected_inv K (snd (av_behavior_protect_del K path t))"
proof -
  note r = prot.store_remove [OF inv, where q = path]
  from r(1) r(2) [where g = "\<lambda>_. ()"] inv show ?thesis
    using prot.exists_hit [OF inv, of path, folded protected_abs_def]
    by (auto simp: av_behavior_protect_del_def Let_def prot.remove_hits [OF inv] protected_abs_dom)
qed

lemma protect_add_invD:
  "av_behavior_protect_add K mem path t = (r, t') \<Longrightarrow> protected_inv K t \<Longrightarrow> protected_inv K t'"
  using protect_add_refined [of K t mem path] by simp

lemma protect_del_invD:
  "av_behavior_protect_del K path t = (r, t') \<Longrightarrow> protected_inv K t \<Longrightarrow> protected_inv K t'"
  using protect_del_refined [of K t path] by simp

lemma protected_proc_write_inv [inv_intros]:
  assumes "protected_inv K t"
  shows "protected_inv K (snd (protected_proc_write K capable ppos bufs mem fault ubuf t))"
  using assms
  by (simp add: protected_proc_write_def split: list.split option.split prod.split sum.split)
    (blast dest: protect_add_invD protect_del_invD)

lemma is_blank_isspace: "is_blank c \<Longrightarrow> isspace c"
  by (auto simp: is_blank_def)

lemma protected_arg_command:
  assumes "cmd \<noteq> []" and "\<forall>c \<in> set cmd. \<not> isspace c"
    and "path \<noteq> []" and "\<not> is_blank (hd path)" and "last path \<noteq> CR" and "length path < 4096"
  shows "protected_arg (cmd @ CHR '' '' # path @ [NL]) = Some path"
proof -
  have nb: "\<forall>c \<in> set cmd. \<not> is_blank c" using assms(2) is_blank_isspace by blast
  have "dropWhile (\<lambda>c. \<not> is_blank c) (cmd @ CHR '' '' # path @ [NL]) = CHR '' '' # path @ [NL]"
    using nb by (intro dropWhile_stop) (auto simp: is_blank_def)
  moreover have "dropWhile is_blank (CHR '' '' # path @ [NL]) = path @ [NL]"
    using dropWhile_stop [of "'' ''" is_blank "path @ [NL]"] assms(3,4) by (simp add: is_blank_def)
  ultimately show ?thesis
    using assms(3,5,6) by (simp add: protected_arg_def Let_def PATH_MAX_def strscpy_def)
qed

lemma protected_arg_unterminated:
  assumes "NL \<notin> set kbuf"
  shows "protected_arg kbuf = None"
proof -
  define rest where "rest = dropWhile is_blank (dropWhile (\<lambda>c. \<not> is_blank c) kbuf)"
  have "set rest \<subseteq> set kbuf" by (auto simp: rest_def dest!: set_dropWhileD)
  with assms have "rest \<noteq> [] \<longrightarrow> last rest \<noteq> NL" by (metis last_in_set subsetD)
  then show ?thesis by (auto simp: protected_arg_def Let_def rest_def [symmetric])
qed

section \<open>Properties\<close>

text \<open>The protected list is a set of exact paths: insertion and removal have the specified
  result and effect on every branch, and a kill target with a readable executable is
  protected exactly when its path is an element, with no prefix or case matching.\<close>

theorem protected_list_exact:
  assumes "protected_inv K t"
  shows "map_prod id protected_abs (av_behavior_protect_add K mem path t) =
       (if take 1 path \<noteq> ''/'' \<or> 4096 \<le> length path then (Inl EINVAL, protected_abs t)
        else if \<not> mem then (Inl ENOMEM, protected_abs t)
        else if path \<in> protected_abs t then (Inl EEXIST, protected_abs t)
        else (OK, insert path (protected_abs t))) \<and>
    map_prod id protected_abs (av_behavior_protect_del K path t) =
       (if path \<in> protected_abs t then (OK, protected_abs t - {path}) else (Inl ENOENT, protected_abs t)) \<and>
    protected_inv K (snd (av_behavior_protect_add K mem path t)) \<and>
    protected_inv K (snd (av_behavior_protect_del K path t)) \<and>
    av_behavior_target_is_protected K mem t (Some \<lparr>tv_has_mm = True, tv_exe = Some (Inr exe)\<rparr>) n =
      (if mem \<and> exe \<in> protected_abs t then Some (strscpy n exe) else None)"
  using protect_add_refined [OF assms, of mem path] protect_del_refined [OF assms, of path]
    protected_lookup [OF assms, of exe]
  by (simp add: av_behavior_target_is_protected_def)

theorem protected_list_exact_witness:
  "protected_inv kapi0 (hash_init TRUST_BITS) \<and>
   map_prod id protected_abs (av_behavior_protect_add kapi0 True ''/usr/sbin/sshd'' (hash_init TRUST_BITS)) =
     (OK, {''/usr/sbin/sshd''})"
  using protected_list_exact [OF protected_inv_init [of kapi0], of True "''/usr/sbin/sshd''" "''/bin/sh''" 64]
  by (simp add: protected_inv_init)

lemma protect_add_command:
  assumes "take 1 path = ''/''" and "length path < 4096" and "NUL \<notin> set path" and "last path \<noteq> CR"
  shows "protected_proc_write K True 0 True True False (''add '' @ path @ [NL]) t =
    (case av_behavior_protect_add K True path t of
       (Inl err, t') \<Rightarrow> (Inl err, t') | (Inr _, t') \<Rightarrow> (Inr (length path + 5), t'))"
proof -
  define ubuf where "ubuf = ''add '' @ path @ [NL]"
  have add: "''add'' \<noteq> []" "\<forall>c \<in> set ''add''. \<not> isspace c" "strcaseeq ''add'' ''add''" by code_simp+
  have ne: "path \<noteq> []" and hd: "hd path = CHR ''/''" using assms(1) by (cases path; simp)+
  have slash: "\<not> is_blank (hd path)" "\<not> isspace (hd path)" unfolding hd by code_simp+
  have "NUL \<notin> set ubuf" using assms(3) by (auto simp: ubuf_def NUL_def NL_def)
  then have c: "cstr ubuf = ''add'' @ CHR '' '' # path @ [NL]" by (simp add: cstr_id) (simp add: ubuf_def)
  have f: "sscanf [ConvS 7] (cstr ubuf) = [''add'']"
    unfolding c using sscanf_word [OF add(1,2), of 7 "path @ [NL]" "[]"] ne slash by simp
  have arg: "protected_arg (cstr ubuf) = Some path"
    unfolding c by (rule protected_arg_command [OF add(1,2) ne slash(1) assms(4,2)])
  have n: "length ubuf = length path + 5" by (simp add: ubuf_def)
  have "protected_proc_write K True 0 True True False ubuf t =
    (case av_behavior_protect_add K True path t of
       (Inl err, t') \<Rightarrow> (Inl err, t') | (Inr _, t') \<Rightarrow> (Inr (length path + 5), t'))"
    unfolding protected_proc_write_def f arg n using assms(2)
    by (simp add: add PROTECTED_WRITE_MAXLEN_def PATH_MAX_def)
  then show ?thesis by (simp add: ubuf_def)
qed

text \<open>The command the management tool sends arrives unchanged: for every absolute path
  shorter than \<^verbatim>\<open>PATH_MAX\<close> that holds no NUL and does not end in a carriage return, the write
  \<^verbatim>\<open>add <path>\<close> with its newline makes exactly that path protected and reports the whole
  count; the same command cut anywhere before its newline is refused and changes nothing.\<close>

theorem protect_command_atomic:
  assumes "protected_inv K t" and "take 1 path = ''/''" and "length path < 4096"
    and "NUL \<notin> set path" and "last path \<noteq> CR" and "path \<notin> protected_abs t"
  shows "map_prod id protected_abs
      (protected_proc_write K True 0 True True False (''add '' @ path @ [NL]) t) =
        (Inr (length path + 5), insert path (protected_abs t)) \<and>
    (NL \<notin> set (take k path) \<longrightarrow>
      protected_proc_write K True 0 True True False (''add '' @ take k path) t = (Inl EINVAL, t))"
proof
  show "map_prod id protected_abs (protected_proc_write K True 0 True True False (''add '' @ path @ [NL]) t) =
        (Inr (length path + 5), insert path (protected_abs t))"
    unfolding protect_add_command [OF assms(2-5)] using protect_add_refined [OF assms(1), of True path] assms(2,3,6)
    by (cases "av_behavior_protect_add K True path t") (auto split: sum.splits)
next
  show "NL \<notin> set (take k path) \<longrightarrow>
    protected_proc_write K True 0 True True False (''add '' @ take k path) t = (Inl EINVAL, t)"
  proof
    assume nl: "NL \<notin> set (take k path)"
    then have "NL \<notin> set (''add '' @ take k path)" by (auto simp: NL_def)
    then have "NL \<notin> set (cstr (''add '' @ take k path))" by (auto simp: cstr_def dest: set_takeWhileD)
    then have "protected_arg (cstr (''add '' @ take k path)) = None" by (rule protected_arg_unterminated)
    then show "protected_proc_write K True 0 True True False (''add '' @ take k path) t = (Inl EINVAL, t)"
      by (simp add: protected_proc_write_def split: list.split)
  qed
qed

theorem protect_command_atomic_witness:
  "map_prod id protected_abs
     (protected_proc_write kapi0 True 0 True True False (''add '' @ ''/bin/sh'' @ [NL]) (hash_init TRUST_BITS)) =
       (Inr 12, {''/bin/sh''}) \<and>
   protected_proc_write kapi0 True 0 True True False (''add '' @ take 4 ''/bin/sh'') (hash_init TRUST_BITS) =
     (Inl EINVAL, hash_init TRUST_BITS)"
proof -
  have "NUL \<notin> set ''/bin/sh''" "last ''/bin/sh'' \<noteq> CR" "NL \<notin> set (take 4 ''/bin/sh'')" by code_simp+
  then show ?thesis
    using protect_command_atomic [OF protected_inv_init [of kapi0], of "''/bin/sh''" 4] by simp
qed

end
