(* ===== verification/PathRules.thy ===== *)
theory PathRules
  imports AvPrelude "HOL-Library.Sublist"
begin

text \<open>
  The path classification of the behaviour engine (\<^verbatim>\<open>av/behavior.c\<close>): which paths are exempt
  as pseudo file systems, which are noise for the volume counters, which are sensitive, and
  the shape of an extension-append rename.
\<close>

section \<open>The rules\<close>

definition excluded_path_prefixes :: "string list" where
  "excluded_path_prefixes = [''/sys/'', ''/proc/'', ''/dev/'']"

definition excluded_path_cache_substrings :: "string list" where
  "excluded_path_cache_substrings = [''/.cache/'']"

definition excluded_path_suffixes :: "string list" where
  "excluded_path_suffixes = [''-journal'', ''-wal'', ''-shm'']"

definition sensitive_path_substrings :: "string list" where
  "sensitive_path_substrings = [''/etc/passwd'', ''/etc/shadow'', ''/.ssh/'']"

definition sensitive_path_prefixes :: "string list" where
  "sensitive_path_prefixes = [''/boot/'']"

section \<open>Operations\<close>

definition path_is_pseudo_fs :: "string \<Rightarrow> bool" where
  "path_is_pseudo_fs path \<longleftrightarrow> list_ex (\<lambda>p. strneq (length p) path p) excluded_path_prefixes"

definition path_is_rapid_write_noise :: "string \<Rightarrow> bool" where
  "path_is_rapid_write_noise path \<longleftrightarrow>
     list_ex (\<lambda>s. strstr path s \<noteq> None) excluded_path_cache_substrings \<or>
     list_ex (\<lambda>s. length s \<le> length path \<and> drop (length path - length s) path = s) excluded_path_suffixes"

text \<open>The loop looks for the needle from \<open>p\<close> on; an occurrence that is not a whole component is
  skipped by one byte.\<close>

function path_has_bounded_substring :: "string \<Rightarrow> string \<Rightarrow> bool" where
  "path_has_bounded_substring p needle =
     (let self_anchored = (needle \<noteq> [] \<and> last needle = CHR ''/'')
      in case strstr p needle of
           None \<Rightarrow> False
         | Some q \<Rightarrow>
             if self_anchored \<or> drop (length needle) q = [] \<or> q ! length needle = CHR ''/'' then True
             else path_has_bounded_substring (tl q) needle)"
  by pat_completeness auto

lemma strstr_length: "strstr s p = Some t \<Longrightarrow> length t \<le> length s"
  using strstr_Some [of s p t] by auto

termination path_has_bounded_substring
proof (relation "measure (length \<circ> fst)")
  fix p needle q :: string and anch :: bool
  assume "strstr p needle = Some q"
    and "\<not> (anch \<or> drop (length needle) q = [] \<or> q ! length needle = CHR ''/'')"
  then have "q \<noteq> []" and "length q \<le> length p" by (auto dest: strstr_length)
  then show "((tl q, needle), (p, needle)) \<in> measure (length \<circ> fst)" by (cases q) auto
qed simp

declare path_has_bounded_substring.simps [simp del]

definition path_is_sensitive :: "string \<Rightarrow> bool" where
  "path_is_sensitive path \<longleftrightarrow>
     list_ex (\<lambda>p. strneq (length p) path p) sensitive_path_prefixes \<or>
     list_ex (path_has_bounded_substring path) sensitive_path_substrings"

definition path_basename :: "string \<Rightarrow> string" where
  "path_basename path = (case strrchr_after CHR ''/'' path of Some b \<Rightarrow> b | None \<Rightarrow> path)"

definition is_extension_append_rename :: "string \<Rightarrow> string \<Rightarrow> bool" where
  "is_extension_append_rename old_path new_path \<longleftrightarrow>
     (let old_base = path_basename old_path; new_base = path_basename new_path
      in if length new_base \<le> length old_base then False
         else if \<not> strneq (length old_base) old_base new_base then False
         else new_base ! length old_base = CHR ''.'')"

section \<open>Lemmas\<close>

lemma strneq_iff_prefix: "strneq (length p) path p \<longleftrightarrow> prefix p path"
  by (auto simp: strneq_prefix prefix_def)

lemma suffix_drop: "length s \<le> length t \<and> drop (length t - length s) t = s \<longleftrightarrow> suffix s t"
  by (metis append_take_drop_id diff_diff_cancel length_drop suffix_def suffix_drop suffix_length_le
      append_eq_conv_conj length_append diff_add_inverse2)

lemma strstr_sublist: "strstr s p \<noteq> None \<longleftrightarrow> sublist p s"
  unfolding strstr_None sublist_def by simp

text \<open>The first occurrence: none starts earlier.\<close>

lemma strstr_first:
  assumes "strstr s p = Some t" and "s = u @ p @ r"
  shows "length (p @ r) \<le> length t"
  using assms
proof (induction s arbitrary: u)
  case Nil
  then show ?case by (auto split: if_splits)
next
  case (Cons c s)
  show ?case
  proof (cases "take (length p) (c # s) = p")
    case True
    with Cons.prems(1) have "t = c # s" by simp
    then show ?thesis unfolding Cons.prems(2) by simp
  next
    case False
    with Cons.prems(1) have t: "strstr s p = Some t" by simp
    have "u \<noteq> []" using False Cons.prems(2) by auto
    with Cons.prems(2) obtain u' where "s = u' @ p @ r" by (cases u) auto
    from Cons.IH [OF t this] show ?thesis .
  qed
qed

lemma append_suffix_split:
  assumes "u @ x = v @ y" and "length x \<le> length y"
  shows "\<exists>w. y = w @ x"
  using assms by (metis append_eq_append_conv_if append_eq_conv_conj append_take_drop_id diff_le_mono2
    drop_append length_append nat_le_linear suffix_def suffix_length_suffix suffixI)

definition bounded_at :: "string \<Rightarrow> string \<Rightarrow> string \<Rightarrow> bool" where
  "bounded_at path needle r \<longleftrightarrow> (\<exists>u. path = u @ needle @ r) \<and>
     (needle \<noteq> [] \<and> last needle = CHR ''/'' \<or> r = [] \<or> hd r = CHR ''/'')"

lemma bounded_substring_iff:
  "path_has_bounded_substring p needle \<longleftrightarrow> (\<exists>r. bounded_at p needle r)"
proof (induction p needle rule: path_has_bounded_substring.induct)
  case (1 p needle)
  let ?anch = "needle \<noteq> [] \<and> last needle = CHR ''/''"
  show ?case
  proof (cases "strstr p needle")
    case None
    then have "\<not> bounded_at p needle r" for r by (auto simp: bounded_at_def strstr_None)
    with None show ?thesis by (simp add: path_has_bounded_substring.simps)
  next
    case (Some q)
    then obtain u r where u: "p = u @ q" and r: "q = needle @ r" by (metis strstr_Some)
    let ?stop = "?anch \<or> drop (length needle) q = [] \<or> q ! length needle = CHR ''/''"
    have stop: "?stop \<longleftrightarrow> ?anch \<or> r = [] \<or> hd r = CHR ''/''"
      using r by (cases r) (auto simp: nth_append)
    show ?thesis
    proof (cases ?stop)
      case True
      then have "bounded_at p needle r" using stop u r by (auto simp: bounded_at_def)
      with True Some show ?thesis
        by (subst path_has_bounded_substring.simps) auto
    next
      case False
      then have step: "path_has_bounded_substring p needle = path_has_bounded_substring (tl q) needle"
        using Some by (subst path_has_bounded_substring.simps) (auto simp: Let_def)
      have "bounded_at p needle x \<longleftrightarrow> bounded_at (tl q) needle x" for x
      proof
        assume b: "bounded_at p needle x"
        then obtain v where v: "p = v @ needle @ x" by (auto simp: bounded_at_def)
        from strstr_first [OF Some v] obtain w where w: "q = w @ needle @ x"
          using append_suffix_split [of v "needle @ x" u q] u v by auto
        have "w \<noteq> []" using b False stop w r by (auto simp: bounded_at_def)
        with w have "tl q = tl w @ needle @ x" by (cases w) auto
        with b show "bounded_at (tl q) needle x" by (auto simp: bounded_at_def)
      next
        assume b: "bounded_at (tl q) needle x"
        then obtain v where "tl q = v @ needle @ x" by (auto simp: bounded_at_def)
        moreover have "q \<noteq> []" using False by auto
        ultimately have "p = (u @ [hd q] @ v) @ needle @ x" using u by (cases q) auto
        with b show "bounded_at p needle x" by (auto simp: bounded_at_def)
      qed
      with step "1.IH" [OF refl Some False] show ?thesis by simp
    qed
  qed
qed

lemma strrchr_after_None: "strrchr_after ch s = None \<longleftrightarrow> ch \<notin> set s"
  by (induction s) (auto split: option.splits)

lemma strrchr_after_Some: "strrchr_after ch s = Some t \<longleftrightarrow> (\<exists>u. s = u @ ch # t) \<and> ch \<notin> set t"
proof (induction s)
  case Nil
  then show ?case by simp
next
  case (Cons c s)
  show ?case
  proof (cases "strrchr_after ch s")
    case None
    then have "ch \<notin> set s" by (simp only: strrchr_after_None) simp
    with None show ?thesis by (auto simp: Cons_eq_append_conv)
  next
    case (Some t')
    then have "ch \<in> set s" using strrchr_after_None [of ch s] by auto
    with Some Cons show ?thesis by (auto simp: Cons_eq_append_conv)
  qed
qed

lemma path_basename_split:
  "CHR ''/'' \<notin> set (path_basename path) \<and>
   (path = path_basename path \<or> (\<exists>dir. path = dir @ ''/'' @ path_basename path))"
proof (cases "strrchr_after CHR ''/'' path")
  case None
  with strrchr_after_None [of "CHR ''/''" path] show ?thesis by (simp add: path_basename_def)
next
  case (Some b)
  with strrchr_after_Some [of "CHR ''/''" path b] show ?thesis by (auto simp: path_basename_def)
qed

lemma path_basename_append [simp]:
  "CHR ''/'' \<notin> set b \<Longrightarrow> path_basename (dir @ ''/'' @ b) = b"
proof -
  assume "CHR ''/'' \<notin> set b"
  then have "strrchr_after CHR ''/'' (dir @ ''/'' @ b) = Some b" by (auto simp: strrchr_after_Some)
  then show ?thesis by (simp add: path_basename_def)
qed

lemma extension_append_iff:
  "is_extension_append_rename old new \<longleftrightarrow> (\<exists>ext. path_basename new = path_basename old @ ''.'' @ ext)"
proof
  let ?o = "path_basename old" and ?n = "path_basename new"
  assume "is_extension_append_rename old new"
  then have l: "length ?o < length ?n" and p: "take (length ?o) ?o = take (length ?o) ?n"
    and d: "?n ! length ?o = CHR ''.''"
    by (auto simp: is_extension_append_rename_def Let_def strneq_def not_le split: if_splits)
  have "?n = take (length ?o) ?n @ ?n ! length ?o # drop (Suc (length ?o)) ?n"
    using l by (rule id_take_nth_drop)
  with p d show "\<exists>ext. ?n = ?o @ ''.'' @ ext" by auto
next
  assume "\<exists>ext. path_basename new = path_basename old @ ''.'' @ ext"
  then show "is_extension_append_rename old new"
    by (auto simp: is_extension_append_rename_def Let_def strneq_def nth_append)
qed

section \<open>Properties\<close>

text \<open>Path classification: a path is sensitive exactly when it lies under \<^verbatim>\<open>/boot/\<close>, has a
  \<^verbatim>\<open>/.ssh/\<close> component anywhere, or contains \<^verbatim>\<open>/etc/passwd\<close> or \<^verbatim>\<open>/etc/shadow\<close> as complete
  components (so \<^verbatim>\<open>/etc/passwd.bak\<close> is not, however many such near misses precede a real
  one); it is a pseudo file system path exactly when it has one of the three prefixes, and
  noise exactly when it has a cache component or a database side-file suffix.\<close>

theorem path_classification:
  "(path_is_sensitive path \<longleftrightarrow>
      prefix ''/boot/'' path \<or> sublist ''/.ssh/'' path \<or>
      (\<exists>f \<in> {''/etc/passwd'', ''/etc/shadow''}. \<exists>u r. path = u @ f @ r \<and> (r = [] \<or> hd r = CHR ''/''))) \<and>
   (path_is_pseudo_fs path \<longleftrightarrow>
      prefix ''/sys/'' path \<or> prefix ''/proc/'' path \<or> prefix ''/dev/'' path) \<and>
   (path_is_rapid_write_noise path \<longleftrightarrow>
      sublist ''/.cache/'' path \<or> suffix ''-journal'' path \<or> suffix ''-wal'' path \<or> suffix ''-shm'' path)"
proof (intro conjI)
  have ssh: "path_has_bounded_substring path ''/.ssh/'' \<longleftrightarrow> sublist ''/.ssh/'' path"
    by (auto simp: bounded_substring_iff bounded_at_def sublist_def)
  have etc: "path_has_bounded_substring path f \<longleftrightarrow> (\<exists>u r. path = u @ f @ r \<and> (r = [] \<or> hd r = CHR ''/''))"
    if "f \<noteq> []" and "last f \<noteq> CHR ''/''" for f
    using that by (auto simp: bounded_substring_iff bounded_at_def)
  show "path_is_sensitive path \<longleftrightarrow>
      prefix ''/boot/'' path \<or> sublist ''/.ssh/'' path \<or>
      (\<exists>f \<in> {''/etc/passwd'', ''/etc/shadow''}. \<exists>u r. path = u @ f @ r \<and> (r = [] \<or> hd r = CHR ''/''))"
    unfolding path_is_sensitive_def sensitive_path_prefixes_def sensitive_path_substrings_def
      strneq_iff_prefix list_ex_Cons_iff list_ex_Nil_iff ssh
    using etc [of "''/etc/passwd''"] etc [of "''/etc/shadow''"] by auto
  show "path_is_pseudo_fs path \<longleftrightarrow> prefix ''/sys/'' path \<or> prefix ''/proc/'' path \<or> prefix ''/dev/'' path"
    unfolding path_is_pseudo_fs_def excluded_path_prefixes_def strneq_iff_prefix list_ex_Cons_iff list_ex_Nil_iff by simp
  show "path_is_rapid_write_noise path \<longleftrightarrow>
      sublist ''/.cache/'' path \<or> suffix ''-journal'' path \<or> suffix ''-wal'' path \<or> suffix ''-shm'' path"
    unfolding path_is_rapid_write_noise_def excluded_path_cache_substrings_def
      excluded_path_suffixes_def strstr_sublist suffix_drop list_ex_Cons_iff list_ex_Nil_iff by simp
qed

text \<open>The rename heuristic fires on exactly the extension-append shape: the last component
  of the new path is the last component of the old one followed by a dot and any text. So a
  move that keeps the name, a rename to an unrelated name and the removal of an extension
  never count.\<close>

theorem extension_append_shape:
  "is_extension_append_rename old new \<longleftrightarrow>
     (\<exists>ext. path_basename new = path_basename old @ ''.'' @ ext) \<and>
     path_basename old \<noteq> path_basename new \<and>
     CHR ''/'' \<notin> set (path_basename old) \<and>
     (old = path_basename old \<or> (\<exists>dir. old = dir @ ''/'' @ path_basename old))"
  unfolding extension_append_iff using path_basename_split [of old] by (metis append_Cons append_self_conv list.distinct(1))

end
