(* ===== verification/SlidingWindow.thy ===== *)
theory SlidingWindow
  imports AvPrelude "HOL-Library.Multiset"
begin

text \<open>
  The deduplicating sliding window behind both volume heuristics (\<^verbatim>\<open>sliding_window_note()\<close> in
  \<^verbatim>\<open>av/behavior.c\<close>): a ring of path hashes with their time stamps. The lemmas relate the
  ring to the unbounded history of the notes it was given.

  The cursor and the fill level stay at most \<open>cap\<close> (at most 50), so they are natural numbers;
  the time difference is the wrapping 64-bit subtraction of the source, and the millisecond
  comparison is at 32 bits.
\<close>

section \<open>The ring\<close>

record ring =
  rg_hashes :: "u32 list"
  rg_jiffies :: "u64 list"
  rg_next :: nat
  rg_filled :: nat

definition ring_zero :: "nat \<Rightarrow> ring" where
  "ring_zero cap = \<lparr>rg_hashes = replicate cap 0, rg_jiffies = replicate cap 0, rg_next = 0, rg_filled = 0\<rparr>"

definition ring_reset :: "ring \<Rightarrow> ring" where
  "ring_reset r = r\<lparr>rg_next := 0, rg_filled := 0\<rparr>"

definition win_live :: "kapi \<Rightarrow> u64 \<Rightarrow> u32 \<Rightarrow> u64 \<Rightarrow> bool" where
  "win_live K now window_ms j \<longleftrightarrow> jiffies_to_msecs K (now - j) \<le> window_ms"

text \<open>The scan of the first \<open>filled\<close> slots: how many are in the window, and whether \<open>hash\<close> is
  among those.\<close>

fun win_scan :: "kapi \<Rightarrow> u32 \<Rightarrow> u64 \<Rightarrow> u32 \<Rightarrow> (u32 \<times> u64) list \<Rightarrow> nat \<times> bool \<Rightarrow> nat \<times> bool" where
  "win_scan K hash now window_ms [] acc = acc"
| "win_scan K hash now window_ms ((h, j) # slots) (in_window, seen) =
     win_scan K hash now window_ms slots
       (if win_live K now window_ms j then (in_window + 1, seen \<or> h = hash) else (in_window, seen))"

definition sliding_window_note ::
  "kapi \<Rightarrow> u32 \<Rightarrow> u64 \<Rightarrow> u32 \<Rightarrow> nat \<Rightarrow> ring \<Rightarrow> nat \<times> ring" where
  "sliding_window_note K hash now window_ms cap r =
     (let (in_window, seen) =
        win_scan K hash now window_ms
          (zip (take (rg_filled r) (rg_hashes r)) (take (rg_filled r) (rg_jiffies r))) (0, False)
      in if seen then (0, r)
         else (in_window + 1,
               r\<lparr>rg_hashes := (rg_hashes r)[rg_next r := hash],
                 rg_jiffies := (rg_jiffies r)[rg_next r := now],
                 rg_next := (rg_next r + 1) mod cap,
                 rg_filled := (if rg_filled r < cap then rg_filled r + 1 else rg_filled r)\<rparr>))"

section \<open>Invariant and history\<close>

definition ring_inv :: "nat \<Rightarrow> ring \<Rightarrow> bool" where
  "ring_inv cap r \<longleftrightarrow> 0 < cap \<and> length (rg_hashes r) = cap \<and> length (rg_jiffies r) = cap \<and>
     rg_next r < cap \<and> rg_filled r \<le> cap \<and> (rg_filled r < cap \<longrightarrow> rg_next r = rg_filled r)"

definition ring_slots :: "ring \<Rightarrow> (u32 \<times> u64) list" where
  "ring_slots r = zip (rg_hashes r) (rg_jiffies r)"

text \<open>The notes the ring still holds, newest first.\<close>

definition ring_hist :: "nat \<Rightarrow> ring \<Rightarrow> (u32 \<times> u64) list" where
  "ring_hist cap r =
     (if rg_filled r < cap then rev (take (rg_filled r) (ring_slots r))
      else rev (take (rg_next r) (ring_slots r)) @ rev (drop (rg_next r) (ring_slots r)))"

text \<open>The specification on the whole history: a hash noted inside the window is a repeat.\<close>

definition live_notes :: "kapi \<Rightarrow> u64 \<Rightarrow> u32 \<Rightarrow> (u32 \<times> u64) list \<Rightarrow> (u32 \<times> u64) list" where
  "live_notes K now window_ms hist = filter (\<lambda>(h, j). win_live K now window_ms j) hist"

definition note_spec ::
  "kapi \<Rightarrow> u32 \<Rightarrow> u64 \<Rightarrow> u32 \<Rightarrow> (u32 \<times> u64) list \<Rightarrow> nat \<times> (u32 \<times> u64) list" where
  "note_spec K hash now window_ms hist =
     (if hash \<in> fst ` set (live_notes K now window_ms hist) then (0, hist)
      else (length (live_notes K now window_ms hist) + 1, (hash, now) # hist))"

section \<open>Lemmas\<close>

lemma ring_inv_zero: "0 < cap \<Longrightarrow> ring_inv cap (ring_zero cap)"
  by (simp add: ring_inv_def ring_zero_def)

lemma ring_hist_zero: "0 < cap \<Longrightarrow> ring_hist cap (ring_zero cap) = []"
  by (simp add: ring_hist_def ring_zero_def)

lemma ring_inv_reset: "ring_inv cap r \<Longrightarrow> ring_inv cap (ring_reset r)"
  by (simp add: ring_inv_def ring_reset_def)

lemma ring_hist_reset: "ring_inv cap r \<Longrightarrow> ring_hist cap (ring_reset r) = []"
  by (simp add: ring_inv_def ring_reset_def ring_hist_def)

lemma win_scan_eq:
  "win_scan K hash now window_ms slots (n, seen) =
     (n + length (live_notes K now window_ms slots),
      seen \<or> hash \<in> fst ` set (live_notes K now window_ms slots))"
  by (induction slots arbitrary: n seen) (auto simp: live_notes_def)

lemma length_ring_slots: "ring_inv cap r \<Longrightarrow> length (ring_slots r) = cap"
  by (simp add: ring_inv_def ring_slots_def)

lemma mset_ring_hist:
  assumes "ring_inv cap r"
  shows "mset (ring_hist cap r) = mset (take (rg_filled r) (ring_slots r))"
proof (cases "rg_filled r < cap")
  case True
  then show ?thesis by (simp add: ring_hist_def)
next
  case False
  then have "rg_filled r = length (ring_slots r)"
    using assms length_ring_slots [OF assms] by (simp add: ring_inv_def)
  moreover have "mset (take n xs) + mset (drop n xs) = mset xs" for n and xs :: "(u32 \<times> u64) list"
    by (simp flip: mset_append)
  ultimately show ?thesis using False by (simp add: ring_hist_def)
qed

lemma length_ring_hist: "ring_inv cap r \<Longrightarrow> length (ring_hist cap r) = rg_filled r"
  using mset_ring_hist [of cap r] length_ring_slots [of cap r]
  by (metis length_take min_absorb2 ring_inv_def size_mset)

definition ring_push :: "nat \<Rightarrow> u32 \<Rightarrow> u64 \<Rightarrow> ring \<Rightarrow> ring" where
  "ring_push cap hash now r =
     r\<lparr>rg_hashes := (rg_hashes r)[rg_next r := hash],
       rg_jiffies := (rg_jiffies r)[rg_next r := now],
       rg_next := (rg_next r + 1) mod cap,
       rg_filled := (if rg_filled r < cap then rg_filled r + 1 else rg_filled r)\<rparr>"

lemma sliding_window_note_eq:
  assumes "ring_inv cap r"
  shows "sliding_window_note K hash now window_ms cap r =
    (if hash \<in> fst ` set (live_notes K now window_ms (ring_hist cap r)) then (0, r)
     else (length (live_notes K now window_ms (ring_hist cap r)) + 1, ring_push cap hash now r))"
proof -
  let ?s = "take (rg_filled r) (ring_slots r)"
  note m = mset_ring_hist [OF assms]
  have "mset (live_notes K now window_ms (ring_hist cap r)) = mset (live_notes K now window_ms ?s)"
    unfolding live_notes_def mset_filter m ..
  then have "length (live_notes K now window_ms (ring_hist cap r)) = length (live_notes K now window_ms ?s)"
    and "set (live_notes K now window_ms (ring_hist cap r)) = set (live_notes K now window_ms ?s)"
    by (metis size_mset, metis set_mset_mset)
  then show ?thesis
    by (simp add: sliding_window_note_def take_zip [symmetric] ring_slots_def [symmetric] win_scan_eq
        ring_push_def Let_def)
qed

lemma ring_inv_push: "ring_inv cap r \<Longrightarrow> ring_inv cap (ring_push cap hash now r)"
  by (cases "rg_filled r + 1 = cap") (auto simp: ring_inv_def ring_push_def)

lemma ring_slots_push: "ring_slots (ring_push cap hash now r) = (ring_slots r)[rg_next r := (hash, now)]"
  by (simp add: ring_slots_def ring_push_def update_zip)

lemma take_push: "Suc (length xs) = n \<Longrightarrow> take n (x # xs @ [z]) = x # xs"
  by auto

lemma ring_hist_push:
  assumes "ring_inv cap r"
  shows "ring_hist cap (ring_push cap hash now r) = take cap ((hash, now) # ring_hist cap r)"
proof -
  let ?n = "rg_next r" and ?s = "ring_slots r" and ?x = "(hash, now)"
  have n: "?n < cap" and len: "length ?s = cap"
    using assms length_ring_slots [OF assms] by (simp_all add: ring_inv_def)
  have split: "?s[?n := ?x] = take ?n ?s @ ?x # drop (Suc ?n) ?s"
    using n len by (simp add: upd_conv_take_nth_drop)
  have dropn: "drop ?n ?s = ?s ! ?n # drop (Suc ?n) ?s" using n len by (simp add: Cons_nth_drop_Suc)
  show ?thesis
  proof (cases "rg_filled r < cap")
    case True
    then have f: "?n = rg_filled r" using assms by (simp add: ring_inv_def)
    have "take (Suc ?n) (?s[?n := ?x]) = take ?n ?s @ [?x]" using n len by (simp add: split)
    then show ?thesis
    proof (cases "Suc ?n < cap")
      case True
      then show ?thesis using f n len \<open>take (Suc ?n) (?s[?n := ?x]) = take ?n ?s @ [?x]\<close>
        by (auto simp: ring_hist_def ring_slots_push) (auto simp: ring_push_def)
    next
      case False
      then have "Suc ?n = cap" using n by simp
      then show ?thesis using f n len \<open>take (Suc ?n) (?s[?n := ?x]) = take ?n ?s @ [?x]\<close>
        by (auto simp: ring_hist_def ring_slots_push) (auto simp: ring_push_def)
    qed
  next
    case False
    then have "rg_filled (ring_push cap hash now r) = rg_filled r" "rg_filled r = cap"
      using assms by (auto simp: ring_push_def ring_inv_def)
    moreover have "rg_next (ring_push cap hash now r) = Suc ?n mod cap" by (simp add: ring_push_def)
    moreover have "take cap (?x # rev (take ?n ?s) @ rev (drop ?n ?s)) =
        ?x # rev (take ?n ?s) @ rev (drop (Suc ?n) ?s)"
      using take_push [of "rev (take ?n ?s) @ rev (drop (Suc ?n) ?s)" cap ?x "?s ! ?n"] n len
      by (simp add: dropn)
    ultimately show ?thesis using n len
      by (cases "Suc ?n = cap") (auto simp: ring_hist_def ring_slots_push split)
  qed
qed

section \<open>The clock\<close>

text \<open>
  What the window needs of the clock: the conversion to milliseconds maps zero to zero and is
  monotone up to \<open>B\<close> jiffies, the notes come in order of time, and any two are at most \<open>B\<close>
  jiffies apart.
\<close>

definition msec_ok :: "kapi \<Rightarrow> u64 \<Rightarrow> bool" where
  "msec_ok K B \<longleftrightarrow> jiffies_to_msecs K 0 = 0 \<and>
     (\<forall>a b. a \<le> b \<longrightarrow> b \<le> B \<longrightarrow> jiffies_to_msecs K a \<le> jiffies_to_msecs K b)"

definition clocked :: "u64 \<Rightarrow> (u32 \<times> u64) list \<Rightarrow> bool" where
  "clocked B xs \<longleftrightarrow> sorted (map snd xs) \<and>
     (\<forall>x \<in> set xs. \<forall>y \<in> set xs. snd x \<le> snd y \<longrightarrow> snd y - snd x \<le> B)"

lemma clocked_drop_middle: "clocked B (xs @ e # ys) \<Longrightarrow> clocked B (xs @ ys)"
  by (auto simp: clocked_def sorted_append)

lemma diff_antimono:
  fixes a b c :: u64
  assumes "a \<le> b" and "b \<le> c"
  shows "c - b \<le> c - a"
  using assms by (simp add: word_le_nat_alt unat_sub order_trans [OF assms])

lemma win_live_mono:
  assumes "msec_ok K B" and "a \<le> b" and "b \<le> now" and "now - a \<le> B" and "win_live K now w a"
  shows "win_live K now w b"
  using assms diff_antimono [OF assms(2,3)] by (auto simp: msec_ok_def win_live_def intro: order_trans)

lemma win_live_earlier:
  assumes "msec_ok K B" and "j \<le> now" and "now \<le> now'" and "now' - j \<le> B" and "win_live K now' w j"
  shows "win_live K now w j"
proof -
  have "now - j \<le> now' - j"
    using assms(2,3) by (simp add: word_le_nat_alt unat_sub order_trans [OF assms(2,3)])
  with assms show ?thesis by (auto simp: msec_ok_def win_live_def intro: order_trans)
qed

lemma win_live_now: "msec_ok K B \<Longrightarrow> win_live K now w now"
  by (simp add: msec_ok_def win_live_def)

text \<open>Going back in time, the live notes are a prefix of the history.\<close>

lemma filter_takeWhile_mono:
  "sorted_wrt (\<lambda>x y. P y \<longrightarrow> P x) xs \<Longrightarrow> filter P xs = takeWhile P xs"
  by (induction xs) (auto simp: filter_empty_conv)

lemma live_sorted:
  assumes "msec_ok K B" and "clocked B (rev hist @ (h, now) # evs)"
  shows "sorted_wrt (\<lambda>x y. (case y of (h, j) \<Rightarrow> win_live K now w j) \<longrightarrow>
      (case x of (h, j) \<Rightarrow> win_live K now w j)) hist"
proof -
  have s: "sorted (map snd (rev hist))" and le: "\<forall>x \<in> set hist. snd x \<le> now \<and> now - snd x \<le> B"
    using assms(2) by (auto simp: clocked_def sorted_append)
  have "sorted_wrt (\<lambda>x y. snd y \<le> snd x) hist"
    using s by (simp add: sorted_wrt_map sorted_wrt_rev flip: rev_map)
  then show ?thesis
    by (rule sorted_wrt_mono_rel [rotated])
      (use le win_live_mono [OF assms(1)] in \<open>fastforce split: prod.split\<close>)
qed

lemma live_notes_prefix:
  assumes "msec_ok K B" and "clocked B (rev hist @ (h, now) # evs)"
  shows "live_notes K now w hist = takeWhile (\<lambda>(h, j). win_live K now w j) hist"
  unfolding live_notes_def by (rule filter_takeWhile_mono [OF live_sorted [OF assms]])

lemma filter_take_prefix:
  "filter P xs = takeWhile P xs \<Longrightarrow> length (filter P xs) \<le> n \<Longrightarrow> filter P (take n xs) = filter P xs"
proof (induction xs arbitrary: n)
  case (Cons x xs)
  show ?case
  proof (cases "P x")
    case True
    with Cons.prems obtain m where "n = Suc m" by (cases n) auto
    with True Cons show ?thesis by simp
  next
    case False
    with Cons.prems(1) have "\<forall>y \<in> set (x # xs). \<not> P y" by (simp add: filter_empty_conv)
    then have "filter P (take n (x # xs)) = []" 
      unfolding filter_empty_conv using in_set_takeD [of _ n "x # xs"] by blast
    with False Cons.prems(1) show ?thesis by simp
  qed
qed simp

lemma live_notes_take:
  assumes "msec_ok K B" and "clocked B (rev hist @ (h, now) # evs)"
    and "length (live_notes K now w hist) \<le> cap"
  shows "live_notes K now w (take cap hist) = live_notes K now w hist"
  using filter_take_prefix live_notes_prefix [OF assms(1,2), of w] assms(3) unfolding live_notes_def by blast

lemma live_notes_earlier:
  assumes "msec_ok K B" and "\<forall>x \<in> set hist. snd x \<le> now \<and> now' - snd x \<le> B" and "now \<le> now'"
  shows "length (live_notes K now' w hist) \<le> length (live_notes K now w hist)"
  using assms(2)
proof (induction hist)
  case (Cons x hist)
  then show ?case using win_live_earlier [OF assms(1), of "snd x" now now' w] assms(3)
    by (auto simp: live_notes_def split: prod.splits)
qed (simp add: live_notes_def)

section \<open>Runs\<close>

fun note_run :: "kapi \<Rightarrow> u32 \<Rightarrow> nat \<Rightarrow> (u32 \<times> u64) list \<Rightarrow> ring \<Rightarrow> nat list" where
  "note_run K w cap [] r = []"
| "note_run K w cap ((hash, now) # evs) r =
     (case sliding_window_note K hash now w cap r of (n, r') \<Rightarrow> n # note_run K w cap evs r')"

fun spec_run :: "kapi \<Rightarrow> u32 \<Rightarrow> (u32 \<times> u64) list \<Rightarrow> (u32 \<times> u64) list \<Rightarrow> nat list" where
  "spec_run K w [] hist = []"
| "spec_run K w ((hash, now) # evs) hist =
     (case note_spec K hash now w hist of (n, hist') \<Rightarrow> n # spec_run K w evs hist')"

text \<open>The list up to and including the first element that satisfies \<open>P\<close>.\<close>

fun upto_first :: "('a \<Rightarrow> bool) \<Rightarrow> 'a list \<Rightarrow> 'a list" where
  "upto_first P [] = []"
| "upto_first P (x # xs) = (if P x then [x] else x # upto_first P xs)"

lemma clocked_hist_now:
  "clocked B (rev hist @ (h, now) # evs) \<Longrightarrow> \<forall>x \<in> set hist. snd x \<le> now \<and> now - snd x \<le> B"
  by (auto simp: clocked_def sorted_append)

lemma note_spec_live:
  assumes "msec_ok K B" and "note_spec K hash now w hist = (n, hist')"
    and "length (live_notes K now w hist) \<le> cap" and "n \<le> cap"
  shows "length (live_notes K now w hist') \<le> cap"
  using assms win_live_now [OF assms(1)]
  by (auto simp: note_spec_def live_notes_def split: if_splits)

lemma note_refines_spec:
  assumes "ring_inv cap r" and "ring_hist cap r = take cap hist"
    and "live_notes K now w (ring_hist cap r) = live_notes K now w hist"
    and "note_spec K h now w hist = (n, hist')"
  obtains r' where "sliding_window_note K h now w cap r = (n, r')"
    and "ring_inv cap r'" and "ring_hist cap r' = take cap hist'"
proof (cases "h \<in> fst ` set (live_notes K now w hist)")
  case True
  with assms that [of r] show thesis by (simp add: sliding_window_note_eq note_spec_def)
next
  case False
  have "take cap ((h, now) # take cap hist) = take cap ((h, now) # hist)"
    by (cases cap) (simp_all add: min_def)
  with assms False that [of "ring_push cap h now r"] show thesis
    by (simp add: sliding_window_note_eq [OF assms(1)] note_spec_def ring_inv_push ring_hist_push)
qed

lemma note_run_exact:
  assumes K: "msec_ok K B"
  shows "\<lbrakk>ring_inv cap r; ring_hist cap r = take cap hist; clocked B (rev hist @ evs);
     \<forall>(h, now) \<in> set (take 1 evs). length (live_notes K now w hist) \<le> cap\<rbrakk> \<Longrightarrow>
   upto_first (\<lambda>n. cap < n) (note_run K w cap evs r) = upto_first (\<lambda>n. cap < n) (spec_run K w evs hist)"
proof (induction evs arbitrary: r hist)
  case (Cons e evs)
  obtain h now where e: "e = (h, now)" by (cases e)
  have clk: "clocked B (rev hist @ (h, now) # evs)" and few: "length (live_notes K now w hist) \<le> cap"
    using Cons.prems(3,4) e by auto
  have live: "live_notes K now w (ring_hist cap r) = live_notes K now w hist"
    unfolding Cons.prems(2) by (rule live_notes_take [OF K clk few])
  obtain n hist' where spec: "note_spec K h now w hist = (n, hist')" by force
  obtain r' where nt: "sliding_window_note K h now w cap r = (n, r')"
    and inv': "ring_inv cap r'" and hist': "ring_hist cap r' = take cap hist'"
    by (rule note_refines_spec [OF Cons.prems(1,2) live spec])
  have clk': "clocked B (rev hist' @ evs)"
    using spec clk clocked_drop_middle [of B "rev hist" "(h, now)" evs]
    by (auto simp: note_spec_def split: if_splits)
  show ?case
  proof (cases "cap < n")
    case True
    then show ?thesis by (simp add: e nt spec)
  next
    case False
    have "\<forall>(h', now') \<in> set (take 1 evs). length (live_notes K now' w hist') \<le> cap"
    proof (clarify)
      fix h' now'
      assume "(h', now') \<in> set (take 1 evs)"
      then obtain evs' where evs: "evs = (h', now') # evs'" by (cases evs) auto
      have le: "now \<le> now'" using clk evs by (auto simp: clocked_def sorted_append)
      have "\<forall>x \<in> set hist'. snd x \<le> now"
        using clocked_hist_now [OF clk] spec by (auto simp: note_spec_def split: if_splits)
      moreover have "\<forall>x \<in> set hist'. now' - snd x \<le> B"
        using clocked_hist_now [of B hist' h' now' evs'] clk' evs by simp
      ultimately have "length (live_notes K now' w hist') \<le> length (live_notes K now w hist')"
        by (intro live_notes_earlier [OF K _ le]) blast
      also have "\<dots> \<le> cap" using note_spec_live [OF K spec few] False by simp
      finally show "length (live_notes K now' w hist') \<le> cap" .
    qed
    from Cons.IH [OF inv' hist' clk' this] show ?thesis by (simp add: e nt spec)
  qed
qed simp

lemma last_ring_hist:
  assumes "ring_inv cap r" and "rg_filled r = cap"
  shows "ring_hist cap r \<noteq> []" and "last (ring_hist cap r) = ring_slots r ! rg_next r"
proof -
  have "rg_next r < length (ring_slots r)" using assms length_ring_slots [OF assms(1)] by (simp add: ring_inv_def)
  then show "ring_hist cap r \<noteq> []" and "last (ring_hist cap r) = ring_slots r ! rg_next r"
    using assms by (auto simp: ring_hist_def last_append last_rev hd_drop_conv_nth)
qed

lemma sorted_wrt_last_all:
  "sorted_wrt (\<lambda>x y. P y \<longrightarrow> P x) xs \<Longrightarrow> xs \<noteq> [] \<Longrightarrow> P (last xs) \<Longrightarrow> \<forall>x \<in> set xs. P x"
proof (induction xs)
  case (Cons x xs)
  show ?case
  proof (cases "xs = []")
    case True
    with Cons.prems(3) show ?thesis by simp
  next
    case False
    with Cons.prems have "sorted_wrt (\<lambda>x y. P y \<longrightarrow> P x) xs" and "P (last xs)"
      and x: "\<forall>y \<in> set xs. P y \<longrightarrow> P x" by simp_all
    with Cons.IH False have all: "\<forall>y \<in> set xs. P y" by blast
    have "P x" using x \<open>P (last xs)\<close> last_in_set [OF False] by blast
    with all show ?thesis by simp
  qed
qed simp

lemma kapi0_msec: "jiffies_to_msecs kapi0 = ucast"
  by (simp add: kapi0_def)

lemma msec_ok_kapi0: "msec_ok kapi0 1000"
proof -
  have "ucast a \<le> (ucast b :: u32)" if "a \<le> b" and "b \<le> 1000" for a b :: u64
  proof -
    have "unat b \<le> 1000" and "unat a \<le> unat b" using that by (simp_all add: word_le_nat_alt)
    then show ?thesis by (simp add: word_le_nat_alt unsigned_ucast_eq take_bit_eq_mod)
  qed
  then show ?thesis by (simp add: msec_ok_def kapi0_msec)
qed

section \<open>Properties\<close>

text \<open>C4. The bounded ring raises its first alarm exactly when an unbounded window would: for
  notes in order of time, the counts returned by \<^verbatim>\<open>sliding_window_note()\<close> on a fresh ring of
  capacity \<open>cap\<close> equal, up to and including the first count above \<open>cap\<close>, those of the
  specification that remembers every note. Pacing a burst across window boundaries, repeating
  a path, or wrapping the ring cannot delay or advance that alarm.\<close>

theorem window_first_alarm_exact:
  assumes "0 < cap" and "msec_ok K B" and "clocked B evs"
  shows "upto_first (\<lambda>n. cap < n) (note_run K w cap evs (ring_zero cap)) =
    upto_first (\<lambda>n. cap < n) (spec_run K w evs [])"
  by (rule note_run_exact [OF assms(2) ring_inv_zero [OF assms(1)]])
    (use assms in \<open>auto simp: ring_hist_zero live_notes_def\<close>)

theorem window_first_alarm_exact_witness:
  "upto_first (\<lambda>n. 2 < n) (note_run kapi0 2000 2 [(1, 10), (1, 20), (2, 30), (3, 40)] (ring_zero 2)) = [1, 0, 2, 3]"
proof -
  have "clocked 1000 [(1, 10), (1, 20), (2, 30), (3, 40)]" by (simp add: clocked_def)
  moreover have "upto_first (\<lambda>n. 2 < n) (spec_run kapi0 2000 [(1, 10), (1, 20), (2, 30), (3, 40)] []) = [1, 0, 2, 3]"
    by (simp add: note_spec_def live_notes_def win_live_def kapi0_msec image_Collect set_eq_iff del: set_filter)
  ultimately show ?thesis
    using window_first_alarm_exact [OF _ msec_ok_kapi0, of 2 "[(1, 10), (1, 20), (2, 30), (3, 40)]" 2000]
    by simp
qed

text \<open>Bounds of one note: the ring stays well formed, the count never exceeds \<open>cap + 1\<close>, a
  repeat leaves the ring untouched; and overwriting a slot that is still inside the window can
  only happen when the call reports a repeat or the maximal count \<open>cap + 1\<close>, so no note that
  still matters is lost silently.\<close>

theorem window_note_bounds:
  assumes "ring_inv cap r" and "sliding_window_note K hash now w cap r = (n, r')"
  shows "ring_inv cap r' \<and> n \<le> cap + 1 \<and> (n = 0 \<longrightarrow> r' = r) \<and>
    (n \<noteq> 0 \<longrightarrow> ring_hist cap r' = take cap ((hash, now) # ring_hist cap r)) \<and>
    (msec_ok K B \<and> clocked B (rev (ring_hist cap r) @ [(hash, now)]) \<and> rg_filled r = cap \<and>
     win_live K now w (snd (ring_slots r ! rg_next r)) \<longrightarrow> n = 0 \<or> n = cap + 1)"
proof -
  have eq: "(n, r') = (if hash \<in> fst ` set (live_notes K now w (ring_hist cap r)) then (0, r)
     else (length (live_notes K now w (ring_hist cap r)) + 1, ring_push cap hash now r))"
    using assms(2) sliding_window_note_eq [OF assms(1)] by simp
  have "length (live_notes K now w (ring_hist cap r)) \<le> length (ring_hist cap r)"
    by (simp add: live_notes_def)
  also have "\<dots> \<le> cap" using length_ring_hist [OF assms(1)] assms(1) by (simp add: ring_inv_def)
  finally have le: "length (live_notes K now w (ring_hist cap r)) \<le> cap" .
  have full: "length (live_notes K now w (ring_hist cap r)) = cap"
    if "msec_ok K B" "clocked B (rev (ring_hist cap r) @ [(hash, now)])" "rg_filled r = cap"
      "win_live K now w (snd (ring_slots r ! rg_next r))"
  proof -
    have "live_notes K now w (ring_hist cap r) = ring_hist cap r"
      using sorted_wrt_last_all [OF live_sorted [OF that(1,2), of w]] last_ring_hist [OF assms(1) that(3)] that(4)
      by (auto simp: live_notes_def filter_id_conv split_beta)
    then show ?thesis using length_ring_hist [OF assms(1)] that(3) by simp
  qed
  show ?thesis
    using eq le full ring_inv_push [OF assms(1)] ring_hist_push [OF assms(1)] assms(1)
    by (auto split: if_splits)
qed

theorem window_note_bounds_witness:
  "ring_inv 2 (ring_zero 2) \<and> fst (sliding_window_note kapi0 7 5 2000 2 (ring_zero 2)) \<le> 3"
  using window_note_bounds [OF ring_inv_zero [of 2], of kapi0 7 5 2000 _ _ 1000]
    ring_inv_zero [of 2]
  by (cases "sliding_window_note kapi0 7 5 2000 2 (ring_zero 2)") simp

end
