(* ===== verification/BehaviorTable.thy ===== *)
theory BehaviorTable
  imports ProtectedList PathRules SlidingWindow
begin

text \<open>
  The behaviour engine (\<^verbatim>\<open>av/behavior.c\<close>): the per-process table with its LRU eviction and its
  garbage collection, the exec record, and the openat, unlink and rename checks that may kill.
  The state also holds the trust and protected tables the checks consult. Each operation takes
  the current \<^verbatim>\<open>jiffies\<close> and the outcome of its allocations as arguments and returns the
  events it logs; an \<open>EvKill\<close> event is a delivered \<^verbatim>\<open>SIGKILL\<close>.
\<close>

section \<open>Data\<close>

type_synonym pid_t = u32

definition BEHAVIOR_BITS :: nat where "BEHAVIOR_BITS = 10"
definition MAX_BEHAVIOR_ENTRIES :: u32 where "MAX_BEHAVIOR_ENTRIES = 8192"
definition WRITE_OPEN_WINDOW_MS :: u32 where "WRITE_OPEN_WINDOW_MS = 2000"
definition WRITE_OPEN_THRESHOLD :: nat where "WRITE_OPEN_THRESHOLD = 50"
definition MAX_TRACKED_PATHS :: nat where "MAX_TRACKED_PATHS = WRITE_OPEN_THRESHOLD"
definition RENAME_WINDOW_MS :: u32 where "RENAME_WINDOW_MS = 2000"
definition RENAME_THRESHOLD :: nat where "RENAME_THRESHOLD = 20"
definition MAX_TRACKED_RENAMES :: nat where "MAX_TRACKED_RENAMES = RENAME_THRESHOLD"

record av_behavior_entry =
  be_pid :: pid_t
  be_exec_path :: string
  be_paths :: ring
  be_renames :: ring
  be_trusted :: bool
  be_start_time :: u64
  be_last_touched :: u64

text \<open>\<open>bs_gc_kicked\<close> records that a full table has asked for an immediate collection.\<close>

record behavior_state =
  bs_table :: "av_behavior_entry buckets"
  bs_count :: u32
  bs_trust :: trust_table
  bs_protected :: protected_table
  bs_gc_kicked :: bool

datatype av_event =
    EvSuppressedInit string string
  | EvSuppressedProtected string string pid_t string
  | EvKill string string pid_t

text \<open>A kill target: its pid number, what the protection check sees of its task, whether the
  task still exists when the signal is sent, and the outcome of the two buffer allocations.\<close>

record kill_target =
  tg_nr :: pid_t
  tg_view :: "task_view option"
  tg_alive :: bool
  tg_logbuf :: bool
  tg_pathbuf :: bool

section \<open>The table\<close>

definition pid_key :: "pid_t \<Rightarrow> u32" where
  "pid_key pid = pid"

definition pid_index :: "kapi \<Rightarrow> pid_t \<Rightarrow> nat" where
  "pid_index K pid = bucket K BEHAVIOR_BITS (pid_key pid)"

definition pid_hit :: "pid_t \<Rightarrow> av_behavior_entry \<Rightarrow> bool" where
  "pid_hit pid e \<longleftrightarrow> be_pid e = pid"

text \<open>\<^verbatim>\<open>time_before(a, b)\<close>: the signed difference is negative.\<close>

definition time_before :: "u64 \<Rightarrow> u64 \<Rightarrow> bool" where
  "time_before a b \<longleftrightarrow> sint (a - b) < 0"

fun lru_scan :: "av_behavior_entry list \<Rightarrow> av_behavior_entry option \<Rightarrow> av_behavior_entry option" where
  "lru_scan [] oldest = oldest"
| "lru_scan (e # es) oldest =
     lru_scan es
       (case oldest of
          None \<Rightarrow> Some e
        | Some x \<Rightarrow> if time_before (be_last_touched e) (be_last_touched x) then Some e else Some x)"

definition evict_lru_entry :: "kapi \<Rightarrow> behavior_state \<Rightarrow> bool \<times> behavior_state" where
  "evict_lru_entry K st =
     (case lru_scan (hash_for_each (bs_table st)) None of
        None \<Rightarrow> (False, st)
      | Some oldest \<Rightarrow>
          let i = pid_index K (be_pid oldest)
          in (True, st\<lparr>bs_table := set_chain (bs_table st) i
                                     (remove_first (\<lambda>e. e = oldest) (hchain (bs_table st) i)),
                       bs_count := bs_count st - 1\<rparr>))"

definition new_entry :: "pid_t \<Rightarrow> u64 \<Rightarrow> av_behavior_entry" where
  "new_entry pid now =
     \<lparr>be_pid = pid, be_exec_path = [], be_paths = ring_zero MAX_TRACKED_PATHS,
      be_renames = ring_zero MAX_TRACKED_RENAMES, be_trusted = False, be_start_time = 0,
      be_last_touched = now\<rparr>"

text \<open>A write through the entry pointer the lookup returned.\<close>

definition modify_entry ::
  "kapi \<Rightarrow> pid_t \<Rightarrow> (av_behavior_entry \<Rightarrow> av_behavior_entry) \<Rightarrow> behavior_state \<Rightarrow> behavior_state" where
  "modify_entry K pid f st =
     st\<lparr>bs_table := set_chain (bs_table st) (pid_index K pid)
                      (update_first (pid_hit pid) f (hchain (bs_table st) (pid_index K pid)))\<rparr>"

definition get_or_create_entry ::
  "kapi \<Rightarrow> bool \<Rightarrow> u64 \<Rightarrow> pid_t \<Rightarrow> behavior_state \<Rightarrow> av_behavior_entry option \<times> behavior_state" where
  "get_or_create_entry K mem now pid st =
     (case find (pid_hit pid) (hchain (bs_table st) (pid_index K pid)) of
        Some e \<Rightarrow> (Some (e\<lparr>be_last_touched := now\<rparr>), modify_entry K pid (\<lambda>e. e\<lparr>be_last_touched := now\<rparr>) st)
      | None \<Rightarrow>
          let (room, st1) =
            (if MAX_BEHAVIOR_ENTRIES \<le> bs_count st
             then evict_lru_entry K (st\<lparr>bs_gc_kicked := True\<rparr>) else (True, st))
          in if \<not> room then (None, st1)
             else if \<not> mem then (None, st1)
             else (Some (new_entry pid now),
                   st1\<lparr>bs_table := hash_add (bs_table st1) (pid_index K pid) (new_entry pid now),
                       bs_count := bs_count st1 + 1\<rparr>))"

section \<open>Killing\<close>

definition kill_with_reason ::
  "kapi \<Rightarrow> protected_table \<Rightarrow> kill_target \<Rightarrow> string \<Rightarrow> string \<Rightarrow> av_event list" where
  "kill_with_reason K prot tg path reason =
     (if tg_nr tg = 1 then [EvSuppressedInit path reason]
      else
        (case av_behavior_target_is_protected K (tg_pathbuf tg) prot (tg_view tg) PATH_MAX of
           Some exe \<Rightarrow>
             [EvSuppressedProtected path reason (tg_nr tg) (if tg_logbuf tg then exe else ''?'')]
         | None \<Rightarrow> if tg_alive tg then [EvKill path reason (tg_nr tg)] else []))"

section \<open>Collection and the exec record\<close>

definition reset_recycled :: "u64 \<Rightarrow> av_behavior_entry \<Rightarrow> av_behavior_entry" where
  "reset_recycled cur_start e =
     (if be_start_time e \<noteq> 0 \<and> be_start_time e \<noteq> cur_start
      then e\<lparr>be_start_time := cur_start, be_exec_path := [], be_trusted := False,
             be_paths := ring_reset (be_paths e), be_renames := ring_reset (be_renames e)\<rparr>
      else e)"

text \<open>\<open>live pid\<close> is the start time of the thread group that has that pid now, if any.\<close>

definition gc_chain ::
  "(pid_t \<Rightarrow> u64 option) \<Rightarrow> av_behavior_entry list \<Rightarrow> av_behavior_entry list" where
  "gc_chain live es =
     map (\<lambda>e. reset_recycled (the (live (be_pid e))) e) (filter (\<lambda>e. live (be_pid e) \<noteq> None) es)"

definition behavior_gc_fn :: "(pid_t \<Rightarrow> u64 option) \<Rightarrow> behavior_state \<Rightarrow> behavior_state" where
  "behavior_gc_fn live st =
     (let removed = length (filter (\<lambda>e. live (be_pid e) = None) (hash_for_each (bs_table st)))
      in st\<lparr>bs_table := map (gc_chain live) (bs_table st),
            bs_count := bs_count st - of_nat removed,
            bs_gc_kicked := False\<rparr>)"

definition exec_update :: "string \<Rightarrow> bool \<Rightarrow> u64 \<Rightarrow> av_behavior_entry \<Rightarrow> av_behavior_entry" where
  "exec_update path trusted start_time e =
     (let e1 = e\<lparr>be_exec_path := strscpy PATH_MAX path, be_trusted := trusted\<rparr>
      in if be_start_time e \<noteq> start_time
         then e1\<lparr>be_start_time := start_time,
                 be_paths := ring_reset (be_paths e), be_renames := ring_reset (be_renames e)\<rparr>
         else e1)"

definition av_behavior_record_exec ::
  "kapi \<Rightarrow> bool \<Rightarrow> u64 \<Rightarrow> pid_t \<Rightarrow> string \<Rightarrow> string \<Rightarrow> u64 \<Rightarrow> behavior_state \<Rightarrow> behavior_state" where
  "av_behavior_record_exec K mem now pid path sha256_hex start_time st =
     (let trusted = (hash_is_trusted K (bs_trust st) sha256_hex 0 \<noteq> None)
      in case get_or_create_entry K mem now pid st of
           (None, st1) \<Rightarrow> st1
         | (Some e, st1) \<Rightarrow> modify_entry K pid (exec_update path trusted start_time) st1)"

section \<open>The checks\<close>

definition write_flags :: u32 where
  "write_flags = 1 OR 2 OR 0x40 OR 0x200"

definition av_behavior_check_openat ::
  "kapi \<Rightarrow> bool \<Rightarrow> u64 \<Rightarrow> pid_t \<Rightarrow> string \<Rightarrow> u32 \<Rightarrow> kill_target \<Rightarrow> behavior_state \<Rightarrow>
   av_event list \<times> behavior_state" where
  "av_behavior_check_openat K mem now pid path flags tg st =
     (if flags AND write_flags = 0 then ([], st)
      else if path_is_pseudo_fs path then ([], st)
      else
        let sensitive = path_is_sensitive path;
            (rapid, st') =
              (case get_or_create_entry K mem now pid st of
                 (None, st1) \<Rightarrow> (False, st1)
               | (Some e, st1) \<Rightarrow>
                   if be_trusted e \<or> path_is_rapid_write_noise path then (False, st1)
                   else
                     let (in_window, r') =
                       sliding_window_note K (full_name_hash K path) now WRITE_OPEN_WINDOW_MS
                         MAX_TRACKED_PATHS (be_paths e)
                     in (WRITE_OPEN_THRESHOLD < in_window, modify_entry K pid (\<lambda>e. e\<lparr>be_paths := r'\<rparr>) st1))
        in (if sensitive then
              kill_with_reason K (bs_protected st') tg path ''write-intent open of sensitive path''
            else if rapid then
              kill_with_reason K (bs_protected st') tg path
                ''rapid file modification (possible ransomware pattern)''
            else [], st'))"

definition av_behavior_check_unlink ::
  "kapi \<Rightarrow> bool \<Rightarrow> u64 \<Rightarrow> pid_t \<Rightarrow> string \<Rightarrow> kill_target \<Rightarrow> behavior_state \<Rightarrow>
   av_event list \<times> behavior_state" where
  "av_behavior_check_unlink K mem now pid path tg st =
     (if path_is_pseudo_fs path then ([], st)
      else
        let (e, st') = get_or_create_entry K mem now pid st;
            self_delete =
              (case e of
                 None \<Rightarrow> False
               | Some e \<Rightarrow> take 1 (be_exec_path e) = ''/'' \<and> take 1 path = ''/'' \<and> be_exec_path e = path);
            sensitive = path_is_sensitive path
        in (if self_delete then
              kill_with_reason K (bs_protected st') tg path ''self-deleting binary (possible dropper/backdoor)''
            else if sensitive then
              kill_with_reason K (bs_protected st') tg path ''deletion of sensitive path''
            else [], st'))"

definition av_behavior_check_rename ::
  "kapi \<Rightarrow> bool \<Rightarrow> u64 \<Rightarrow> pid_t \<Rightarrow> string \<Rightarrow> string \<Rightarrow> kill_target \<Rightarrow> behavior_state \<Rightarrow>
   av_event list \<times> behavior_state" where
  "av_behavior_check_rename K mem now pid oldpath newpath tg st =
     (let sensitive = (path_is_sensitive oldpath \<or> path_is_sensitive newpath);
          (rapid, st') =
            (if is_extension_append_rename oldpath newpath then
               case get_or_create_entry K mem now pid st of
                 (None, st1) \<Rightarrow> (False, st1)
               | (Some e, st1) \<Rightarrow>
                   if be_trusted e \<or> path_is_pseudo_fs oldpath \<or> path_is_pseudo_fs newpath \<or>
                      path_is_rapid_write_noise oldpath \<or> path_is_rapid_write_noise newpath
                   then (False, st1)
                   else
                     let (in_window, r') =
                       sliding_window_note K (full_name_hash K oldpath) now RENAME_WINDOW_MS
                         MAX_TRACKED_RENAMES (be_renames e)
                     in (RENAME_THRESHOLD < in_window, modify_entry K pid (\<lambda>e. e\<lparr>be_renames := r'\<rparr>) st1)
             else (False, st))
      in (if sensitive then
            kill_with_reason K (bs_protected st') tg newpath ''rename involving sensitive path''
          else if rapid then
            kill_with_reason K (bs_protected st') tg newpath
              ''rapid extension-append renames (possible ransomware encryption pass)''
          else [], st'))"

section \<open>Start and stop\<close>

text \<open>The proc files and the work queue the engine holds while loaded. \<open>av_behavior_init\<close> takes
  the outcome of the two registrations and of the queue allocation.\<close>

record behavior_resources =
  br_trust_proc :: bool
  br_protect_proc :: bool
  br_gc_wq :: bool

definition behavior_empty :: behavior_state where
  "behavior_empty =
     \<lparr>bs_table = hash_init BEHAVIOR_BITS, bs_count = 0, bs_trust = hash_init TRUST_BITS,
      bs_protected = hash_init TRUST_BITS, bs_gc_kicked = False\<rparr>"

definition av_behavior_init ::
  "bool \<Rightarrow> bool \<Rightarrow> bool \<Rightarrow> behavior_resources \<Rightarrow> ret \<times> behavior_resources \<times> behavior_state" where
  "av_behavior_init trust_ok protect_ok wq_ok res =
     (if \<not> trust_ok then (Inl ENOMEM, res, behavior_empty)
      else
        let res1 = res\<lparr>br_trust_proc := True\<rparr>
        in if \<not> protect_ok then (Inl ENOMEM, res1\<lparr>br_trust_proc := False\<rparr>, behavior_empty)
           else
             let res2 = res1\<lparr>br_protect_proc := True\<rparr>
             in if \<not> wq_ok
                then (Inl ENOMEM, res2\<lparr>br_protect_proc := False, br_trust_proc := False\<rparr>, behavior_empty)
                else (OK, res2\<lparr>br_gc_wq := True\<rparr>, behavior_empty))"

definition av_behavior_exit ::
  "behavior_resources \<Rightarrow> behavior_state \<Rightarrow> behavior_resources \<times> behavior_state" where
  "av_behavior_exit res st =
     (res\<lparr>br_gc_wq := False, br_protect_proc := False, br_trust_proc := False\<rparr>,
      st\<lparr>bs_table := map (\<lambda>_. []) (bs_table st),
         bs_protected := protected_table_destroy (bs_protected st),
         bs_trust := trust_table_destroy (bs_trust st)\<rparr>)"

section \<open>Invariant and abstract view\<close>

definition entry_wf :: "av_behavior_entry \<Rightarrow> bool" where
  "entry_wf e \<longleftrightarrow> ring_inv 50 (be_paths e) \<and> ring_inv 20 (be_renames e) \<and> length (be_exec_path e) < 4096"

abbreviation beh_table_inv :: "kapi \<Rightarrow> av_behavior_entry buckets \<Rightarrow> bool" where
  "beh_table_inv K \<equiv> store_inv (2 ^ BEHAVIOR_BITS) (pid_index K) be_pid entry_wf"

definition beh_inv :: "kapi \<Rightarrow> behavior_state \<Rightarrow> bool" where
  "beh_inv K st \<longleftrightarrow> beh_table_inv K (bs_table st) \<and>
     unat (bs_count st) = length (hash_for_each (bs_table st)) \<and> unat (bs_count st) \<le> 8192 \<and>
     trust_inv K (bs_trust st) \<and> protected_inv K (bs_protected st)"

definition beh_abs :: "behavior_state \<Rightarrow> pid_t \<rightharpoonup> av_behavior_entry" where
  "beh_abs st = node_map be_pid id (hash_for_each (bs_table st))"

interpretation beh: keyed_store "2 ^ BEHAVIOR_BITS" "pid_index K" be_pid entry_wf "\<lambda>p. p" pid_hit for K
  by unfold_locales (simp_all add: pid_index_def pid_hit_def)

lemmas beh_consts = MAX_TRACKED_PATHS_def MAX_TRACKED_RENAMES_def WRITE_OPEN_THRESHOLD_def
  RENAME_THRESHOLD_def

lemma beh_inv_empty: "beh_inv K behavior_empty"
  by (simp add: beh_inv_def behavior_empty_def store_inv_init)

lemma beh_inv_table: "beh_inv K st \<Longrightarrow> beh_table_inv K (bs_table st)"
  by (simp add: beh_inv_def)

lemma new_entry_wf: "entry_wf (new_entry pid now)"
  by (simp add: entry_wf_def new_entry_def beh_consts ring_inv_zero)

lemma be_pid_new_entry [simp]: "be_pid (new_entry pid now) = pid"
  by (simp add: new_entry_def)

lemma beh_abs_Some:
  "beh_inv K st \<Longrightarrow> beh_abs st pid = Some e \<longleftrightarrow> e \<in> set (hash_for_each (bs_table st)) \<and> be_pid e = pid"
  unfolding beh_abs_def
  by (subst node_map_Some [OF beh.store_distinct [OF beh_inv_table]]) auto

lemma beh_abs_wf: "beh_inv K st \<Longrightarrow> beh_abs st pid = Some e \<Longrightarrow> entry_wf e \<and> be_pid e = pid"
  using beh_abs_Some [of K st pid e] by (auto simp: beh_inv_def store_inv_def)

lemma find_pid: "beh_inv K st \<Longrightarrow> find (pid_hit pid) (hchain (bs_table st) (pid_index K pid)) = beh_abs st pid"
  using beh.find_hit [OF beh_inv_table, of K st id pid] by (simp add: beh_abs_def option.map_id)

subsection \<open>Writing an entry\<close>

lemma modify_entry_inv:
  assumes "beh_inv K st" and "\<And>e. entry_wf e \<Longrightarrow> be_pid e = pid \<Longrightarrow> entry_wf (f e) \<and> be_pid (f e) = be_pid e"
  shows "beh_inv K (modify_entry K pid f st)"
proof -
  have "beh_table_inv K (bs_table (modify_entry K pid f st))"
    unfolding modify_entry_def using beh.store_update [where q = pid and f = f, OF beh_inv_table [OF assms(1)]]
      assms(2) by simp
  then show ?thesis
    using assms(1) beh.hash_for_each_update [where q = pid and f = f, OF beh_inv_table [OF assms(1)]]
    by (simp add: beh_inv_def modify_entry_def)
qed

lemma modify_entry_abs:
  assumes "beh_inv K st" and "\<And>e. entry_wf e \<Longrightarrow> be_pid e = pid \<Longrightarrow> entry_wf (f e) \<and> be_pid (f e) = be_pid e"
    and "beh_abs st pid = Some e"
  shows "beh_abs (modify_entry K pid f st) = (beh_abs st)(pid \<mapsto> f e)"
  using beh.node_map_update [where q = pid and f = f and e = e, OF beh_inv_table [OF assms(1)]] assms(2,3)
  by (simp add: beh_abs_def modify_entry_def)

lemma modify_entry_sel [simp]:
  "bs_trust (modify_entry K pid f st) = bs_trust st"
  "bs_protected (modify_entry K pid f st) = bs_protected st"
  "bs_count (modify_entry K pid f st) = bs_count st"
  by (simp_all add: modify_entry_def)

subsection \<open>Eviction\<close>

lemma lru_scan_Some: "lru_scan es (Some x) \<noteq> None"
  by (induction es arbitrary: x) auto

lemma lru_scan_mem: "lru_scan es o0 = Some x \<Longrightarrow> x \<in> set es \<or> o0 = Some x"
  by (induction es arbitrary: o0) (fastforce split: option.splits if_splits)+

lemma lru_scan_None: "lru_scan es None = None \<longleftrightarrow> es = []"
  using lru_scan_Some by (cases es) auto

lemma unat_succ32: "unat (c :: u32) \<le> 8192 \<Longrightarrow> unat (c + 1) = Suc (unat c)"
  by (subst unat_word_ariths) simp

lemma evict_lru_entry_spec:
  assumes inv: "beh_inv K st" and ne: "hash_for_each (bs_table st) \<noteq> []"
  obtains x st' where "lru_scan (hash_for_each (bs_table st)) None = Some x"
    and "evict_lru_entry K st = (True, st')" and "beh_inv K st'"
    and "beh_abs st (be_pid x) = Some x" and "beh_abs st' = (beh_abs st)(be_pid x := None)"
    and "unat (bs_count st) = Suc (unat (bs_count st'))"
    and "bs_trust st' = bs_trust st" and "bs_protected st' = bs_protected st"
proof -
  obtain x where x: "lru_scan (hash_for_each (bs_table st)) None = Some x"
    using ne lru_scan_None by (metis option.exhaust)
  then have mem: "x \<in> set (hash_for_each (bs_table st))" using lru_scan_mem by fastforce
  define i where "i = pid_index K (be_pid x)"
  define st' where "st' = st\<lparr>bs_table := set_chain (bs_table st) i
      (remove_first (\<lambda>e. e = x) (hchain (bs_table st) i)), bs_count := bs_count st - 1\<rparr>"
  note tab = beh.store_inv_table [OF beh_inv_table [OF inv]]
  have P: "e = x \<longleftrightarrow> be_pid e = be_pid x" if "e \<in> set (hchain (bs_table st) (pid_index K (be_pid x)))" for e
    using that beh.mem_chain [OF tab, of e "be_pid x"] beh.key_inj [OF tab _ mem] by auto
  note rn = beh.remove_node [where k = "be_pid x", OF tab P mem refl, folded i_def]
  have m: "mset (hash_for_each (bs_table st)) = add_mset x (mset (hash_for_each (bs_table st')))"
    using rn(3) by (simp add: st'_def)
  have len: "unat (bs_count st) = Suc (length (hash_for_each (bs_table st')))"
    using inv length_of_mset [OF m] by (simp add: beh_inv_def)
  then have cnt: "unat (bs_count st') = length (hash_for_each (bs_table st'))"
    using unat_pred32 [OF len] by (simp add: st'_def)
  show thesis
  proof (rule that [OF x])
    show "evict_lru_entry K st = (True, st')" by (simp add: evict_lru_entry_def x st'_def i_def Let_def)
    show "beh_inv K st'"
      using inv rn(1,2) cnt len by (auto simp: beh_inv_def store_inv_def st'_def)
    show "beh_abs st (be_pid x) = Some x" using beh_abs_Some [OF inv] mem by simp
    show "beh_abs st' = (beh_abs st)(be_pid x := None)"
      unfolding beh_abs_def by (rule node_map_remove [OF m beh.store_distinct [OF beh_inv_table [OF inv]]])
    show "unat (bs_count st) = Suc (unat (bs_count st'))" using len cnt by simp
  qed (simp_all add: st'_def)
qed

subsection \<open>Lookup\<close>

definition insert_entry :: "kapi \<Rightarrow> pid_t \<Rightarrow> u64 \<Rightarrow> behavior_state \<Rightarrow> behavior_state" where
  "insert_entry K pid now st =
     st\<lparr>bs_table := hash_add (bs_table st) (pid_index K pid) (new_entry pid now), bs_count := bs_count st + 1\<rparr>"

lemma insert_entry_spec:
  assumes inv: "beh_inv K st" and new: "beh_abs st pid = None" and room: "unat (bs_count st) < 8192"
  shows "beh_inv K (insert_entry K pid now st)"
    and "beh_abs (insert_entry K pid now st) = (beh_abs st)(pid \<mapsto> new_entry pid now)"
proof -
  have fresh: "be_pid (new_entry pid now) \<notin> be_pid ` set (hash_for_each (bs_table st))"
    using new dom_node_map [of be_pid id "hash_for_each (bs_table st)"] by (auto simp: beh_abs_def domIff)
  note a = beh.store_add [OF beh_inv_table [OF inv] new_entry_wf fresh]
  have "unat (bs_count st + 1) = Suc (unat (bs_count st))" using room by (intro unat_succ32) simp
  then show "beh_inv K (insert_entry K pid now st)"
    using inv a(1) room beh.length_add [OF beh.store_inv_table [OF beh_inv_table [OF inv]], of pid "new_entry pid now"]
    by (simp add: beh_inv_def insert_entry_def)
  show "beh_abs (insert_entry K pid now st) = (beh_abs st)(pid \<mapsto> new_entry pid now)"
    using a(2) [where g = id] by (simp add: beh_abs_def insert_entry_def)
qed

lemma touch_wf: "entry_wf e \<Longrightarrow> entry_wf (e\<lparr>be_last_touched := now\<rparr>)"
  by (simp add: entry_wf_def)

definition touched :: "behavior_state \<Rightarrow> pid_t \<Rightarrow> u64 \<Rightarrow> av_behavior_entry" where
  "touched st pid now =
     (case beh_abs st pid of Some e \<Rightarrow> e\<lparr>be_last_touched := now\<rparr> | None \<Rightarrow> new_entry pid now)"

lemma beh_inv_kick [simp]: "beh_inv K (st\<lparr>bs_gc_kicked := b\<rparr>) = beh_inv K st"
  by (simp add: beh_inv_def)

lemma beh_abs_kick [simp]: "beh_abs (st\<lparr>bs_gc_kicked := b\<rparr>) = beh_abs st"
  by (simp add: beh_abs_def)

lemma full_iff: "beh_inv K st \<Longrightarrow> MAX_BEHAVIOR_ENTRIES \<le> bs_count st \<longleftrightarrow> unat (bs_count st) = 8192"
  by (auto simp: beh_inv_def MAX_BEHAVIOR_ENTRIES_def word_le_nat_alt)

text \<open>The entries another process may lose: at most the least recently touched one.\<close>

definition beh_frame :: "behavior_state \<Rightarrow> pid_t \<Rightarrow> behavior_state \<Rightarrow> bool" where
  "beh_frame st pid st' \<longleftrightarrow>
     (\<forall>p. p \<noteq> pid \<longrightarrow> beh_abs st' p = beh_abs st p) \<or>
     (beh_abs st pid = None \<and> unat (bs_count st) = 8192 \<and>
      (\<exists>x. lru_scan (hash_for_each (bs_table st)) None = Some x \<and>
         (\<forall>p. p \<noteq> pid \<longrightarrow> beh_abs st' p = (if p = be_pid x then None else beh_abs st p))))"

lemma get_or_create_spec:
  assumes inv: "beh_inv K st" and eq: "get_or_create_entry K mem now pid st = (eo, st')"
  shows "beh_inv K st' \<and> beh_abs st' pid = eo \<and> (eo = None \<or> eo = Some (touched st pid now)) \<and>
    (mem \<longrightarrow> eo \<noteq> None) \<and> bs_trust st' = bs_trust st \<and> bs_protected st' = bs_protected st \<and>
    beh_frame st pid st'"
proof (cases "beh_abs st pid")
  case (Some e)
  have f: "entry_wf x \<Longrightarrow> be_pid x = pid \<Longrightarrow>
      entry_wf (x\<lparr>be_last_touched := now\<rparr>) \<and> be_pid (x\<lparr>be_last_touched := now\<rparr>) = be_pid x" for x
    using touch_wf by simp
  from Some show ?thesis
    using eq modify_entry_inv [OF inv f] modify_entry_abs [OF inv f Some]
    by (auto simp: get_or_create_entry_def find_pid [OF inv] touched_def beh_frame_def)
next
  case new: None
  show ?thesis
  proof (cases "MAX_BEHAVIOR_ENTRIES \<le> bs_count st")
    case False
    then have "unat (bs_count st) < 8192"
      by (simp add: MAX_BEHAVIOR_ENTRIES_def word_le_nat_alt)
    from insert_entry_spec [OF inv new this, of now] False new inv show ?thesis
      using eq by (auto simp: get_or_create_entry_def find_pid touched_def beh_frame_def
          insert_entry_def [symmetric] Let_def split: if_splits) (simp_all add: insert_entry_def)
  next
    case True
    let ?k = "st\<lparr>bs_gc_kicked := True\<rparr>"
    have full: "unat (bs_count st) = 8192" using True full_iff [OF inv] by simp
    have "hash_for_each (bs_table ?k) \<noteq> []" using full inv by (auto simp: beh_inv_def)
    with inv obtain x st1 where ev: "lru_scan (hash_for_each (bs_table ?k)) None = Some x"
      "evict_lru_entry K ?k = (True, st1)" "beh_inv K st1" "beh_abs ?k (be_pid x) = Some x"
      "beh_abs st1 = (beh_abs ?k)(be_pid x := None)" "unat (bs_count ?k) = Suc (unat (bs_count st1))"
      "bs_trust st1 = bs_trust ?k" "bs_protected st1 = bs_protected ?k"
      using evict_lru_entry_spec [of K ?k] by auto
    have new1: "beh_abs st1 pid = None" and room: "unat (bs_count st1) < 8192"
      using ev(5,6) new full by auto
    from insert_entry_spec [OF ev(3) new1 room, of now] ev new new1 full True inv show ?thesis
      using eq by (auto simp: get_or_create_entry_def find_pid touched_def beh_frame_def
          insert_entry_def [symmetric] Let_def split: if_splits) (simp_all add: insert_entry_def)
  qed
qed

subsection \<open>Every operation keeps the invariant\<close>

lemma exec_update_wf: "entry_wf e \<Longrightarrow> entry_wf (exec_update path tr s e) \<and> be_pid (exec_update path tr s e) = be_pid e"
  by (simp add: entry_wf_def exec_update_def Let_def ring_inv_reset strscpy_def PATH_MAX_def min.strict_coboundedI2)

lemma record_exec_spec:
  fixes sha path :: string and start :: u64
  assumes inv: "beh_inv K st"
    and eq: "get_or_create_entry K mem now pid st = (eo, st1)"
  defines "tr \<equiv> hash_is_trusted K (bs_trust st) sha 0 \<noteq> None"
  defines "st' \<equiv> av_behavior_record_exec K mem now pid path sha start st"
  shows "beh_inv K st'"
    and "beh_abs st' = (case eo of None \<Rightarrow> beh_abs st1 | Some e \<Rightarrow> (beh_abs st1)(pid \<mapsto> exec_update path tr start e))"
    and "bs_trust st' = bs_trust st" and "bs_protected st' = bs_protected st"
proof -
  note g = get_or_create_spec [OF inv eq]
  have f: "entry_wf e \<Longrightarrow> be_pid e = pid \<Longrightarrow>
      entry_wf (exec_update path tr start e) \<and> be_pid (exec_update path tr start e) = be_pid e" for e
    using exec_update_wf by simp
  have st': "st' = (case eo of None \<Rightarrow> st1 | Some e \<Rightarrow> modify_entry K pid (exec_update path tr start) st1)"
    unfolding st'_def av_behavior_record_exec_def Let_def tr_def [symmetric] eq by (simp split: option.split)
  show "beh_inv K st'"
    and "beh_abs st' = (case eo of None \<Rightarrow> beh_abs st1 | Some e \<Rightarrow> (beh_abs st1)(pid \<mapsto> exec_update path tr start e))"
    and "bs_trust st' = bs_trust st" and "bs_protected st' = bs_protected st"
    using g modify_entry_inv [of K st1 pid "exec_update path tr start"] f
      modify_entry_abs [of K st1 pid "exec_update path tr start"]
    by (auto simp: st' split: option.splits)
qed

lemma note_ring_wf:
  assumes "ring_inv cap r" and "sliding_window_note K h now w cap r = (n, r')"
  shows "ring_inv cap r'"
  using assms sliding_window_note_eq [OF assms(1), of K h now w] ring_inv_push [OF assms(1), of h now]
  by (auto split: if_splits)

lemma set_paths_wf: "ring_inv 50 r \<Longrightarrow> entry_wf e \<Longrightarrow> entry_wf (e\<lparr>be_paths := r\<rparr>)"
  by (simp add: entry_wf_def)

lemma set_renames_wf: "ring_inv 20 r \<Longrightarrow> entry_wf e \<Longrightarrow> entry_wf (e\<lparr>be_renames := r\<rparr>)"
  by (simp add: entry_wf_def)

text \<open>One note on the write ring, with the entry it goes to.\<close>

lemma note_paths_spec:
  assumes inv: "beh_inv K st" and e: "beh_abs st pid = Some e"
    and n: "sliding_window_note K h now w 50 (be_paths e) = (n, r')"
  shows "beh_inv K (modify_entry K pid (\<lambda>e. e\<lparr>be_paths := r'\<rparr>) st)"
    and "beh_abs (modify_entry K pid (\<lambda>e. e\<lparr>be_paths := r'\<rparr>) st) = (beh_abs st)(pid \<mapsto> e\<lparr>be_paths := r'\<rparr>)"
proof -
  have "ring_inv 50 (be_paths e)" using beh_abs_wf [OF inv e] by (simp add: entry_wf_def)
  then have r: "ring_inv 50 r'" by (rule note_ring_wf [OF _ n])
  have f: "entry_wf x \<Longrightarrow> be_pid x = pid \<Longrightarrow>
      entry_wf (x\<lparr>be_paths := r'\<rparr>) \<and> be_pid (x\<lparr>be_paths := r'\<rparr>) = be_pid x" for x
    using set_paths_wf [OF r] by simp
  show "beh_inv K (modify_entry K pid (\<lambda>e. e\<lparr>be_paths := r'\<rparr>) st)"
    and "beh_abs (modify_entry K pid (\<lambda>e. e\<lparr>be_paths := r'\<rparr>) st) = (beh_abs st)(pid \<mapsto> e\<lparr>be_paths := r'\<rparr>)"
    using modify_entry_inv [OF inv f] modify_entry_abs [OF inv f e] by simp_all
qed

lemma note_renames_spec:
  assumes inv: "beh_inv K st" and e: "beh_abs st pid = Some e"
    and n: "sliding_window_note K h now w 20 (be_renames e) = (n, r')"
  shows "beh_inv K (modify_entry K pid (\<lambda>e. e\<lparr>be_renames := r'\<rparr>) st)"
proof -
  have "ring_inv 20 (be_renames e)" using beh_abs_wf [OF inv e] by (simp add: entry_wf_def)
  then have r: "ring_inv 20 r'" by (rule note_ring_wf [OF _ n])
  have f: "entry_wf x \<Longrightarrow> be_pid x = pid \<Longrightarrow>
      entry_wf (x\<lparr>be_renames := r'\<rparr>) \<and> be_pid (x\<lparr>be_renames := r'\<rparr>) = be_pid x" for x
    using set_renames_wf [OF r] by simp
  show ?thesis using modify_entry_inv [OF inv f] by simp
qed

lemma check_openat_inv [inv_intros]:
  assumes inv: "beh_inv K st"
  shows "beh_inv K (snd (av_behavior_check_openat K mem now pid path flags tg st))"
proof -
  obtain eo st1 where g: "get_or_create_entry K mem now pid st = (eo, st1)" by force
  note s = get_or_create_spec [OF inv g]
  show ?thesis
    using inv g s note_paths_spec(1) [of K st1 pid]
    by (auto simp: av_behavior_check_openat_def Let_def beh_consts split: option.splits prod.splits if_splits)
qed

lemma check_unlink_inv [inv_intros]:
  assumes inv: "beh_inv K st"
  shows "beh_inv K (snd (av_behavior_check_unlink K mem now pid path tg st))"
proof -
  obtain eo st1 where g: "get_or_create_entry K mem now pid st = (eo, st1)" by force
  show ?thesis
    using inv g get_or_create_spec [OF inv g]
    by (auto simp: av_behavior_check_unlink_def Let_def)
qed

lemma check_rename_inv [inv_intros]:
  assumes inv: "beh_inv K st"
  shows "beh_inv K (snd (av_behavior_check_rename K mem now pid old new tg st))"
proof -
  obtain eo st1 where g: "get_or_create_entry K mem now pid st = (eo, st1)" by force
  note s = get_or_create_spec [OF inv g]
  show ?thesis
    using inv g s note_renames_spec [of K st1 pid]
    by (auto simp: av_behavior_check_rename_def Let_def beh_consts split: option.splits prod.splits if_splits)
qed

lemma record_exec_inv [inv_intros]:
  assumes "beh_inv K st"
  shows "beh_inv K (av_behavior_record_exec K mem now pid path sha start st)"
  by (cases "get_or_create_entry K mem now pid st") (rule record_exec_spec(1) [OF assms])

subsection \<open>Collection\<close>

lemma gc_all: "hash_for_each (map (gc_chain live) t) = gc_chain live (hash_for_each t)"
  by (induction t) (simp_all add: hash_for_each_def gc_chain_def)

lemma reset_recycled_pid [simp]: "be_pid (reset_recycled c e) = be_pid e"
  by (simp add: reset_recycled_def)

lemma reset_recycled_wf: "entry_wf e \<Longrightarrow> entry_wf (reset_recycled c e)"
  by (simp add: entry_wf_def reset_recycled_def ring_inv_reset)

lemma length_split_filter: "length xs = length (filter P xs) + length (filter (\<lambda>x. \<not> P x) xs)"
  by (induction xs) auto

lemma gc_keys: "map be_pid (gc_chain live es) = map be_pid (filter (\<lambda>e. live (be_pid e) \<noteq> None) es)"
  by (simp add: gc_chain_def)

lemma gc_inv [inv_intros]:
  assumes inv: "beh_inv K st"
  shows "beh_inv K (behavior_gc_fn live st)"
proof -
  let ?es = "hash_for_each (bs_table st)" and ?t' = "map (gc_chain live) (bs_table st)"
  have tab: "table_inv (2 ^ BEHAVIOR_BITS) (pid_index K) be_pid (bs_table st)"
    by (rule beh.store_inv_table [OF beh_inv_table [OF inv]])
  have place: "\<forall>i < 2 ^ BEHAVIOR_BITS. \<forall>e \<in> set (?t' ! i). pid_index K (be_pid e) = i"
    using tab by (auto simp: table_inv_def gc_chain_def)
  have "distinct (map be_pid (gc_chain live ?es))"
    unfolding gc_keys using tab by (intro distinct_map_filter) (simp add: table_inv_def)
  with place tab have "table_inv (2 ^ BEHAVIOR_BITS) (pid_index K) be_pid ?t'"
    by (simp add: table_inv_def gc_all)
  moreover have "\<forall>e \<in> set (gc_chain live ?es). entry_wf e"
    using inv reset_recycled_wf by (auto simp: gc_chain_def beh_inv_def store_inv_def)
  moreover have "unat (bs_count st - of_nat (length (filter (\<lambda>e. live (be_pid e) = None) ?es))) =
      length (gc_chain live ?es)"
  proof -
    let ?r = "length (filter (\<lambda>e. live (be_pid e) = None) ?es)"
    have len: "length ?es = ?r + length (gc_chain live ?es)"
      using length_split_filter [of ?es "\<lambda>e. live (be_pid e) = None"] by (simp add: gc_chain_def)
    have c: "unat (bs_count st) = length ?es" "length ?es \<le> 8192" using inv by (simp_all add: beh_inv_def)
    then have "unat (of_nat ?r :: u32) = ?r" using len by (simp add: unat_of_nat)
    moreover from this have "of_nat ?r \<le> bs_count st" using c len by (simp add: word_le_nat_alt)
    ultimately show ?thesis using c len by (simp add: unat_sub)
  qed
  moreover have "length (gc_chain live ?es) \<le> length ?es" by (simp add: gc_chain_def)
  ultimately show ?thesis
    using inv by (simp add: beh_inv_def store_inv_def behavior_gc_fn_def Let_def gc_all)
qed

section \<open>The engine as a transition system\<close>

inductive beh_step :: "kapi \<Rightarrow> behavior_state \<Rightarrow> av_event list \<Rightarrow> behavior_state \<Rightarrow> bool" for K where
  step_exec: "beh_step K st [] (av_behavior_record_exec K mem now pid path sha start st)"
| step_openat: "av_behavior_check_openat K mem now pid path flags tg st = (evs, st') \<Longrightarrow> beh_step K st evs st'"
| step_unlink: "av_behavior_check_unlink K mem now pid path tg st = (evs, st') \<Longrightarrow> beh_step K st evs st'"
| step_rename: "av_behavior_check_rename K mem now pid old new tg st = (evs, st') \<Longrightarrow> beh_step K st evs st'"
| step_gc: "beh_step K st [] (behavior_gc_fn live st)"
| step_trust: "trust_proc_write K capable mem fault ubuf (bs_trust st) = (r, t') \<Longrightarrow>
    beh_step K st [] (st\<lparr>bs_trust := t'\<rparr>)"
| step_protect: "protected_proc_write K capable ppos bufs mem fault ubuf (bs_protected st) = (r, t') \<Longrightarrow>
    beh_step K st [] (st\<lparr>bs_protected := t'\<rparr>)"

inductive_cases beh_stepE: "beh_step K st evs st'"

inductive beh_reach :: "kapi \<Rightarrow> av_event list \<Rightarrow> behavior_state \<Rightarrow> bool" for K where
  reach_init: "beh_reach K [] behavior_empty"
| reach_step: "beh_reach K tr st \<Longrightarrow> beh_step K st evs st' \<Longrightarrow> beh_reach K (tr @ evs) st'"

lemma beh_step_inv:
  assumes "beh_step K st evs st'" and inv: "beh_inv K st"
  shows "beh_inv K st'"
  using assms(1)
proof cases
  case (step_openat mem now pid path flags tg)
  then show ?thesis using check_openat_inv [OF inv, of mem now pid path flags tg] by simp
next
  case (step_unlink mem now pid path tg)
  then show ?thesis using check_unlink_inv [OF inv, of mem now pid path tg] by simp
next
  case (step_rename mem now pid old new tg)
  then show ?thesis using check_rename_inv [OF inv, of mem now pid old new tg] by simp
next
  case (step_trust capable mem fault ubuf r t')
  then show ?thesis using inv trust_proc_write_inv [of K "bs_trust st" capable mem fault ubuf]
    by (simp add: beh_inv_def)
next
  case (step_protect capable ppos bufs mem fault ubuf r t')
  then show ?thesis using inv protected_proc_write_inv [of K "bs_protected st" capable ppos bufs mem fault ubuf]
    by (simp add: beh_inv_def)
qed (simp_all add: inv inv_intros)

lemma beh_reach_inv: "beh_reach K tr st \<Longrightarrow> beh_inv K st"
  by (induction rule: beh_reach.induct) (simp_all add: beh_inv_empty beh_step_inv)

subsection \<open>Kills\<close>

lemma kill_with_reason_kill:
  "EvKill p r n \<in> set (kill_with_reason K prot tg path reason) \<longleftrightarrow>
     p = path \<and> r = reason \<and> n = tg_nr tg \<and> n \<noteq> 1 \<and> tg_alive tg \<and>
     av_behavior_target_is_protected K (tg_pathbuf tg) prot (tg_view tg) PATH_MAX = None"
  by (auto simp: kill_with_reason_def split: option.splits)

lemma protected_target_None:
  assumes "protected_inv K t" and "av_behavior_target_is_protected K mem t v n = None"
    and "mem" and "v = Some \<lparr>tv_has_mm = True, tv_exe = Some (Inr exe)\<rparr>"
  shows "exe \<notin> protected_abs t"
  using assms protected_lookup [OF assms(1), of exe] by (auto simp: av_behavior_target_is_protected_def split: if_splits)

lemma openat_events:
  assumes inv: "beh_inv K st" and k: "EvKill p r n \<in> set (fst (av_behavior_check_openat K mem now pid path flags tg st))"
  shows "EvKill p r n \<in> set (kill_with_reason K (bs_protected st) tg path r)"
proof -
  obtain eo st1 where g: "get_or_create_entry K mem now pid st = (eo, st1)" by force
  note s = get_or_create_spec [OF inv g]
  show ?thesis
    using k g s
    by (auto simp: av_behavior_check_openat_def Let_def kill_with_reason_kill
        split: option.splits prod.splits if_splits)
qed

lemma unlink_events:
  assumes inv: "beh_inv K st" and k: "EvKill p r n \<in> set (fst (av_behavior_check_unlink K mem now pid path tg st))"
  shows "EvKill p r n \<in> set (kill_with_reason K (bs_protected st) tg path r)"
proof -
  obtain eo st1 where g: "get_or_create_entry K mem now pid st = (eo, st1)" by force
  note s = get_or_create_spec [OF inv g]
  show ?thesis
    using k g s
    by (auto simp: av_behavior_check_unlink_def Let_def kill_with_reason_kill split: option.splits if_splits)
qed

lemma rename_events:
  assumes inv: "beh_inv K st" and k: "EvKill p r n \<in> set (fst (av_behavior_check_rename K mem now pid old new tg st))"
  shows "EvKill p r n \<in> set (kill_with_reason K (bs_protected st) tg new r)"
proof -
  obtain eo st1 where g: "get_or_create_entry K mem now pid st = (eo, st1)" by force
  note s = get_or_create_spec [OF inv g]
  show ?thesis
    using k g s
    by (auto simp: av_behavior_check_rename_def Let_def kill_with_reason_kill
        split: option.splits prod.splits if_splits)
qed

subsection \<open>The least recently touched entry\<close>

lemma time_before_iff:
  assumes "unat a < 2 ^ 63" and "unat b < 2 ^ 63"
  shows "time_before a b \<longleftrightarrow> a < b"
proof -
  have small: "sint x = int (unat x)" if "unat x < 2 ^ 63" for x :: u64
  proof -
    have "int (unat x) < int (2 ^ 63)" using that by (simp only: of_nat_less_iff)
    then have "uint x < 2 ^ 63" by simp
    moreover have "- (2 ^ 63) \<le> uint x" by (rule order_trans [of _ 0]) simp_all
    ultimately have "signed_take_bit 63 (uint x) = uint x" by (intro signed_take_bit_int_eq_self)
    then show ?thesis by (simp add: sint_uint)
  qed
  have lt: "int (unat a) < 2 ^ 63" "int (unat b) < 2 ^ 63"
    using assms by (simp_all only: of_nat_less_numeral_power_cancel_iff)
  have "0 \<le> int (unat a)" "0 \<le> int (unat b)" by simp_all
  have "- (2 ^ 63) \<le> int (unat a) - int (unat b)" "int (unat a) - int (unat b) < 2 ^ 63"
    using lt \<open>0 \<le> int (unat a)\<close> \<open>0 \<le> int (unat b)\<close> by linarith+
  then have "signed_take_bit 63 (int (unat a) - int (unat b)) = int (unat a) - int (unat b)"
    by (rule signed_take_bit_int_eq_self)
  then have "sint (a - b) = int (unat a) - int (unat b)"
    by (simp only: sint_word_ariths small [OF assms(1)] small [OF assms(2)]) simp
  then show ?thesis by (simp add: time_before_def word_less_def)
qed

lemma lru_scan_oldest:
  assumes "\<forall>e \<in> set es. unat (be_last_touched e) < 2 ^ 63" and "lru_scan es o0 = Some x"
    and "\<forall>y. o0 = Some y \<longrightarrow> unat (be_last_touched y) < 2 ^ 63"
  shows "(\<forall>e \<in> set es. be_last_touched x \<le> be_last_touched e) \<and>
    (\<forall>y. o0 = Some y \<longrightarrow> be_last_touched x \<le> be_last_touched y)"
  using assms
proof (induction es arbitrary: o0)
  case (Cons e es)
  let ?o1 = "case o0 of None \<Rightarrow> Some e
     | Some y \<Rightarrow> if time_before (be_last_touched e) (be_last_touched y) then Some e else Some y"
  have "\<forall>y. ?o1 = Some y \<longrightarrow> unat (be_last_touched y) < 2 ^ 63"
    using Cons.prems(1,3) by (auto split: option.splits if_splits)
  with Cons.IH [of ?o1] Cons.prems
  have ih: "\<forall>e \<in> set es. be_last_touched x \<le> be_last_touched e"
    "\<forall>y. ?o1 = Some y \<longrightarrow> be_last_touched x \<le> be_last_touched y" by auto
  show ?case
  proof (cases o0)
    case None
    with ih show ?thesis by auto
  next
    case (Some y)
    have "time_before (be_last_touched e) (be_last_touched y) \<longleftrightarrow> be_last_touched e < be_last_touched y"
      using Cons.prems(1,3) Some by (intro time_before_iff) auto
    with ih Some show ?thesis by (auto split: if_splits)
  qed
qed simp

subsection \<open>A burst of write-intent opens\<close>

definition quiet_path :: "string \<Rightarrow> bool" where
  "quiet_path path \<longleftrightarrow> \<not> path_is_pseudo_fs path \<and> \<not> path_is_sensitive path \<and> \<not> path_is_rapid_write_noise path"

lemma openat_note_step:
  assumes inv: "beh_inv K st" and q: "quiet_path path" "flags AND write_flags \<noteq> 0"
    and tr: "\<not> be_trusted (touched st pid now)"
    and hist: "ring_hist 50 (be_paths (touched st pid now)) = done"
    and new: "full_name_hash K path \<notin> fst ` set done" and live: "\<forall>(h, j) \<in> set done. win_live K now 2000 j"
  obtains st' e' where "av_behavior_check_openat K True now pid path flags tg st =
      (if length done = 50 then kill_with_reason K (bs_protected st) tg path
          ''rapid file modification (possible ransomware pattern)'' else [], st')"
    and "beh_inv K st'" and "bs_protected st' = bs_protected st" and "beh_abs st' pid = Some e'"
    and "\<not> be_trusted e'" and "ring_hist 50 (be_paths e') = take 50 ((full_name_hash K path, now) # done)"
proof -
  obtain eo st1 where g: "get_or_create_entry K True now pid st = (eo, st1)" by force
  note s = get_or_create_spec [OF inv g]
  define e where "e = touched st pid now"
  have eo: "eo = Some e" and e: "beh_abs st1 pid = Some e" and inv1: "beh_inv K st1"
    using s by (auto simp: e_def)
  have ring: "ring_inv 50 (be_paths e)" using beh_abs_wf [OF inv1 e] by (simp add: entry_wf_def)
  have "live_notes K now 2000 done = done" using live by (auto simp: live_notes_def filter_id_conv)
  then have n: "sliding_window_note K (full_name_hash K path) now 2000 50 (be_paths e) =
      (length done + 1, ring_push 50 (full_name_hash K path) now (be_paths e))"
    using sliding_window_note_eq [OF ring] hist new by (simp add: e_def)
  have le: "length done \<le> 50"
    using hist length_ring_hist [OF ring] ring by (auto simp: e_def ring_inv_def)
  note m = note_paths_spec [OF inv1 e n]
  show thesis
  proof (rule that [where e' = "(touched st pid now)
      \<lparr>be_paths := ring_push 50 (full_name_hash K path) now (be_paths (touched st pid now))\<rparr>"])
    show "av_behavior_check_openat K True now pid path flags tg st =
      (if length done = 50 then kill_with_reason K (bs_protected st) tg path
          ''rapid file modification (possible ransomware pattern)'' else [],
       modify_entry K pid (\<lambda>e. e\<lparr>be_paths := ring_push 50 (full_name_hash K path) now (be_paths (touched st pid now))\<rparr>) st1)"
      using q tr s n le g eo
      by (simp add: av_behavior_check_openat_def quiet_path_def beh_consts WRITE_OPEN_WINDOW_MS_def e_def)
  qed (use m tr hist s in \<open>simp_all add: e_def ring_hist_push [OF ring [unfolded e_def]]\<close>)
qed

fun open_run :: "kapi \<Rightarrow> pid_t \<Rightarrow> u32 \<Rightarrow> kill_target \<Rightarrow> (string \<times> u64) list \<Rightarrow> behavior_state \<Rightarrow> av_event list list" where
  "open_run K pid flags tg [] st = []"
| "open_run K pid flags tg ((path, now) # evs) st =
     (case av_behavior_check_openat K True now pid path flags tg st of
        (ev, st') \<Rightarrow> ev # open_run K pid flags tg evs st')"

definition burst :: "kapi \<Rightarrow> (string \<times> u64) list \<Rightarrow> bool" where
  "burst K evs \<longleftrightarrow> (\<forall>(p, t) \<in> set evs. quiet_path p) \<and> distinct (map (\<lambda>(p, t). full_name_hash K p) evs) \<and>
     (\<forall>(p, t) \<in> set evs. \<forall>(p', t') \<in> set evs. t \<le> t' \<longrightarrow> win_live K t' 2000 t) \<and> sorted (map snd evs)"

lemma touched_touch: "beh_abs st pid = Some e \<Longrightarrow> touched st pid now = e\<lparr>be_last_touched := now\<rparr>"
  by (simp add: touched_def)

lemma burst_run:
  assumes "flags AND write_flags \<noteq> 0"
  shows "\<lbrakk>beh_inv K st; \<forall>now. \<not> be_trusted (touched st pid now) \<and>
       ring_hist 50 (be_paths (touched st pid now)) = map (\<lambda>(p, t). (full_name_hash K p, t)) (rev past);
     burst K (past @ evs); length past + length evs = 51; evs \<noteq> []\<rbrakk> \<Longrightarrow>
   open_run K pid flags tg evs st = replicate (length evs - 1) [] @
     [kill_with_reason K (bs_protected st) tg (fst (last evs)) ''rapid file modification (possible ransomware pattern)'']"
proof (induction evs arbitrary: past st)
  case (Cons ev evs)
  obtain path now where ev: "ev = (path, now)" by (cases ev)
  define dn where "dn = map (\<lambda>(p, t). (full_name_hash K p, t)) (rev past)"
  have b: "burst K (past @ (path, now) # evs)" using Cons.prems(3) ev by simp
  have q: "quiet_path path" using b by (auto simp: burst_def)
  have new: "full_name_hash K path \<notin> fst ` set dn"
    using b by (auto simp: burst_def dn_def image_iff)
  have live: "\<forall>(h, j) \<in> set dn. win_live K now 2000 j"
    using b by (fastforce simp: burst_def dn_def sorted_append)
  obtain st' e' where st': "av_behavior_check_openat K True now pid path flags tg st =
      (if length dn = 50 then kill_with_reason K (bs_protected st) tg path
          ''rapid file modification (possible ransomware pattern)'' else [], st')"
    "beh_inv K st'" "bs_protected st' = bs_protected st" "beh_abs st' pid = Some e'"
    "\<not> be_trusted e'" "ring_hist 50 (be_paths e') = take 50 ((full_name_hash K path, now) # dn)"
    using Cons.prems(2) openat_note_step [OF Cons.prems(1) q assms _ _ new live, of pid tg thesis]
    by (auto simp: dn_def)
  have len: "length dn + length evs = 50" using Cons.prems(4) by (simp add: dn_def)
  show ?case
  proof (cases "evs = []")
    case True
    with len st' ev show ?thesis by simp
  next
    case False
    then have "length dn < 50" using len by (cases evs) auto
    then have "ring_hist 50 (be_paths e') = map (\<lambda>(p, t). (full_name_hash K p, t)) (rev (past @ [(path, now)]))"
      using st'(6) by (simp add: dn_def)
    then have t: "\<forall>t. \<not> be_trusted (touched st' pid t) \<and>
       ring_hist 50 (be_paths (touched st' pid t)) =
         map (\<lambda>(p, t). (full_name_hash K p, t)) (rev (past @ [(path, now)]))"
      using st'(4,5) by (simp add: touched_touch [OF st'(4)])
    have "open_run K pid flags tg evs st' = replicate (length evs - 1) [] @
      [kill_with_reason K (bs_protected st') tg (fst (last evs)) ''rapid file modification (possible ransomware pattern)'']"
      by (rule Cons.IH [OF st'(2) t]) (use b False Cons.prems(4) in simp_all)
    with st'(1,3) \<open>length dn < 50\<close> False ev show ?thesis by (cases evs) auto
  qed
qed simp

section \<open>Properties\<close>

lemma beh_step_no_init_kill:
  assumes "beh_step K st evs st'" and inv: "beh_inv K st" and k: "EvKill p r n \<in> set evs"
  shows "n \<noteq> 1"
  using assms(1)
proof cases
  case (step_openat mem now pid path flags tg)
  then show ?thesis using openat_events [OF inv, of p r n mem now pid path flags tg] k
    by (auto simp: kill_with_reason_kill)
next
  case (step_unlink mem now pid path tg)
  then show ?thesis using unlink_events [OF inv, of p r n mem now pid path tg] k
    by (auto simp: kill_with_reason_kill)
next
  case (step_rename mem now pid old new tg)
  then show ?thesis using rename_events [OF inv, of p r n mem now pid old new tg] k
    by (auto simp: kill_with_reason_kill)
qed (use k in simp_all)

lemma beh_reach_no_init_kill: "beh_reach K tr st \<Longrightarrow> EvKill p r n \<in> set tr \<Longrightarrow> n \<noteq> 1"
  by (induction rule: beh_reach.induct) (auto dest: beh_step_no_init_kill beh_reach_inv)

text \<open>C5. In every history of the engine (execs, opens, unlinks, renames, collections and writes
  to both proc files in any order, with any allocation failures), every table stays well formed,
  no process has two entries, the table never exceeds 8192 entries with its counter exact, and
  PID 1 is never killed.\<close>

theorem behavior_engine_safe:
  assumes "beh_reach K tr st"
  shows "beh_inv K st \<and> unat (bs_count st) = card (dom (beh_abs st)) \<and> unat (bs_count st) \<le> 8192 \<and>
    (\<forall>p r n. EvKill p r n \<in> set tr \<longrightarrow> n \<noteq> 1)"
proof -
  have inv: "beh_inv K st" by (rule beh_reach_inv [OF assms])
  have "card (dom (beh_abs st)) = length (hash_for_each (bs_table st))"
    unfolding beh_abs_def dom_node_map
    using beh.store_distinct [OF beh_inv_table [OF inv]] by (metis distinct_card length_map set_map)
  with inv beh_reach_no_init_kill [OF assms] show ?thesis by (simp add: beh_inv_def)
qed

definition demo_target :: kill_target where
  "demo_target = \<lparr>tg_nr = 77, tg_view = Some \<lparr>tv_has_mm = True, tv_exe = Some (Inr ''/bin/x'')\<rparr>,
     tg_alive = True, tg_logbuf = True, tg_pathbuf = True\<rparr>"

theorem behavior_engine_safe_witness:
  "unat (bs_count (snd (av_behavior_check_openat kapi0 True 5 77 ''/etc/shadow'' 1 demo_target behavior_empty))) \<le> 8192"
proof -
  obtain evs st' where c: "av_behavior_check_openat kapi0 True 5 77 ''/etc/shadow'' 1 demo_target behavior_empty = (evs, st')"
    by force
  have "beh_reach kapi0 ([] @ evs) st'"
    by (rule reach_step [OF reach_init step_openat [OF c]])
  from behavior_engine_safe [OF this] c show ?thesis by simp
qed

text \<open>A process is always tracked: when the allocation succeeds, the lookup returns an entry
  for the pid even in a full table, the entry is the stored one with its time refreshed or a
  fresh one, and the only entry of another process that may disappear is one that no entry is
  older than.\<close>

theorem full_table_still_tracks:
  assumes "beh_inv K st" and "get_or_create_entry K True now pid st = (eo, st')"
    and "\<forall>e \<in> ran (beh_abs st). unat (be_last_touched e) < 2 ^ 63"
  shows "eo = Some (touched st pid now) \<and> beh_abs st' pid = eo \<and> beh_inv K st' \<and>
    (\<forall>p e. p \<noteq> pid \<longrightarrow> beh_abs st p = Some e \<longrightarrow> beh_abs st' p \<noteq> Some e \<longrightarrow>
       beh_abs st' p = None \<and> unat (bs_count st) = 8192 \<and> beh_abs st pid = None \<and>
       (\<forall>e' \<in> ran (beh_abs st). be_last_touched e \<le> be_last_touched e'))"
proof -
  note s = get_or_create_spec [OF assms(1,2)]
  have ran: "ran (beh_abs st) = set (hash_for_each (bs_table st))"
    using beh_abs_Some [OF assms(1)] by (auto simp: ran_def)
  have "beh_abs st' p = None \<and> unat (bs_count st) = 8192 \<and> beh_abs st pid = None \<and>
       (\<forall>e' \<in> ran (beh_abs st). be_last_touched e \<le> be_last_touched e')"
    if p: "p \<noteq> pid" "beh_abs st p = Some e" "beh_abs st' p \<noteq> Some e" for p e
  proof -
    from p s obtain x where x: "lru_scan (hash_for_each (bs_table st)) None = Some x"
      "beh_abs st' p = (if p = be_pid x then None else beh_abs st p)"
      and full: "beh_abs st pid = None" "unat (bs_count st) = 8192"
      unfolding beh_frame_def by metis
    from x(2) p have px: "p = be_pid x" "beh_abs st' p = None" by (auto split: if_splits)
    have "x \<in> set (hash_for_each (bs_table st))" using lru_scan_mem [OF x(1)] by simp
    then have "e = x" using p(2) px(1) beh_abs_Some [OF assms(1), of "be_pid x" x] by simp
    with lru_scan_oldest [OF assms(3) [unfolded ran] x(1)] px full show ?thesis by (simp add: ran)
  qed
  with s show ?thesis by auto
qed

theorem full_table_still_tracks_witness:
  "fst (get_or_create_entry kapi0 True 9 4 behavior_empty) = Some (new_entry 4 9)"
proof -
  obtain eo st' where g: "get_or_create_entry kapi0 True 9 4 behavior_empty = (eo, st')" by force
  have "beh_abs behavior_empty = Map.empty" by (simp add: beh_abs_def behavior_empty_def)
  then show ?thesis
    using full_table_still_tracks [OF beh_inv_empty g] g by (simp add: touched_def)
qed

text \<open>A kill is never sent to PID 1, to a task that has gone, or to a process whose readable
  executable is on the protected list, whichever check decided it and whatever the reason.\<close>

theorem kill_respects_protection:
  assumes "beh_inv K st"
    and "EvKill p r n \<in> set (fst (av_behavior_check_openat K mem now pid path flags tg st)) \<or>
      EvKill p r n \<in> set (fst (av_behavior_check_unlink K mem now pid path tg st)) \<or>
      EvKill p r n \<in> set (fst (av_behavior_check_rename K mem now pid old path tg st))"
    and "tg_view tg = Some \<lparr>tv_has_mm = True, tv_exe = Some (Inr exe)\<rparr>" and "tg_pathbuf tg"
  shows "n = tg_nr tg \<and> n \<noteq> 1 \<and> tg_alive tg \<and> p = path \<and> exe \<notin> protected_abs (bs_protected st)"
proof -
  have "EvKill p r n \<in> set (kill_with_reason K (bs_protected st) tg path r)"
    using assms(2)
    by (elim disjE) (erule openat_events [OF assms(1)] unlink_events [OF assms(1)] rename_events [OF assms(1)])+
  then have "p = path \<and> n = tg_nr tg \<and> n \<noteq> 1 \<and> tg_alive tg \<and>
     av_behavior_target_is_protected K (tg_pathbuf tg) (bs_protected st) (tg_view tg) PATH_MAX = None"
    unfolding kill_with_reason_kill by blast
  moreover have "protected_inv K (bs_protected st)" using assms(1) by (simp add: beh_inv_def)
  ultimately show ?thesis using protected_target_None assms(3,4) by blast
qed

lemma demo_unprotected:
  "av_behavior_target_is_protected K mem (bs_protected behavior_empty) (tg_view demo_target) n = None"
proof -
  have "\<not> path_is_on_protected_list K (hash_init TRUST_BITS) p" for p
    using protected_lookup [OF protected_inv_init, of K p] by simp
  then show ?thesis
    by (simp add: demo_target_def av_behavior_target_is_protected_def behavior_empty_def)
qed

lemma demo_not_protected:
  "kill_with_reason K (bs_protected behavior_empty) demo_target path reason = [EvKill path reason 77]"
  by (simp add: kill_with_reason_def demo_unprotected) (simp add: demo_target_def)

lemma shadow_sensitive: "path_is_sensitive ''/etc/shadow''" "\<not> path_is_pseudo_fs ''/etc/shadow''"
  by code_simp+

theorem kill_respects_protection_witness:
  "''/bin/x'' \<notin> protected_abs (bs_protected behavior_empty) \<and> (77 :: pid_t) \<noteq> 1"
proof -
  have "EvKill ''/etc/shadow'' ''write-intent open of sensitive path'' 77
      \<in> set (fst (av_behavior_check_openat kapi0 True 5 77 ''/etc/shadow'' 1 demo_target behavior_empty))"
  proof -
    obtain eo st1 where g: "get_or_create_entry kapi0 True 5 77 behavior_empty = (eo, st1)" by force
    have "bs_protected st1 = bs_protected behavior_empty"
      using get_or_create_spec [OF beh_inv_empty g] by simp
    moreover have "(1 :: u32) AND write_flags \<noteq> 0" by code_simp
    moreover have "bs_protected (modify_entry kapi0 77 f st1) = bs_protected st1" for f by simp
    ultimately show ?thesis
      using shadow_sensitive demo_not_protected [of kapi0 "''/etc/shadow''" "''write-intent open of sensitive path''"] g
      by (auto simp: av_behavior_check_openat_def Let_def split: option.splits prod.splits if_splits)
  qed
  then show ?thesis
    using kill_respects_protection [OF beh_inv_empty, of "''/etc/shadow''" "''write-intent open of sensitive path''"
        77 kapi0 True 5 77 "''/etc/shadow''" 1 demo_target "''/''" "''/bin/x''"]
    by (simp add: demo_target_def)
qed

lemma openat_sensitive:
  assumes "beh_inv K st" and "path_is_sensitive path" and "\<not> path_is_pseudo_fs path" and "flags AND write_flags \<noteq> 0"
  shows "fst (av_behavior_check_openat K mem now pid path flags tg st) =
    kill_with_reason K (bs_protected st) tg path ''write-intent open of sensitive path''"
proof -
  obtain eo st1 where g: "get_or_create_entry K mem now pid st = (eo, st1)" by force
  from get_or_create_spec [OF assms(1) g] g assms(2-4) show ?thesis
    by (auto simp: av_behavior_check_openat_def Let_def split: option.splits prod.splits if_splits)
qed




definition demo_path :: "nat \<Rightarrow> string" where
  "demo_path i = ''/'' @ replicate i CHR ''a''"

lemma strstr_missing: "c \<in> set needle \<Longrightarrow> c \<notin> set s \<Longrightarrow> strstr s needle = None"
  by (auto simp: strstr_None)

lemma bounded_missing: "c \<in> set needle \<Longrightarrow> c \<notin> set s \<Longrightarrow> \<not> path_has_bounded_substring s needle"
  by (subst path_has_bounded_substring.simps) (simp add: strstr_missing)

lemma strneq_missing: "c \<in> set (take n p) \<Longrightarrow> c \<notin> set s \<Longrightarrow> \<not> strneq n s p"
  unfolding strneq_def by (metis in_set_takeD)

lemma demo_path_quiet: "quiet_path (demo_path i)"
proof -
  have s: "set (demo_path i) \<subseteq> {CHR ''/'', CHR ''a''}" by (auto simp: demo_path_def)
  then have "CHR ''e'' \<notin> set (demo_path i)" "CHR ''b'' \<notin> set (demo_path i)" "CHR ''.'' \<notin> set (demo_path i)"
    "CHR ''s'' \<notin> set (demo_path i)" "CHR ''p'' \<notin> set (demo_path i)" "CHR ''-'' \<notin> set (demo_path i)" by auto
  note n = this
  have "drop k (demo_path i) \<noteq> t" if "CHR ''-'' \<in> set t" for k t
    using that n(6) by (metis in_set_dropD)
  then show ?thesis
    using n
    by (simp add: quiet_path_def path_is_pseudo_fs_def path_is_sensitive_def path_is_rapid_write_noise_def
        excluded_path_prefixes_def excluded_path_cache_substrings_def excluded_path_suffixes_def
        sensitive_path_prefixes_def sensitive_path_substrings_def
        strneq_missing [of "CHR ''s''" _ "''/sys/''"] strneq_missing [of "CHR ''p''" _ "''/proc/''"]
        strneq_missing [of "CHR ''e''" _ "''/dev/''"] strneq_missing [of "CHR ''b''" _ "''/boot/''"]
        bounded_missing [of "CHR ''e''" "''/etc/passwd''"] bounded_missing [of "CHR ''e''" "''/etc/shadow''"]
        bounded_missing [of "CHR ''.''" "''/.ssh/''"] strstr_missing [of "CHR ''.''" "''/.cache/''"])
qed

lemma inj_of_nat_small: "i < 51 \<Longrightarrow> j < 51 \<Longrightarrow> (of_nat i :: u32) = of_nat j \<longleftrightarrow> i = j"
  by (simp add: word_unat_eq_iff unat_of_nat)

lemma demo_burst: "burst kapi0 (map (\<lambda>i. (demo_path i, 5)) [0..<51])"
proof -
  have h: "full_name_hash kapi0 (demo_path i) = of_nat i + 1" for i
    by (simp add: kapi0_def demo_path_def)
  have "inj_on (\<lambda>i. of_nat i + 1 :: u32) (set [0..<51])"
    using inj_of_nat_small by (auto simp: inj_on_def)
  then have "distinct (map (\<lambda>i. of_nat i + 1 :: u32) [0..<51])" by (simp only: distinct_map distinct_upt)
  then show ?thesis
    by (auto simp: burst_def demo_path_quiet win_live_def kapi0_msec h comp_def map_replicate_const simp del: upt_Suc upt_rec_numeral)
qed


text \<open>Once an exec of an absolute path has been recorded, an unlink of that path by the same process
  is flagged, whether or not the second lookup could allocate.\<close>

lemma self_delete_flagged:
  assumes "beh_inv K st" and "take 1 path = ''/''" and "length path < 4096" and "\<not> path_is_pseudo_fs path"
  shows "fst (av_behavior_check_unlink K mem now' pid path tg
      (av_behavior_record_exec K True now pid path sha start st)) =
    kill_with_reason K (bs_protected st) tg path ''self-deleting binary (possible dropper/backdoor)''"
proof -
  let ?st1 = "av_behavior_record_exec K True now pid path sha start st"
  obtain eo st0 where g: "get_or_create_entry K True now pid st = (eo, st0)" by force
  obtain e where e: "eo = Some e" using get_or_create_spec [OF assms(1) g] by auto
  note r = record_exec_spec [OF assms(1) g, where sha = sha and path = path and start = start]
  define e1 where "e1 = exec_update path (hash_is_trusted K (bs_trust st) sha 0 \<noteq> None) start e"
  have abs1: "beh_abs ?st1 pid = Some e1" unfolding r(2) by (simp add: e e1_def)
  have exec: "be_exec_path e1 = path"
    using assms(3) by (simp add: e1_def exec_update_def Let_def strscpy_def PATH_MAX_def)
  have "get_or_create_entry K mem now' pid ?st1 =
      (Some (e1\<lparr>be_last_touched := now'\<rparr>), modify_entry K pid (\<lambda>e. e\<lparr>be_last_touched := now'\<rparr>) ?st1)"
    by (simp add: get_or_create_entry_def find_pid [OF r(1)] abs1)
  then show ?thesis
    using assms(2,4) exec r(4) by (simp add: av_behavior_check_unlink_def)
qed

text \<open>Exec neither hides activity nor carries it over: when the same task execs again, both
  windows of its entry keep every note they hold; when the pid belongs to another task than the
  one last recorded, both windows are emptied; and the collector does the same for a recycled
  pid, forgetting the recorded path and the trust too.\<close>

theorem exec_window_rule:
  assumes "beh_inv K st" and "beh_abs st pid = Some e"
  shows "(\<exists>e'. beh_abs (av_behavior_record_exec K mem now pid path sha start st) pid = Some e' \<and>
      be_start_time e' = start \<and>
      ring_hist 50 (be_paths e') = (if be_start_time e = start then ring_hist 50 (be_paths e) else []) \<and>
      ring_hist 20 (be_renames e') = (if be_start_time e = start then ring_hist 20 (be_renames e) else []) \<and>
      (be_trusted e' \<longleftrightarrow> hash_is_trusted K (bs_trust st) sha 0 \<noteq> None)) \<and>
    (be_start_time e \<noteq> 0 \<and> be_start_time e \<noteq> cur \<longrightarrow>
       ring_hist 50 (be_paths (reset_recycled cur e)) = [] \<and>
       ring_hist 20 (be_renames (reset_recycled cur e)) = [] \<and> be_exec_path (reset_recycled cur e) = [] \<and>
       \<not> be_trusted (reset_recycled cur e) \<and> be_start_time (reset_recycled cur e) = cur) \<and>
    (be_start_time e = 0 \<or> be_start_time e = cur \<longrightarrow> reset_recycled cur e = e)"
proof -
  obtain eo st0 where go: "get_or_create_entry K mem now pid st = (eo, st0)" by force
  have eo: "eo = Some (e\<lparr>be_last_touched := now\<rparr>)"
    using go assms(2) by (auto simp: get_or_create_entry_def find_pid [OF assms(1)])
  note r = record_exec_spec [OF assms(1) go, where sha = sha and path = path and start = start]
  have wf: "ring_inv 50 (be_paths e)" "ring_inv 20 (be_renames e)"
    using beh_abs_wf [OF assms(1,2)] by (simp_all add: entry_wf_def)
  have e': "beh_abs (av_behavior_record_exec K mem now pid path sha start st) pid =
      Some (exec_update path (hash_is_trusted K (bs_trust st) sha 0 \<noteq> None) start (e\<lparr>be_last_touched := now\<rparr>))"
    unfolding r(2) by (simp add: eo)
  then show ?thesis
    using wf by (simp add: exec_update_def Let_def ring_hist_reset reset_recycled_def)
qed

theorem exec_window_rule_witness:
  "beh_abs (av_behavior_record_exec kapi0 True 6 77 ''/b'' [] 3
      (av_behavior_record_exec kapi0 True 5 77 ''/a'' [] 3 behavior_empty)) 77 \<noteq> None"
proof -
  let ?st = "av_behavior_record_exec kapi0 True 5 77 ''/a'' [] 3 behavior_empty"
  obtain eo st0 where g: "get_or_create_entry kapi0 True 5 77 behavior_empty = (eo, st0)" by force
  obtain e where "eo = Some e" using get_or_create_spec [OF beh_inv_empty g] by auto
  then obtain e1 where "beh_abs ?st 77 = Some e1"
    using record_exec_spec(2) [OF beh_inv_empty g, of "''/a''" "[]" 3] by auto
  then show ?thesis
    using exec_window_rule [OF record_exec_inv [OF beh_inv_empty], of kapi0 True 5 77 "''/a''" "[]" 3 77 e1 True 6 "''/b''" "[]" 3 0]
    by (metis option.distinct(1))
qed

lemma concat_map_empty: "concat (map (\<lambda>_. []) t) = []"
  by (induction t) simp_all

text \<open>Loading the engine is all or nothing, and unloading empties every table.\<close>

lemma behavior_load_unload:
  assumes "av_behavior_init a b c \<lparr>br_trust_proc = False, br_protect_proc = False, br_gc_wq = False\<rparr> = (r, res, st)"
  shows "(r = OK \<longleftrightarrow> a \<and> b \<and> c) \<and> beh_inv K st \<and> beh_abs st = Map.empty \<and>
    (r \<noteq> OK \<longrightarrow> r = Inl ENOMEM \<and> res = \<lparr>br_trust_proc = False, br_protect_proc = False, br_gc_wq = False\<rparr>) \<and>
    (r = OK \<longrightarrow> res = \<lparr>br_trust_proc = True, br_protect_proc = True, br_gc_wq = True\<rparr> \<and>
      fst (av_behavior_exit res st') = \<lparr>br_trust_proc = False, br_protect_proc = False, br_gc_wq = False\<rparr> \<and>
      hash_for_each (bs_table (snd (av_behavior_exit res st'))) = [] \<and>
      trust_abs (bs_trust (snd (av_behavior_exit res st'))) = Map.empty \<and>
      protected_abs (bs_protected (snd (av_behavior_exit res st'))) = {})"
proof -
  have "st = behavior_empty" "beh_abs behavior_empty = Map.empty"
    using assms by (auto simp: av_behavior_init_def Let_def beh_abs_def behavior_empty_def split: if_splits)
  then show ?thesis
    using assms beh_inv_empty [of K]
    by (auto simp: av_behavior_init_def Let_def av_behavior_exit_def hash_for_each_def trust_table_destroy_def
        protected_table_destroy_def trust_abs_def protected_abs_def concat_map_empty split: if_splits)
qed

end
