(* ===== verification/PathNorm.thy ===== *)
theory PathNorm
  imports ProtectedList
begin

text \<open>
  Path resolution of the kernel module (\<^verbatim>\<open>av/main.c\<close>): the lexical normalisation of an
  absolute path and the resolution of a syscall's path argument against the base directory
  captured in the kprobe handler. The path the kernel reports for the base (\<^verbatim>\<open>d_path()\<close>) is an
  argument.
\<close>

section \<open>Operations\<close>

text \<open>\<^verbatim>\<open>strsep(&s, "/")\<close> iterated to the end: the pieces between separators, empty ones included.\<close>

fun strsep_all :: "char \<Rightarrow> string \<Rightarrow> string list" where
  "strsep_all c [] = [[]]"
| "strsep_all c (x # xs) =
     (if x = c then [] # strsep_all c xs
      else case strsep_all c xs of [] \<Rightarrow> [[x]] | t # ts \<Rightarrow> (x # t) # ts)"

text \<open>\<^verbatim>\<open>strlcat(dst, src, n)\<close> on a destination of capacity \<open>n\<close>.\<close>

definition strlcat :: "nat \<Rightarrow> string \<Rightarrow> string \<Rightarrow> string" where
  "strlcat n dst src = (if n \<le> length dst then dst else dst @ take (n - 1 - length dst) src)"

text \<open>The component loop: the stack holds the last component first; \<open>None\<close> is the overflow of the
  128-slot array.\<close>

fun norm_stack :: "string list \<Rightarrow> string list \<Rightarrow> string list option" where
  "norm_stack [] stack = Some stack"
| "norm_stack (tok # toks) stack =
     (if tok = [] \<or> tok = ''.'' then norm_stack toks stack
      else if tok = ''..'' then norm_stack toks (tl stack)
      else if length stack < 128 then norm_stack toks (tok # stack)
      else None)"

fun render_from :: "nat \<Rightarrow> string \<Rightarrow> string list \<Rightarrow> string" where
  "render_from n acc [] = acc"
| "render_from n acc (tok # toks) = render_from n (strlcat n (strlcat n acc ''/'') tok) toks"

definition normalize_abs_path :: "bool \<Rightarrow> nat \<Rightarrow> string \<Rightarrow> string" where
  "normalize_abs_path mem path_len path =
     (if \<not> mem then path
      else
        (case norm_stack (strsep_all CHR ''/'' path) [] of
           None \<Rightarrow> path
         | Some stack \<Rightarrow>
             render_from path_len (if stack = [] then strlcat path_len [] ''/'' else []) (rev stack)))"

text \<open>\<open>mem\<close> is the allocation of the \<^verbatim>\<open>d_path()\<close> buffer, \<open>dup\<close> that of the normaliser's copy,
  and \<open>dpath\<close> what \<^verbatim>\<open>d_path()\<close> returns for the base.\<close>

definition resolve_absolute_path ::
  "bool \<Rightarrow> bool \<Rightarrow> string ret_val \<Rightarrow> nat \<Rightarrow> string \<Rightarrow> string" where
  "resolve_absolute_path mem dup dpath out_len path =
     (if path = [] then
        (if \<not> mem then []
         else case dpath of Inl _ \<Rightarrow> [] | Inr dirpath \<Rightarrow> strscpy out_len dirpath)
      else if hd path = CHR ''/'' then normalize_abs_path dup out_len (strscpy out_len path)
      else if \<not> mem then strscpy out_len path
      else
        (case dpath of
           Inl _ \<Rightarrow> strscpy out_len path
         | Inr dirpath \<Rightarrow>
             let full = dirpath @ ''/'' @ path
             in if out_len \<le> length full then strscpy out_len path
                else normalize_abs_path dup out_len full))"

section \<open>Specification\<close>

text \<open>The directory components a path names, last first, without a bound on their number.\<close>

fun walk :: "string list \<Rightarrow> string list \<Rightarrow> string list" where
  "walk [] stack = stack"
| "walk (tok # toks) stack =
     (if tok = [] \<or> tok = ''.'' then walk toks stack
      else if tok = ''..'' then walk toks (tl stack)
      else walk toks (tok # stack))"

definition components :: "string \<Rightarrow> string list" where
  "components path = rev (walk (strsep_all CHR ''/'' path) [])"

definition render :: "string list \<Rightarrow> string" where
  "render comps = (if comps = [] then ''/'' else concat (map (\<lambda>c. CHR ''/'' # c) comps))"

definition plain_component :: "string \<Rightarrow> bool" where
  "plain_component c \<longleftrightarrow> c \<noteq> [] \<and> c \<noteq> ''.'' \<and> c \<noteq> ''..'' \<and> CHR ''/'' \<notin> set c"

section \<open>Lemmas\<close>

lemma strsep_all_nonempty: "strsep_all c s \<noteq> []"
  by (induction s) (auto split: list.split)

lemma strsep_all_no_sep: "tok \<in> set (strsep_all c s) \<Longrightarrow> c \<notin> set tok"
  by (induction s arbitrary: tok) (auto split: list.splits if_splits)

lemma strsep_all_plain: "c \<notin> set s \<Longrightarrow> strsep_all c s = [s]"
  by (induction s) auto

lemma strsep_all_append: "strsep_all c (s @ c # t) = strsep_all c s @ strsep_all c t"
proof (induction s)
  case (Cons x s)
  then show ?case using strsep_all_nonempty [of c s] by (auto split: list.splits simp: neq_Nil_conv)
qed simp

lemma strsep_all_length: "sum_list (map (\<lambda>t. Suc (length t)) (strsep_all c s)) = Suc (length s)"
proof (induction s)
  case (Cons x s)
  then show ?case using strsep_all_nonempty [of c s] by (cases "strsep_all c s") auto
qed simp

lemma norm_stack_walk: "norm_stack toks stack = Some st \<Longrightarrow> st = walk toks stack"
  by (induction toks arbitrary: stack) (auto split: if_splits)

lemma walk_append: "walk (xs @ ys) stack = walk ys (walk xs stack)"
  by (induction xs arbitrary: stack) simp_all

lemma walk_plain:
  assumes "\<forall>t \<in> set toks. CHR ''/'' \<notin> set t" and "\<forall>t \<in> set stack. plain_component t"
  shows "\<forall>t \<in> set (walk toks stack). plain_component t"
  using assms
proof (induction toks arbitrary: stack)
  case (Cons tok toks)
  have tl: "\<forall>t \<in> set (tl stack). plain_component t" using Cons.prems(2) by (cases stack) simp_all
  consider "tok = [] \<or> tok = ''.''" | "tok = ''..''" | "plain_component tok"
    using Cons.prems(1) by (auto simp: plain_component_def)
  then show ?case
  proof cases
    case 1
    then show ?thesis using Cons.IH [of stack] Cons.prems by simp
  next
    case 2
    then show ?thesis using Cons.IH [of "tl stack"] Cons.prems(1) tl by simp
  next
    case 3
    then have "walk (tok # toks) stack = walk toks (tok # stack)" by (auto simp: plain_component_def)
    then show ?thesis using Cons.IH [of "tok # stack"] Cons.prems 3 by simp
  qed
qed simp

lemma walk_weight:
  "sum_list (map (\<lambda>t. Suc (length t)) (walk toks stack)) \<le>
   sum_list (map (\<lambda>t. Suc (length t)) toks) + sum_list (map (\<lambda>t. Suc (length t)) stack)"
proof (induction toks stack rule: walk.induct)
  case (2 tok toks stack)
  have "sum_list (map (\<lambda>t. Suc (length t)) (tl stack)) \<le> sum_list (map (\<lambda>t. Suc (length t)) stack)"
    by (cases stack) auto
  with 2 show ?case by auto
qed simp

lemma components_plain: "\<forall>c \<in> set (components path). plain_component c"
proof -
  have "\<forall>t \<in> set (strsep_all CHR ''/'' path). CHR ''/'' \<notin> set t" using strsep_all_no_sep by blast
  from walk_plain [OF this, of "[]"] show ?thesis by (simp add: components_def)
qed

lemma walk_all_plain: "\<forall>t \<in> set toks. plain_component t \<Longrightarrow> walk toks stack = rev toks @ stack"
  by (induction toks arbitrary: stack) (auto simp: plain_component_def)

lemma strsep_render_tail:
  "\<forall>c \<in> set cs. CHR ''/'' \<notin> set c \<Longrightarrow> cs \<noteq> [] \<Longrightarrow>
   strsep_all CHR ''/'' (concat (map (\<lambda>c. CHR ''/'' # c) cs)) = [] # cs"
proof (induction cs rule: rev_induct)
  case (snoc c cs)
  show ?case
  proof (cases "cs = []")
    case True
    with snoc.prems show ?thesis by (simp add: strsep_all_plain)
  next
    case False
    with snoc have "strsep_all CHR ''/'' (concat (map (\<lambda>c. CHR ''/'' # c) cs)) = [] # cs" by simp
    moreover have "strsep_all CHR ''/'' c = [c]" using snoc.prems by (simp add: strsep_all_plain)
    ultimately show ?thesis
      using strsep_all_append [of "CHR ''/''" "concat (map (\<lambda>c. CHR ''/'' # c) cs)" c] by simp
  qed
qed simp

lemma components_render:
  assumes "\<forall>c \<in> set cs. plain_component c"
  shows "components (render cs) = cs"
proof (cases "cs = []")
  case True
  then show ?thesis by (simp add: components_def render_def)
next
  case False
  have "strsep_all CHR ''/'' (render cs) = [] # cs"
    unfolding render_def using False strsep_render_tail [of cs] assms by (simp add: plain_component_def)
  then show ?thesis using walk_all_plain [OF assms, of "[]"] by (simp add: components_def)
qed

lemma render_from_fits:
  "length acc + sum_list (map (\<lambda>t. Suc (length t)) toks) < n \<Longrightarrow>
   render_from n acc toks = acc @ concat (map (\<lambda>c. CHR ''/'' # c) toks)"
  by (induction toks arbitrary: acc) (auto simp: strlcat_def)

lemma components_weight:
  assumes "take 1 path = ''/''"
  shows "sum_list (map (\<lambda>t. Suc (length t)) (components path)) \<le> length path"
proof -
  obtain p where p: "path = CHR ''/'' # p" using assms by (cases path) auto
  have "walk (strsep_all CHR ''/'' path) [] = walk (strsep_all CHR ''/'' p) []" by (simp add: p)
  moreover have "sum_list (map (\<lambda>t. Suc (length t)) (walk (strsep_all CHR ''/'' p) [])) \<le> Suc (length p)"
    using walk_weight [of "strsep_all CHR ''/'' p" "[]"] by (simp add: strsep_all_length)
  ultimately show ?thesis by (simp add: p components_def rev_map [symmetric] sum_list_rev)
qed

lemma normalize_render:
  assumes "take 1 path = ''/''" and "length path < n"
    and "norm_stack (strsep_all CHR ''/'' path) [] = Some stack"
  shows "normalize_abs_path True n path = render (components path)"
proof -
  have st: "rev stack = components path" using norm_stack_walk [OF assms(3)] by (simp add: components_def)
  have w: "sum_list (map (\<lambda>t. Suc (length t)) (rev stack)) < n"
    using components_weight [OF assms(1)] assms(2) st by simp
  have "1 < n" using assms(1,2) by (cases path) auto
  then have s: "strlcat n [] ''/'' = ''/''" by (simp add: strlcat_def)
  show ?thesis
  proof (cases "stack = []")
    case True
    then have "components path = []" using st by simp
    with True assms(3) s show ?thesis by (simp add: normalize_abs_path_def render_def)
  next
    case False
    then have "render_from n [] (rev stack) = concat (map (\<lambda>c. CHR ''/'' # c) (rev stack))"
      using render_from_fits [of "[]" "rev stack" n] w by simp
    with False assms(3) st show ?thesis
      by (simp add: normalize_abs_path_def render_def) (metis rev_is_Nil_conv)
  qed
qed

lemma norm_stack_shallow:
  "length toks + length stack \<le> 128 \<Longrightarrow> norm_stack toks stack = Some (walk toks stack)"
  by (induction toks arbitrary: stack) auto

lemma norm_stack_plain:
  "\<forall>t \<in> set toks. plain_component t \<Longrightarrow> length toks + length stack \<le> 128 \<Longrightarrow>
   norm_stack toks stack = Some (rev toks @ stack)"
  by (induction toks arbitrary: stack) (auto simp: plain_component_def)

lemma norm_stack_le: "norm_stack toks stack = Some st \<Longrightarrow> length stack \<le> 128 \<Longrightarrow> length st \<le> 128"
  by (induction toks arbitrary: stack) (auto split: if_splits)

lemma normalize_components:
  assumes "take 1 path = ''/''" and "length path < n"
  shows "components (normalize_abs_path mem n path) = components path"
proof (cases "mem \<and> norm_stack (strsep_all CHR ''/'' path) [] \<noteq> None")
  case True
  then have "normalize_abs_path mem n path = render (components path)"
    using normalize_render [OF assms] by auto
  then show ?thesis using components_render [OF components_plain] by simp
next
  case False
  then show ?thesis by (auto simp: normalize_abs_path_def)
qed

lemma render_abs: "take 1 (render cs) = ''/''"
  by (cases cs) (simp_all add: render_def)

lemma length_render: "length (render cs) = (if cs = [] then 1 else sum_list (map (\<lambda>t. Suc (length t)) cs))"
  by (auto simp: render_def length_concat comp_def)

section \<open>Properties\<close>



text \<open>Resolution never misnames a file: whenever the string handed to the behaviour engine is
  absolute, it names exactly the components of the real target (the base itself for an empty
  path, the path when it is absolute, the path under the base otherwise), whichever of the
  allocation and overflow fallbacks was taken; when it cannot be resolved the result is not
  absolute, so it can never be taken for another file's absolute path.\<close>

theorem resolve_faithful:
  assumes "dpath = Inr dir" and "take 1 dir = ''/''" and "length dir < n" and "length path < n"
    and "take 1 (resolve_absolute_path mem dup dpath n path) = ''/''"
  shows "components (resolve_absolute_path mem dup dpath n path) =
    components (if path = [] then dir else if hd path = CHR ''/'' then path else dir @ ''/'' @ path)"
proof (cases "path = []")
  case True
  with assms show ?thesis by (auto simp: resolve_absolute_path_def strscpy_def split: if_splits)
next
  case ne: False
  show ?thesis
  proof (cases "hd path = CHR ''/''")
    case True
    then have abs: "take 1 path = ''/''" using ne by (cases path) auto
    with True ne assms(4) show ?thesis
      using normalize_components [OF abs assms(4)]
      by (simp add: resolve_absolute_path_def strscpy_fits)
  next
    case False
    have rel: "take 1 (strscpy n path) \<noteq> ''/''" using False ne by (cases path) (auto simp: strscpy_def take_Cons')
    let ?full = "dir @ ''/'' @ path"
    have abs: "take 1 ?full = ''/''" using assms(2) by (cases dir) auto
    show ?thesis
      using False ne assms(1,5) rel normalize_components [OF abs, of n dup]
      by (auto simp: resolve_absolute_path_def Let_def split: if_splits)
  qed
qed

theorem resolve_faithful_witness:
  "components (resolve_absolute_path True True (Inr ''/etc'') 4096 ''./shadow'') = [''etc'', ''shadow'']"
proof -
  have r: "resolve_absolute_path True True (Inr ''/etc'') 4096 ''./shadow'' = ''/etc/shadow''"
  proof -
    have "norm_stack (strsep_all CHR ''/'' ''/etc/./shadow'') [] = Some [''shadow'', ''etc'']" by code_simp
    moreover have "render (components ''/etc/./shadow'') = ''/etc/shadow''" by code_simp
    ultimately show ?thesis
      using normalize_render [of "''/etc/./shadow''" 4096] by (simp add: resolve_absolute_path_def)
  qed
  have "components (''/etc'' @ ''/'' @ ''./shadow'') = [''etc'', ''shadow'']" by code_simp
  then show ?thesis
    using resolve_faithful [of "Inr ''/etc''" "''/etc''" 4096 "''./shadow''" True True] r by simp
qed

end
