(* ===== verification/NetlinkChan.thy ===== *)
theory NetlinkChan
  imports AvPrelude "HOL-Library.Multiset"
begin

text \<open>
  The netlink channel between the module and the daemon (\<^verbatim>\<open>av/netlink_chan.c\<close>): registration,
  the pending scan requests and their verdicts. Each region that runs under one of the two
  spin locks is one definition; \<open>nl_step\<close> interleaves the regions of any number of requests
  and verdict handlers. A pending request lives at an address that is never reused by the
  model, so an access to a freed request is visible.
\<close>

section \<open>Data\<close>

definition AV_VERDICT_CLEAN :: u8 where "AV_VERDICT_CLEAN = 0"
definition AV_VERDICT_MALICIOUS :: u8 where "AV_VERDICT_MALICIOUS = 1"
definition AV_RULE_NAME_MAXLEN :: nat where "AV_RULE_NAME_MAXLEN = 63"

type_synonym ptr = nat

record av_pending_scan =
  ps_reqid :: u64
  ps_done :: bool
  ps_verdict :: int
  ps_rule :: string

text \<open>\<open>nl_heap\<close> holds the live requests, \<open>nl_poison\<close> the requests that unloading took off the
  list with \<^verbatim>\<open>list_del()\<close>, whose link fields are poisoned, and \<open>nl_fresh\<close> is the next unused
  address.\<close>

record nl_state =
  nl_portid :: u32
  nl_registered :: bool
  nl_pending :: "ptr list"
  nl_reqid :: u64
  nl_heap :: "ptr \<rightharpoonup> av_pending_scan"
  nl_poison :: "ptr set"
  nl_fresh :: ptr

record verdict_msg =
  vm_portid :: u32
  vm_reqid :: "u64 option"
  vm_verdict :: "u8 option"
  vm_rule :: "string option"

definition nl_zero :: nl_state where
  "nl_zero = \<lparr>nl_portid = 0, nl_registered = False, nl_pending = [], nl_reqid = 0,
     nl_heap = Map.empty, nl_poison = {}, nl_fresh = 0\<rparr>"

section \<open>Registration\<close>

text \<open>\<open>urelease\<close> and \<open>generic\<close>: the event is \<^verbatim>\<open>NETLINK_URELEASE\<close> of a generic netlink socket.\<close>

definition av_netlink_notify :: "bool \<Rightarrow> bool \<Rightarrow> u32 \<Rightarrow> nl_state \<Rightarrow> nl_state" where
  "av_netlink_notify urelease generic portid st =
     (if \<not> urelease \<or> \<not> generic then st
      else if nl_registered st \<and> portid = nl_portid st then st\<lparr>nl_registered := False\<rparr>
      else st)"

definition av_nl_register_doit :: "u32 \<Rightarrow> nl_state \<Rightarrow> ret \<times> nl_state" where
  "av_nl_register_doit snd_portid st = (OK, st\<lparr>nl_portid := snd_portid, nl_registered := True\<rparr>)"

section \<open>Verdicts\<close>

text \<open>The handler up to the end of its \<^verbatim>\<open>pending_lock\<close> region: a reply, or the request it has
  taken off the list together with what it is about to store.\<close>

datatype verdict_step = VReply ret | VFound ptr u8 string

definition find_reqid :: "u64 \<Rightarrow> nl_state \<Rightarrow> ptr option" where
  "find_reqid reqid st =
     find (\<lambda>p. case nl_heap st p of Some s \<Rightarrow> ps_reqid s = reqid | None \<Rightarrow> False) (nl_pending st)"

definition av_nl_verdict_dequeue :: "verdict_msg \<Rightarrow> nl_state \<Rightarrow> verdict_step \<times> nl_state" where
  "av_nl_verdict_dequeue msg st =
     (case (vm_reqid msg, vm_verdict msg) of
        (Some reqid, Some verdict) \<Rightarrow>
          if \<not> nl_registered st \<or> vm_portid msg \<noteq> nl_portid st then (VReply (Inl EPERM), st)
          else if verdict \<noteq> AV_VERDICT_CLEAN \<and> verdict \<noteq> AV_VERDICT_MALICIOUS then (VReply (Inl EINVAL), st)
          else
            let rule_name = (case vm_rule msg of None \<Rightarrow> [] | Some r \<Rightarrow> strscpy (AV_RULE_NAME_MAXLEN + 1) r)
            in (case find_reqid reqid st of
                  None \<Rightarrow> (VReply OK, st)
                | Some p \<Rightarrow> (VFound p verdict rule_name, st\<lparr>nl_pending := remove1 p (nl_pending st)\<rparr>))
      | _ \<Rightarrow> (VReply (Inl EINVAL), st))"

text \<open>The stores through \<^verbatim>\<open>found\<close> after the lock is dropped; \<open>None\<close> is a store to freed memory.\<close>

definition av_nl_verdict_complete :: "ptr \<Rightarrow> u8 \<Rightarrow> string \<Rightarrow> nl_state \<Rightarrow> nl_state option" where
  "av_nl_verdict_complete p verdict rule_name st =
     (case nl_heap st p of
        None \<Rightarrow> None
      | Some s \<Rightarrow>
          Some (st\<lparr>nl_heap := (nl_heap st)(p \<mapsto>
            s\<lparr>ps_verdict := uint verdict, ps_rule := strscpy (AV_RULE_NAME_MAXLEN + 1) rule_name,
              ps_done := True\<rparr>)\<rparr>))"

definition av_nl_verdict_doit :: "verdict_msg \<Rightarrow> nl_state \<Rightarrow> (ret \<times> nl_state) option" where
  "av_nl_verdict_doit msg st =
     (case av_nl_verdict_dequeue msg st of
        (VReply r, st') \<Rightarrow> Some (r, st')
      | (VFound p v rn, st') \<Rightarrow> map_option (\<lambda>st''. (OK, st'')) (av_nl_verdict_complete p v rn st'))"

section \<open>Scan requests\<close>

text \<open>Up to the insertion into the pending list.\<close>

definition scan_begin :: "bool \<Rightarrow> nl_state \<Rightarrow> ptr ret_val \<times> nl_state" where
  "scan_begin mem st =
     (if \<not> nl_registered st then (Inl ENOTCONN, st)
      else if \<not> mem then (Inl ENOMEM, st)
      else
        let reqid = nl_reqid st + 1; p = nl_fresh st
        in (Inr p, st\<lparr>nl_pending := p # nl_pending st, nl_reqid := reqid,
                      nl_heap := (nl_heap st)(p \<mapsto> \<lparr>ps_reqid = reqid, ps_done = False, ps_verdict = -1, ps_rule = []\<rparr>),
                      nl_fresh := Suc p\<rparr>))"

definition drop_request :: "ptr \<Rightarrow> nl_state \<Rightarrow> nl_state" where
  "drop_request p st =
     st\<lparr>nl_pending := remove1 p (nl_pending st), nl_heap := (nl_heap st)(p := None)\<rparr>"

text \<open>Building and sending the message: the outcome of the buffer allocation, of the header and
  the attributes, and of the unicast.\<close>

definition scan_send :: "bool \<Rightarrow> bool \<Rightarrow> ret \<Rightarrow> ret \<Rightarrow> ptr \<Rightarrow> nl_state \<Rightarrow> ret \<times> nl_state" where
  "scan_send skb hdr put unicast p st =
     (if \<not> skb then (Inl ENOMEM, drop_request p st)
      else if \<not> hdr then (Inl EMSGSIZE, drop_request p st)
      else
        (case put of
           Inl e \<Rightarrow> (Inl e, drop_request p st)
         | Inr _ \<Rightarrow>
             (case unicast of
                Inl e \<Rightarrow> (Inl e, drop_request p st)
              | Inr _ \<Rightarrow> (OK, st))))"

text \<open>The wait has timed out: give up if the link is not empty, which is the case when the request
  is still listed, and also when its link is poisoned.\<close>

definition scan_timeout :: "ptr \<Rightarrow> nl_state \<Rightarrow> bool \<times> nl_state" where
  "scan_timeout p st =
     (if p \<in> set (nl_pending st) \<or> p \<in> nl_poison st then (True, drop_request p st) else (False, st))"

text \<open>The completion has been seen: read the verdict and free the request.\<close>

definition scan_finish :: "nat \<Rightarrow> ptr \<Rightarrow> nl_state \<Rightarrow> ((int \<times> string) \<times> nl_state) option" where
  "scan_finish rule_out_len p st =
     (case nl_heap st p of
        Some s \<Rightarrow>
          if ps_done s
          then Some ((ps_verdict s, strscpy rule_out_len (ps_rule s)), st\<lparr>nl_heap := (nl_heap st)(p := None)\<rparr>)
          else None
      | None \<Rightarrow> None)"

text \<open>One request with the rest of the system as two arguments: what other threads do while it
  waits (\<open>during\<close>) and after a raced timeout (\<open>late\<close>). The result is \<open>None\<close> when it is still
  blocked then.\<close>

definition av_netlink_scan_request ::
  "bool \<Rightarrow> bool \<Rightarrow> bool \<Rightarrow> ret \<Rightarrow> ret \<Rightarrow> (nl_state \<Rightarrow> nl_state) \<Rightarrow> (nl_state \<Rightarrow> nl_state) \<Rightarrow> nat \<Rightarrow> nl_state \<Rightarrow>
   ((int \<times> string) ret_val \<times> nl_state) option" where
  "av_netlink_scan_request mem skb hdr put unicast during late rule_out_len st =
     (case scan_begin mem st of
        (Inl e, st1) \<Rightarrow> Some (Inl e, st1)
      | (Inr p, st1) \<Rightarrow>
          (case scan_send skb hdr put unicast p st1 of
             (Inl e, st2) \<Rightarrow> Some (Inl e, st2)
           | (Inr _, st2) \<Rightarrow>
               let st3 = during st2
               in (case scan_finish rule_out_len p st3 of
                     Some (v, st4) \<Rightarrow> Some (Inr v, st4)
                   | None \<Rightarrow>
                       (case scan_timeout p st3 of
                          (True, st4) \<Rightarrow> Some (Inl ETIMEDOUT, st4)
                        | (False, st4) \<Rightarrow>
                            map_option (\<lambda>(v, st5). (Inr v, st5)) (scan_finish rule_out_len p (late st4))))))"

section \<open>Start and stop\<close>

record nl_resources =
  nr_notifier :: bool
  nr_family :: bool

definition av_netlink_init :: "ret \<Rightarrow> ret \<Rightarrow> nl_resources \<Rightarrow> ret \<times> nl_resources" where
  "av_netlink_init notifier family res =
     (case notifier of
        Inl e \<Rightarrow> (Inl e, res)
      | Inr _ \<Rightarrow>
          let res1 = res\<lparr>nr_notifier := True\<rparr>
          in (case family of
                Inl e \<Rightarrow> (Inl e, res1\<lparr>nr_notifier := False\<rparr>)
              | Inr _ \<Rightarrow> (OK, res1\<lparr>nr_family := True\<rparr>)))"

text \<open>Unloading wakes every listed request without storing a verdict.\<close>

definition wake_all :: "nl_state \<Rightarrow> nl_state" where
  "wake_all st =
     st\<lparr>nl_heap := (\<lambda>p. if p \<in> set (nl_pending st) then map_option (ps_done_update (\<lambda>_. True)) (nl_heap st p)
                        else nl_heap st p),
        nl_poison := nl_poison st \<union> set (nl_pending st), nl_pending := []\<rparr>"

definition av_netlink_exit :: "nl_resources \<Rightarrow> nl_state \<Rightarrow> nl_resources \<times> nl_state" where
  "av_netlink_exit res st = (res\<lparr>nr_family := False, nr_notifier := False\<rparr>, wake_all st)"

section \<open>Interleaving\<close>

datatype waiter = WSend | WWait | WFinal

text \<open>
  The channel with its threads: where each requester stands, the verdict handlers that have
  taken a request off the list and not yet stored, and the history: the verdicts accepted, the
  results returned, whether the module was unloaded, whether a freed request was written,
  whether a poisoned link was unlinked, and whether a request failed to be sent after a handler
  had already taken it.
\<close>

record nl_sys =
  sy_nl :: nl_state
  sy_wait :: "ptr \<rightharpoonup> waiter"
  sy_hand :: "(ptr \<times> u8 \<times> string) multiset"
  sy_accepted :: "(ptr \<times> u8 \<times> string) set"
  sy_results :: "(ptr \<times> (int \<times> string) ret_val) list"
  sy_exited :: bool
  sy_uaf :: bool
  sy_oops :: bool
  sy_early :: bool

definition sys_zero :: nl_sys where
  "sys_zero = \<lparr>sy_nl = nl_zero, sy_wait = Map.empty, sy_hand = {#}, sy_accepted = {}, sy_results = [],
     sy_exited = False, sy_uaf = False, sy_oops = False, sy_early = False\<rparr>"

inductive nl_step :: "nl_sys \<Rightarrow> nl_sys \<Rightarrow> bool" where
  st_register: "av_nl_register_doit port (sy_nl s) = (r, nl') \<Longrightarrow> nl_step s (s\<lparr>sy_nl := nl'\<rparr>)"
| st_notify: "nl_step s (s\<lparr>sy_nl := av_netlink_notify u g port (sy_nl s)\<rparr>)"
| st_begin: "scan_begin mem (sy_nl s) = (Inr p, nl') \<Longrightarrow>
    nl_step s (s\<lparr>sy_nl := nl', sy_wait := (sy_wait s)(p \<mapsto> WSend)\<rparr>)"
| st_sent: "sy_wait s p = Some WSend \<Longrightarrow> scan_send skb hdr put uni p (sy_nl s) = (Inr x, nl') \<Longrightarrow>
    nl_step s (s\<lparr>sy_nl := nl', sy_wait := (sy_wait s)(p \<mapsto> WWait)\<rparr>)"
| st_send_fail: "sy_wait s p = Some WSend \<Longrightarrow> scan_send skb hdr put uni p (sy_nl s) = (Inl e, nl') \<Longrightarrow>
    nl_step s (s\<lparr>sy_nl := nl', sy_wait := (sy_wait s)(p := None), sy_results := (p, Inl e) # sy_results s,
      sy_oops := (sy_oops s \<or> p \<in> nl_poison (sy_nl s)), sy_early := (sy_early s \<or> p \<in> fst ` set_mset (sy_hand s))\<rparr>)"
| st_dequeue: "av_nl_verdict_dequeue msg (sy_nl s) = (VFound p v rn, nl') \<Longrightarrow>
    nl_step s (s\<lparr>sy_nl := nl', sy_hand := add_mset (p, v, rn) (sy_hand s),
      sy_accepted := insert (p, v, rn) (sy_accepted s)\<rparr>)"
| st_store: "(p, v, rn) \<in># sy_hand s \<Longrightarrow> av_nl_verdict_complete p v rn (sy_nl s) = Some nl' \<Longrightarrow>
    nl_step s (s\<lparr>sy_nl := nl', sy_hand := sy_hand s - {#(p, v, rn)#}\<rparr>)"
| st_store_freed: "(p, v, rn) \<in># sy_hand s \<Longrightarrow> av_nl_verdict_complete p v rn (sy_nl s) = None \<Longrightarrow>
    nl_step s (s\<lparr>sy_hand := sy_hand s - {#(p, v, rn)#}, sy_uaf := True\<rparr>)"
| st_finish: "sy_wait s p = Some w \<Longrightarrow> w \<noteq> WSend \<Longrightarrow> scan_finish (AV_RULE_NAME_MAXLEN + 1) p (sy_nl s) = Some (res, nl') \<Longrightarrow>
    nl_step s (s\<lparr>sy_nl := nl', sy_wait := (sy_wait s)(p := None), sy_results := (p, Inr res) # sy_results s\<rparr>)"
| st_timeout: "sy_wait s p = Some WWait \<Longrightarrow> scan_timeout p (sy_nl s) = (True, nl') \<Longrightarrow>
    nl_step s (s\<lparr>sy_nl := nl', sy_wait := (sy_wait s)(p := None),
      sy_results := (p, Inl ETIMEDOUT) # sy_results s,
      sy_oops := (sy_oops s \<or> p \<in> nl_poison (sy_nl s))\<rparr>)"
| st_raced: "sy_wait s p = Some WWait \<Longrightarrow> scan_timeout p (sy_nl s) = (False, nl') \<Longrightarrow>
    nl_step s (s\<lparr>sy_nl := nl', sy_wait := (sy_wait s)(p \<mapsto> WFinal)\<rparr>)"
| st_exit: "nl_step s (s\<lparr>sy_nl := wake_all (sy_nl s), sy_exited := True\<rparr>)"

inductive nl_reach :: "nl_sys \<Rightarrow> bool" where
  nlr_init: "nl_reach sys_zero"
| nlr_step: "nl_reach s \<Longrightarrow> nl_step s s' \<Longrightarrow> nl_reach s'"

inductive_cases nl_stepE: "nl_step s s'"

section \<open>Invariant\<close>

text \<open>A verdict that a request may return: one the handler accepted for it, or the \<open>-1\<close> of an
  unloading module.\<close>

definition genuine :: "nl_sys \<Rightarrow> ptr \<Rightarrow> int \<Rightarrow> string \<Rightarrow> bool" where
  "genuine s p v rn \<longleftrightarrow> v = -1 \<and> rn = [] \<and> sy_exited s \<or> (\<exists>u. (p, u, rn) \<in> sy_accepted s \<and> v = uint u)"

definition held :: "nl_sys \<Rightarrow> ptr set" where
  "held s = fst ` set_mset (sy_hand s)"

lemma held_update [simp]:
  "held (sy_nl_update a s) = held s" "held (sy_wait_update b s) = held s"
  "held (sy_results_update c s) = held s" "held (sy_oops_update d s) = held s"
  "held (sy_early_update e s) = held s" "held (sy_accepted_update f s) = held s"
  "held (sy_uaf_update g s) = held s" "held (sy_exited_update h s) = held s"
  by (simp_all add: held_def)

lemma genuine_update [simp]:
  "genuine (sy_nl_update a s) = genuine s" "genuine (sy_wait_update b s) = genuine s"
  "genuine (sy_results_update c s) = genuine s" "genuine (sy_oops_update d s) = genuine s"
  "genuine (sy_early_update e s) = genuine s" "genuine (sy_hand_update f s) = genuine s"
  "genuine (sy_uaf_update g s) = genuine s"
  by (simp_all add: genuine_def fun_eq_iff)

definition live_ok :: "nl_sys \<Rightarrow> ptr \<Rightarrow> av_pending_scan \<Rightarrow> bool" where
  "live_ok s q x \<longleftrightarrow> sy_wait s q \<noteq> None \<and> q < nl_fresh (sy_nl s) \<and>
     (if ps_done x
      then q \<notin> held s \<and> q \<notin> set (nl_pending (sy_nl s)) \<and> genuine s q (ps_verdict x) (ps_rule x) \<and>
        length (ps_rule x) \<le> 63
      else ps_verdict x = -1 \<and> ps_rule x = [] \<and> q \<notin> nl_poison (sy_nl s) \<and>
        (q \<in> set (nl_pending (sy_nl s)) \<longleftrightarrow> q \<notin> held s))"

definition ptr_ok :: "nl_sys \<Rightarrow> ptr \<Rightarrow> bool" where
  "ptr_ok s q \<longleftrightarrow>
     (case nl_heap (sy_nl s) q of
        None \<Rightarrow> q \<notin> set (nl_pending (sy_nl s)) \<and> sy_wait s q = None \<and> (q \<in> held s \<longrightarrow> sy_early s)
      | Some x \<Rightarrow> live_ok s q x) \<and>
     (q \<in> nl_poison (sy_nl s) \<longrightarrow> q < nl_fresh (sy_nl s) \<and> sy_exited s \<and> q \<notin> held s) \<and>
     (q \<in> held s \<longrightarrow> q < nl_fresh (sy_nl s))"

definition hand_ok :: "nl_sys \<Rightarrow> bool" where
  "hand_ok s \<longleftrightarrow> (\<forall>h \<in># sy_hand s. h \<in> sy_accepted s \<and> length (snd (snd h)) \<le> 63) \<and>
     (\<forall>p. size (filter_mset (\<lambda>h. fst h = p) (sy_hand s)) \<le> 1) \<and>
     (\<forall>h \<in> sy_accepted s. fst (snd h) = AV_VERDICT_CLEAN \<or> fst (snd h) = AV_VERDICT_MALICIOUS)"

definition results_ok :: "nl_sys \<Rightarrow> bool" where
  "results_ok s \<longleftrightarrow> distinct (map fst (sy_results s)) \<and>
     (\<forall>a \<in> set (sy_results s). nl_heap (sy_nl s) (fst a) = None \<and> fst a < nl_fresh (sy_nl s) \<and>
        (\<forall>v rn. snd a = Inr (v, rn) \<longrightarrow> genuine s (fst a) v rn))"

definition flags_ok :: "nl_sys \<Rightarrow> bool" where
  "flags_ok s \<longleftrightarrow> (sy_uaf s \<longrightarrow> sy_early s) \<and> (sy_oops s \<longrightarrow> sy_exited s)"

definition nl_ok :: "nl_sys \<Rightarrow> bool" where
  "nl_ok s \<longleftrightarrow> distinct (nl_pending (sy_nl s)) \<and> (\<forall>q. ptr_ok s q) \<and> hand_ok s \<and> results_ok s \<and> flags_ok s"

lemma nl_okD:
  assumes "nl_ok s"
  shows "distinct (nl_pending (sy_nl s))" and "ptr_ok s q" and "hand_ok s" and "results_ok s" and "flags_ok s"
  using assms by (simp_all add: nl_ok_def)

lemmas ptr_defs = ptr_ok_def live_ok_def

lemma nl_ok_zero: "nl_ok sys_zero"
  by (simp add: nl_ok_def ptr_defs hand_ok_def results_ok_def flags_ok_def sys_zero_def nl_zero_def held_def)

text \<open>Steps that change neither the requests nor the history.\<close>

lemma nl_ok_same:
  assumes "nl_ok s" and "nl_pending n = nl_pending (sy_nl s)" and "nl_heap n = nl_heap (sy_nl s)"
    and "nl_poison n = nl_poison (sy_nl s)" and "nl_fresh n = nl_fresh (sy_nl s)"
    and "dom w = dom (sy_wait s)"
  shows "nl_ok (s\<lparr>sy_nl := n, sy_wait := w\<rparr>)"
proof -
  let ?s = "s\<lparr>sy_nl := n, sy_wait := w\<rparr>"
  have w: "w q = None \<longleftrightarrow> sy_wait s q = None" for q using assms(6) by (metis domIff)
  have "live_ok ?s q x = live_ok s q x" for q x
    by (simp add: live_ok_def held_def genuine_def assms(2-5) w)
  then have "ptr_ok ?s q = ptr_ok s q" for q
    by (simp add: ptr_ok_def held_def assms(2-5) w cong: option.case_cong)
  moreover have "hand_ok ?s = hand_ok s" by (simp add: hand_ok_def)
  moreover have "results_ok ?s = results_ok s"
    by (simp add: results_ok_def genuine_def assms(2-5))
  moreover have "flags_ok ?s = flags_ok s" by (simp add: flags_ok_def)
  ultimately show ?thesis using assms(1,2) by (simp add: nl_ok_def)
qed

lemma find_reqid_pending: "find_reqid reqid st = Some p \<Longrightarrow> p \<in> set (nl_pending st)"
  by (auto simp: find_reqid_def find_Some_iff)

lemma dequeue_found:
  assumes "av_nl_verdict_dequeue msg st = (VFound p v rn, st')"
  shows "st' = st\<lparr>nl_pending := remove1 p (nl_pending st)\<rparr> \<and> p \<in> set (nl_pending st) \<and> length rn \<le> 63 \<and>
    nl_registered st \<and> vm_portid msg = nl_portid st \<and> (v = AV_VERDICT_CLEAN \<or> v = AV_VERDICT_MALICIOUS) \<and>
    vm_verdict msg = Some v \<and> (\<exists>x. nl_heap st p = Some x \<and> vm_reqid msg = Some (ps_reqid x))"
proof -
  obtain rq vd where m: "vm_reqid msg = Some rq" "vm_verdict msg = Some vd"
    using assms by (auto simp: av_nl_verdict_dequeue_def split: option.splits)
  from assms m have f: "find_reqid rq st = Some p" "v = vd"
    "st' = st\<lparr>nl_pending := remove1 p (nl_pending st)\<rparr>"
    "nl_registered st" "vm_portid msg = nl_portid st" "v = AV_VERDICT_CLEAN \<or> v = AV_VERDICT_MALICIOUS"
    "length rn \<le> 63"
    by (auto simp: av_nl_verdict_dequeue_def Let_def strscpy_def AV_RULE_NAME_MAXLEN_def
        split: option.splits if_splits)
  moreover from f(1) have "\<exists>x. nl_heap st p = Some x \<and> rq = ps_reqid x"
    by (auto simp: find_reqid_def find_Some_iff split: option.splits)
  ultimately show ?thesis using m find_reqid_pending [OF f(1)] by auto
qed

subsection \<open>Preservation\<close>

lemma nl_ok_begin:
  assumes ok: "nl_ok s" and b: "scan_begin mem (sy_nl s) = (Inr p, nl')"
  shows "nl_ok (s\<lparr>sy_nl := nl', sy_wait := (sy_wait s)(p \<mapsto> WSend)\<rparr>)" (is "nl_ok ?s")
proof -
  have p: "p = nl_fresh (sy_nl s)" and nl': "nl' = (sy_nl s)\<lparr>nl_pending := p # nl_pending (sy_nl s),
      nl_reqid := nl_reqid (sy_nl s) + 1,
      nl_heap := (nl_heap (sy_nl s))(p \<mapsto> \<lparr>ps_reqid = nl_reqid (sy_nl s) + 1, ps_done = False, ps_verdict = -1, ps_rule = []\<rparr>),
      nl_fresh := Suc p\<rparr>"
    using b by (auto simp: scan_begin_def Let_def split: if_splits)
  have pp: "nl_heap (sy_nl s) p = None" "p \<notin> set (nl_pending (sy_nl s))" "p \<notin> nl_poison (sy_nl s)" "p \<notin> held s"
    using nl_okD(2) [OF ok, of p] by (auto simp: ptr_defs p split: option.splits)
  have "ptr_ok ?s q" for q
  proof (cases "q = p")
    case True
    with pp show ?thesis by (simp add: ptr_defs nl')
  next
    case False
    with nl_okD(2) [OF ok, of q] show ?thesis
      by (auto simp: ptr_defs nl' p split: option.splits)
  qed
  moreover have "results_ok ?s"
    using nl_okD(4) [OF ok] by (auto simp: results_ok_def nl' p)
  moreover have "hand_ok ?s" "flags_ok ?s" using nl_okD(3,5) [OF ok] by (simp_all add: hand_ok_def flags_ok_def)
  moreover have "distinct (nl_pending nl')" using nl_okD(1) [OF ok] pp by (simp add: nl')
  ultimately show ?thesis by (simp add: nl_ok_def)
qed

text \<open>Freeing a request that no handler holds, or recording that one did.\<close>

lemma nl_ok_drop:
  assumes ok: "nl_ok s" and p: "nl_heap (sy_nl s) p \<noteq> None"
    and r: "\<And>v rn. r = Inr (v, rn) \<Longrightarrow> genuine s p v rn"
    and e: "p \<in> held s \<Longrightarrow> early" "sy_early s \<Longrightarrow> early"
    and o: "oops \<Longrightarrow> sy_exited s"
  shows "nl_ok (s\<lparr>sy_nl := drop_request p (sy_nl s), sy_wait := (sy_wait s)(p := None),
    sy_results := (p, r) # sy_results s, sy_oops := oops, sy_early := early\<rparr>)" (is "nl_ok ?s")
proof -
  have set: "set (remove1 p (nl_pending (sy_nl s))) = set (nl_pending (sy_nl s)) - {p}"
    using nl_okD(1) [OF ok] by (rule set_remove1_eq)
  have "ptr_ok ?s q" for q
  proof (cases "q = p")
    case True
    with nl_okD(2) [OF ok, of p] p e show ?thesis
      by (auto simp: ptr_ok_def live_ok_def drop_request_def set split: if_splits)
  next
    case False
    with nl_okD(2) [OF ok, of q] e(2) show ?thesis
      by (auto simp: ptr_ok_def live_ok_def drop_request_def set split: option.splits if_splits)
  qed
  moreover have "results_ok ?s"
    using nl_okD(4) [OF ok] nl_okD(2) [OF ok, of p] p r
    by (auto simp: results_ok_def drop_request_def ptr_ok_def live_ok_def)
  moreover have "hand_ok ?s" using nl_okD(3) [OF ok] by (simp add: hand_ok_def)
  moreover have "flags_ok ?s" using nl_okD(5) [OF ok] e(2) o by (auto simp: flags_ok_def)
  moreover have "distinct (remove1 p (nl_pending (sy_nl s)))" using nl_okD(1) [OF ok] by simp
  ultimately show ?thesis by (simp add: nl_ok_def drop_request_def)
qed

lemma wait_heap: "nl_ok s \<Longrightarrow> sy_wait s p = Some w \<Longrightarrow> nl_heap (sy_nl s) p \<noteq> None"
  using nl_okD(2) [of s p] by (auto simp: ptr_ok_def split: option.splits)

lemma poison_exited: "nl_ok s \<Longrightarrow> p \<in> nl_poison (sy_nl s) \<Longrightarrow> sy_exited s"
  using nl_okD(2) [of s p] by (simp add: ptr_ok_def)

lemma size_filter_held: "size (filter_mset (\<lambda>h. fst h = p) (sy_hand s)) = 0 \<longleftrightarrow> p \<notin> held s"
  by (fastforce simp: held_def filter_mset_eq_mempty_iff image_iff)

lemma results_ok_mono:
  assumes "results_ok s" and "sy_results s' = sy_results s"
    and "\<And>q. nl_heap (sy_nl s) q = None \<Longrightarrow> nl_heap (sy_nl s') q = None"
    and "nl_fresh (sy_nl s') = nl_fresh (sy_nl s)"
    and "\<And>q v rn. genuine s q v rn \<Longrightarrow> genuine s' q v rn"
  shows "results_ok s'"
  using assms by (simp add: results_ok_def)

lemma nl_ok_dequeue:
  assumes ok: "nl_ok s" and d: "av_nl_verdict_dequeue msg (sy_nl s) = (VFound p v rn, nl')"
  shows "nl_ok (s\<lparr>sy_nl := nl', sy_hand := add_mset (p, v, rn) (sy_hand s),
    sy_accepted := insert (p, v, rn) (sy_accepted s)\<rparr>)" (is "nl_ok ?s")
proof -
  have nl': "nl' = (sy_nl s)\<lparr>nl_pending := remove1 p (nl_pending (sy_nl s))\<rparr>"
    and mem: "p \<in> set (nl_pending (sy_nl s))" and len: "length rn \<le> 63"
    and v: "v = AV_VERDICT_CLEAN \<or> v = AV_VERDICT_MALICIOUS"
    using dequeue_found [OF d] by auto
  have set: "set (nl_pending nl') = set (nl_pending (sy_nl s)) - {p}"
    using nl_okD(1) [OF ok] by (simp add: nl')
  have h: "held ?s = insert p (held s)" by (simp add: held_def)
  have g: "genuine s q x y \<Longrightarrow> genuine ?s q x y" for q x y by (auto simp: genuine_def)
  obtain x where x: "nl_heap (sy_nl s) p = Some x" using dequeue_found [OF d] by blast
  have pp: "\<not> ps_done x" "p \<notin> nl_poison (sy_nl s)" "p \<notin> held s" "p < nl_fresh (sy_nl s)"
    "sy_wait s p \<noteq> None" "ps_verdict x = -1" "ps_rule x = []"
    using nl_okD(2) [OF ok, of p] x mem by (auto simp: ptr_ok_def live_ok_def split: if_splits)
  have "ptr_ok ?s q" for q
  proof (cases "q = p")
    case True
    with x pp set show ?thesis unfolding ptr_ok_def live_ok_def h by (auto simp: nl')
  next
    case False
    have "live_ok ?s q y" if "live_ok s q y" for y
      using that False set g [of q "ps_verdict y" "ps_rule y"]
      unfolding live_ok_def h by (cases "ps_done y") (simp_all add: nl')
    with False nl_okD(2) [OF ok, of q] set show ?thesis
      unfolding ptr_ok_def h by (auto simp: nl' split: option.splits)
  qed
  moreover have "results_ok ?s"
    by (rule results_ok_mono [OF nl_okD(4) [OF ok] _ _ _ g]) (simp_all add: nl')
  moreover have "hand_ok ?s"
    using nl_okD(3) [OF ok] len v pp(3) size_filter_held [of p s] by (auto simp: hand_ok_def)
  moreover have "flags_ok ?s" using nl_okD(5) [OF ok] by (simp add: flags_ok_def)
  moreover have "distinct (nl_pending nl')" using nl_okD(1) [OF ok] by (simp add: nl')
  ultimately show ?thesis by (simp add: nl_ok_def)
qed

lemma hand_diff:
  assumes "hand_ok s" and "(p, v, rn) \<in># sy_hand s"
  shows "fst ` set_mset (sy_hand s - {#(p, v, rn)#}) = held s - {p}"
proof -
  obtain M where M: "sy_hand s = add_mset (p, v, rn) M" using assms(2) by (metis multi_member_split)
  have "size (filter_mset (\<lambda>h. fst h = p) (sy_hand s)) \<le> 1" using assms(1) by (simp add: hand_ok_def)
  then have "filter_mset (\<lambda>h. fst h = p) M = {#}" by (simp add: M)
  then have "p \<notin> fst ` set_mset M" by (fastforce simp: filter_mset_eq_mempty_iff)
  then show ?thesis by (simp add: M held_def)
qed

lemma hand_ok_diff:
  assumes a: "hand_ok s" and h: "sy_hand s' = sy_hand s - X" and c: "sy_accepted s' = sy_accepted s"
  shows "hand_ok s'"
proof -
  have "size (filter_mset P (sy_hand s - X)) \<le> size (filter_mset P (sy_hand s))" for P
    by (intro size_mset_mono multiset_filter_mono) auto
  with a show ?thesis unfolding hand_ok_def h c by (auto dest: in_diffD intro: order_trans)
qed

lemma nl_ok_store:
  assumes ok: "nl_ok s" and m: "(p, v, rn) \<in># sy_hand s"
    and c: "av_nl_verdict_complete p v rn (sy_nl s) = Some nl'"
  shows "nl_ok (s\<lparr>sy_nl := nl', sy_hand := sy_hand s - {#(p, v, rn)#}\<rparr>)" (is "nl_ok ?s")
proof -
  have acc: "(p, v, rn) \<in> sy_accepted s" and len: "length rn \<le> 63"
    using nl_okD(3) [OF ok] m by (auto simp: hand_ok_def)
  obtain x where x: "nl_heap (sy_nl s) p = Some x" and nl': "nl' = (sy_nl s)\<lparr>nl_heap := (nl_heap (sy_nl s))(p \<mapsto>
      x\<lparr>ps_verdict := uint v, ps_rule := rn, ps_done := True\<rparr>)\<rparr>"
    using c len by (auto simp: av_nl_verdict_complete_def strscpy_def AV_RULE_NAME_MAXLEN_def split: option.splits)
  have h: "held ?s = held s - {p}" using hand_diff [OF nl_okD(3) [OF ok] m] by (simp add: held_def)
  have ph: "p \<in> held s" using m by (force simp: held_def)
  have pp: "\<not> ps_done x" "p \<notin> set (nl_pending (sy_nl s))" "sy_wait s p \<noteq> None" "p < nl_fresh (sy_nl s)"
    "p \<notin> nl_poison (sy_nl s)"
    using nl_okD(2) [OF ok, of p] x ph by (auto simp: ptr_ok_def live_ok_def split: if_splits)
  have g: "genuine s p (uint v) rn" using acc by (auto simp: genuine_def)
  have "ptr_ok ?s q" for q
  proof (cases "q = p")
    case True
    with pp g len show ?thesis unfolding ptr_ok_def live_ok_def h by (simp add: nl')
  next
    case False
    have "live_ok ?s q y" if "live_ok s q y" for y
      using that False unfolding live_ok_def h by (cases "ps_done y") (simp_all add: nl')
    with False nl_okD(2) [OF ok, of q] show ?thesis
      unfolding ptr_ok_def h by (auto simp: nl' split: option.splits)
  qed
  moreover have "results_ok ?s" using nl_okD(4) [OF ok] x by (fastforce simp: results_ok_def nl')
  moreover have "hand_ok ?s" by (rule hand_ok_diff [OF nl_okD(3) [OF ok]]) simp_all
  moreover have "flags_ok ?s" using nl_okD(5) [OF ok] by (simp add: flags_ok_def)
  ultimately show ?thesis using nl_okD(1) [OF ok] by (simp add: nl_ok_def nl')
qed

lemma nl_ok_store_freed:
  assumes ok: "nl_ok s" and m: "(p, v, rn) \<in># sy_hand s"
    and c: "av_nl_verdict_complete p v rn (sy_nl s) = None"
  shows "nl_ok (s\<lparr>sy_hand := sy_hand s - {#(p, v, rn)#}, sy_uaf := True\<rparr>)" (is "nl_ok ?s")
proof -
  have x: "nl_heap (sy_nl s) p = None"
    using c by (simp add: av_nl_verdict_complete_def split: option.splits)
  have h: "held ?s = held s - {p}" using hand_diff [OF nl_okD(3) [OF ok] m] by (simp add: held_def)
  have "p \<in> held s" using m by (force simp: held_def)
  then have e: "sy_early s" using nl_okD(2) [OF ok, of p] x by (simp add: ptr_ok_def)
  have "ptr_ok ?s q" for q
  proof -
    have "live_ok ?s q y" if "live_ok s q y" "q \<noteq> p" for y
      using that unfolding live_ok_def h by (cases "ps_done y") simp_all
    with nl_okD(2) [OF ok, of q] x show ?thesis
      unfolding ptr_ok_def h by (cases "q = p") (auto split: option.splits)
  qed
  moreover have "results_ok ?s" using nl_okD(4) [OF ok] by (simp add: results_ok_def)
  moreover have "hand_ok ?s" by (rule hand_ok_diff [OF nl_okD(3) [OF ok]]) simp_all
  moreover have "flags_ok ?s" using nl_okD(5) [OF ok] e by (simp add: flags_ok_def)
  ultimately show ?thesis using nl_okD(1) [OF ok] by (simp add: nl_ok_def)
qed

lemma nl_ok_exit:
  assumes ok: "nl_ok s"
  shows "nl_ok (s\<lparr>sy_nl := wake_all (sy_nl s), sy_exited := True\<rparr>)" (is "nl_ok ?s")
proof -
  have g: "genuine s q x y \<Longrightarrow> genuine ?s q x y" for q x y by (auto simp: genuine_def)
  have e: "genuine ?s q (-1) []" for q by (simp add: genuine_def)
  have "ptr_ok ?s q" for q
    using nl_okD(2) [OF ok, of q] g [of q] e [of q]
    by (auto simp: ptr_ok_def live_ok_def wake_all_def split: option.splits if_splits)
  moreover have "results_ok ?s"
    by (rule results_ok_mono [OF nl_okD(4) [OF ok] _ _ _ g]) (simp_all add: wake_all_def)
  moreover have "hand_ok ?s" "flags_ok ?s" using nl_okD(3,5) [OF ok] by (simp_all add: hand_ok_def flags_ok_def)
  ultimately show ?thesis by (simp add: nl_ok_def wake_all_def)
qed

lemma finish_result:
  assumes ok: "nl_ok s" and f: "scan_finish (AV_RULE_NAME_MAXLEN + 1) p (sy_nl s) = Some ((v, rn), nl')"
  shows "genuine s p v rn \<and> p \<notin> held s \<and> nl_heap (sy_nl s) p \<noteq> None \<and> nl' = drop_request p (sy_nl s)"
proof -
  obtain x where x: "nl_heap (sy_nl s) p = Some x" "ps_done x" "v = ps_verdict x"
    "rn = strscpy 64 (ps_rule x)" "nl' = (sy_nl s)\<lparr>nl_heap := (nl_heap (sy_nl s))(p := None)\<rparr>"
    using f by (auto simp: scan_finish_def AV_RULE_NAME_MAXLEN_def split: option.splits if_splits)
  then have "live_ok s p x" using nl_okD(2) [OF ok, of p] by (simp add: ptr_ok_def)
  with x show ?thesis by (simp add: live_ok_def drop_request_def strscpy_def remove1_idem)
qed

lemma send_fail: "scan_send skb hdr put uni p st = (Inl e, st') \<Longrightarrow> st' = drop_request p st"
  by (auto simp: scan_send_def split: if_splits sum.splits)

lemma send_ok: "scan_send skb hdr put uni p st = (Inr x, st') \<Longrightarrow> st' = st"
  by (auto simp: scan_send_def split: if_splits sum.splits)

lemma dom_upd_same: "m p = Some w \<Longrightarrow> dom (m(p \<mapsto> w')) = dom m"
  by (auto simp: dom_def)

theorem nl_ok_step: "nl_step s s' \<Longrightarrow> nl_ok s \<Longrightarrow> nl_ok s'"
proof (induction rule: nl_step.induct)
  case (st_register port s r nl')
  then show ?case using nl_ok_same [of s nl' "sy_wait s"] by (auto simp: av_nl_register_doit_def)
next
  case (st_notify s u g port)
  then show ?case
    using nl_ok_same [of s "av_netlink_notify u g port (sy_nl s)" "sy_wait s"] by (auto simp: av_netlink_notify_def)
next
  case (st_begin mem s p nl')
  then show ?case by (simp add: nl_ok_begin)
next
  case (st_sent s p skb hdr put uni x nl')
  then show ?case
    using nl_ok_same [of s nl' "(sy_wait s)(p \<mapsto> WWait)"] send_ok [OF st_sent(2)]
      dom_upd_same [of "sy_wait s" p] by simp
next
  case (st_send_fail s p skb hdr put uni e nl')
  show ?case unfolding send_fail [OF st_send_fail(2)]
    by (rule nl_ok_drop [OF st_send_fail(3) wait_heap [OF st_send_fail(3,1)]])
      (use poison_exited [OF st_send_fail(3)] nl_okD(5) [OF st_send_fail(3)] in \<open>auto simp: held_def flags_ok_def\<close>)
next
  case (st_dequeue msg s p v rn nl')
  then show ?case by (simp add: nl_ok_dequeue)
next
  case (st_store p v rn s nl')
  then show ?case by (simp add: nl_ok_store)
next
  case (st_store_freed p v rn s)
  then show ?case by (simp add: nl_ok_store_freed)
next
  case (st_finish s p w res nl')
  obtain v rn where res: "res = (v, rn)" by fastforce
  from finish_result [OF st_finish(4) st_finish(3) [unfolded res]] show ?case
    using nl_ok_drop [OF st_finish(4), of p "Inr res" "sy_early s" "sy_oops s"] nl_okD(5) [OF st_finish(4)]
    by (simp add: res flags_ok_def)
next
  case (st_timeout s p nl')
  have n: "nl' = drop_request p (sy_nl s)" "p \<in> set (nl_pending (sy_nl s)) \<or> p \<in> nl_poison (sy_nl s)"
    using st_timeout(2) by (auto simp: scan_timeout_def split: if_splits)
  have "p \<notin> held s"
    using n(2) nl_okD(2) [OF st_timeout(3), of p] wait_heap [OF st_timeout(3,1)]
    by (auto simp: ptr_ok_def live_ok_def split: option.splits if_splits)
  then have "nl_ok (s\<lparr>sy_nl := drop_request p (sy_nl s), sy_wait := (sy_wait s)(p := None),
      sy_results := (p, Inl ETIMEDOUT) # sy_results s,
      sy_oops := (sy_oops s \<or> p \<in> nl_poison (sy_nl s)), sy_early := sy_early s\<rparr>)"
    by (intro nl_ok_drop [OF st_timeout(3) wait_heap [OF st_timeout(3,1)]])
      (use poison_exited [OF st_timeout(3)] nl_okD(5) [OF st_timeout(3)] in \<open>auto simp: flags_ok_def\<close>)
  then show ?case by (simp add: n(1))
next
  case (st_raced s p nl')
  then have "nl' = sy_nl s" by (auto simp: scan_timeout_def split: if_splits)
  then show ?case
    using nl_ok_same [of s nl' "(sy_wait s)(p \<mapsto> WFinal)"] dom_upd_same [of "sy_wait s" p] st_raced by simp
next
  case (st_exit s)
  then show ?case by (simp add: nl_ok_exit)
qed

lemma nl_reach_ok: "nl_reach s \<Longrightarrow> nl_ok s"
  by (induction rule: nl_reach.induct) (auto intro: nl_ok_zero nl_ok_step)

text \<open>A requester whose timeout raced is never listed again.\<close>

definition final_ok :: "nl_sys \<Rightarrow> bool" where
  "final_ok s \<longleftrightarrow> (\<forall>q. sy_wait s q = Some WFinal \<longrightarrow> q \<notin> set (nl_pending (sy_nl s)))"

lemma final_ok_step:
  assumes "nl_step s s'" and "final_ok s" and "nl_ok s" shows "final_ok s'"
  using assms
proof (induction rule: nl_step.induct)
  case (st_begin mem s p nl')
  then have "nl_pending nl' = p # nl_pending (sy_nl s)"
    by (auto simp: scan_begin_def Let_def split: if_splits)
  moreover have "sy_wait s p = None"
    using st_begin(1) nl_okD(2) [OF st_begin(3), of p]
    by (auto simp: scan_begin_def Let_def ptr_ok_def live_ok_def split: if_splits option.splits)
  ultimately show ?case using st_begin(2) by (auto simp: final_ok_def)
next
  case (st_send_fail s p skb hdr put uni e nl')
  then show ?case using send_fail [OF st_send_fail(2)]
    by (auto simp: final_ok_def drop_request_def dest: notin_set_remove1)
next
  case (st_dequeue msg s p v rn nl')
  then show ?case using dequeue_found [OF st_dequeue(1)]
    by (auto simp: final_ok_def dest: notin_set_remove1)
qed (auto simp: final_ok_def av_nl_register_doit_def av_netlink_notify_def scan_finish_def
    av_nl_verdict_complete_def scan_timeout_def drop_request_def wake_all_def
    dest: send_ok split: option.splits if_splits dest: notin_set_remove1)

lemma nl_reach_final: "nl_reach s \<Longrightarrow> final_ok s"
proof (induction rule: nl_reach.induct)
  case nlr_init
  then show ?case by (simp add: final_ok_def sys_zero_def)
next
  case (nlr_step s s')
  then show ?case using final_ok_step nl_reach_ok by blast
qed

section \<open>Sample runs\<close>

text \<open>A daemon registers on port 7, a request is sent, and its verdict arrives just as the request
  times out.\<close>

definition demo_nl :: "ptr list \<Rightarrow> av_pending_scan option \<Rightarrow> nl_state" where
  "demo_nl pend x = \<lparr>nl_portid = 7, nl_registered = True, nl_pending = pend, nl_reqid = 1,
     nl_heap = (\<lambda>p. if p = 0 then x else None), nl_poison = {}, nl_fresh = 1\<rparr>"

definition demo_open :: av_pending_scan where
  "demo_open = \<lparr>ps_reqid = 1, ps_done = False, ps_verdict = -1, ps_rule = []\<rparr>"

definition demo_msg :: verdict_msg where
  "demo_msg = \<lparr>vm_portid = 7, vm_reqid = Some 1, vm_verdict = Some 1, vm_rule = Some ''Eicar''\<rparr>"

definition demo_sent :: nl_sys where
  "demo_sent = sys_zero\<lparr>sy_nl := demo_nl [0] (Some demo_open), sy_wait := [0 \<mapsto> WSend]\<rparr>"

definition demo_raced :: nl_sys where
  "demo_raced = sys_zero\<lparr>sy_nl := demo_nl [] (Some demo_open), sy_wait := [0 \<mapsto> WFinal],
     sy_hand := {#(0, 1, ''Eicar'')#}, sy_accepted := {(0, 1, ''Eicar'')}\<rparr>"

definition demo_done :: nl_sys where
  "demo_done = demo_raced\<lparr>sy_nl := demo_nl [] None, sy_wait := Map.empty, sy_hand := {#},
     sy_results := [(0, Inr (1, ''Eicar''))]\<rparr>"

lemmas demo_defs = demo_nl_def demo_open_def demo_msg_def demo_sent_def demo_raced_def demo_done_def
  sys_zero_def nl_zero_def

lemma nl_reach_by: "nl_reach s \<Longrightarrow> nl_step s t \<Longrightarrow> t = s' \<Longrightarrow> nl_reach s'"
  using nlr_step by blast

lemma demo_dequeue:
  "av_nl_verdict_dequeue demo_msg (demo_nl [0] (Some demo_open)) =
     (VFound 0 1 ''Eicar'', demo_nl [] (Some demo_open))"
  by (simp add: av_nl_verdict_dequeue_def demo_defs find_reqid_def AV_VERDICT_MALICIOUS_def AV_VERDICT_CLEAN_def
      strscpy_def AV_RULE_NAME_MAXLEN_def)

lemma demo_sent_reach: "nl_reach demo_sent"
proof -
  have a: "nl_reach (sys_zero\<lparr>sy_nl := nl_zero\<lparr>nl_portid := 7, nl_registered := True\<rparr>\<rparr>)"
    by (rule nl_reach_by [OF nlr_init st_register [of 7]])
      (auto simp: av_nl_register_doit_def sys_zero_def)
  show ?thesis
    by (rule nl_reach_by [OF a st_begin [of True _ 0]])
      (auto simp: scan_begin_def Let_def demo_defs fun_eq_iff)
qed

lemma demo_raced_reach: "nl_reach demo_raced"
proof -
  have b: "nl_reach (demo_sent\<lparr>sy_wait := [0 \<mapsto> WWait]\<rparr>)"
    by (rule nl_reach_by [OF demo_sent_reach st_sent [of _ 0 True True OK OK]])
      (auto simp: scan_send_def demo_sent_def)
  have c: "nl_reach (demo_raced\<lparr>sy_wait := [0 \<mapsto> WWait]\<rparr>)"
    by (rule nl_reach_by [OF b st_dequeue [of demo_msg _ 0 1 "''Eicar''"]])
      (auto simp: demo_sent_def demo_dequeue demo_raced_def sys_zero_def)
  show ?thesis
    by (rule nl_reach_by [OF c st_raced [of _ 0]])
      (auto simp: scan_timeout_def demo_raced_def demo_nl_def sys_zero_def)
qed

lemma demo_done_reach: "nl_reach demo_done"
proof -
  let ?x = "\<lparr>ps_reqid = 1, ps_done = True, ps_verdict = 1, ps_rule = ''Eicar''\<rparr>"
  have d: "nl_reach (demo_raced\<lparr>sy_nl := demo_nl [] (Some ?x), sy_hand := {#}\<rparr>)"
    by (rule nl_reach_by [OF demo_raced_reach st_store [of 0 1 "''Eicar''"]])
      (auto simp: demo_defs av_nl_verdict_complete_def strscpy_def AV_RULE_NAME_MAXLEN_def fun_eq_iff)
  show ?thesis
    by (rule nl_reach_by [OF d st_finish [of _ 0 WFinal "(1, ''Eicar'')"]])
      (auto simp: demo_defs scan_finish_def strscpy_def AV_RULE_NAME_MAXLEN_def fun_eq_iff)
qed

section \<open>Properties\<close>





text \<open>C9. No requester waits forever: from every reachable state, a request that was sent can be
  made to return within two steps of the system, even after its timeout raced with a verdict and
  it waits without a bound; the only other thread it may depend on is the handler that holds it.\<close>

theorem scan_request_returns:
  assumes "nl_reach s" and "sy_wait s p = Some w" and "w \<noteq> WSend"
  shows "\<exists>n s' r. n \<le> 2 \<and> (nl_step ^^ n) s s' \<and> (p, r) \<in> set (sy_results s')"
proof -
  have ok: "nl_ok s" by (rule nl_reach_ok [OF assms(1)])
  have fin: "final_ok s" by (rule nl_reach_final [OF assms(1)])
  obtain x where x: "nl_heap (sy_nl s) p = Some x" using wait_heap [OF ok assms(2)] by blast
  have live: "live_ok s p x" using nl_okD(2) [OF ok, of p] x by (simp add: ptr_ok_def)
  have finish: "\<exists>t' r. nl_step t t' \<and> (p, r) \<in> set (sy_results t')"
    if f: "nl_heap (sy_nl t) p = Some y" "ps_done y" "sy_wait t p = Some w" for t y
  proof -
    obtain res nl' where "scan_finish (AV_RULE_NAME_MAXLEN + 1) p (sy_nl t) = Some (res, nl')"
      using f by (simp add: scan_finish_def)
    from st_finish [OF f(3) assms(3) this] show ?thesis by fastforce
  qed
  consider "ps_done x" | "\<not> ps_done x" "p \<in> set (nl_pending (sy_nl s))" | "\<not> ps_done x" "p \<in> held s"
    using live by (auto simp: live_ok_def)
  then show ?thesis
  proof cases
    case 1
    from finish [OF x this assms(2)] obtain t' r where "(nl_step ^^ 1) s t'" "(p, r) \<in> set (sy_results t')" by auto
    then show ?thesis by (intro exI [of _ 1]) auto
  next
    case 2
    then have "w = WWait" using fin assms(2,3) by (cases w) (auto simp: final_ok_def)
    moreover have "scan_timeout p (sy_nl s) = (True, drop_request p (sy_nl s))"
      using 2 by (simp add: scan_timeout_def)
    ultimately obtain t' where "(nl_step ^^ 1) s t'" "(p, Inl ETIMEDOUT) \<in> set (sy_results t')"
      using st_timeout [of s p] assms(2) by fastforce
    then show ?thesis by (intro exI [of _ 1]) auto
  next
    case 3
    then obtain v rn where h: "(p, v, rn) \<in># sy_hand s" by (auto simp: held_def)
    obtain nl' where c: "av_nl_verdict_complete p v rn (sy_nl s) = Some nl'"
      and n: "\<exists>y. nl_heap nl' p = Some y \<and> ps_done y"
      using x by (simp add: av_nl_verdict_complete_def)
    obtain t where t: "nl_step s t" "sy_nl t = nl'" "sy_wait t = sy_wait s"
      using st_store [OF h c] by fastforce
    then obtain t' r where "nl_step t t'" "(p, r) \<in> set (sy_results t')"
      using finish [of t] n assms(2) by auto
    then have "(nl_step ^^ 2) s t'" "(p, r) \<in> set (sy_results t')"
      using t(1) by (auto simp: numeral_2_eq_2 relcompp.simps)
    then show ?thesis by blast
  qed
qed

theorem scan_request_returns_witness:
  "sy_wait demo_raced 0 = Some WFinal \<and>
   (\<exists>n s' r. n \<le> 2 \<and> (nl_step ^^ n) demo_raced s' \<and> (0, r) \<in> set (sy_results s'))"
proof -
  have "sy_wait demo_raced 0 = Some WFinal" by (simp add: demo_defs)
  with scan_request_returns [OF demo_raced_reach this] show ?thesis by simp
qed

text \<open>Verdict handler, on every branch: a message without a request id or verdict is
  \<open>EINVAL\<close>, one from any port but the registered daemon's is \<open>EPERM\<close>, an undefined verdict is
  \<open>EINVAL\<close>, none of which touches any request; a stale or unknown id is accepted and ignored; and a
  listed id stores the verdict and the bounded rule name in exactly that request, takes it off the
  list and completes it.\<close>

theorem verdict_doit_spec:
  assumes "nl_reach s"
  defines "st \<equiv> sy_nl s"
  shows "av_nl_verdict_doit msg st =
    (case (vm_reqid msg, vm_verdict msg) of
       (Some reqid, Some v) \<Rightarrow>
         if \<not> (nl_registered st \<and> vm_portid msg = nl_portid st) then Some (Inl EPERM, st)
         else if v \<notin> {AV_VERDICT_CLEAN, AV_VERDICT_MALICIOUS} then Some (Inl EINVAL, st)
         else (case find_reqid reqid st of
                 None \<Rightarrow> Some (OK, st)
               | Some p \<Rightarrow>
                   Some (OK, st\<lparr>nl_pending := filter (\<lambda>q. q \<noteq> p) (nl_pending st),
                     nl_heap := (nl_heap st)(p \<mapsto> (the (nl_heap st p))\<lparr>ps_verdict := uint v,
                       ps_rule := take 63 (case vm_rule msg of None \<Rightarrow> [] | Some r \<Rightarrow> r), ps_done := True\<rparr>)\<rparr>))
     | _ \<Rightarrow> Some (Inl EINVAL, st))"
proof -
  have ok: "nl_ok s" by (rule nl_reach_ok [OF assms(1)])
  have rm: "remove1 p (nl_pending st) = filter (\<lambda>q. q \<noteq> p) (nl_pending st)" for p
    using nl_okD(1) [OF ok] by (simp add: distinct_remove1_removeAll removeAll_filter_not_eq st_def eq_commute)
  have live: "\<exists>x. nl_heap st p = Some x" if "find_reqid r st = Some p" for r p
    using that by (auto simp: find_reqid_def find_Some_iff split: option.splits)
  show ?thesis
  proof (cases "vm_reqid msg")
    case None
    then show ?thesis by (simp add: av_nl_verdict_doit_def av_nl_verdict_dequeue_def)
  next
    case r: (Some r)
    show ?thesis
    proof (cases "vm_verdict msg")
      case None
      with r show ?thesis by (simp add: av_nl_verdict_doit_def av_nl_verdict_dequeue_def)
    next
      case v: (Some v)
      show ?thesis
      proof (cases "find_reqid r st")
        case None
        with r v show ?thesis by (simp add: av_nl_verdict_doit_def av_nl_verdict_dequeue_def Let_def)
      next
        case (Some p)
        with live [OF Some] r v show ?thesis
          by (auto simp: av_nl_verdict_doit_def av_nl_verdict_dequeue_def av_nl_verdict_complete_def Let_def rm
              strscpy_def AV_RULE_NAME_MAXLEN_def split: option.splits)
      qed
    qed
  qed
qed

theorem verdict_doit_spec_witness:
  "\<exists>x. av_nl_verdict_doit demo_msg (sy_nl demo_sent) = Some (OK, demo_nl [] (Some x)) \<and>
     ps_done x \<and> ps_verdict x = 1 \<and> ps_rule x = ''Eicar''"
  by (subst verdict_doit_spec [OF demo_sent_reach])
    (simp add: demo_defs find_reqid_def AV_VERDICT_MALICIOUS_def AV_VERDICT_CLEAN_def fun_eq_iff)

text \<open>The three races that the hypotheses of \<open>pending_memory_safe\<close> leave open do occur: a handler
  stores to a request freed by a failed send, a waiter unlinks a poisoned link after unloading,
  and unloading hands out a verdict that is neither clean nor malicious.\<close>

lemma send_failure_use_after_free: "\<exists>s. nl_reach s \<and> sy_uaf s \<and> \<not> sy_exited s"
proof -
  let ?h = "{#(0, 1, ''Eicar'')#}" and ?a = "{(0, 1, ''Eicar'')}"
  have b: "nl_reach (demo_raced\<lparr>sy_wait := [0 \<mapsto> WSend]\<rparr>)"
    by (rule nl_reach_by [OF demo_sent_reach st_dequeue [of demo_msg _ 0 1 "''Eicar''"]])
      (auto simp: demo_sent_def demo_dequeue demo_raced_def sys_zero_def)
  have c: "nl_reach (demo_raced\<lparr>sy_nl := demo_nl [] None, sy_wait := Map.empty,
      sy_results := [(0, Inl EMSGSIZE)], sy_early := True\<rparr>)"
    by (rule nl_reach_by [OF b st_send_fail [of _ 0 True False OK OK EMSGSIZE]])
      (auto simp: demo_defs scan_send_def drop_request_def fun_eq_iff)
  show ?thesis
    by (rule exI, rule conjI, rule nlr_step [OF c st_store_freed [of 0 1 "''Eicar''"]])
      (auto simp: demo_defs av_nl_verdict_complete_def)
qed

lemma unload_hands_out_no_verdict: "\<exists>s. nl_reach s \<and> (0, Inr (-1, [])) \<in> set (sy_results s)"
proof -
  have b: "nl_reach (demo_sent\<lparr>sy_wait := [0 \<mapsto> WWait]\<rparr>)"
    by (rule nl_reach_by [OF demo_sent_reach st_sent [of _ 0 True True OK OK]])
      (auto simp: scan_send_def demo_sent_def)
  let ?n = "(demo_nl [] (Some (demo_open\<lparr>ps_done := True\<rparr>)))\<lparr>nl_poison := {0}\<rparr>"
  have c: "nl_reach (demo_sent\<lparr>sy_wait := [0 \<mapsto> WWait], sy_nl := ?n, sy_exited := True\<rparr>)"
    by (rule nl_reach_by [OF b st_exit]) (auto simp: demo_defs wake_all_def fun_eq_iff)
  show ?thesis
    by (rule exI, rule conjI, rule nlr_step [OF c st_finish [of _ 0 WWait "(-1, [])"]])
      (auto simp: demo_defs scan_finish_def strscpy_def)
qed

lemma unload_timeout_poisoned: "\<exists>s. nl_reach s \<and> sy_oops s"
proof -
  have b: "nl_reach (demo_sent\<lparr>sy_wait := [0 \<mapsto> WWait]\<rparr>)"
    by (rule nl_reach_by [OF demo_sent_reach st_sent [of _ 0 True True OK OK]])
      (auto simp: scan_send_def demo_sent_def)
  let ?n = "(demo_nl [] (Some (demo_open\<lparr>ps_done := True\<rparr>)))\<lparr>nl_poison := {0}\<rparr>"
  have c: "nl_reach (demo_sent\<lparr>sy_wait := [0 \<mapsto> WWait], sy_nl := ?n, sy_exited := True\<rparr>)"
    by (rule nl_reach_by [OF b st_exit]) (auto simp: demo_defs wake_all_def fun_eq_iff)
  show ?thesis
    by (rule exI, rule conjI, rule nlr_step [OF c st_timeout [of _ 0]])
      (auto simp: demo_defs scan_timeout_def)
qed

end
