(* ===== verification/HashPass.thy ===== *)
theory HashPass
  imports SigTable
begin

text \<open>
  The single read pass that computes the digests of an exec target (\<^verbatim>\<open>av/main.c\<close>,
  \<open>open_exec_target\<close>, \<open>hash_file_multi\<close>). The file system and the crypto API are records of
  the calls the code makes; a file is what repeated \<^verbatim>\<open>kernel_read()\<close> calls return for it, so a
  file may grow while it is read.
\<close>

section \<open>Kernel services\<close>

type_synonym vpath = nat

record kfile =
  f_isreg :: bool
  f_size :: int
  f_dev :: u32
  f_ino :: u64
  f_read :: "nat \<Rightarrow> u8 list ret_val"

record vfs =
  filp_open :: "string \<Rightarrow> kfile ret_val"
  dentry_open :: "vpath \<Rightarrow> kfile ret_val"
  vfs_path_lookup :: "vpath \<Rightarrow> string \<Rightarrow> vpath ret_val"

record crypto =
  crypto_alloc_shash :: "av_algo \<Rightarrow> ret"
  desc_mem :: "av_algo \<Rightarrow> bool"
  crypto_shash_init :: "av_algo \<Rightarrow> ret"
  crypto_shash_update :: "av_algo \<Rightarrow> nat \<Rightarrow> ret"
  crypto_shash_final :: "av_algo \<Rightarrow> ret"
  shash :: "av_algo \<Rightarrow> u8 list \<Rightarrow> u8 list"

definition READ_CHUNK_SIZE :: nat where "READ_CHUNK_SIZE = 4096"
definition MAX_HASH_FILE_SIZE :: nat where "MAX_HASH_FILE_SIZE = 256 * 1024 * 1024"

definition kernel_read :: "kfile \<Rightarrow> nat \<Rightarrow> u8 list ret_val" where
  "kernel_read f pos = map_sum id (take READ_CHUNK_SIZE) (f_read f pos)"

section \<open>The pass\<close>

record algo_ctx =
  ac_algo :: av_algo
  ac_active :: bool
  ac_tfm :: bool
  ac_desc :: bool
  ac_fed :: "u8 list"
  ac_len :: nat
  ac_hex :: string

record av_file_identity =
  id_dev :: u32
  id_ino :: u64
  id_size :: int

definition hex_digit :: "nat \<Rightarrow> char" where
  "hex_digit n = (if n < 10 then char_of (48 + n) else char_of (87 + n))"

definition byte_hex :: "u8 \<Rightarrow> string" where
  "byte_hex b = [hex_digit (unat b div 16), hex_digit (unat b mod 16)]"

definition bin_to_hex :: "u8 list \<Rightarrow> string" where
  "bin_to_hex bin = concat (map byte_hex bin)"

text \<open>\<open>refs\<close> counts the path references held: the lookup takes one and it is put again.\<close>

definition open_exec_target :: "vfs \<Rightarrow> string \<Rightarrow> vpath \<Rightarrow> int \<Rightarrow> kfile ret_val \<times> int" where
  "open_exec_target V path pwd refs =
     (if path = [] then (dentry_open V pwd, refs)
      else if hd path = CHR ''/'' then (filp_open V path, refs)
      else
        (case vfs_path_lookup V pwd path of
           Inl e \<Rightarrow> (Inl e, refs)
         | Inr resolved \<Rightarrow> let refs1 = refs + 1; f = dentry_open V resolved in (f, refs1 - 1)))"

text \<open>Allocation of the transforms and descriptors; \<open>live\<close> counts the objects allocated.\<close>

fun setup_ctx :: "crypto \<Rightarrow> algo_ctx list \<Rightarrow> int \<Rightarrow> ret \<times> algo_ctx list \<times> int" where
  "setup_ctx C [] live = (OK, [], live)"
| "setup_ctx C (c # cs) live =
     (if \<not> ac_active c then
        (case setup_ctx C cs live of (r, cs', live') \<Rightarrow> (r, c # cs', live'))
      else
        (case crypto_alloc_shash C (ac_algo c) of
           Inl e \<Rightarrow> (Inl e, c # cs, live)
         | Inr _ \<Rightarrow>
             let c1 = c\<lparr>ac_tfm := True\<rparr>; live1 = live + 1
             in if \<not> desc_mem C (ac_algo c) then (Inl ENOMEM, c1 # cs, live1)
                else
                  let c2 = c1\<lparr>ac_desc := True\<rparr>; live2 = live1 + 1
                  in (case crypto_shash_init C (ac_algo c) of
                        Inl e \<Rightarrow> (Inl e, c2 # cs, live2)
                      | Inr _ \<Rightarrow>
                          (case setup_ctx C cs live2 of (r, cs', live') \<Rightarrow> (r, c2 # cs', live')))))"

fun feed_ctx :: "crypto \<Rightarrow> nat \<Rightarrow> u8 list \<Rightarrow> algo_ctx list \<Rightarrow> ret \<times> algo_ctx list" where
  "feed_ctx C pos buf [] = (OK, [])"
| "feed_ctx C pos buf (c # cs) =
     (if \<not> ac_active c then (case feed_ctx C pos buf cs of (r, cs') \<Rightarrow> (r, c # cs'))
      else
        (case crypto_shash_update C (ac_algo c) pos of
           Inl e \<Rightarrow> (Inl e, c # cs)
         | Inr _ \<Rightarrow>
             (case feed_ctx C pos buf cs of (r, cs') \<Rightarrow> (r, c\<lparr>ac_fed := ac_fed c @ buf\<rparr> # cs'))))"

function read_loop :: "crypto \<Rightarrow> kfile \<Rightarrow> nat \<Rightarrow> algo_ctx list \<Rightarrow> ret \<times> algo_ctx list" where
  "read_loop C f pos cs =
     (case kernel_read f pos of
        Inl e \<Rightarrow> (Inl e, cs)
      | Inr buf \<Rightarrow>
          if buf = [] then (OK, cs)
          else
            let pos' = pos + length buf
            in if MAX_HASH_FILE_SIZE < pos' then (Inl EFBIG, cs)
               else
                 (case feed_ctx C pos' buf cs of
                    (Inl e, cs') \<Rightarrow> (Inl e, cs')
                  | (Inr _, cs') \<Rightarrow> read_loop C f pos' cs'))"
  by pat_completeness auto
termination
  by (relation "measure (\<lambda>(C, f, pos, cs). Suc MAX_HASH_FILE_SIZE - pos)")
    (auto simp: neq_Nil_conv)

declare read_loop.simps [simp del]

fun final_ctx :: "crypto \<Rightarrow> algo_ctx list \<Rightarrow> ret \<times> algo_ctx list" where
  "final_ctx C [] = (OK, [])"
| "final_ctx C (c # cs) =
     (if \<not> ac_active c then (case final_ctx C cs of (r, cs') \<Rightarrow> (r, c # cs'))
      else
        (case crypto_shash_final C (ac_algo c) of
           Inl e \<Rightarrow> (Inl e, c # cs)
         | Inr _ \<Rightarrow>
             let c1 = c\<lparr>ac_hex := bin_to_hex (take (ac_len c) (shash C (ac_algo c) (ac_fed c)))\<rparr>
             in (case final_ctx C cs of (r, cs') \<Rightarrow> (r, c1 # cs'))))"

definition held_objects :: "algo_ctx list \<Rightarrow> int" where
  "held_objects cs = sum_list (map (\<lambda>c. of_bool (ac_tfm c) + of_bool (ac_desc c)) cs)"

definition init_ctx :: "sig_state \<Rightarrow> algo_ctx list" where
  "init_ctx st =
     (let mk = (\<lambda>a act n. \<lparr>ac_algo = a, ac_active = act, ac_tfm = False, ac_desc = False,
                            ac_fed = [], ac_len = n, ac_hex = []\<rparr>)
      in [mk AV_ALGO_MD5 (0 < av_sigtable_algo_count st AV_ALGO_MD5) 16,
          mk AV_ALGO_SHA1 (0 < av_sigtable_algo_count st AV_ALGO_SHA1) 20,
          mk AV_ALGO_SHA256 True 32])"

definition digest_of :: "algo_ctx list \<Rightarrow> av_digest" where
  "digest_of cs = \<lparr>md5 = ac_hex (cs ! 0), sha1 = ac_hex (cs ! 1), sha256 = ac_hex (cs ! 2)\<rparr>"

text \<open>The outcome, the digests, the identity of the file hashed, and the objects and path
  references still held.\<close>

definition hash_file_multi ::
  "vfs \<Rightarrow> crypto \<Rightarrow> bool \<Rightarrow> sig_state \<Rightarrow> string \<Rightarrow> vpath \<Rightarrow> int \<Rightarrow> int \<Rightarrow>
   ret \<times> av_digest \<times> av_file_identity option \<times> int \<times> int" where
  "hash_file_multi V C buf_mem st path pwd refs live =
     (let ctx = init_ctx st
      in case open_exec_target V path pwd refs of
           (Inl e, refs1) \<Rightarrow> (Inl e, digest_of ctx, None, refs1, live)
         | (Inr f, refs1) \<Rightarrow>
             let live1 = live + 1
             in if \<not> f_isreg f then (Inl EINVAL, digest_of ctx, None, refs1, live1 - 1)
                else if int MAX_HASH_FILE_SIZE < f_size f then (Inl EFBIG, digest_of ctx, None, refs1, live1 - 1)
                else
                  let ident = Some \<lparr>id_dev = f_dev f, id_ino = f_ino f, id_size = f_size f\<rparr>
                  in (case setup_ctx C ctx live1 of
                        (Inl e, cs, live2) \<Rightarrow> (Inl e, digest_of cs, ident, refs1, live2 - held_objects cs - 1)
                      | (Inr _, cs, live2) \<Rightarrow>
                          if \<not> buf_mem then (Inl ENOMEM, digest_of cs, ident, refs1, live2 - held_objects cs - 1)
                          else
                            let live3 = live2 + 1
                            in (case read_loop C f 0 cs of
                                  (Inl e, cs') \<Rightarrow>
                                    (Inl e, digest_of cs', ident, refs1, live3 - 1 - held_objects cs' - 1)
                                | (Inr _, cs') \<Rightarrow>
                                    (case final_ctx C cs' of (r, cs'') \<Rightarrow>
                                      (r, digest_of cs'', ident, refs1, live3 - 1 - held_objects cs'' - 1)))))"

section \<open>Specification\<close>

text \<open>\<open>reads f pos data\<close>: reading from \<open>pos\<close> yields exactly \<open>data\<close> and then the end of file.\<close>

inductive reads :: "kfile \<Rightarrow> nat \<Rightarrow> u8 list \<Rightarrow> bool" for f where
  reads_eof: "kernel_read f pos = Inr [] \<Longrightarrow> reads f pos []"
| reads_chunk: "kernel_read f pos = Inr buf \<Longrightarrow> buf \<noteq> [] \<Longrightarrow> reads f (pos + length buf) rest \<Longrightarrow>
    reads f pos (buf @ rest)"

definition crypto_ok :: "crypto \<Rightarrow> bool" where
  "crypto_ok C \<longleftrightarrow> (\<forall>a. crypto_alloc_shash C a = OK \<and> desc_mem C a \<and> crypto_shash_init C a = OK \<and>
     (\<forall>p. crypto_shash_update C a p = OK) \<and> crypto_shash_final C a = OK)"

definition digest_sizes :: "crypto \<Rightarrow> bool" where
  "digest_sizes C \<longleftrightarrow> (\<forall>d. length (shash C AV_ALGO_MD5 d) = 16 \<and> length (shash C AV_ALGO_SHA1 d) = 20 \<and>
     length (shash C AV_ALGO_SHA256 d) = 32)"

definition file_digest :: "crypto \<Rightarrow> sig_state \<Rightarrow> u8 list \<Rightarrow> av_digest" where
  "file_digest C st data =
     \<lparr>md5 = (if 0 < av_sigtable_algo_count st AV_ALGO_MD5 then bin_to_hex (shash C AV_ALGO_MD5 data) else []),
      sha1 = (if 0 < av_sigtable_algo_count st AV_ALGO_SHA1 then bin_to_hex (shash C AV_ALGO_SHA1 data) else []),
      sha256 = bin_to_hex (shash C AV_ALGO_SHA256 data)\<rparr>"

section \<open>Lemmas\<close>

lemma hex_digit_lower: "n < 16 \<Longrightarrow> tolower (hex_digit n) = hex_digit n \<and> isxdigit (hex_digit n)"
  by (auto simp: hex_digit_def tolower_def isupper_def isxdigit_def ccode_def)

lemma bin_to_hex_length: "length (bin_to_hex bin) = 2 * length bin"
  by (induction bin) (simp_all add: bin_to_hex_def byte_hex_def)

lemma unat_u8_div: "unat (b :: u8) div 16 < 16"
  using unsigned_less [of b, where 'a = nat] by (simp add: less_mult_imp_div_less)

lemma bin_to_hex_lower: "map tolower (bin_to_hex bin) = bin_to_hex bin"
  by (induction bin) (auto simp: bin_to_hex_def byte_hex_def hex_digit_lower unat_u8_div)

lemma bin_to_hex_xdigit: "c \<in> set (bin_to_hex bin) \<Longrightarrow> isxdigit c"
  by (auto simp: bin_to_hex_def byte_hex_def hex_digit_lower unat_u8_div)

text \<open>What a successful step does to every context.\<close>

definition opened :: "algo_ctx \<Rightarrow> algo_ctx" where
  "opened c = (if ac_active c then c\<lparr>ac_tfm := True, ac_desc := True\<rparr> else c)"

definition fed :: "u8 list \<Rightarrow> algo_ctx \<Rightarrow> algo_ctx" where
  "fed data c = (if ac_active c then c\<lparr>ac_fed := ac_fed c @ data\<rparr> else c)"

definition finished :: "crypto \<Rightarrow> algo_ctx \<Rightarrow> algo_ctx" where
  "finished C c = (if ac_active c
     then c\<lparr>ac_hex := bin_to_hex (take (ac_len c) (shash C (ac_algo c) (ac_fed c)))\<rparr> else c)"

lemma held_objects_simps [simp]:
  "held_objects [] = 0"
  "held_objects (c # cs) = of_bool (ac_tfm c) + of_bool (ac_desc c) + held_objects cs"
  by (simp_all add: held_objects_def)

lemma setup_ctx_live:
  assumes "setup_ctx C cs live = (r, cs', live')" and "\<forall>c \<in> set cs. \<not> ac_tfm c \<and> \<not> ac_desc c"
  shows "live' = live + held_objects cs'"
proof -
  have z: "held_objects cs = 0" if "\<forall>c \<in> set cs. \<not> ac_tfm c \<and> \<not> ac_desc c" for cs
    using that by (induction cs) simp_all
  show ?thesis using assms
    by (induction cs arbitrary: live r cs' live')
      (fastforce simp: Let_def z split: if_splits sum.splits prod.splits)+
qed

lemma setup_ctx_ok: "setup_ctx C cs live = (Inr u, cs', live') \<Longrightarrow> cs' = map opened cs"
  by (induction cs arbitrary: live cs' live')
    (auto simp: Let_def opened_def split: if_splits sum.splits prod.splits)

lemma setup_ctx_total: "crypto_ok C \<Longrightarrow> \<exists>live'. setup_ctx C cs live = (OK, map opened cs, live')"
proof (induction cs arbitrary: live)
  case (Cons c cs)
  show ?case using Cons.IH [OF Cons.prems, of live] Cons.IH [OF Cons.prems, of "2 + live"] Cons.prems
    by (cases "ac_active c") (auto simp: crypto_ok_def opened_def Let_def)
qed simp

lemma feed_ctx_spec:
  "feed_ctx C pos buf cs = (r, cs') \<Longrightarrow>
     held_objects cs' = held_objects cs \<and> (\<forall>u. r = Inr u \<longrightarrow> cs' = map (fed buf) cs)"
  by (induction cs arbitrary: r cs') (auto simp: fed_def split: if_splits sum.splits prod.splits)

lemma feed_ctx_total: "crypto_ok C \<Longrightarrow> feed_ctx C pos buf cs = (OK, map (fed buf) cs)"
  by (induction cs) (auto simp: crypto_ok_def fed_def split: prod.split)

lemma final_ctx_spec:
  "final_ctx C cs = (r, cs') \<Longrightarrow>
     held_objects cs' = held_objects cs \<and> (\<forall>u. r = Inr u \<longrightarrow> cs' = map (finished C) cs)"
  by (induction cs arbitrary: r cs')
    (auto simp: finished_def Let_def split: if_splits sum.splits prod.splits)

lemma final_ctx_total: "crypto_ok C \<Longrightarrow> final_ctx C cs = (OK, map (finished C) cs)"
  by (induction cs) (auto simp: crypto_ok_def finished_def Let_def split: prod.split)

lemma fed_fed: "fed b (fed a c) = fed (a @ b) c" and fed_nil: "map (fed []) cs = cs"
  by (simp_all add: fed_def map_idI)

lemma read_loop_held: "held_objects (snd (read_loop C f pos cs)) = held_objects cs"
proof (induction C f pos cs rule: read_loop.induct)
  case (1 C f pos cs)
  show ?case
    by (subst read_loop.simps)
      (auto simp: Let_def 1 dest: feed_ctx_spec split: sum.splits prod.splits)
qed

lemma read_loop_ok:
  "read_loop C f pos cs = (Inr u, cs') \<Longrightarrow> pos \<le> MAX_HASH_FILE_SIZE \<Longrightarrow>
     \<exists>data. reads f pos data \<and> pos + length data \<le> MAX_HASH_FILE_SIZE \<and> cs' = map (fed data) cs"
proof (induction C f pos cs arbitrary: cs' rule: read_loop.induct)
  case (1 C f pos cs)
  obtain buf where k: "kernel_read f pos = Inr buf"
    using 1(2) by (subst (asm) read_loop.simps) (auto split: sum.splits)
  show ?case
  proof (cases "buf = []")
    case True
    with 1(2) k have "cs' = cs" by (subst (asm) read_loop.simps) simp
    with True k reads_eof [of f pos] 1(3) show ?thesis by (intro exI [of _ "[]"]) (simp add: fed_nil)
  next
    case False
    with 1(2) k have le: "\<not> MAX_HASH_FILE_SIZE < pos + length buf"
      and s: "\<exists>u. feed_ctx C (pos + length buf) buf cs = (Inr u, map (fed buf) cs)"
      and r: "read_loop C f (pos + length buf) (map (fed buf) cs) = (Inr u, cs')"
      by (subst (asm) read_loop.simps,
          auto simp: Let_def split: if_splits sum.splits prod.splits dest!: feed_ctx_spec)+
    from s obtain w where w: "(Inr w, map (fed buf) cs) = feed_ctx C (pos + length buf) buf cs" by metis
    from 1(1) [OF k False refl le w refl r] le obtain data where
      d: "reads f (pos + length buf) data" "pos + length buf + length data \<le> MAX_HASH_FILE_SIZE"
        "cs' = map (fed data) (map (fed buf) cs)" by auto
    then show ?thesis using reads_chunk [OF k False d(1)]
      by (intro exI [of _ "buf @ data"]) (simp add: fed_fed)
  qed
qed

lemma read_loop_total:
  "reads f pos data \<Longrightarrow> pos + length data \<le> MAX_HASH_FILE_SIZE \<Longrightarrow> crypto_ok C \<Longrightarrow>
     read_loop C f pos cs = (OK, map (fed data) cs)"
proof (induction arbitrary: cs rule: reads.induct)
  case (reads_eof pos)
  then show ?case by (subst read_loop.simps) (simp add: fed_nil)
next
  case (reads_chunk pos buf rest)
  then show ?case
    by (subst read_loop.simps) (simp add: feed_ctx_total comp_def fed_fed)
qed

lemma read_loop_endless:
  "(\<And>p. \<exists>buf. kernel_read f p = Inr buf \<and> buf \<noteq> []) \<Longrightarrow> crypto_ok C \<Longrightarrow>
     fst (read_loop C f pos cs) = Inl EFBIG"
proof (induction C f pos cs rule: read_loop.induct)
  case (1 C f pos cs)
  obtain buf where "kernel_read f pos = Inr buf" "buf \<noteq> []" using 1(2) by blast
  with 1 show ?case by (subst read_loop.simps) (simp add: Let_def feed_ctx_total)
qed

lemma open_exec_target_refs: "snd (open_exec_target V path pwd refs) = refs"
  by (simp add: open_exec_target_def Let_def split: sum.split)

lemma init_ctx_clear: "\<forall>c \<in> set (init_ctx st). \<not> ac_tfm c \<and> \<not> ac_desc c"
  by (simp add: init_ctx_def Let_def)

lemma digest_of_finished:
  assumes "digest_sizes C"
  shows "digest_of (map (finished C) (map (fed data) (map opened (init_ctx st)))) = file_digest C st data"
  using assms
  by (simp add: digest_of_def init_ctx_def Let_def opened_def fed_def finished_def file_digest_def digest_sizes_def)

lemma file_digest_wf:
  assumes "digest_sizes C" shows "digest_wf (file_digest C st data)"
  unfolding digest_wf_def
proof (intro allI impI)
  fix a h
  assume "digest_for_algo (file_digest C st data) a = Some h"
  with assms show "h = [] \<or> length h = algo_hexlen a \<and> map tolower h = h"
    using bin_to_hex_length bin_to_hex_lower
    by (cases a) (auto simp: file_digest_def digest_sizes_def split: if_splits)
qed

lemma hash_file_multi_balanced:
  assumes "hash_file_multi V C bm st path pwd refs live = (r, d, ident, refs', live')"
  shows "refs' = refs \<and> live' = live"
proof -
  obtain o1 where o: "open_exec_target V path pwd refs = (o1, refs)"
    by (metis open_exec_target_refs surj_pair snd_conv)
  obtain sr cs l2 where s: "setup_ctx C (init_ctx st) (live + 1) = (sr, cs, l2)" by (metis surj_pair)
  then have l2: "l2 = live + 1 + held_objects cs" using setup_ctx_live init_ctx_clear by blast
  obtain f where f: "o1 = Inr f \<or> (\<exists>e. o1 = Inl e)" by (cases o1) auto
  have rl: "held_objects cs' = held_objects cs" if "read_loop C f 0 cs = (rr, cs')" for rr cs'
    using that read_loop_held [of C f 0 cs] by simp
  show ?thesis using assms f
    by (auto simp: hash_file_multi_def o s l2 Let_def split: if_splits sum.splits prod.splits
        dest!: rl final_ctx_spec)
qed

lemma hash_file_multi_ok:
  assumes "hash_file_multi V C bm st path pwd refs live = (OK, d, ident, refs', live')" and "digest_sizes C"
  shows "\<exists>f data. fst (open_exec_target V path pwd refs) = Inr f \<and> f_isreg f \<and>
       reads f 0 data \<and> length data \<le> MAX_HASH_FILE_SIZE \<and> d = file_digest C st data \<and> digest_wf d \<and>
       ident = Some \<lparr>id_dev = f_dev f, id_ino = f_ino f, id_size = f_size f\<rparr>"
proof -
  obtain f cs l2 cs' where f: "fst (open_exec_target V path pwd refs) = Inr f" "f_isreg f"
    and s: "\<exists>u. setup_ctx C (init_ctx st) (live + 1) = (Inr u, cs, l2)"
    and l: "\<exists>u. read_loop C f 0 cs = (Inr u, cs')"
    and e: "\<exists>cs''. final_ctx C cs' = (OK, cs'') \<and> d = digest_of cs''"
    and i: "ident = Some \<lparr>id_dev = f_dev f, id_ino = f_ino f, id_size = f_size f\<rparr>"
    using assms(1)
    by (auto simp: hash_file_multi_def Let_def split: if_splits sum.splits prod.splits)
  have cs: "cs = map opened (init_ctx st)" using s setup_ctx_ok by blast
  obtain data where data: "reads f 0 data" "length data \<le> MAX_HASH_FILE_SIZE" "cs' = map (fed data) cs"
    using l read_loop_ok [of C f 0 cs] by auto
  from e have "d = digest_of (map (finished C) cs')" using final_ctx_spec by blast
  then have "d = file_digest C st data" using digest_of_finished [OF assms(2)] cs data(3) by simp
  with f i data file_digest_wf [OF assms(2)] show ?thesis by blast
qed

lemma hash_file_multi_total:
  assumes "fst (open_exec_target V path pwd refs) = Inr f" and "f_isreg f"
    and "f_size f \<le> int MAX_HASH_FILE_SIZE" and "crypto_ok C" and "digest_sizes C"
    and "reads f 0 data" and "length data \<le> MAX_HASH_FILE_SIZE"
  shows "hash_file_multi V C True st path pwd refs live =
    (OK, file_digest C st data, Some \<lparr>id_dev = f_dev f, id_ino = f_ino f, id_size = f_size f\<rparr>, refs, live)"
proof -
  have o: "open_exec_target V path pwd refs = (Inr f, refs)"
    using assms(1) open_exec_target_refs by (metis prod.collapse)
  obtain l2 where s: "setup_ctx C (init_ctx st) (live + 1) = (OK, map opened (init_ctx st), l2)"
    using setup_ctx_total [OF assms(4)] by blast
  have sz: "\<not> int MAX_HASH_FILE_SIZE < f_size f" using assms(3) by simp
  let ?h = "hash_file_multi V C True st path pwd refs live"
  have rd: "read_loop C f 0 (map opened (init_ctx st)) = (OK, map (fed data) (map opened (init_ctx st)))"
    using read_loop_total [OF assms(6)] assms(4,7) by simp
  have "fst ?h = OK \<and> fst (snd ?h) = file_digest C st data \<and>
      fst (snd (snd ?h)) = Some \<lparr>id_dev = f_dev f, id_ino = f_ino f, id_size = f_size f\<rparr>"
    unfolding hash_file_multi_def Let_def o s
    by (simp add: assms(2) sz rd final_ctx_total [OF assms(4)] digest_of_finished [OF assms(5)]
        del: map_map split del: if_split)
  with hash_file_multi_balanced [of V C True st path pwd refs live] show ?thesis
    by (metis prod.collapse)
qed

section \<open>Properties\<close>

text \<open>C14. The hash pass: on every path, whichever call fails, the file, the transforms, the
  descriptors, the buffer and the looked-up path are all released. When it succeeds, the digests
  are those of the bytes actually read from the opened regular file, at most 256 MB of them,
  well-formed lower-case hex that the signature lookup expects, with the MD5 and SHA-1 fields empty
  exactly when no such signature exists, and the identity is that of the same file.\<close>

theorem hash_pass_sound:
  assumes "hash_file_multi V C bm st path pwd refs live = (r, d, ident, refs', live')" and "digest_sizes C"
  shows "refs' = refs \<and> live' = live \<and>
    (r = OK \<longrightarrow> (\<exists>f data. fst (open_exec_target V path pwd refs) = Inr f \<and> f_isreg f \<and>
       reads f 0 data \<and> length data \<le> MAX_HASH_FILE_SIZE \<and> d = file_digest C st data \<and> digest_wf d \<and>
       ident = Some \<lparr>id_dev = f_dev f, id_ino = f_ino f, id_size = f_size f\<rparr>))"
  using hash_file_multi_balanced [OF assms(1)] hash_file_multi_ok [of V C bm st path pwd refs live] assms
  by blast

definition demo_file :: kfile where
  "demo_file = \<lparr>f_isreg = True, f_size = 2, f_dev = 8, f_ino = 42,
     f_read = (\<lambda>p. if p = 0 then Inr [77, 90] else Inr [])\<rparr>"

definition demo_vfs :: vfs where
  "demo_vfs = \<lparr>filp_open = (\<lambda>_. Inr demo_file), dentry_open = (\<lambda>_. Inr demo_file),
     vfs_path_lookup = (\<lambda>p s. Inr p)\<rparr>"

definition demo_crypto :: crypto where
  "demo_crypto = \<lparr>crypto_alloc_shash = (\<lambda>_. OK), desc_mem = (\<lambda>_. True), crypto_shash_init = (\<lambda>_. OK),
     crypto_shash_update = (\<lambda>_ _. OK), crypto_shash_final = (\<lambda>_. OK),
     shash = (\<lambda>a d. replicate (algo_hexlen a div 2) (fold (+) d 0))\<rparr>"

lemma demo_crypto_ok: "crypto_ok demo_crypto" "digest_sizes demo_crypto"
  by (simp_all add: crypto_ok_def digest_sizes_def demo_crypto_def)

lemma demo_reads: "reads demo_file 0 [77, 90]"
  using reads_chunk [of demo_file 0 "[77, 90]" "[]"] reads_eof [of demo_file 2]
  by (simp add: kernel_read_def demo_file_def READ_CHUNK_SIZE_def numeral_2_eq_2)

text \<open>C15. The hash pass is total and complete: a readable regular file of at most 256 MB is always
  hashed when the services work, and a file that grows for ever while it is read, so that no end of
  file is seen, stops the pass with \<open>EFBIG\<close> instead of pinning the worker.\<close>

theorem hash_pass_complete:
  assumes "fst (open_exec_target V path pwd refs) = Inr f" and "f_isreg f"
    and "f_size f \<le> int MAX_HASH_FILE_SIZE" and "crypto_ok C" and "digest_sizes C"
  shows "(reads f 0 data \<and> length data \<le> MAX_HASH_FILE_SIZE \<longrightarrow>
      hash_file_multi V C True st path pwd refs live =
        (OK, file_digest C st data, Some \<lparr>id_dev = f_dev f, id_ino = f_ino f, id_size = f_size f\<rparr>, refs, live)) \<and>
    ((\<forall>p. \<exists>buf. kernel_read f p = Inr buf \<and> buf \<noteq> []) \<longrightarrow>
      fst (hash_file_multi V C True st path pwd refs live) = Inl EFBIG)"
proof -
  have o: "open_exec_target V path pwd refs = (Inr f, refs)"
    using assms(1) open_exec_target_refs by (metis prod.collapse)
  obtain l2 where s: "setup_ctx C (init_ctx st) (live + 1) = (OK, map opened (init_ctx st), l2)"
    using setup_ctx_total [OF assms(4)] by blast
  have sz: "\<not> int MAX_HASH_FILE_SIZE < f_size f" using assms(3) by simp
  let ?h = "hash_file_multi V C True st path pwd refs live"
  have "fst ?h = Inl EFBIG" if "\<forall>p. \<exists>buf. kernel_read f p = Inr buf \<and> buf \<noteq> []"
    using read_loop_endless [OF that [rule_format] assms(4), of 0 "map opened (init_ctx st)"]
    by (auto simp: hash_file_multi_def Let_def o s assms(2) sz split: sum.split prod.split)
  with hash_file_multi_total [OF assms] show ?thesis by blast
qed

theorem hash_pass_sound_witness:
  "\<exists>d ident. hash_file_multi demo_vfs demo_crypto True av_sigtable_init ''/bin/x'' 0 0 0 = (OK, d, ident, 0, 0) \<and>
     digest_wf d \<and> md5 d = []"
proof -
  have "fst (open_exec_target demo_vfs ''/bin/x'' 0 0) = Inr demo_file"
    by (simp add: open_exec_target_def demo_vfs_def)
  from hash_file_multi_total [OF this _ _ demo_crypto_ok demo_reads, of av_sigtable_init 0]
  obtain d ident where h: "hash_file_multi demo_vfs demo_crypto True av_sigtable_init ''/bin/x'' 0 0 0 = (OK, d, ident, 0, 0)"
    by (simp add: demo_file_def MAX_HASH_FILE_SIZE_def)
  from hash_pass_sound [OF h demo_crypto_ok(2)] h show ?thesis
    by (auto simp: file_digest_def av_sigtable_algo_count_def av_sigtable_init_def)
qed

theorem hash_pass_complete_witness:
  "fst (hash_file_multi demo_vfs demo_crypto True av_sigtable_init ''/bin/x'' 0 0 0) = OK"
  using hash_pass_complete [of demo_vfs "''/bin/x''" 0 0 demo_file demo_crypto "[77, 90]" av_sigtable_init 0]
    demo_crypto_ok demo_reads
  by (simp add: open_exec_target_def demo_vfs_def demo_file_def MAX_HASH_FILE_SIZE_def)

end
