(* ===== verification/Hooks.thy ===== *)
theory Hooks
  imports Admission BehaviorTable PathNorm NetlinkChan HashPass
begin

text \<open>
  The syscall hooks and the work items they queue (\<^verbatim>\<open>av/main.c\<close>): the pre-handlers of the eight
  kprobes, the four work functions, the kill helper of the exec path and the daemon policy file.
  A user address space is the partial map from an address to the string there, a missing string
  being a page that is not resident. The references, allocations and admissions the hooks take
  are counted in \<open>kres\<close>.
\<close>

section \<open>Data\<close>

record av_work =
  aw_target :: nat
  aw_tgid :: pid_t
  aw_start :: u64
  aw_pwd :: vpath
  aw_path :: string

record av_openat_work =
  ow_target :: nat
  ow_pid :: pid_t
  ow_flags :: u32
  ow_base :: vpath
  ow_path :: string

record av_unlink_work =
  uw_target :: nat
  uw_pid :: pid_t
  uw_base :: vpath
  uw_path :: string

record av_rename_work =
  rw_target :: nat
  rw_pid :: pid_t
  rw_old_base :: vpath
  rw_new_base :: vpath
  rw_oldpath :: string
  rw_newpath :: string

datatype work =
    ExecWork av_work | OpenatWork av_openat_work | UnlinkWork av_unlink_work | RenameWork av_rename_work

record kres =
  k_inflight :: u32
  k_paths :: int
  k_pids :: int
  k_works :: int
  k_objs :: int
  k_queue :: "work list"

text \<open>The arguments of a syscall and what the hook sees of the calling task.\<close>

record pt_regs =
  r_di :: u64
  r_si :: u64
  r_dx :: u64
  r_r10 :: u64
  r_r8 :: u64

record hook_env =
  he_umem :: "u64 \<Rightarrow> string option"
  he_fget :: "u32 \<Rightarrow> vpath option"
  he_pwd :: vpath
  he_pid :: nat
  he_tgid :: pid_t
  he_start :: u64
  he_kmalloc :: bool

section \<open>Reference counting\<close>

definition path_get :: "kres \<Rightarrow> kres" where "path_get k = k\<lparr>k_paths := k_paths k + 1\<rparr>"
definition path_put :: "kres \<Rightarrow> kres" where "path_put k = k\<lparr>k_paths := k_paths k - 1\<rparr>"
definition get_task_pid :: "kres \<Rightarrow> kres" where "get_task_pid k = k\<lparr>k_pids := k_pids k + 1\<rparr>"
definition put_pid :: "kres \<Rightarrow> kres" where "put_pid k = k\<lparr>k_pids := k_pids k - 1\<rparr>"
definition kmalloc_work :: "kres \<Rightarrow> kres" where "kmalloc_work k = k\<lparr>k_works := k_works k + 1\<rparr>"
definition kfree_work :: "kres \<Rightarrow> kres" where "kfree_work k = k\<lparr>k_works := k_works k - 1\<rparr>"
definition kmalloc_buf :: "kres \<Rightarrow> kres" where "kmalloc_buf k = k\<lparr>k_objs := k_objs k + 1\<rparr>"
definition kfree_buf :: "kres \<Rightarrow> kres" where "kfree_buf k = k\<lparr>k_objs := k_objs k - 1\<rparr>"
definition release :: "kres \<Rightarrow> kres" where "release k = k\<lparr>k_inflight := av_work_release (k_inflight k)\<rparr>"
definition queue_work :: "work \<Rightarrow> kres \<Rightarrow> kres" where "queue_work w k = k\<lparr>k_queue := k_queue k @ [w]\<rparr>"

definition admit :: "(u32 \<Rightarrow> bool \<times> u32) \<Rightarrow> kres \<Rightarrow> bool \<times> kres" where
  "admit gate k = (case gate (k_inflight k) of (ok, c) \<Rightarrow> (ok, k\<lparr>k_inflight := c\<rparr>))"

section \<open>Hook helpers\<close>

definition AT_FDCWD :: u32 where "AT_FDCWD = - 100"
definition AT_EMPTY_PATH :: u32 where "AT_EMPTY_PATH = 0x1000"

definition resolve_dfd_path :: "hook_env \<Rightarrow> u32 \<Rightarrow> kres \<Rightarrow> vpath option \<times> kres" where
  "resolve_dfd_path E dfd k =
     (if dfd = AT_FDCWD then (Some (he_pwd E), path_get k)
      else
        (case he_fget E dfd of
           None \<Rightarrow> (None, k)
         | Some p \<Rightarrow> (Some p, path_get k)))"

text \<open>The length returned and the bytes copied; a fault is \<open>None\<close>.\<close>

definition strncpy_from_user :: "hook_env \<Rightarrow> u64 \<Rightarrow> nat \<Rightarrow> (nat \<times> string) option" where
  "strncpy_from_user E addr n = map_option (\<lambda>s. (min (length s) n, take n s)) (he_umem E addr)"

definition copy_path :: "hook_env \<Rightarrow> u64 \<Rightarrow> bool \<Rightarrow> string option" where
  "copy_path E addr empty_ok =
     (case strncpy_from_user E addr PATH_MAX of
        None \<Rightarrow> None
      | Some (path_len, buf) \<Rightarrow>
          if PATH_MAX \<le> path_len \<or> (path_len = 0 \<and> \<not> empty_ok) then None else Some buf)"

section \<open>Pre-handlers\<close>

definition handler_pre :: "hook_env \<Rightarrow> pt_regs option \<Rightarrow> kres \<Rightarrow> kres" where
  "handler_pre E regs k =
     (case regs of
        None \<Rightarrow> k
      | Some r \<Rightarrow>
          if r_di r = 0 then k
          else
            (case admit av_work_admit k of
               (False, k1) \<Rightarrow> k1
             | (True, k1) \<Rightarrow>
                 if \<not> he_kmalloc E then release k1
                 else
                   let k2 = kmalloc_work k1
                   in (case copy_path E (r_di r) False of
                         None \<Rightarrow> release (kfree_work k2)
                       | Some path \<Rightarrow>
                           let k3 = path_get (get_task_pid k2)
                           in queue_work (ExecWork \<lparr>aw_target = he_pid E, aw_tgid = he_tgid E,
                                aw_start = he_start E, aw_pwd = he_pwd E, aw_path = path\<rparr>) k3)))"

definition handler_pre_execveat :: "hook_env \<Rightarrow> pt_regs option \<Rightarrow> kres \<Rightarrow> kres" where
  "handler_pre_execveat E regs k =
     (case regs of
        None \<Rightarrow> k
      | Some r \<Rightarrow>
          if r_si r = 0 then k
          else
            let empty_path = ((ucast (r_r8 r) AND AT_EMPTY_PATH) \<noteq> 0)
            in (case resolve_dfd_path E (ucast (r_di r)) k of
                  (None, k1) \<Rightarrow> k1
                | (Some base, k1) \<Rightarrow>
                    (case admit av_work_admit k1 of
                       (False, k2) \<Rightarrow> path_put k2
                     | (True, k2) \<Rightarrow>
                         if \<not> he_kmalloc E then release (path_put k2)
                         else
                           let k3 = kmalloc_work k2
                           in (case copy_path E (r_si r) empty_path of
                                 None \<Rightarrow> release (kfree_work (path_put k3))
                               | Some path \<Rightarrow>
                                   queue_work (ExecWork \<lparr>aw_target = he_pid E, aw_tgid = he_tgid E,
                                     aw_start = he_start E, aw_pwd = base, aw_path = path\<rparr>) (get_task_pid k3)))))"

definition handler_pre_openat :: "hook_env \<Rightarrow> pt_regs option \<Rightarrow> kres \<Rightarrow> kres" where
  "handler_pre_openat E regs k =
     (case regs of
        None \<Rightarrow> k
      | Some r \<Rightarrow>
          if r_si r = 0 then k
          else
            let flags = ucast (r_dx r) :: u32
            in if flags AND write_flags = 0 then k
               else
                 (case resolve_dfd_path E (ucast (r_di r)) k of
                    (None, k1) \<Rightarrow> k1
                  | (Some base, k1) \<Rightarrow>
                      (case admit av_work_admit_nonexec k1 of
                         (False, k2) \<Rightarrow> path_put k2
                       | (True, k2) \<Rightarrow>
                           if \<not> he_kmalloc E then release (path_put k2)
                           else
                             let k3 = kmalloc_work k2
                             in (case copy_path E (r_si r) False of
                                   None \<Rightarrow> release (kfree_work (path_put k3))
                                 | Some path \<Rightarrow>
                                     queue_work (OpenatWork \<lparr>ow_target = he_pid E, ow_pid = he_tgid E,
                                       ow_flags = flags, ow_base = base, ow_path = path\<rparr>) (get_task_pid k3)))))"

definition schedule_unlink_work :: "hook_env \<Rightarrow> u64 \<Rightarrow> u32 \<Rightarrow> kres \<Rightarrow> kres" where
  "schedule_unlink_work E user_path dfd k =
     (if user_path = 0 then k
      else
        (case resolve_dfd_path E dfd k of
           (None, k1) \<Rightarrow> k1
         | (Some base, k1) \<Rightarrow>
             (case admit av_work_admit_nonexec k1 of
                (False, k2) \<Rightarrow> path_put k2
              | (True, k2) \<Rightarrow>
                  if \<not> he_kmalloc E then release (path_put k2)
                  else
                    let k3 = kmalloc_work k2
                    in (case copy_path E user_path False of
                          None \<Rightarrow> release (kfree_work (path_put k3))
                        | Some path \<Rightarrow>
                            queue_work (UnlinkWork \<lparr>uw_target = he_pid E, uw_pid = he_tgid E,
                              uw_base = base, uw_path = path\<rparr>) (get_task_pid k3)))))"

definition handler_pre_unlink :: "hook_env \<Rightarrow> pt_regs option \<Rightarrow> kres \<Rightarrow> kres" where
  "handler_pre_unlink E regs k =
     (case regs of None \<Rightarrow> k | Some r \<Rightarrow> schedule_unlink_work E (r_di r) AT_FDCWD k)"

definition handler_pre_unlinkat :: "hook_env \<Rightarrow> pt_regs option \<Rightarrow> kres \<Rightarrow> kres" where
  "handler_pre_unlinkat E regs k =
     (case regs of None \<Rightarrow> k | Some r \<Rightarrow> schedule_unlink_work E (r_si r) (ucast (r_di r)) k)"

definition schedule_rename_work :: "hook_env \<Rightarrow> u64 \<Rightarrow> u32 \<Rightarrow> u64 \<Rightarrow> u32 \<Rightarrow> kres \<Rightarrow> kres" where
  "schedule_rename_work E user_oldpath olddfd user_newpath newdfd k =
     (if user_oldpath = 0 \<or> user_newpath = 0 then k
      else
        (case resolve_dfd_path E olddfd k of
           (None, k1) \<Rightarrow> k1
         | (Some old_base, k1) \<Rightarrow>
             (case resolve_dfd_path E newdfd k1 of
                (None, k2) \<Rightarrow> path_put k2
              | (Some new_base, k2) \<Rightarrow>
                  (case admit av_work_admit_nonexec k2 of
                     (False, k3) \<Rightarrow> path_put (path_put k3)
                   | (True, k3) \<Rightarrow>
                       if \<not> he_kmalloc E then release (path_put (path_put k3))
                       else
                         let k4 = kmalloc_work k3
                         in (case copy_path E user_oldpath False of
                               None \<Rightarrow> release (kfree_work (path_put (path_put k4)))
                             | Some oldpath \<Rightarrow>
                                 (case copy_path E user_newpath False of
                                    None \<Rightarrow> release (kfree_work (path_put (path_put k4)))
                                  | Some newpath \<Rightarrow>
                                      queue_work (RenameWork \<lparr>rw_target = he_pid E, rw_pid = he_tgid E,
                                        rw_old_base = old_base, rw_new_base = new_base,
                                        rw_oldpath = oldpath, rw_newpath = newpath\<rparr>) (get_task_pid k4)))))))"

definition handler_pre_rename :: "hook_env \<Rightarrow> pt_regs option \<Rightarrow> kres \<Rightarrow> kres" where
  "handler_pre_rename E regs k =
     (case regs of None \<Rightarrow> k | Some r \<Rightarrow> schedule_rename_work E (r_di r) AT_FDCWD (r_si r) AT_FDCWD k)"

definition handler_pre_renameat :: "hook_env \<Rightarrow> pt_regs option \<Rightarrow> kres \<Rightarrow> kres" where
  "handler_pre_renameat E regs k =
     (case regs of None \<Rightarrow> k
      | Some r \<Rightarrow> schedule_rename_work E (r_si r) (ucast (r_di r)) (r_r10 r) (ucast (r_dx r)) k)"

definition handler_pre_renameat2 :: "hook_env \<Rightarrow> pt_regs option \<Rightarrow> kres \<Rightarrow> kres" where
  "handler_pre_renameat2 E regs k =
     (case regs of None \<Rightarrow> k
      | Some r \<Rightarrow> schedule_rename_work E (r_si r) (ucast (r_di r)) (r_r10 r) (ucast (r_dx r)) k)"

section \<open>The module state and its workers\<close>

record module_state =
  ms_sig :: sig_state
  ms_beh :: behavior_state
  ms_nl :: nl_state
  ms_fail_closed :: bool
  ms_k :: kres

text \<open>What a worker meets: the outcomes of its allocations (\<open>we_abs\<close> and \<open>we_abs2\<close> the path
  buffers), \<^verbatim>\<open>d_path()\<close>, the clock, the kill target behind a pid reference, the file system and
  crypto services, and the daemon.\<close>

record nl_env =
  ne_mem :: bool
  ne_skb :: bool
  ne_hdr :: bool
  ne_put :: ret
  ne_unicast :: ret
  ne_during :: "nl_state \<Rightarrow> nl_state"
  ne_late :: "nl_state \<Rightarrow> nl_state"

record work_env =
  we_abs :: bool
  we_abs2 :: bool
  we_dmem :: bool
  we_dup :: bool
  we_dpath :: "vpath \<Rightarrow> string ret_val"
  we_now :: u64
  we_entry :: bool
  we_target :: "nat \<Rightarrow> kill_target"
  we_vfs :: vfs
  we_crypto :: crypto
  we_buf :: bool
  we_nl :: nl_env

datatype exec_event =
    ExSuppressedInit string string string
  | ExSuppressedProtected string string string pid_t string
  | ExKill string string string pid_t "av_file_identity option"
  | ExClean string pid_t av_digest
  | ExFailOpen string pid_t av_digest errno

definition resolve :: "work_env \<Rightarrow> string \<Rightarrow> vpath \<Rightarrow> string" where
  "resolve W path base = resolve_absolute_path (we_dmem W) (we_dup W) (we_dpath W base) PATH_MAX path"

definition av_kill ::
  "kapi \<Rightarrow> protected_table \<Rightarrow> kill_target \<Rightarrow> string \<Rightarrow> string \<Rightarrow> string \<Rightarrow> av_file_identity option \<Rightarrow>
   exec_event list" where
  "av_kill K prot tg path ty reason ident =
     (if tg_nr tg = 1 then [ExSuppressedInit ty path reason]
      else
        (case av_behavior_target_is_protected K (tg_pathbuf tg) prot (tg_view tg) PATH_MAX of
           Some exe \<Rightarrow> [ExSuppressedProtected ty path reason (tg_nr tg) (if tg_logbuf tg then exe else ''?'')]
         | None \<Rightarrow> if tg_alive tg then [ExKill ty path reason (tg_nr tg) ident] else []))"

definition scan_request :: "nl_env \<Rightarrow> nl_state \<Rightarrow> ((int \<times> string) ret_val \<times> nl_state) option" where
  "scan_request N st =
     av_netlink_scan_request (ne_mem N) (ne_skb N) (ne_hdr N) (ne_put N) (ne_unicast N) (ne_during N)
       (ne_late N) (AV_RULE_NAME_MAXLEN + 1) st"

definition snprintf_reason :: "string \<Rightarrow> string" where
  "snprintf_reason s = strscpy (AV_SIG_NAME_LEN + 32) s"

definition end_work :: "kres \<Rightarrow> kres" where
  "end_work k = release (kfree_work (put_pid (path_put k)))"

text \<open>\<open>None\<close> is a worker that is still blocked in the wait for the daemon.\<close>

definition av_work_fn ::
  "kapi \<Rightarrow> work_env \<Rightarrow> av_work \<Rightarrow> module_state \<Rightarrow> (exec_event list \<times> module_state) option" where
  "av_work_fn K W aw ms =
     (if \<not> we_abs W then Some ([], ms\<lparr>ms_k := end_work (ms_k ms)\<rparr>)
      else
        let k1 = kmalloc_buf (ms_k ms);
            abs_path = resolve W (aw_path aw) (aw_pwd aw);
            (ret, digest, ident, paths, objs) =
              hash_file_multi (we_vfs W) (we_crypto W) (we_buf W) (ms_sig ms) (aw_path aw) (aw_pwd aw)
                (k_paths k1) (k_objs k1);
            k2 = k1\<lparr>k_paths := paths, k_objs := objs\<rparr>;
            done = (\<lambda>evs ms'. Some (evs, ms'\<lparr>ms_k := end_work (kfree_buf k2)\<rparr>));
            tg = we_target W (aw_target aw)
        in (case ret of
              Inl _ \<Rightarrow> done [] ms
            | Inr _ \<Rightarrow>
                let ms1 = ms\<lparr>ms_beh := av_behavior_record_exec K (we_entry W) (we_now W) (aw_tgid aw) abs_path
                                (sha256 digest) (aw_start aw) (ms_beh ms)\<rparr>;
                    kill = av_kill K (bs_protected (ms_beh ms1)) tg abs_path
                in (case av_sigtable_match K (ms_sig ms1) digest AV_SIG_NAME_LEN of
                      Some sig_name \<Rightarrow> done (kill ''signature'' (snprintf_reason (''signature:'' @ sig_name)) ident) ms1
                    | None \<Rightarrow>
                        (case scan_request (we_nl W) (ms_nl ms1) of
                           None \<Rightarrow> None
                         | Some (nl_ret, nl') \<Rightarrow>
                             let ms2 = ms1\<lparr>ms_nl := nl'\<rparr>
                             in (case nl_ret of
                                   Inr (verdict, rule_name) \<Rightarrow>
                                     if verdict = uint AV_VERDICT_MALICIOUS
                                     then done (kill ''daemon'' (snprintf_reason (''daemon:'' @ rule_name)) ident) ms2
                                     else done [ExClean abs_path (tg_nr tg) digest] ms2
                                 | Inl e \<Rightarrow>
                                     if ms_fail_closed ms2
                                     then done (kill ''fail-closed''
                                       (snprintf_reason (''no-verdict:err='' @ show_int (- int (errno_nr e)))) ident) ms2
                                     else done [ExFailOpen abs_path (tg_nr tg) digest e] ms2)))))"

definition av_openat_work_fn :: "kapi \<Rightarrow> work_env \<Rightarrow> av_openat_work \<Rightarrow> module_state \<Rightarrow> av_event list \<times> module_state" where
  "av_openat_work_fn K W ow ms =
     (if \<not> we_abs W then ([], ms\<lparr>ms_k := end_work (ms_k ms)\<rparr>)
      else
        let k1 = kmalloc_buf (ms_k ms);
            abs_path = resolve W (ow_path ow) (ow_base ow);
            (evs, beh) = av_behavior_check_openat K (we_entry W) (we_now W) (ow_pid ow) abs_path (ow_flags ow)
              (we_target W (ow_target ow)) (ms_beh ms)
        in (evs, ms\<lparr>ms_beh := beh, ms_k := end_work (kfree_buf k1)\<rparr>))"

definition av_unlink_work_fn :: "kapi \<Rightarrow> work_env \<Rightarrow> av_unlink_work \<Rightarrow> module_state \<Rightarrow> av_event list \<times> module_state" where
  "av_unlink_work_fn K W uw ms =
     (if \<not> we_abs W then ([], ms\<lparr>ms_k := end_work (ms_k ms)\<rparr>)
      else
        let k1 = kmalloc_buf (ms_k ms);
            abs_path = resolve W (uw_path uw) (uw_base uw);
            (evs, beh) = av_behavior_check_unlink K (we_entry W) (we_now W) (uw_pid uw) abs_path
              (we_target W (uw_target uw)) (ms_beh ms)
        in (evs, ms\<lparr>ms_beh := beh, ms_k := end_work (kfree_buf k1)\<rparr>))"

definition av_rename_work_fn :: "kapi \<Rightarrow> work_env \<Rightarrow> av_rename_work \<Rightarrow> module_state \<Rightarrow> av_event list \<times> module_state" where
  "av_rename_work_fn K W rw ms =
     (let end2 = (\<lambda>k. release (kfree_work (put_pid (path_put (path_put k)))))
      in if \<not> we_abs W then ([], ms\<lparr>ms_k := end2 (ms_k ms)\<rparr>)
         else
           let k1 = kmalloc_buf (ms_k ms)
           in if \<not> we_abs2 W then ([], ms\<lparr>ms_k := end2 (kfree_buf k1)\<rparr>)
              else
                let k2 = kmalloc_buf k1;
                    abs_old = resolve W (rw_oldpath rw) (rw_old_base rw);
                    abs_new = resolve W (rw_newpath rw) (rw_new_base rw);
                    (evs, beh) = av_behavior_check_rename K (we_entry W) (we_now W) (rw_pid rw) abs_old abs_new
                      (we_target W (rw_target rw)) (ms_beh ms)
                in (evs, ms\<lparr>ms_beh := beh, ms_k := end2 (kfree_buf (kfree_buf k2))\<rparr>))"

datatype event = ExecEv exec_event | BehEv av_event

definition run_work :: "kapi \<Rightarrow> work_env \<Rightarrow> work \<Rightarrow> module_state \<Rightarrow> (event list \<times> module_state) option" where
  "run_work K W w ms =
     (case w of
        ExecWork aw \<Rightarrow> map_option (map_prod (map ExecEv) id) (av_work_fn K W aw ms)
      | OpenatWork ow \<Rightarrow> Some (map_prod (map BehEv) id (av_openat_work_fn K W ow ms))
      | UnlinkWork uw \<Rightarrow> Some (map_prod (map BehEv) id (av_unlink_work_fn K W uw ms))
      | RenameWork rw \<Rightarrow> Some (map_prod (map BehEv) id (av_rename_work_fn K W rw ms)))"

section \<open>The daemon policy file\<close>

definition daemon_policy_proc_show :: "bool \<Rightarrow> string" where
  "daemon_policy_proc_show fail_closed = (if fail_closed then ''fail-closed'' else ''fail-open'') @ [NL]"

definition daemon_policy_proc_write :: "bool \<Rightarrow> nat \<Rightarrow> string \<Rightarrow> bool \<Rightarrow> nat ret_val \<times> bool" where
  "daemon_policy_proc_write fault ppos buf fail_closed =
     (if ppos \<noteq> 0 then (Inl EINVAL, fail_closed)
      else if 32 \<le> length buf then (Inl EINVAL, fail_closed)
      else if fault then (Inl EFAULT, fail_closed)
      else
        let kbuf = cstr buf
        in if kbuf = [] \<or> last kbuf \<noteq> NL then (Inl EINVAL, fail_closed)
           else
             let k1 = butlast kbuf;
                 k2 = (if k1 \<noteq> [] \<and> last k1 = CR then butlast k1 else k1)
             in if strcaseeq k2 ''fail-open'' then (Inr (length buf), False)
                else if strcaseeq k2 ''fail-closed'' then (Inr (length buf), True)
                else (Inl EINVAL, fail_closed))"

section \<open>Accounting\<close>

definition work_paths :: "work \<Rightarrow> int" where
  "work_paths w = (case w of RenameWork _ \<Rightarrow> 2 | _ \<Rightarrow> 1)"

text \<open>What a queued work item holds, and gives back when it ends.\<close>

definition charge :: "work \<Rightarrow> kres \<Rightarrow> kres" where
  "charge w k = k\<lparr>k_inflight := k_inflight k + 1, k_paths := k_paths k + work_paths w, k_pids := k_pids k + 1,
     k_works := k_works k + 1, k_queue := k_queue k @ [w]\<rparr>"

definition discharge :: "work \<Rightarrow> kres \<Rightarrow> kres" where
  "discharge w k = k\<lparr>k_inflight := k_inflight k - 1, k_paths := k_paths k - work_paths w, k_pids := k_pids k - 1,
     k_works := k_works k - 1\<rparr>"

definition balanced :: "kres \<Rightarrow> bool" where
  "balanced k \<longleftrightarrow> unat (k_inflight k) = length (k_queue k) \<and> length (k_queue k) \<le> 4096 \<and>
     k_works k = int (length (k_queue k)) \<and> k_pids k = int (length (k_queue k)) \<and>
     k_paths k = sum_list (map work_paths (k_queue k)) \<and> k_objs k = 0"

lemmas ref_defs = path_get_def path_put_def get_task_pid_def put_pid_def kmalloc_work_def kfree_work_def
  kmalloc_buf_def kfree_buf_def release_def queue_work_def av_work_release_def

lemma admit_exec:
  "admit av_work_admit k =
     (if k_inflight k + 1 \<le> AV_MAX_INFLIGHT_WORK then (True, k\<lparr>k_inflight := k_inflight k + 1\<rparr>) else (False, k))"
  by (simp add: admit_def av_work_admit_def admit_capped_spec)

lemma admit_nonexec:
  "admit av_work_admit_nonexec k =
     (if k_inflight k + 1 \<le> AV_MAX_INFLIGHT_WORK - AV_EXEC_RESERVED_WORK
      then (True, k\<lparr>k_inflight := k_inflight k + 1\<rparr>) else (False, k))"
  by (simp add: admit_def av_work_admit_nonexec_def admit_capped_spec)

lemma nonexec_cap: "c \<le> AV_MAX_INFLIGHT_WORK - AV_EXEC_RESERVED_WORK \<Longrightarrow> c \<le> AV_MAX_INFLIGHT_WORK"
  by (simp add: cap_defs word_le_nat_alt)

definition dfd_path :: "hook_env \<Rightarrow> u32 \<Rightarrow> vpath option" where
  "dfd_path E dfd = (if dfd = AT_FDCWD then Some (he_pwd E) else he_fget E dfd)"

lemma resolve_dfd:
  "resolve_dfd_path E dfd k = (case dfd_path E dfd of None \<Rightarrow> (None, k) | Some p \<Rightarrow> (Some p, path_get k))"
  by (simp add: resolve_dfd_path_def dfd_path_def)

text \<open>What each hook observes of its syscall, if anything.\<close>

definition seen_execve :: "hook_env \<Rightarrow> pt_regs option \<Rightarrow> work option" where
  "seen_execve E regs = (case regs of None \<Rightarrow> None | Some r \<Rightarrow>
     if r_di r = 0 then None
     else map_option (\<lambda>path. ExecWork \<lparr>aw_target = he_pid E, aw_tgid = he_tgid E, aw_start = he_start E,
       aw_pwd = he_pwd E, aw_path = path\<rparr>) (copy_path E (r_di r) False))"

definition seen_execveat :: "hook_env \<Rightarrow> pt_regs option \<Rightarrow> work option" where
  "seen_execveat E regs = (case regs of None \<Rightarrow> None | Some r \<Rightarrow>
     if r_si r = 0 then None
     else (case (dfd_path E (ucast (r_di r)), copy_path E (r_si r) ((ucast (r_r8 r) AND AT_EMPTY_PATH) \<noteq> 0)) of
       (Some base, Some path) \<Rightarrow> Some (ExecWork \<lparr>aw_target = he_pid E, aw_tgid = he_tgid E, aw_start = he_start E,
         aw_pwd = base, aw_path = path\<rparr>)
     | _ \<Rightarrow> None))"

definition seen_openat :: "hook_env \<Rightarrow> pt_regs option \<Rightarrow> work option" where
  "seen_openat E regs = (case regs of None \<Rightarrow> None | Some r \<Rightarrow>
     if r_si r = 0 \<or> ucast (r_dx r) AND write_flags = 0 then None
     else (case (dfd_path E (ucast (r_di r)), copy_path E (r_si r) False) of
       (Some base, Some path) \<Rightarrow> Some (OpenatWork \<lparr>ow_target = he_pid E, ow_pid = he_tgid E,
         ow_flags = ucast (r_dx r), ow_base = base, ow_path = path\<rparr>)
     | _ \<Rightarrow> None))"

definition seen_unlink :: "hook_env \<Rightarrow> u64 \<Rightarrow> u32 \<Rightarrow> work option" where
  "seen_unlink E addr dfd =
     (if addr = 0 then None
      else (case (dfd_path E dfd, copy_path E addr False) of
        (Some base, Some path) \<Rightarrow> Some (UnlinkWork \<lparr>uw_target = he_pid E, uw_pid = he_tgid E, uw_base = base,
          uw_path = path\<rparr>)
      | _ \<Rightarrow> None))"

definition seen_rename :: "hook_env \<Rightarrow> u64 \<Rightarrow> u32 \<Rightarrow> u64 \<Rightarrow> u32 \<Rightarrow> work option" where
  "seen_rename E oldp olddfd newp newdfd =
     (if oldp = 0 \<or> newp = 0 then None
      else (case (dfd_path E olddfd, dfd_path E newdfd, copy_path E oldp False, copy_path E newp False) of
        (Some ob, Some nb, Some op, Some np) \<Rightarrow> Some (RenameWork \<lparr>rw_target = he_pid E, rw_pid = he_tgid E,
          rw_old_base = ob, rw_new_base = nb, rw_oldpath = op, rw_newpath = np\<rparr>)
      | _ \<Rightarrow> None))"

text \<open>A hook queues exactly what it sees, when there is room below its cap and memory.\<close>

definition admitted :: "u32 \<Rightarrow> hook_env \<Rightarrow> kres \<Rightarrow> work option \<Rightarrow> kres" where
  "admitted cap E k seen =
     (case seen of Some w \<Rightarrow> if k_inflight k + 1 \<le> cap \<and> he_kmalloc E then charge w k else k | None \<Rightarrow> k)"

lemma handler_pre_spec: "handler_pre E regs k = admitted AV_MAX_INFLIGHT_WORK E k (seen_execve E regs)"
  by (auto simp: handler_pre_def admitted_def seen_execve_def admit_exec ref_defs charge_def work_paths_def Let_def
      split: option.split)

lemma handler_pre_execveat_spec:
  "handler_pre_execveat E regs k = admitted AV_MAX_INFLIGHT_WORK E k (seen_execveat E regs)"
  by (auto simp: handler_pre_execveat_def admitted_def seen_execveat_def admit_exec ref_defs charge_def
      work_paths_def resolve_dfd Let_def split: option.split)

lemma handler_pre_openat_spec:
  "handler_pre_openat E regs k =
     admitted (AV_MAX_INFLIGHT_WORK - AV_EXEC_RESERVED_WORK) E k (seen_openat E regs)"
  by (auto simp: handler_pre_openat_def admitted_def seen_openat_def admit_nonexec ref_defs charge_def
      work_paths_def resolve_dfd Let_def split: option.split)

lemma schedule_unlink_spec:
  "schedule_unlink_work E addr dfd k =
     admitted (AV_MAX_INFLIGHT_WORK - AV_EXEC_RESERVED_WORK) E k (seen_unlink E addr dfd)"
  by (auto simp: schedule_unlink_work_def admitted_def seen_unlink_def admit_nonexec ref_defs charge_def
      work_paths_def resolve_dfd Let_def split: option.split)

lemma schedule_rename_spec:
  "schedule_rename_work E op od np nd k =
     admitted (AV_MAX_INFLIGHT_WORK - AV_EXEC_RESERVED_WORK) E k (seen_rename E op od np nd)"
  by (auto simp: schedule_rename_work_def admitted_def seen_rename_def admit_nonexec ref_defs charge_def
      work_paths_def resolve_dfd Let_def split: option.split)

lemma end_work_discharge:
  "work_paths w = 1 \<Longrightarrow> end_work (kfree_buf (kmalloc_buf k)) = discharge w k \<and> end_work k = discharge w k"
  by (simp add: end_work_def discharge_def ref_defs)

lemma av_work_fn_discharge:
  assumes "av_work_fn K W aw ms = Some (evs, ms')"
  shows "ms_k ms' = discharge (ExecWork aw) (ms_k ms)"
proof -
  obtain ret digest ident paths objs where h:
    "hash_file_multi (we_vfs W) (we_crypto W) (we_buf W) (ms_sig ms) (aw_path aw) (aw_pwd aw)
       (k_paths (kmalloc_buf (ms_k ms))) (k_objs (kmalloc_buf (ms_k ms))) = (ret, digest, ident, paths, objs)"
    by (metis surj_pair)
  have k: "(kmalloc_buf (ms_k ms))\<lparr>k_paths := paths, k_objs := objs\<rparr> = kmalloc_buf (ms_k ms)"
    using hash_file_multi_balanced [OF h] by simp
  have w: "work_paths (ExecWork aw) = 1" by (simp add: work_paths_def)
  show ?thesis using assms end_work_discharge [OF w, of "ms_k ms"]
    by (auto simp: av_work_fn_def h k Let_def split: if_splits sum.splits option.splits prod.splits)
qed

lemma run_work_discharge:
  assumes "run_work K W w ms = Some (evs, ms')"
  shows "ms_k ms' = discharge w (ms_k ms)"
proof (cases w)
  case (ExecWork aw)
  then show ?thesis using assms av_work_fn_discharge by (fastforce simp: run_work_def map_prod_def)
next
  case (RenameWork rw)
  then show ?thesis using assms
    by (auto simp: run_work_def av_rename_work_fn_def Let_def discharge_def work_paths_def ref_defs
        split: if_splits prod.splits)
qed (use assms in \<open>auto simp: run_work_def av_openat_work_fn_def av_unlink_work_fn_def Let_def discharge_def
      work_paths_def end_work_def ref_defs split: if_splits prod.splits\<close>)

lemma balanced_admitted:
  assumes b: "balanced k" and cap: "cap \<le> AV_MAX_INFLIGHT_WORK"
  shows "balanced (admitted cap E k seen)"
proof (cases "\<exists>w. seen = Some w \<and> k_inflight k + 1 \<le> cap \<and> he_kmalloc E")
  case True
  then obtain w where w: "seen = Some w" "k_inflight k + 1 \<le> cap" "he_kmalloc E" by blast
  have u: "unat (k_inflight k + 1) = Suc (unat (k_inflight k))"
    using b by (intro unat_inc32) (simp add: balanced_def)
  moreover have "unat (k_inflight k + 1) \<le> 4096"
    using w(2) cap by (simp add: word_le_nat_alt cap_defs)
  ultimately show ?thesis using b w by (simp add: admitted_def balanced_def charge_def)
next
  case False
  then show ?thesis using b by (auto simp: admitted_def split: option.split)
qed

lemma sum_list_remove1_int: "w \<in> set q \<Longrightarrow> sum_list (map f (remove1 w q)) = sum_list (map f q) - (f w :: int)"
  by (induction q) auto

lemma balanced_work:
  assumes b: "balanced k" and w: "w \<in> set (k_queue k)"
  shows "balanced (discharge w (k\<lparr>k_queue := remove1 w (k_queue k)\<rparr>))"
proof -
  obtain n where n: "length (k_queue k) = Suc n" using w by (cases "k_queue k") auto
  then have "unat (k_inflight k - 1) = n" using b by (intro unat_pred32) (simp add: balanced_def)
  with b w n show ?thesis
    by (simp add: balanced_def discharge_def length_remove1 sum_list_remove1_int)
qed

section \<open>Properties\<close>

text \<open>C12. What the hooks capture, for every syscall, argument and failure: each hook either leaves
  no trace at all (no reference, no allocation, no admission), or queues exactly one work item that
  holds one admission, one pid reference, one allocation and its path references. It queues an
  item exactly when the arguments are readable, the path is shorter than \<open>PATH_MAX\<close> and not empty
  (or empty with \<open>AT_EMPTY_PATH\<close> for execveat), the base descriptor resolves, there is room below
  the cap of the hook's class and memory; the item has the caller's thread group and the base of
  the descriptor the syscall named.\<close>

theorem hooks_capture_exactly:
  "handler_pre E regs k = admitted 4096 E k (seen_execve E regs) \<and>
   handler_pre_execveat E regs k = admitted 4096 E k (seen_execveat E regs) \<and>
   handler_pre_openat E regs k = admitted 3584 E k (seen_openat E regs) \<and>
   handler_pre_unlink E (Some r) k = admitted 3584 E k (seen_unlink E (r_di r) AT_FDCWD) \<and>
   handler_pre_unlinkat E (Some r) k = admitted 3584 E k (seen_unlink E (r_si r) (ucast (r_di r))) \<and>
   handler_pre_rename E (Some r) k = admitted 3584 E k (seen_rename E (r_di r) AT_FDCWD (r_si r) AT_FDCWD) \<and>
   handler_pre_renameat E (Some r) k =
     admitted 3584 E k (seen_rename E (r_si r) (ucast (r_di r)) (r_r10 r) (ucast (r_dx r))) \<and>
   handler_pre_renameat2 E (Some r) k = handler_pre_renameat E (Some r) k \<and>
   (copy_path E addr ok = Some p \<longleftrightarrow> he_umem E addr = Some p \<and> length p < 4096 \<and> (p = [] \<longrightarrow> ok))"
proof -
  have caps: "AV_MAX_INFLIGHT_WORK = 4096" "4096 - AV_EXEC_RESERVED_WORK = 3584"
    by (simp_all add: cap_defs)
  have c: "copy_path E addr ok = Some p \<longleftrightarrow> he_umem E addr = Some p \<and> length p < 4096 \<and> (p = [] \<longrightarrow> ok)"
    by (auto simp: copy_path_def strncpy_from_user_def PATH_MAX_def min_def split: option.split if_splits)
  show ?thesis
    by (simp only: handler_pre_spec handler_pre_execveat_spec handler_pre_openat_spec caps c
        handler_pre_unlink_def handler_pre_unlinkat_def handler_pre_rename_def handler_pre_renameat_def
        handler_pre_renameat2_def option.case schedule_unlink_spec schedule_rename_spec simp_thms)
qed

definition demo_env :: hook_env where
  "demo_env = \<lparr>he_umem = (\<lambda>a. if a = 8 then Some ''shadow'' else None), he_fget = (\<lambda>fd. if fd = 3 then Some 5 else None),
     he_pwd = 1, he_pid = 0, he_tgid = 77, he_start = 9, he_kmalloc = True\<rparr>"

definition kres_zero :: kres where
  "kres_zero = \<lparr>k_inflight = 0, k_paths = 0, k_pids = 0, k_works = 0, k_objs = 0, k_queue = []\<rparr>"

theorem hooks_capture_exactly_witness:
  "handler_pre_unlinkat demo_env (Some \<lparr>r_di = 3, r_si = 8, r_dx = 0, r_r10 = 0, r_r8 = 0\<rparr>) kres_zero =
     charge (UnlinkWork \<lparr>uw_target = 0, uw_pid = 77, uw_base = 5, uw_path = ''shadow''\<rparr>) kres_zero"
proof -
  have c: "copy_path demo_env 8 False = Some ''shadow''"
    using hooks_capture_exactly [of demo_env None kres_zero undefined 8 False "''shadow''"]
    by (simp add: demo_env_def)
  show ?thesis
    using hooks_capture_exactly [of demo_env None kres_zero
        "\<lparr>r_di = 3, r_si = 8, r_dx = 0, r_r10 = 0, r_r8 = 0\<rparr>"]
    by (simp add: seen_unlink_def c admitted_def dfd_path_def AT_FDCWD_def)
      (simp add: demo_env_def kres_zero_def)
qed

text \<open>The targets that \<open>av_kill\<close> may kill.\<close>

definition killable :: "kapi \<Rightarrow> protected_table \<Rightarrow> kill_target \<Rightarrow> bool" where
  "killable K prot tg \<longleftrightarrow> tg_nr tg \<noteq> 1 \<and> tg_alive tg \<and>
     av_behavior_target_is_protected K (tg_pathbuf tg) prot (tg_view tg) PATH_MAX = None"

lemma av_kill_kill:
  "ExKill ty p r n i \<in> set (av_kill K prot tg path ty' reason ident) \<longleftrightarrow>
     killable K prot tg \<and> ty = ty' \<and> p = path \<and> r = reason \<and> n = tg_nr tg \<and> i = ident"
  by (auto simp: av_kill_def killable_def split: option.splits if_splits)

lemma av_kill_single: "length (av_kill K prot tg path ty reason ident) \<le> Suc 0"
  by (auto simp: av_kill_def split: option.split)

lemma record_exec_protected:
  assumes "beh_inv K st"
  shows "bs_protected (av_behavior_record_exec K mem now pid path sha start st) = bs_protected st"
proof -
  obtain eo st1 where g: "get_or_create_entry K mem now pid st = (eo, st1)" by force
  from get_or_create_spec [OF assms g] have "bs_protected st1 = bs_protected st" by simp
  then show ?thesis by (cases eo) (simp_all add: av_behavior_record_exec_def g Let_def)
qed

text \<open>Why an exec is to be killed: a listed digest, else the verdict of the daemon, else the
  policy for a missing verdict.\<close>

definition listed :: "sig_state \<Rightarrow> av_digest \<Rightarrow> bool" where
  "listed st d \<longleftrightarrow> sig_abs st (AV_ALGO_MD5, md5 d) \<noteq> None \<or> sig_abs st (AV_ALGO_SHA1, sha1 d) \<noteq> None \<or>
     sig_abs st (AV_ALGO_SHA256, sha256 d) \<noteq> None"

definition condemned :: "work_env \<Rightarrow> module_state \<Rightarrow> av_digest \<Rightarrow> bool" where
  "condemned W ms d \<longleftrightarrow> listed (ms_sig ms) d \<or>
     (case scan_request (we_nl W) (ms_nl ms) of
        Some (Inr (v, rule), _) \<Rightarrow> v = 1
      | Some (Inl e, _) \<Rightarrow> ms_fail_closed ms
      | None \<Rightarrow> False)"

definition hash_target :: "work_env \<Rightarrow> av_work \<Rightarrow> module_state \<Rightarrow> ret \<times> av_digest \<times> av_file_identity option \<times> int \<times> int" where
  "hash_target W aw ms =
     hash_file_multi (we_vfs W) (we_crypto W) (we_buf W) (ms_sig ms) (aw_path aw) (aw_pwd aw)
       (k_paths (ms_k ms)) (k_objs (ms_k ms) + 1)"

lemma match_listed:
  assumes "sig_inv K st" and "digest_wf d"
  shows "av_sigtable_match K st d n = None \<longleftrightarrow> \<not> listed st d"
proof -
  have "first_some [a, b, c] = None \<longleftrightarrow> a = None \<and> b = None \<and> c = None" for a b c :: "string option"
    by (simp add: first_some_Cons split: option.split)
  then show ?thesis
    using match_algos_first [OF assms, of all_algos]
    by (simp add: av_sigtable_match_def all_algos_def listed_def)
qed

lemma hash_target_kmalloc:
  "hash_file_multi (we_vfs W) (we_crypto W) (we_buf W) (ms_sig ms) (aw_path aw) (aw_pwd aw)
     (k_paths (kmalloc_buf (ms_k ms))) (k_objs (kmalloc_buf (ms_k ms))) = hash_target W aw ms"
  by (simp add: hash_target_def kmalloc_buf_def add.commute)

lemma hash_target_wf:
  assumes "digest_sizes (we_crypto W)" and "hash_target W aw ms = (OK, d, ident, x, y)"
  shows "digest_wf d"
proof -
  from assms(2) have h: "hash_file_multi (we_vfs W) (we_crypto W) (we_buf W) (ms_sig ms) (aw_path aw) (aw_pwd aw)
       (k_paths (ms_k ms)) (k_objs (ms_k ms) + 1) = (OK, d, ident, x, y)" by (simp add: hash_target_def)
  show ?thesis using hash_file_multi_ok [OF h assms(1)] by blast
qed

text \<open>The whole exec worker as a function of the hash pass, the store and the daemon.\<close>

lemma av_work_fn_cases:
  assumes "av_work_fn K W aw ms = Some (evs, ms')" and "we_abs W"
    and "hash_target W aw ms = (ret, d, ident, x, y)"
  defines "path \<equiv> resolve W (aw_path aw) (aw_pwd aw)"
  defines "beh \<equiv> av_behavior_record_exec K (we_entry W) (we_now W) (aw_tgid aw) path (sha256 d) (aw_start aw) (ms_beh ms)"
  defines "kill \<equiv> av_kill K (bs_protected beh) (we_target W (aw_target aw)) path"
  shows "(case ret of
      Inl _ \<Rightarrow> evs = [] \<and> ms_beh ms' = ms_beh ms
    | Inr _ \<Rightarrow> ms_beh ms' = beh \<and>
        (case av_sigtable_match K (ms_sig ms) d AV_SIG_NAME_LEN of
           Some n \<Rightarrow> \<exists>r. evs = kill ''signature'' r ident
         | None \<Rightarrow>
             (case scan_request (we_nl W) (ms_nl ms) of
                None \<Rightarrow> False
              | Some (Inr (v, rule), nl') \<Rightarrow>
                  if v = 1 then \<exists>r. evs = kill ''daemon'' r ident
                  else evs = [ExClean path (tg_nr (we_target W (aw_target aw))) d]
              | Some (Inl e, nl') \<Rightarrow>
                  if ms_fail_closed ms then \<exists>r. evs = kill ''fail-closed'' r ident
                  else evs = [ExFailOpen path (tg_nr (we_target W (aw_target aw))) d e])))"
  using assms(1,2)
  by (auto simp: av_work_fn_def hash_target_kmalloc assms(3) Let_def path_def beh_def kill_def
      AV_VERDICT_MALICIOUS_def split: sum.splits option.splits prod.splits if_splits)

text \<open>C11. The exec verdict: the worker kills exactly the targets it must. A process is killed if and
  only if its file could be hashed and one of its digests is in the signature store, or else the
  daemon answered malicious, or else there is no answer and the policy is fail-closed, and the
  process is not PID 1, still exists and does not run a protected executable. The kill names the
  resolved path and the identity of the hashed file; at most one event is logged; a listed digest is
  decided without waiting for the daemon, so a blocked worker never holds back a known signature.\<close>

theorem exec_verdict:
  assumes "sig_inv K (ms_sig ms)" and "beh_inv K (ms_beh ms)" and "digest_sizes (we_crypto W)" and "we_abs W"
    and "hash_target W aw ms = (ret, d, ident, x, y)"
  shows "(\<forall>evs ms'. av_work_fn K W aw ms = Some (evs, ms') \<longrightarrow> length evs \<le> 1 \<and>
      (\<forall>ty p r n i. ExKill ty p r n i \<in> set evs \<longrightarrow>
         p = resolve W (aw_path aw) (aw_pwd aw) \<and> n = tg_nr (we_target W (aw_target aw)) \<and> i = ident) \<and>
      ((\<exists>ty p r n i. ExKill ty p r n i \<in> set evs) \<longleftrightarrow>
         ret = OK \<and> condemned W ms d \<and> killable K (bs_protected (ms_beh ms)) (we_target W (aw_target aw)))) \<and>
    (ret = OK \<and> listed (ms_sig ms) d \<longrightarrow> av_work_fn K W aw ms \<noteq> None)"
proof -
  let ?tg = "we_target W (aw_target aw)" and ?path = "resolve W (aw_path aw) (aw_pwd aw)"
  have m: "av_sigtable_match K (ms_sig ms) d n = None \<longleftrightarrow> \<not> listed (ms_sig ms) d" if "ret = OK" for n
    using match_listed [OF assms(1)] hash_target_wf [OF assms(3)] assms(5) that by blast
  have main: "length evs \<le> 1 \<and>
      (\<forall>ty p r n i. ExKill ty p r n i \<in> set evs \<longrightarrow> p = ?path \<and> n = tg_nr ?tg \<and> i = ident) \<and>
      ((\<exists>ty p r n i. ExKill ty p r n i \<in> set evs) \<longleftrightarrow>
         ret = OK \<and> condemned W ms d \<and> killable K (bs_protected (ms_beh ms)) ?tg)"
    if a: "av_work_fn K W aw ms = Some (evs, ms')" for evs ms'
  proof (cases "ret = OK")
    case False
    then show ?thesis using av_work_fn_cases [OF a assms(4,5)] by (cases ret) auto
  next
    case True
    note c = av_work_fn_cases [OF a assms(4,5), unfolded record_exec_protected [OF assms(2)]]
    show ?thesis
    proof (cases "listed (ms_sig ms) d")
      case l: True
      then have "av_sigtable_match K (ms_sig ms) d AV_SIG_NAME_LEN \<noteq> None" using m True by blast
      with c True obtain ty r where "evs = av_kill K (bs_protected (ms_beh ms)) ?tg ?path ty r ident"
        by auto
      with l True show ?thesis by (auto simp: av_kill_kill av_kill_single condemned_def)
    next
      case l: False
      then have "av_sigtable_match K (ms_sig ms) d AV_SIG_NAME_LEN = None" using m True by blast
      with c l True show ?thesis
        by (auto simp: av_kill_kill av_kill_single condemned_def split: option.splits sum.splits prod.splits if_splits)
    qed
  qed
  have "av_work_fn K W aw ms \<noteq> None" if "ret = OK" "listed (ms_sig ms) d"
    using that m [of AV_SIG_NAME_LEN] assms(4)
    by (auto simp: av_work_fn_def hash_target_kmalloc assms(5) Let_def split: option.splits)
  with main show ?thesis by blast
qed

definition demo_nl_env :: nl_env where
  "demo_nl_env = \<lparr>ne_mem = True, ne_skb = True, ne_hdr = True, ne_put = OK, ne_unicast = OK,
     ne_during = id, ne_late = id\<rparr>"

definition demo_work_env :: work_env where
  "demo_work_env = \<lparr>we_abs = True, we_abs2 = True, we_dmem = True, we_dup = True,
     we_dpath = (\<lambda>p. if p = 5 then Inr ''/etc'' else Inr ''/tmp''), we_now = 5, we_entry = True,
     we_target = (\<lambda>_. demo_target), we_vfs = demo_vfs, we_crypto = demo_crypto, we_buf = True, we_nl = demo_nl_env\<rparr>"

definition demo_module :: "bool \<Rightarrow> module_state" where
  "demo_module closed = \<lparr>ms_sig = av_sigtable_init, ms_beh = behavior_empty, ms_nl = nl_zero,
     ms_fail_closed = closed, ms_k = kres_zero\<rparr>"

definition demo_work :: av_work where
  "demo_work = \<lparr>aw_target = 0, aw_tgid = 77, aw_start = 9, aw_pwd = 1, aw_path = ''/bin/x''\<rparr>"

lemma demo_hash: "\<exists>d i x y. hash_target demo_work_env demo_work (demo_module b) = (OK, d, i, x, y)"
proof -
  have "fst (open_exec_target demo_vfs ''/bin/x'' 1 p) = Inr demo_file" for p
    by (simp add: open_exec_target_def demo_vfs_def)
  from hash_file_multi_total [OF this _ _ demo_crypto_ok demo_reads, of av_sigtable_init] show ?thesis
    by (simp add: demo_file_def MAX_HASH_FILE_SIZE_def hash_target_def demo_work_env_def demo_work_def demo_module_def)
qed

lemma demo_scan: "scan_request demo_nl_env nl_zero = Some (Inl ENOTCONN, nl_zero)"
  by (simp add: scan_request_def av_netlink_scan_request_def scan_begin_def nl_zero_def)

theorem exec_verdict_witness:
  "\<exists>evs ms'. av_work_fn kapi0 demo_work_env demo_work (demo_module True) = Some (evs, ms') \<and>
     (\<exists>ty p r i. ExKill ty p r 77 i \<in> set evs)"
proof -
  obtain d i x y where h: "hash_target demo_work_env demo_work (demo_module True) = (OK, d, i, x, y)"
    using demo_hash by blast
  have n: "we_nl demo_work_env = demo_nl_env" "ms_nl (demo_module True) = nl_zero" "we_abs demo_work_env"
    by (simp_all add: demo_work_env_def demo_module_def)
  have a: "av_work_fn kapi0 demo_work_env demo_work (demo_module True) \<noteq> None"
    using n by (simp add: av_work_fn_def hash_target_kmalloc h Let_def demo_scan split: option.split)
  have s: "condemned demo_work_env (demo_module True) d"
    by (simp add: condemned_def n demo_scan) (simp add: demo_module_def)
  have k: "killable kapi0 (bs_protected behavior_empty) demo_target"
    using av_kill_kill [of _ _ _ _ _ kapi0 "bs_protected behavior_empty" demo_target] demo_unprotected
    by (simp add: killable_def demo_target_def)
  have i: "sig_inv kapi0 (ms_sig (demo_module True))" "beh_inv kapi0 (ms_beh (demo_module True))"
    "digest_sizes (we_crypto demo_work_env)"
    using sig_inv_init beh_inv_empty demo_crypto_ok by (simp_all add: demo_module_def demo_work_env_def)
  from exec_verdict [OF i n(3) h] a s k show ?thesis
    by (fastforce simp: demo_work_env_def demo_module_def demo_target_def)
qed

text \<open>The trimming of the policy buffer.\<close>

lemma fail_words_no_cr:
  assumes "map tolower w = ''fail-open'' \<or> map tolower w = ''fail-closed''"
  shows "w \<noteq> [] \<and> last w \<noteq> CR"
proof -
  have ne: "w \<noteq> []" using assms by auto
  then have "tolower (last w) = CHR ''n'' \<or> tolower (last w) = CHR ''d''"
    using assms last_map [of w tolower] by auto
  moreover have "tolower CR = CR" "CR \<noteq> CHR ''n''" "CR \<noteq> CHR ''d''" by code_simp+
  ultimately show ?thesis using ne by metis
qed

lemma trim_newline:
  assumes P: "\<And>w. P w \<Longrightarrow> w \<noteq> [] \<and> last w \<noteq> CR"
  shows "(k \<noteq> [] \<and> last k = NL \<and>
      (let k1 = butlast k; k2 = (if k1 \<noteq> [] \<and> last k1 = CR then butlast k1 else k1) in P k2)) \<longleftrightarrow>
    (\<exists>w tail. k = w @ tail \<and> tail \<in> {[NL], [CR, NL]} \<and> P w)" (is "?a \<longleftrightarrow> ?b")
proof
  assume a: ?a
  then obtain k1 where k: "k = k1 @ [NL]" by (metis append_butlast_last_id)
  show ?b
  proof (cases "k1 \<noteq> [] \<and> last k1 = CR")
    case True
    then obtain w where w: "k1 = w @ [CR]" by (metis append_butlast_last_id)
    with a k have "P w" by (simp add: Let_def butlast_append)
    with w k show ?thesis by (intro exI [of _ w] exI conjI) auto
  next
    case False
    with a k have "P k1" by (auto simp: Let_def)
    with k show ?thesis by (intro exI [of _ k1] exI conjI) auto
  qed
next
  assume ?b
  then obtain w tail where "k = w @ tail" "tail = [NL] \<or> tail = [CR, NL]" "P w" by blast
  with P [of w] show ?a by (auto simp: Let_def butlast_append)
qed

lemma policy_word:
  "(k \<noteq> [] \<and> last k = NL \<and>
    (let k1 = butlast k; k2 = (if k1 \<noteq> [] \<and> last k1 = CR then butlast k1 else k1)
     in strcaseeq k2 ''fail-open'' \<or> strcaseeq k2 ''fail-closed'')) \<longleftrightarrow>
   (\<exists>w tail. k = w @ tail \<and> tail \<in> {[NL], [CR, NL]} \<and>
      (map tolower w = ''fail-open'' \<or> map tolower w = ''fail-closed''))"
proof -
  have low: "map tolower ''fail-open'' = ''fail-open''" "map tolower ''fail-closed'' = ''fail-closed''" by code_simp+
  show ?thesis unfolding strcaseeq_def low by (rule trim_newline) (rule fail_words_no_cr)
qed

lemma policy_roundtrip:
  "daemon_policy_proc_write False 0 (daemon_policy_proc_show True) True = (Inr (length (daemon_policy_proc_show True)), True)"
  "daemon_policy_proc_write False 0 (daemon_policy_proc_show True) False = (Inr (length (daemon_policy_proc_show True)), True)"
  "daemon_policy_proc_write False 0 (daemon_policy_proc_show False) True = (Inr (length (daemon_policy_proc_show False)), False)"
  "daemon_policy_proc_write False 0 (daemon_policy_proc_show False) False = (Inr (length (daemon_policy_proc_show False)), False)"
  by code_simp+

text \<open>The daemon policy file holds one of two words: a write is accepted exactly when, up to its
  first NUL, it is \<open>fail-open\<close> or \<open>fail-closed\<close> in any case followed by a newline with an optional
  carriage return, shorter than 32 bytes and at offset zero; every other write is an error and
  changes nothing, and writing back what the file shows restores the setting.\<close>

theorem policy_file_exact:
  "((\<exists>n. fst (daemon_policy_proc_write fault pos buf closed) = Inr n) \<longleftrightarrow>
     \<not> fault \<and> pos = 0 \<and> length buf < 32 \<and>
     (\<exists>w tail. cstr buf = w @ tail \<and> tail \<in> {[NL], [CR, NL]} \<and>
        (map tolower w = ''fail-open'' \<or> map tolower w = ''fail-closed''))) \<and>
   (\<forall>e. fst (daemon_policy_proc_write fault pos buf closed) = Inl e \<longrightarrow>
     snd (daemon_policy_proc_write fault pos buf closed) = closed) \<and>
   daemon_policy_proc_write False 0 (daemon_policy_proc_show b) closed =
     (Inr (length (daemon_policy_proc_show b)), b)"
proof (intro conjI)
  show "(\<exists>n. fst (daemon_policy_proc_write fault pos buf closed) = Inr n) \<longleftrightarrow>
     \<not> fault \<and> pos = 0 \<and> length buf < 32 \<and>
     (\<exists>w tail. cstr buf = w @ tail \<and> tail \<in> {[NL], [CR, NL]} \<and>
        (map tolower w = ''fail-open'' \<or> map tolower w = ''fail-closed''))"
    unfolding policy_word [symmetric]
    by (auto simp: daemon_policy_proc_write_def Let_def)
  show "\<forall>e. fst (daemon_policy_proc_write fault pos buf closed) = Inl e \<longrightarrow>
     snd (daemon_policy_proc_write fault pos buf closed) = closed"
    by (simp add: daemon_policy_proc_write_def Let_def)
  show "daemon_policy_proc_write False 0 (daemon_policy_proc_show b) closed =
     (Inr (length (daemon_policy_proc_show b)), b)"
    using policy_roundtrip by (cases b; cases closed) simp_all
qed

theorem policy_file_exact_witness:
  "daemon_policy_proc_write False 0 ''maybe'' True = (Inl EINVAL, True)"
proof -
  have "fst (daemon_policy_proc_write False 0 ''maybe'' True) = Inl EINVAL" by code_simp
  with policy_file_exact [of False 0 "''maybe''" True] show ?thesis by (metis prod.collapse)
qed

end
