(* ===== verification/ModuleLife.thy ===== *)
theory ModuleLife
  imports Hooks
begin

text \<open>
  Loading and unloading the module (\<^verbatim>\<open>av/main.c\<close>, \<open>av_init\<close> and \<open>av_exit\<close>) and the report of a
  kernel that was tainted before. The error labels of \<open>av_init\<close> are one definition each, so the
  unwinding reads as in the source; a log records every acquisition and release in order.
\<close>

section \<open>Pre-existing taint\<close>

datatype taint =
    TAINT_PROPRIETARY_MODULE | TAINT_FORCED_MODULE | TAINT_CPU_OUT_OF_SPEC | TAINT_FORCED_RMMOD
  | TAINT_MACHINE_CHECK | TAINT_BAD_PAGE | TAINT_USER | TAINT_DIE | TAINT_OVERRIDDEN_ACPI_TABLE
  | TAINT_WARN | TAINT_CRAP | TAINT_FIRMWARE_WORKAROUND | TAINT_SOFTLOCKUP | TAINT_LIVEPATCH
  | TAINT_AUX | TAINT_RANDSTRUCT

record av_taint_flag =
  tf_flag :: taint
  tf_letter :: char
  tf_name :: string

definition taint_flag :: "taint \<times> char \<times> string \<Rightarrow> av_taint_flag" where
  "taint_flag x = \<lparr>tf_flag = fst x, tf_letter = fst (snd x), tf_name = snd (snd x)\<rparr>"

text \<open>\<open>randstruct\<close>: the kernel headers define \<^verbatim>\<open>TAINT_RANDSTRUCT\<close>.\<close>

definition av_taint_flags_of_interest :: "bool \<Rightarrow> av_taint_flag list" where
  "av_taint_flags_of_interest randstruct = map taint_flag
    ([(TAINT_PROPRIETARY_MODULE, CHR ''P'', ''PROPRIETARY_MODULE''),
      (TAINT_FORCED_MODULE, CHR ''F'', ''FORCED_MODULE''),
      (TAINT_CPU_OUT_OF_SPEC, CHR ''S'', ''CPU_OUT_OF_SPEC''),
      (TAINT_FORCED_RMMOD, CHR ''R'', ''FORCED_RMMOD''),
      (TAINT_MACHINE_CHECK, CHR ''M'', ''MACHINE_CHECK''),
      (TAINT_BAD_PAGE, CHR ''B'', ''BAD_PAGE''),
      (TAINT_USER, CHR ''U'', ''USER''),
      (TAINT_DIE, CHR ''D'', ''DIE''),
      (TAINT_OVERRIDDEN_ACPI_TABLE, CHR ''A'', ''OVERRIDDEN_ACPI_TABLE''),
      (TAINT_WARN, CHR ''W'', ''WARN''),
      (TAINT_CRAP, CHR ''C'', ''CRAP''),
      (TAINT_FIRMWARE_WORKAROUND, CHR ''I'', ''FIRMWARE_WORKAROUND''),
      (TAINT_SOFTLOCKUP, CHR ''L'', ''SOFTLOCKUP''),
      (TAINT_LIVEPATCH, CHR ''K'', ''LIVEPATCH''),
      (TAINT_AUX, CHR ''X'', ''AUX'')] @
     (if randstruct then [(TAINT_RANDSTRUCT, CHR ''T'', ''RANDSTRUCT'')] else []))"

text \<open>The text that \<^verbatim>\<open>scnprintf()\<close> leaves in the rest of a 512-byte buffer.\<close>

definition scnprintf_at :: "nat \<Rightarrow> string \<Rightarrow> string \<Rightarrow> string" where
  "scnprintf_at n s piece = s @ take (n - length s - 1) piece"

fun taint_scan :: "(taint \<Rightarrow> bool) \<Rightarrow> av_taint_flag list \<Rightarrow> string \<Rightarrow> string \<Rightarrow> string \<times> string" where
  "taint_scan test [] letters names = (letters, names)"
| "taint_scan test (f # fs) letters names =
     (if \<not> test (tf_flag f) then taint_scan test fs letters names
      else taint_scan test fs (letters @ [tf_letter f])
        (scnprintf_at 512 names ((if names \<noteq> [] then '','' else []) @ tf_name f)))"

definition av_check_preexisting_taint :: "bool \<Rightarrow> (taint \<Rightarrow> bool) \<Rightarrow> (string \<times> string) option" where
  "av_check_preexisting_taint randstruct test =
     (case taint_scan test (av_taint_flags_of_interest randstruct) [] [] of
        (letters, names) \<Rightarrow> if letters = [] then None else Some (letters, names))"

section \<open>Loading\<close>

datatype kprobe = KpExecve | KpExecveat | KpOpenat | KpUnlink | KpUnlinkat | KpRename | KpRenameat | KpRenameat2

datatype resource = RSigTable | RSigProc | RPolicyProc | RBehavior | RWorkqueue | RNetlink | RKprobe kprobe

datatype action = Acquire resource | Release resource

record av_module =
  am_sig :: sig_state
  am_sig_proc :: bool
  am_policy_proc :: bool
  am_beh_res :: behavior_resources
  am_beh :: behavior_state
  am_wq :: "int option"
  am_nl_res :: nl_resources
  am_nl :: nl_state
  am_kprobes :: "kprobe list"
  am_log :: "action list"

text \<open>The outcomes of the kernel calls that loading makes; \<open>ie_wq_limit\<close> is
  \<^verbatim>\<open>WQ_UNBOUND_MAX_ACTIVE\<close>.\<close>

record init_env =
  ie_sig_proc :: bool
  ie_policy_proc :: bool
  ie_seed_mem :: bool
  ie_trust_proc :: bool
  ie_protect_proc :: bool
  ie_gc_wq :: bool
  ie_max_active :: int
  ie_wq_limit :: int
  ie_wq :: bool
  ie_notifier :: ret
  ie_family :: ret
  ie_kprobe :: "kprobe \<Rightarrow> ret"

definition log_act :: "action \<Rightarrow> av_module \<Rightarrow> av_module" where
  "log_act a m = m\<lparr>am_log := am_log m @ [a]\<rparr>"

definition AV_WQ_MAX_ACTIVE_DEFAULT :: int where "AV_WQ_MAX_ACTIVE_DEFAULT = 32"
definition AV_WQ_MAX_ACTIVE_MIN :: int where "AV_WQ_MAX_ACTIVE_MIN = 1"

definition wq_max_active :: "int \<Rightarrow> int \<Rightarrow> int" where
  "wq_max_active limit n =
     (if n < AV_WQ_MAX_ACTIVE_MIN \<or> limit < n then AV_WQ_MAX_ACTIVE_DEFAULT else n)"

definition av_sigtable_proc_init :: "bool \<Rightarrow> av_module \<Rightarrow> ret \<times> av_module" where
  "av_sigtable_proc_init ok m = (if ok then (OK, m\<lparr>am_sig_proc := True\<rparr>) else (Inl ENOMEM, m))"

definition av_sigtable_proc_exit :: "av_module \<Rightarrow> av_module" where
  "av_sigtable_proc_exit m = log_act (Release RSigProc) (m\<lparr>am_sig_proc := False\<rparr>)"

definition unregister_kprobe :: "kprobe \<Rightarrow> av_module \<Rightarrow> av_module" where
  "unregister_kprobe k m = log_act (Release (RKprobe k)) (m\<lparr>am_kprobes := removeAll k (am_kprobes m)\<rparr>)"

text \<open>The error labels, from the last one up.\<close>

definition err_sigtable :: "av_module \<Rightarrow> av_module" where
  "err_sigtable m = log_act (Release RSigTable) (m\<lparr>am_sig := av_sigtable_exit (am_sig m)\<rparr>)"

definition err_proc :: "av_module \<Rightarrow> av_module" where
  "err_proc m = err_sigtable (av_sigtable_proc_exit m)"

definition remove_policy :: "av_module \<Rightarrow> av_module" where
  "remove_policy m = log_act (Release RPolicyProc) (m\<lparr>am_policy_proc := False\<rparr>)"

definition err_daemon_policy_proc :: "av_module \<Rightarrow> av_module" where
  "err_daemon_policy_proc m = err_proc (remove_policy m)"

definition exit_behavior :: "av_module \<Rightarrow> av_module" where
  "exit_behavior m =
     (case av_behavior_exit (am_beh_res m) (am_beh m) of
        (res, st) \<Rightarrow> log_act (Release RBehavior) (m\<lparr>am_beh_res := res, am_beh := st\<rparr>))"

definition err_behavior :: "av_module \<Rightarrow> av_module" where
  "err_behavior m = err_daemon_policy_proc (exit_behavior m)"

definition destroy_wq :: "av_module \<Rightarrow> av_module" where
  "destroy_wq m = log_act (Release RWorkqueue) (m\<lparr>am_wq := None\<rparr>)"

definition err_wq :: "av_module \<Rightarrow> av_module" where
  "err_wq m = err_behavior (destroy_wq m)"

definition exit_netlink :: "av_module \<Rightarrow> av_module" where
  "exit_netlink m =
     (case av_netlink_exit (am_nl_res m) (am_nl m) of
        (res, st) \<Rightarrow> log_act (Release RNetlink) (m\<lparr>am_nl_res := res, am_nl := st\<rparr>))"

definition err_netlink :: "av_module \<Rightarrow> av_module" where
  "err_netlink m = err_wq (exit_netlink m)"

text \<open>The eight registrations in order; a failure jumps to the label that unregisters the probes
  registered before, the last one first.\<close>

definition kprobe_order :: "kprobe list" where
  "kprobe_order = [KpExecve, KpExecveat, KpOpenat, KpUnlink, KpUnlinkat, KpRename, KpRenameat, KpRenameat2]"

fun register_kprobes :: "(kprobe \<Rightarrow> ret) \<Rightarrow> kprobe list \<Rightarrow> kprobe list \<Rightarrow> av_module \<Rightarrow> ret \<times> av_module" where
  "register_kprobes reg regd [] m = (OK, m)"
| "register_kprobes reg regd (k # ks) m =
     (case reg k of
        Inl e \<Rightarrow> (Inl e, err_netlink (fold unregister_kprobe regd m))
      | Inr _ \<Rightarrow>
          register_kprobes reg (k # regd) ks
            (log_act (Acquire (RKprobe k)) (m\<lparr>am_kprobes := k # am_kprobes m\<rparr>)))"

definition eicar_sha256 :: string where
  "eicar_sha256 = ''275a021bbfb6489e54d471899f7db9d1663fc695ec2fe2a2c4538aabf651fd0f''"

definition init_late :: "init_env \<Rightarrow> av_module \<Rightarrow> ret \<times> av_module" where
  "init_late I m =
     (if \<not> ie_wq I then (Inl ENOMEM, err_behavior m)
      else
        let m1 = log_act (Acquire RWorkqueue) (m\<lparr>am_wq := Some (wq_max_active (ie_wq_limit I) (ie_max_active I))\<rparr>)
        in (case av_netlink_init (ie_notifier I) (ie_family I) (am_nl_res m1) of
              (Inl e, res) \<Rightarrow> (Inl e, err_wq (m1\<lparr>am_nl_res := res\<rparr>))
            | (Inr _, res) \<Rightarrow>
                register_kprobes (ie_kprobe I) [] kprobe_order (log_act (Acquire RNetlink) (m1\<lparr>am_nl_res := res\<rparr>))))"

definition av_init :: "kapi \<Rightarrow> init_env \<Rightarrow> av_module \<Rightarrow> ret \<times> av_module" where
  "av_init K I m =
     (let m1 = log_act (Acquire RSigTable) (m\<lparr>am_sig := av_sigtable_init\<rparr>)
      in case av_sigtable_proc_init (ie_sig_proc I) m1 of
           (Inl e, m2) \<Rightarrow> (Inl e, err_sigtable m2)
         | (Inr _, m2') \<Rightarrow>
             let m2 = log_act (Acquire RSigProc) m2'
             in if \<not> ie_policy_proc I then (Inl ENOMEM, err_proc m2)
                else
                  let m3 = log_act (Acquire RPolicyProc) (m2\<lparr>am_policy_proc := True\<rparr>);
                      m4 = m3\<lparr>am_sig := snd (av_sigtable_add K (ie_seed_mem I) AV_ALGO_SHA256 eicar_sha256
                                               ''EICAR-Test-File'' (am_sig m3))\<rparr>
                  in (case av_behavior_init (ie_trust_proc I) (ie_protect_proc I) (ie_gc_wq I) (am_beh_res m4) of
                        (Inl e, res, st) \<Rightarrow> (Inl e, err_daemon_policy_proc (m4\<lparr>am_beh_res := res, am_beh := st\<rparr>))
                      | (Inr _, res, st) \<Rightarrow>
                          init_late I (log_act (Acquire RBehavior) (m4\<lparr>am_beh_res := res, am_beh := st\<rparr>))))"

definition av_exit :: "av_module \<Rightarrow> av_module" where
  "av_exit m =
     (let m1 = fold unregister_kprobe (rev kprobe_order) m
      in err_daemon_policy_proc (exit_behavior (exit_netlink (destroy_wq m1))))"

section \<open>Lemmas\<close>

definition am_zero :: av_module where
  "am_zero = \<lparr>am_sig = av_sigtable_init, am_sig_proc = False, am_policy_proc = False,
     am_beh_res = \<lparr>br_trust_proc = False, br_protect_proc = False, br_gc_wq = False\<rparr>, am_beh = behavior_empty,
     am_wq = None, am_nl_res = \<lparr>nr_notifier = False, nr_family = False\<rparr>, am_nl = nl_zero,
     am_kprobes = [], am_log = []\<rparr>"

text \<open>Nothing is held: no proc file, queue, notifier, family or probe, and every table is empty.\<close>

definition nothing_held :: "av_module \<Rightarrow> bool" where
  "nothing_held m \<longleftrightarrow> \<not> am_sig_proc m \<and> \<not> am_policy_proc m \<and> am_wq m = None \<and> am_kprobes m = [] \<and>
     am_beh_res m = \<lparr>br_trust_proc = False, br_protect_proc = False, br_gc_wq = False\<rparr> \<and>
     am_nl_res m = \<lparr>nr_notifier = False, nr_family = False\<rparr> \<and>
     hash_for_each (sig_table (am_sig m)) = [] \<and> hash_for_each (bs_table (am_beh m)) = []"

definition resource_order :: "resource list" where
  "resource_order = [RSigTable, RSigProc, RPolicyProc, RBehavior, RWorkqueue, RNetlink] @ map RKprobe kprobe_order"

lemmas err_defs = err_netlink_def exit_netlink_def err_wq_def destroy_wq_def err_behavior_def exit_behavior_def
  err_daemon_policy_proc_def remove_policy_def err_proc_def av_sigtable_proc_exit_def err_sigtable_def log_act_def

lemma fold_unregister:
  "fold unregister_kprobe ks m =
     m\<lparr>am_kprobes := filter (\<lambda>k. k \<notin> set ks) (am_kprobes m),
       am_log := am_log m @ map (\<lambda>k. Release (RKprobe k)) ks\<rparr>"
  by (induction ks arbitrary: m)
    (simp_all add: unregister_kprobe_def log_act_def removeAll_filter_not_eq conj_commute eq_commute)

lemma register_kprobes_spec:
  assumes "register_kprobes reg regd ks m = (r, m')" and "am_kprobes m = regd"
  shows "(r = OK \<and> m' = m\<lparr>am_kprobes := rev ks @ regd, am_log := am_log m @ map (Acquire \<circ> RKprobe) ks\<rparr>) \<or>
    (\<exists>e ps qs. r = Inl e \<and> ks = ps @ qs \<and> m' = err_netlink (m\<lparr>am_kprobes := [],
       am_log := am_log m @ map (Acquire \<circ> RKprobe) ps @ map (Release \<circ> RKprobe) (rev ps @ regd)\<rparr>))"
  using assms
proof (induction ks arbitrary: regd m)
  case (Cons k ks)
  show ?case
  proof (cases "reg k")
    case (Inl e)
    with Cons.prems have "r = Inl e" "m' = err_netlink (fold unregister_kprobe regd m)" by simp_all
    then show ?thesis using Cons.prems(2)
      by (intro disjI2 exI [of _ e] exI [of _ "[]"] exI [of _ "k # ks"]) (simp add: fold_unregister comp_def)
  next
    case (Inr u)
    let ?m = "log_act (Acquire (RKprobe k)) (m\<lparr>am_kprobes := k # regd\<rparr>)"
    have "register_kprobes reg (k # regd) ks ?m = (r, m')" using Inr Cons.prems by simp
    from Cons.IH [OF this] show ?thesis
    proof
      show "am_kprobes ?m = k # regd" by (simp add: log_act_def)
    next
      assume "r = OK \<and> m' = ?m\<lparr>am_kprobes := rev ks @ k # regd, am_log := am_log ?m @ map (Acquire \<circ> RKprobe) ks\<rparr>"
      then show ?thesis by (simp add: log_act_def)
    next
      assume "\<exists>e ps qs. r = Inl e \<and> ks = ps @ qs \<and> m' = err_netlink (?m\<lparr>am_kprobes := [],
        am_log := am_log ?m @ map (Acquire \<circ> RKprobe) ps @ map (Release \<circ> RKprobe) (rev ps @ k # regd)\<rparr>)"
      then obtain e ps qs where "r = Inl e" "ks = ps @ qs" "m' = err_netlink (?m\<lparr>am_kprobes := [],
        am_log := am_log ?m @ map (Acquire \<circ> RKprobe) ps @ map (Release \<circ> RKprobe) (rev ps @ k # regd)\<rparr>)" by blast
      then show ?thesis
        by - (rule disjI2, rule exI [of _ e], rule exI [of _ "k # ps"], rule exI [of _ qs],
            simp add: log_act_def comp_def)
    qed
  qed
qed simp

definition lifo_log :: "resource list \<Rightarrow> action list" where
  "lifo_log rs = map Acquire rs @ map Release (rev rs)"

text \<open>The state of a module that has come as far as its work queue, and the label that undoes it.\<close>

lemma err_netlink_unwinds:
  assumes "am_kprobes m = []" and "am_log m = map Acquire (take 6 resource_order) @ log"
  shows "nothing_held (err_netlink m) \<and>
    am_log (err_netlink m) = map Acquire (take 6 resource_order) @ log @ map Release (rev (take 6 resource_order))"
  using assms
  by (simp add: nothing_held_def err_defs resource_order_def av_netlink_exit_def av_behavior_exit_def
      av_sigtable_exit_def hash_for_each_def concat_map_empty)

lemma resource_order_split: "resource_order = take 6 resource_order @ map RKprobe kprobe_order"
  by (simp add: resource_order_def)

lemma init_late_spec:
  assumes "init_late I m = (r, m')" and "am_log m = map Acquire (take 4 resource_order)" and "am_kprobes m = []"
    and "am_nl_res m = \<lparr>nr_notifier = False, nr_family = False\<rparr>" and "am_wq m = None"
  shows "(r = OK \<and> am_log m' = map Acquire resource_order \<and> am_kprobes m' = rev kprobe_order \<and>
       am_wq m' = Some (wq_max_active (ie_wq_limit I) (ie_max_active I)) \<and>
       am_nl_res m' = \<lparr>nr_notifier = True, nr_family = True\<rparr> \<and> am_sig m' = am_sig m) \<or>
    (\<exists>e rs qs. r = Inl e \<and> resource_order = rs @ qs \<and> am_log m' = lifo_log rs \<and> nothing_held m')"
proof (cases "\<exists>e. ie_wq I = False \<or> fst (av_netlink_init (ie_notifier I) (ie_family I) (am_nl_res m)) = Inl e")
  case True
  then show ?thesis
  proof (cases "ie_wq I")
    case False
    with assms show ?thesis
      by - (rule disjI2, rule exI [of _ ENOMEM], rule exI [of _ "take 4 resource_order"],
          rule exI [of _ "drop 4 resource_order"],
          auto simp: init_late_def nothing_held_def err_defs resource_order_def lifo_log_def av_behavior_exit_def
            av_sigtable_exit_def hash_for_each_def concat_map_empty)
  next
    case wq: True
    then obtain e where "fst (av_netlink_init (ie_notifier I) (ie_family I) (am_nl_res m)) = Inl e"
      using True by auto
    with wq assms show ?thesis
      by - (rule disjI2, rule exI [of _ e], rule exI [of _ "take 5 resource_order"],
          rule exI [of _ "drop 5 resource_order"],
          auto simp: init_late_def nothing_held_def err_defs resource_order_def lifo_log_def av_behavior_exit_def
            av_netlink_init_def Let_def av_sigtable_exit_def hash_for_each_def concat_map_empty split: sum.splits)
  qed
next
  case False
  then obtain u where n: "ie_wq I" "av_netlink_init (ie_notifier I) (ie_family I) (am_nl_res m) =
      (Inr u, \<lparr>nr_notifier = True, nr_family = True\<rparr>)"
    using assms(4) by (auto simp: av_netlink_init_def Let_def split: sum.splits)
  let ?m = "m\<lparr>am_wq := Some (wq_max_active (ie_wq_limit I) (ie_max_active I)),
    am_nl_res := \<lparr>nr_notifier = True, nr_family = True\<rparr>, am_log := map Acquire (take 6 resource_order)\<rparr>"
  have g: "register_kprobes (ie_kprobe I) [] kprobe_order ?m = (r, m')"
    using assms(1,2) n by (simp add: init_late_def log_act_def resource_order_def)
  have k: "am_kprobes ?m = []" using assms(3) by simp
  consider (ok) "r = OK" "m' = ?m\<lparr>am_kprobes := rev kprobe_order,
      am_log := map Acquire (take 6 resource_order) @ map (Acquire \<circ> RKprobe) kprobe_order\<rparr>"
    | (fail) e ps qs where "r = Inl e" "kprobe_order = ps @ qs"
      "m' = err_netlink (?m\<lparr>am_kprobes := [], am_log := map Acquire (take 6 resource_order) @
         map (Acquire \<circ> RKprobe) ps @ map (Release \<circ> RKprobe) (rev ps)\<rparr>)"
    using register_kprobes_spec [OF g k] by auto
  then show ?thesis
  proof cases
    case ok
    moreover have "map Acquire resource_order =
        map Acquire (take 6 resource_order) @ map (Acquire \<circ> RKprobe) kprobe_order"
      by (subst resource_order_split) simp
    ultimately show ?thesis by simp
  next
    case (fail e ps qs)
    let ?rs = "take 6 resource_order @ map RKprobe ps"
    have "resource_order = ?rs @ map RKprobe qs" by (metis append_assoc map_append resource_order_split fail(2))
    moreover have "nothing_held m' \<and> am_log m' = lifo_log ?rs"
      using err_netlink_unwinds [of "?m\<lparr>am_kprobes := [], am_log := map Acquire (take 6 resource_order) @
         map (Acquire \<circ> RKprobe) ps @ map (Release \<circ> RKprobe) (rev ps)\<rparr>"] fail(3)
      by (simp add: lifo_log_def rev_map)
    ultimately show ?thesis using fail(1) by blast
  qed
qed

lemma am_zero_sel [simp]:
  "am_kprobes am_zero = []" "am_log am_zero = []" "am_wq am_zero = None"
  "am_nl_res am_zero = \<lparr>nr_notifier = False, nr_family = False\<rparr>"
  "am_beh_res am_zero = \<lparr>br_trust_proc = False, br_protect_proc = False, br_gc_wq = False\<rparr>"
  by (simp_all add: am_zero_def)

lemma early_unwinds:
  "nothing_held (err_sigtable (am_zero\<lparr>am_sig := x, am_log := l\<rparr>))"
  "nothing_held (err_proc (am_zero\<lparr>am_sig := x, am_sig_proc := b, am_log := l\<rparr>))"
  "nothing_held (err_daemon_policy_proc (am_zero\<lparr>am_sig := x, am_sig_proc := b, am_policy_proc := c,
     am_beh := behavior_empty, am_log := l\<rparr>))"
  by (simp_all add: nothing_held_def err_defs av_sigtable_exit_def am_zero_def behavior_empty_def
      hash_for_each_def concat_map_empty hash_init_def concat_replicate_trivial)

section \<open>Properties\<close>

lemma kprobe_order_all: "k \<in> set kprobe_order"
  by (cases k) (simp_all add: kprobe_order_def)

lemma av_exit_releases:
  "nothing_held (av_exit m) \<and>
   am_log (av_exit m) = am_log m @ map Release (map RKprobe (rev kprobe_order) @
     [RWorkqueue, RNetlink, RBehavior, RPolicyProc, RSigProc, RSigTable])"
  by (simp add: av_exit_def Let_def fold_unregister kprobe_order_all nothing_held_def err_defs
      av_netlink_exit_def av_behavior_exit_def av_sigtable_exit_def hash_for_each_def concat_map_empty)

lemma seeded:
  "sig_abs (snd (av_sigtable_add K True AV_ALGO_SHA256 eicar_sha256 ''EICAR-Test-File'' av_sigtable_init))
     (AV_ALGO_SHA256, eicar_sha256) = Some ''EICAR-Test-File''"
proof -
  have v: "sig_valid AV_ALGO_SHA256 eicar_sha256" "map tolower eicar_sha256 = eicar_sha256" by code_simp+
  show ?thesis
    using av_sigtable_add_abs [OF sig_inv_init, of K True AV_ALGO_SHA256 eicar_sha256 "''EICAR-Test-File''"] v
    by (auto simp: sig_spec_add_def map_prod_def strscpy_def AV_SIG_NAME_LEN_def split: prod.splits)
qed

text \<open>C19. Loading is all or nothing and unwinds in reverse order: whichever of the kernel calls fails,
  \<^verbatim>\<open>av_init()\<close> returns its error with nothing held, after releasing exactly what it had acquired,
  each once and the last first. When it succeeds everything is held, acquired in the fixed order, with
  the work queue's concurrency inside its bounds or the default, and the test signature is listed if
  there was memory for it. Unloading from any state releases everything: the probes first, then the
  queue and with it every work item, and only then the channel the work items use.\<close>

theorem init_unwinds:
  assumes "av_init K I am_zero = (r, m)"
  shows "(r = OK \<and> am_log m = map Acquire resource_order \<and> am_kprobes m = rev kprobe_order \<and>
      am_nl_res m = \<lparr>nr_notifier = True, nr_family = True\<rparr> \<and>
      (\<exists>n. am_wq m = Some n \<and> (n = 32 \<or> 1 \<le> n \<and> n \<le> ie_wq_limit I)) \<and>
      (ie_seed_mem I \<longrightarrow> sig_abs (am_sig m) (AV_ALGO_SHA256, eicar_sha256) = Some ''EICAR-Test-File'') \<and>
      nothing_held (av_exit m') \<and>
      am_log (av_exit m') = am_log m' @ map Release (map RKprobe (rev kprobe_order) @
        [RWorkqueue, RNetlink, RBehavior, RPolicyProc, RSigProc, RSigTable])) \<or>
    (\<exists>e rs qs. r = Inl e \<and> resource_order = rs @ qs \<and> am_log m = map Acquire rs @ map Release (rev rs) \<and>
      nothing_held m)"
proof -
  have wq: "wq_max_active l n = 32 \<or> 1 \<le> wq_max_active l n \<and> wq_max_active l n \<le> l" for l n
    by (simp add: wq_max_active_def AV_WQ_MAX_ACTIVE_DEFAULT_def AV_WQ_MAX_ACTIVE_MIN_def)
  let ?sig = "snd (av_sigtable_add K (ie_seed_mem I) AV_ALGO_SHA256 eicar_sha256 ''EICAR-Test-File'' av_sigtable_init)"
  consider "\<not> ie_sig_proc I" | "ie_sig_proc I" "\<not> ie_policy_proc I"
    | e res st where "ie_sig_proc I" "ie_policy_proc I"
      "av_behavior_init (ie_trust_proc I) (ie_protect_proc I) (ie_gc_wq I) (am_beh_res am_zero) = (Inl e, res, st)"
    | u res st where "ie_sig_proc I" "ie_policy_proc I"
      "av_behavior_init (ie_trust_proc I) (ie_protect_proc I) (ie_gc_wq I) (am_beh_res am_zero) = (Inr u, res, st)"
    by (metis old.sum.exhaust surj_pair)
  then show ?thesis
  proof cases
    case 1
    with assms early_unwinds(1) [where x = av_sigtable_init and l = "[Acquire RSigTable]"] show ?thesis
      by - (rule disjI2, rule exI [of _ ENOMEM], rule exI [of _ "[RSigTable]"], rule exI [of _ "tl resource_order"],
          auto simp: av_init_def Let_def av_sigtable_proc_init_def resource_order_def log_act_def err_sigtable_def)
  next
    case 2
    with assms early_unwinds(2) [where x = av_sigtable_init and b = True and l = "[Acquire RSigTable, Acquire RSigProc]"] show ?thesis
      by - (rule disjI2, rule exI [of _ ENOMEM], rule exI [of _ "take 2 resource_order"],
          rule exI [of _ "drop 2 resource_order"],
          auto simp: av_init_def Let_def av_sigtable_proc_init_def resource_order_def log_act_def err_sigtable_def
            err_proc_def av_sigtable_proc_exit_def)
  next
    case 3
    then have st: "st = behavior_empty" "res = am_beh_res am_zero"
      by (auto simp: av_behavior_init_def Let_def split: if_splits)
    let ?m = "am_zero\<lparr>am_sig := ?sig, am_sig_proc := True, am_policy_proc := True, am_beh := behavior_empty,
      am_log := map Acquire (take 3 resource_order)\<rparr>"
    have "r = Inl e" "m = err_daemon_policy_proc ?m"
      using assms 3 st
      by (auto simp: av_init_def Let_def av_sigtable_proc_init_def log_act_def resource_order_def am_zero_def)
    moreover have "am_log (err_daemon_policy_proc ?m) = lifo_log (take 3 resource_order)"
      by (simp add: err_defs lifo_log_def resource_order_def)
    ultimately show ?thesis using early_unwinds(3)
      by - (rule disjI2, rule exI [of _ e], rule exI [of _ "take 3 resource_order"],
          rule exI [of _ "drop 3 resource_order"], simp add: lifo_log_def)
  next
    case 4
    let ?m = "am_zero\<lparr>am_sig := ?sig, am_sig_proc := True, am_policy_proc := True, am_beh_res := res,
      am_beh := st, am_log := map Acquire (take 4 resource_order)\<rparr>"
    have "init_late I ?m = (r, m)"
      using assms 4
      by (simp add: av_init_def Let_def av_sigtable_proc_init_def log_act_def resource_order_def)
        (simp add: am_zero_def)
    from init_late_spec [OF this] wq [of "ie_wq_limit I" "ie_max_active I"] av_exit_releases [of m'] seeded [of K]
    show ?thesis by (auto simp: lifo_log_def)
  qed
qed

definition demo_init :: "kprobe \<Rightarrow> init_env" where
  "demo_init bad = \<lparr>ie_sig_proc = True, ie_policy_proc = True, ie_seed_mem = True, ie_trust_proc = True,
     ie_protect_proc = True, ie_gc_wq = True, ie_max_active = 9999, ie_wq_limit = 512, ie_wq = True,
     ie_notifier = OK, ie_family = OK, ie_kprobe = (\<lambda>k. if k = bad then Inl EINVAL else OK)\<rparr>"

theorem init_unwinds_witness:
  "\<exists>m. av_init kapi0 (demo_init KpUnlink) am_zero = (Inl EINVAL, m) \<and> nothing_held m"
proof -
  obtain r m where i: "av_init kapi0 (demo_init KpUnlink) am_zero = (r, m)" by force
  have "r = Inl EINVAL"
    using i by (simp add: av_init_def demo_init_def Let_def av_sigtable_proc_init_def av_behavior_init_def
        init_late_def av_netlink_init_def kprobe_order_def)
  with init_unwinds [OF i] i show ?thesis by auto
qed

text \<open>The taint report: the letters and the names of exactly the flags set, in the order of the table;
  the 512-byte buffer never cuts a name.\<close>

definition join_comma :: "string list \<Rightarrow> string" where
  "join_comma xs = (case xs of [] \<Rightarrow> [] | x # ys \<Rightarrow> x @ concat (map (\<lambda>y. '','' @ y) ys))"

lemma join_comma_snoc: "join_comma (xs @ [x]) = join_comma xs @ (if xs = [] then [] else '','') @ x"
  by (cases xs) (simp_all add: join_comma_def)

lemma join_comma_empty: "\<forall>x \<in> set xs. x \<noteq> [] \<Longrightarrow> join_comma xs = [] \<longleftrightarrow> xs = []"
  by (cases xs) (simp_all add: join_comma_def)

lemma join_comma_length: "length (join_comma xs) \<le> sum_list (map (\<lambda>x. Suc (length x)) xs)"
  by (cases xs) (auto simp: join_comma_def length_concat comp_def)

lemma taint_scan_spec:
  assumes "sum_list (map (\<lambda>x. Suc (length x)) (ns @ map tf_name fs)) < 512"
    and "\<forall>x \<in> set ns. x \<noteq> []" and "\<forall>f \<in> set fs. tf_name f \<noteq> []"
  shows "taint_scan test fs ls (join_comma ns) =
    (ls @ map tf_letter (filter (test \<circ> tf_flag) fs),
     join_comma (ns @ map tf_name (filter (test \<circ> tf_flag) fs)))"
  using assms
proof (induction fs arbitrary: ls ns)
  case (Cons f fs)
  have fit: "length (join_comma ns) + Suc (length (tf_name f)) < 512"
    using Cons.prems(1) join_comma_length [of ns] by simp
  have "scnprintf_at 512 (join_comma ns) ((if join_comma ns \<noteq> [] then '','' else []) @ tf_name f) =
      join_comma (ns @ [tf_name f])"
    using fit join_comma_empty [OF Cons.prems(2)] by (auto simp: scnprintf_at_def join_comma_snoc)
  with Cons.IH [of "ns @ [tf_name f]" "ls @ [tf_letter f]"] Cons.IH [of ns ls] Cons.prems show ?case
    by (simp add: scnprintf_at_def)
qed simp

text \<open>The taint report is complete: it is silent exactly when none of the flags of interest is
  set, and otherwise gives the letters and the comma-separated names of exactly the flags set, in the
  order of the table, with no name cut by the 512-byte buffer.\<close>

theorem taint_report_complete:
  "av_check_preexisting_taint randstruct test =
     (let set_flags = filter (test \<circ> tf_flag) (av_taint_flags_of_interest randstruct)
      in if set_flags = [] then None
         else Some (map tf_letter set_flags, join_comma (map tf_name set_flags)))"
proof -
  have "sum_list (map (\<lambda>x. Suc (length x)) (map tf_name (av_taint_flags_of_interest randstruct))) < 512"
    "\<forall>f \<in> set (av_taint_flags_of_interest randstruct). tf_name f \<noteq> []"
    by (cases randstruct; simp add: av_taint_flags_of_interest_def taint_flag_def)+
  then show ?thesis
    using taint_scan_spec [of "[]" "av_taint_flags_of_interest randstruct" test "[]"]
    by (simp add: av_check_preexisting_taint_def join_comma_def Let_def)
qed

end
