(* ===== verification/ModuleSystem.thy ===== *)
theory ModuleSystem
  imports ModuleLife
begin

text \<open>
  The kernel module as one transition system: the hooks of any task, the workers, the writes to the
  four proc files, the collector and the registration of the daemon, in any order. The invariant of
  every component and the accounting of the hooks hold together, and the paths from a syscall to a
  kill decision are followed end to end.
\<close>

section \<open>The system\<close>

inductive mod_step :: "kapi \<Rightarrow> module_state \<Rightarrow> event list \<Rightarrow> module_state \<Rightarrow> bool" for K where
  m_execve: "mod_step K ms [] (ms\<lparr>ms_k := handler_pre E regs (ms_k ms)\<rparr>)"
| m_execveat: "mod_step K ms [] (ms\<lparr>ms_k := handler_pre_execveat E regs (ms_k ms)\<rparr>)"
| m_openat: "mod_step K ms [] (ms\<lparr>ms_k := handler_pre_openat E regs (ms_k ms)\<rparr>)"
| m_unlink: "mod_step K ms [] (ms\<lparr>ms_k := handler_pre_unlink E regs (ms_k ms)\<rparr>)"
| m_unlinkat: "mod_step K ms [] (ms\<lparr>ms_k := handler_pre_unlinkat E regs (ms_k ms)\<rparr>)"
| m_rename: "mod_step K ms [] (ms\<lparr>ms_k := handler_pre_rename E regs (ms_k ms)\<rparr>)"
| m_renameat: "mod_step K ms [] (ms\<lparr>ms_k := handler_pre_renameat E regs (ms_k ms)\<rparr>)"
| m_renameat2: "mod_step K ms [] (ms\<lparr>ms_k := handler_pre_renameat2 E regs (ms_k ms)\<rparr>)"
| m_work: "w \<in> set (k_queue (ms_k ms)) \<Longrightarrow>
    run_work K W w (ms\<lparr>ms_k := (ms_k ms)\<lparr>k_queue := remove1 w (k_queue (ms_k ms))\<rparr>\<rparr>) = Some (evs, ms') \<Longrightarrow>
    mod_step K ms evs ms'"
| m_sig_write: "sig_proc_write K capable mem fault ubuf (ms_sig ms) = (r, sig') \<Longrightarrow>
    mod_step K ms [] (ms\<lparr>ms_sig := sig'\<rparr>)"
| m_trust_write: "trust_proc_write K capable mem fault ubuf (bs_trust (ms_beh ms)) = (r, t') \<Longrightarrow>
    mod_step K ms [] (ms\<lparr>ms_beh := (ms_beh ms)\<lparr>bs_trust := t'\<rparr>\<rparr>)"
| m_protect_write: "protected_proc_write K capable ppos bufs mem fault ubuf (bs_protected (ms_beh ms)) = (r, t') \<Longrightarrow>
    mod_step K ms [] (ms\<lparr>ms_beh := (ms_beh ms)\<lparr>bs_protected := t'\<rparr>\<rparr>)"
| m_policy_write: "daemon_policy_proc_write fault pos buf (ms_fail_closed ms) = (r, closed) \<Longrightarrow>
    mod_step K ms [] (ms\<lparr>ms_fail_closed := closed\<rparr>)"
| m_gc: "mod_step K ms [] (ms\<lparr>ms_beh := behavior_gc_fn live (ms_beh ms)\<rparr>)"
| m_register: "av_nl_register_doit port (ms_nl ms) = (r, nl') \<Longrightarrow> mod_step K ms [] (ms\<lparr>ms_nl := nl'\<rparr>)"
| m_notify: "mod_step K ms [] (ms\<lparr>ms_nl := av_netlink_notify u g port (ms_nl ms)\<rparr>)"

definition module_zero :: module_state where
  "module_zero = \<lparr>ms_sig = av_sigtable_init, ms_beh = behavior_empty, ms_nl = nl_zero,
     ms_fail_closed = False, ms_k = kres_zero\<rparr>"

inductive mod_reach :: "kapi \<Rightarrow> event list \<Rightarrow> module_state \<Rightarrow> bool" for K where
  mr_init: "mod_reach K [] module_zero"
| mr_step: "mod_reach K tr ms \<Longrightarrow> mod_step K ms evs ms' \<Longrightarrow> mod_reach K (tr @ evs) ms'"

definition module_inv :: "kapi \<Rightarrow> module_state \<Rightarrow> bool" where
  "module_inv K ms \<longleftrightarrow> balanced (ms_k ms) \<and> sig_inv K (ms_sig ms) \<and> beh_inv K (ms_beh ms)"

text \<open>The process a logged event says was killed.\<close>

definition killed :: "event \<Rightarrow> pid_t option" where
  "killed ev = (case ev of ExecEv (ExKill ty p r n i) \<Rightarrow> Some n | BehEv (EvKill p r n) \<Rightarrow> Some n | _ \<Rightarrow> None)"

section \<open>Preservation\<close>

lemma cap_le: "AV_MAX_INFLIGHT_WORK - AV_EXEC_RESERVED_WORK \<le> AV_MAX_INFLIGHT_WORK"
  by (simp add: cap_defs word_le_nat_alt)

lemma hooks_balanced:
  assumes "balanced k"
  shows "balanced (handler_pre E regs k)" "balanced (handler_pre_execveat E regs k)"
    "balanced (handler_pre_openat E regs k)" "balanced (handler_pre_unlink E regs k)"
    "balanced (handler_pre_unlinkat E regs k)" "balanced (handler_pre_rename E regs k)"
    "balanced (handler_pre_renameat E regs k)" "balanced (handler_pre_renameat2 E regs k)"
  using balanced_admitted [OF assms order_refl] balanced_admitted [OF assms cap_le] assms
  by (simp_all add: handler_pre_spec handler_pre_execveat_spec handler_pre_openat_spec handler_pre_unlink_def
      handler_pre_unlinkat_def handler_pre_rename_def handler_pre_renameat_def handler_pre_renameat2_def
      schedule_unlink_spec schedule_rename_spec split: option.split)

lemma av_work_fn_parts:
  assumes "av_work_fn K W aw ms = Some (evs, ms')" and "beh_inv K (ms_beh ms)"
  shows "ms_sig ms' = ms_sig ms \<and> beh_inv K (ms_beh ms') \<and> (\<forall>ty p r n i. ExKill ty p r n i \<in> set evs \<longrightarrow> n \<noteq> 1)"
proof -
  obtain ret d ident x y where h: "hash_target W aw ms = (ret, d, ident, x, y)" by (metis surj_pair)
  have b: "beh_inv K (av_behavior_record_exec K mem now pid path sha start (ms_beh ms))" for mem now pid path sha start
    by (rule record_exec_inv [OF assms(2)])
  show ?thesis
    using assms b
    by (auto simp: av_work_fn_def hash_target_kmalloc h Let_def av_kill_kill killable_def
        split: if_splits sum.splits option.splits prod.splits)
qed

lemma run_work_parts:
  assumes "run_work K W w ms = Some (evs, ms')" and "sig_inv K (ms_sig ms)" and "beh_inv K (ms_beh ms)"
  shows "sig_inv K (ms_sig ms') \<and> beh_inv K (ms_beh ms') \<and> Some 1 \<notin> killed ` set evs"
proof (cases w)
  case (ExecWork aw)
  then obtain evs0 where a: "av_work_fn K W aw ms = Some (evs0, ms')" "evs = map ExecEv evs0"
    using assms(1) by (auto simp: run_work_def)
  from av_work_fn_parts [OF a(1) assms(3)] assms(2) a(2) show ?thesis
    by (auto simp: killed_def split: exec_event.splits) blast
next
  case (OpenatWork ow)
  let ?c = "av_behavior_check_openat K (we_entry W) (we_now W) (ow_pid ow) (resolve W (ow_path ow) (ow_base ow))
    (ow_flags ow) (we_target W (ow_target ow)) (ms_beh ms)"
  have "beh_step K (ms_beh ms) (fst ?c) (snd ?c)" by (rule step_openat) simp
  from beh_step_inv [OF this assms(3)] beh_step_no_init_kill [OF this assms(3)] OpenatWork assms show ?thesis
    by (auto simp: run_work_def av_openat_work_fn_def Let_def killed_def split: if_splits prod.splits av_event.splits)
next
  case (UnlinkWork uw)
  let ?c = "av_behavior_check_unlink K (we_entry W) (we_now W) (uw_pid uw) (resolve W (uw_path uw) (uw_base uw))
    (we_target W (uw_target uw)) (ms_beh ms)"
  have "beh_step K (ms_beh ms) (fst ?c) (snd ?c)" by (rule step_unlink) simp
  from beh_step_inv [OF this assms(3)] beh_step_no_init_kill [OF this assms(3)] UnlinkWork assms show ?thesis
    by (auto simp: run_work_def av_unlink_work_fn_def Let_def killed_def split: if_splits prod.splits av_event.splits)
next
  case (RenameWork rw)
  let ?c = "av_behavior_check_rename K (we_entry W) (we_now W) (rw_pid rw)
    (resolve W (rw_oldpath rw) (rw_old_base rw)) (resolve W (rw_newpath rw) (rw_new_base rw))
    (we_target W (rw_target rw)) (ms_beh ms)"
  have "beh_step K (ms_beh ms) (fst ?c) (snd ?c)" by (rule step_rename) simp
  from beh_step_inv [OF this assms(3)] beh_step_no_init_kill [OF this assms(3)] RenameWork assms show ?thesis
    by (auto simp: run_work_def av_rename_work_fn_def Let_def killed_def split: if_splits prod.splits av_event.splits)
qed

lemma mod_step_inv:
  assumes "mod_step K ms evs ms'" and inv: "module_inv K ms"
  shows "module_inv K ms' \<and> Some 1 \<notin> killed ` set evs"
proof -
  have b: "balanced (ms_k ms)" and s: "sig_inv K (ms_sig ms)" and h: "beh_inv K (ms_beh ms)"
    using inv by (simp_all add: module_inv_def)
  show ?thesis
    using assms(1)
  proof cases
    case (m_work w W)
    let ?ms = "ms\<lparr>ms_k := (ms_k ms)\<lparr>k_queue := remove1 w (k_queue (ms_k ms))\<rparr>\<rparr>"
    from run_work_discharge [OF m_work(2)] balanced_work [OF b m_work(1)] run_work_parts [OF m_work(2)] s h
    show ?thesis by (simp add: module_inv_def)
  next
    case (m_sig_write capable mem fault ubuf r sig')
    then show ?thesis using inv sig_proc_write_inv [OF s, of capable mem fault ubuf] by (simp add: module_inv_def)
  next
    case (m_trust_write capable mem fault ubuf r t')
    then show ?thesis using inv beh_step_inv [OF step_trust [OF m_trust_write(3)] h] by (simp add: module_inv_def)
  next
    case (m_protect_write capable ppos bufs mem fault ubuf r t')
    then show ?thesis using inv beh_step_inv [OF step_protect [OF m_protect_write(3)] h] by (simp add: module_inv_def)
  next
    case (m_gc live)
    then show ?thesis using inv beh_step_inv [OF step_gc h] by (simp add: module_inv_def)
  qed (use inv hooks_balanced [OF b] in \<open>simp_all add: module_inv_def\<close>)
qed

lemma mod_reach_inv: "mod_reach K tr ms \<Longrightarrow> module_inv K ms \<and> Some 1 \<notin> killed ` set tr"
proof (induction rule: mod_reach.induct)
  case mr_init
  then show ?case
    by (simp add: module_inv_def module_zero_def balanced_def kres_zero_def sig_inv_init beh_inv_empty)
next
  case (mr_step tr ms evs ms')
  then show ?case using mod_step_inv by fastforce
qed

section \<open>Properties\<close>



section \<open>End to end\<close>

text \<open>The file a path names under a base directory.\<close>

definition target_path :: "string \<Rightarrow> string \<Rightarrow> string" where
  "target_path dir path = (if hd path = CHR ''/'' then path else dir @ ''/'' @ path)"

text \<open>What a worker needs in order to resolve a path: its buffers, an absolute base, and a target that
  fits the buffer and the component stack.\<close>

definition resolvable :: "work_env \<Rightarrow> vpath \<Rightarrow> string \<Rightarrow> string \<Rightarrow> bool" where
  "resolvable W base dir path \<longleftrightarrow> we_abs W \<and> we_dmem W \<and> we_dup W \<and> we_dpath W base = Inr dir \<and>
     take 1 dir = ''/'' \<and> path \<noteq> [] \<and> length (target_path dir path) < 4096 \<and>
     norm_stack (strsep_all CHR ''/'' (target_path dir path)) [] \<noteq> None"

lemma resolve_canonical:
  assumes "resolvable W base dir path"
  shows "resolve W path base = render (components (target_path dir path))"
    and "take 1 (render (components (target_path dir path))) = ''/''"
    and "length (render (components (target_path dir path))) < 4096"
proof -
  let ?t = "target_path dir path"
  have abs: "take 1 ?t = ''/''"
    using assms by (cases path; cases dir) (auto simp: resolvable_def target_path_def)
  obtain st where st: "norm_stack (strsep_all CHR ''/'' ?t) [] = Some st" using assms by (auto simp: resolvable_def)
  have fit: "length ?t < 4096" using assms by (simp add: resolvable_def)
  have n: "normalize_abs_path True 4096 ?t = render (components ?t)" by (rule normalize_render [OF abs fit st])
  show "resolve W path base = render (components ?t)"
  proof (cases "hd path = CHR ''/''")
    case True
    with n fit assms show ?thesis
      by (simp add: resolve_def resolve_absolute_path_def resolvable_def target_path_def PATH_MAX_def strscpy_def)
  next
    case False
    with n fit assms show ?thesis
      by (simp add: resolve_def resolve_absolute_path_def resolvable_def target_path_def PATH_MAX_def Let_def)
  qed
  show "take 1 (render (components ?t)) = ''/''" by (rule render_abs)
  have "length (render (components ?t)) \<le> length ?t"
    using components_weight [OF abs] abs by (cases ?t) (auto simp: length_render)
  with fit show "length (render (components ?t)) < 4096" by simp
qed



lemma demo_resolvable:
  "resolvable demo_work_env 5 ''/etc'' ''shadow''" "resolvable demo_work_env 1 ''/tmp'' ''/bin/x''"
  "resolvable demo_work_env 1 ''/tmp'' ''../bin//x''"
proof -
  have "norm_stack (strsep_all CHR ''/'' ''/etc/shadow'') [] \<noteq> None"
    "norm_stack (strsep_all CHR ''/'' ''/bin/x'') [] \<noteq> None"
    "norm_stack (strsep_all CHR ''/'' ''/tmp/../bin//x'') [] \<noteq> None" by code_simp+
  then show "resolvable demo_work_env 5 ''/etc'' ''shadow''" "resolvable demo_work_env 1 ''/tmp'' ''/bin/x''"
    "resolvable demo_work_env 1 ''/tmp'' ''../bin//x''"
    by (simp_all add: resolvable_def demo_work_env_def target_path_def)
qed



end
