(* ===== verification/AvUser.thy ===== *)
theory AvUser
  imports AvPrelude
begin

text \<open>
  The parts of the C library the daemon and the command-line tool use: \<^verbatim>\<open>isspace\<close> of the C locale,
  \<^verbatim>\<open>strtoul\<close> and \<^verbatim>\<open>strtoll\<close>, \<^verbatim>\<open>fgets\<close>, prefix tests, bounded copies with \<^verbatim>\<open>snprintf\<close>, and
  octal output, with the lemmas that reading back a printed number or a printed line gives it again.
\<close>

abbreviation PATH_MAX :: nat where "PATH_MAX \<equiv> 4096"

section \<open>Strings\<close>

definition starts_with :: "string \<Rightarrow> string \<Rightarrow> bool" where
  "starts_with p s \<longleftrightarrow> strneq (length p) s p"

lemma starts_with_append [simp]: "starts_with p (p @ s)"
  by (simp add: starts_with_def strneq_def)

lemma starts_with_drop: "starts_with p s \<Longrightarrow> s = p @ drop (length p) s"
  by (metis append_take_drop_id starts_with_def strneq_def take_all_iff order_refl)

text \<open>What \<^verbatim>\<open>snprintf(buf, n, "%s", s)\<close> leaves in the buffer, and whether it did not fit.\<close>

definition snprintf :: "nat \<Rightarrow> string \<Rightarrow> string" where
  "snprintf n s = take (n - 1) s"

definition truncates :: "nat \<Rightarrow> string \<Rightarrow> bool" where
  "truncates n s \<longleftrightarrow> n \<le> length s"

text \<open>The lines \<^verbatim>\<open>fgets(line, n, f)\<close> returns one after the other: up to \<open>n - 1\<close> bytes, ending after a
  newline.\<close>

definition fgets_line :: "nat \<Rightarrow> string \<Rightarrow> string" where
  "fgets_line n s =
     (let l = takeWhile (\<lambda>c. c \<noteq> NL) s in take (n - 1) (if length l < length s then l @ [NL] else l))"

function fgets_lines :: "nat \<Rightarrow> string \<Rightarrow> string list" where
  "fgets_lines n s =
     (if s = [] \<or> n < 2 then [] else fgets_line n s # fgets_lines n (drop (length (fgets_line n s)) s))"
  by pat_completeness auto
termination
proof (relation "measure (\<lambda>(n, s). length s)")
  fix n :: nat and s :: string
  assume "\<not> (s = [] \<or> n < 2)"
  then have "0 < length (fgets_line n s)" "s \<noteq> []"
    by (cases s; auto simp: fgets_line_def Let_def)+
  then show "((n, drop (length (fgets_line n s)) s), n, s) \<in> measure (\<lambda>(n, s). length s)" by simp
qed simp

declare fgets_lines.simps [simp del]

definition strip_nl :: "string \<Rightarrow> string" where
  "strip_nl l = (if l \<noteq> [] \<and> last l = NL then butlast l else l)"

text \<open>A file of short lines is read back line by line.\<close>

lemma fgets_lines_file:
  assumes "\<forall>l \<in> set ls. NL \<notin> set l \<and> length l + 1 < n"
  shows "fgets_lines n (concat (map (\<lambda>l. l @ [NL]) ls)) = map (\<lambda>l. l @ [NL]) ls"
  using assms
proof (induction ls)
  case (Cons l ls)
  have t: "takeWhile (\<lambda>c. c \<noteq> NL) (l @ NL # r) = l" for r
    using Cons.prems by (subst takeWhile_append2) auto
  have "take (n - 1) (l @ [NL]) = l @ [NL]" using Cons.prems by (intro take_all) auto
  then have f: "fgets_line n (l @ NL # r) = l @ [NL]" for r
    by (simp add: fgets_line_def t)
  have n: "\<not> n < 2" using Cons.prems by auto
  then show ?case using Cons by (simp add: f fgets_lines.simps [of n "l @ NL # _"])
qed (simp add: fgets_lines.simps)

lemma strip_nl_line [simp]: "strip_nl (l @ [NL]) = l"
  by (simp add: strip_nl_def)

section \<open>Numbers\<close>

definition c_isspace :: "char \<Rightarrow> bool" where
  "c_isspace c \<longleftrightarrow> (9 \<le> ccode c \<and> ccode c \<le> 13) \<or> ccode c = 32"

definition is_digit :: "nat \<Rightarrow> char \<Rightarrow> bool" where
  "is_digit b c \<longleftrightarrow> 48 \<le> ccode c \<and> ccode c < 48 + b"

definition digits_value :: "nat \<Rightarrow> string \<Rightarrow> nat" where
  "digits_value b s = foldl (\<lambda>v c. v * b + (ccode c - 48)) 0 s"

text \<open>Sign and leading digits (base at most ten) after white space; and the rest of the string.\<close>

definition scan_number :: "nat \<Rightarrow> string \<Rightarrow> bool \<times> string \<times> string" where
  "scan_number b s =
     (let t = dropWhile c_isspace s;
          neg = (t \<noteq> [] \<and> hd t = CHR ''-'');
          u = (if t \<noteq> [] \<and> (hd t = CHR ''-'' \<or> hd t = CHR ''+'') then tl t else t)
      in (neg, takeWhile (is_digit b) u, dropWhile (is_digit b) u))"

definition strtoul :: "nat \<Rightarrow> string \<Rightarrow> u64" where
  "strtoul b s =
     (let (neg, ds, _) = scan_number b s; v = digits_value b ds in
      if v \<ge> 2 ^ 64 then - 1 else if neg then - of_nat v else of_nat v)"

definition strtoll :: "nat \<Rightarrow> string \<Rightarrow> u64" where
  "strtoll b s =
     (let (neg, ds, _) = scan_number b s; v = int (digits_value b ds); w = (if neg then - v else v) in
      if w < - (2 ^ 63) then - (2 ^ 63) else if w \<ge> 2 ^ 63 then 2 ^ 63 - 1 else of_int w)"

text \<open>Output in a base up to ten (\<^verbatim>\<open>%o\<close> is base eight).\<close>

fun show_base :: "nat \<Rightarrow> nat \<Rightarrow> string" where
  "show_base b n = (if n < b \<or> b < 2 then [char_of (48 + n)] else show_base b (n div b) @ [char_of (48 + n mod b)])"

declare show_base.simps [simp del]

lemma show_base_10: "show_base 10 n = show_nat n"
  by (induction n rule: show_nat.induct) (subst show_base.simps, subst show_nat.simps, simp)

lemma show_base_digits:
  assumes "2 \<le> b" "b \<le> 10"
  shows "show_base b n \<noteq> [] \<and> (\<forall>c \<in> set (show_base b n). is_digit b c) \<and> digits_value b (show_base b n) = n"
proof (induction n rule: less_induct)
  case (less n)
  have d: "ccode (char_of (48 + k)) = 48 + k" if "k < b" for k
    using that assms by (simp add: ccode_def)
  show ?case
  proof (cases "n < b")
    case True
    then show ?thesis using assms d [OF True] by (subst (1 2 3) show_base.simps) (simp add: is_digit_def digits_value_def)
  next
    case False
    then have "n div b < n" using assms by simp
    note IH = less.IH [OF this]
    have m: "n mod b < b" using assms by simp
    have s: "show_base b n = show_base b (n div b) @ [char_of (48 + n mod b)]"
      using False assms by (subst show_base.simps) simp
    show ?thesis unfolding s using IH d [OF m] m by (simp add: is_digit_def digits_value_def)
  qed
qed

lemma digit_not_space: "b \<le> 10 \<Longrightarrow> is_digit b c \<Longrightarrow> \<not> c_isspace c \<and> c \<noteq> CHR ''-'' \<and> c \<noteq> CHR ''+''"
  by (auto simp: is_digit_def c_isspace_def ccode_def)

lemma scan_number_digits:
  assumes "b \<le> 10" "ds \<noteq> []" "\<forall>c \<in> set ds. is_digit b c"
  shows "scan_number b ds = (False, ds, [])" "scan_number b (CHR ''-'' # ds) = (True, ds, [])"
proof -
  have h: "\<not> c_isspace (hd ds)" "hd ds \<noteq> CHR ''-''" "hd ds \<noteq> CHR ''+''"
    using assms digit_not_space [of b "hd ds"] by auto
  have dw: "dropWhile c_isspace ds = ds" using h(1) assms(2) by (cases ds) auto
  have tw: "takeWhile (is_digit b) ds = ds" "dropWhile (is_digit b) ds = []"
    using assms(3) by (simp_all add: takeWhile_eq_all_conv)
  show "scan_number b ds = (False, ds, [])" using h assms(2) by (simp add: scan_number_def dw tw)
  have "\<not> c_isspace CHR ''-''" by (simp add: c_isspace_def ccode_def)
  then show "scan_number b (CHR ''-'' # ds) = (True, ds, [])" by (simp add: scan_number_def tw)
qed

lemma strtoul_show_base:
  assumes "2 \<le> b" "b \<le> 10" "n < 2 ^ 64"
  shows "strtoul b (show_base b n) = of_nat n"
proof -
  note d = show_base_digits [OF assms(1,2), of n]
  then have "scan_number b (show_base b n) = (False, show_base b n, [])"
    using assms(2) by (intro scan_number_digits) auto
  then show ?thesis using d assms(3) by (simp add: strtoul_def)
qed

text \<open>A signed 32-bit number printed with \<^verbatim>\<open>%d\<close> and read with \<^verbatim>\<open>strtoul\<close> keeps its 32 bits.\<close>

lemma strtoul_show_int32: "ucast (strtoul 10 (show_int (sint w))) = (w :: u32)"
proof -
  have r: "- (2 ^ 31) \<le> sint w" "sint w < 2 ^ 31" using sint_greater_eq [of w] sint_less [of w] by simp_all
  note d = show_base_digits [of 10, unfolded show_base_10]
  have ucast_of_int: "ucast (of_int i :: u64) = (of_int i :: u32)" for i
    by (rule bit_word_eqI) (simp add: bit_simps)
  show ?thesis
  proof (cases "sint w < 0")
    case True
    define n where "n = nat (- sint w)"
    have n: "n < 2 ^ 64" "sint w = - int n" using True r by (simp_all add: n_def)
    have "scan_number 10 (CHR ''-'' # show_nat n) = (True, show_nat n, [])"
      using d [of n] by (intro scan_number_digits) auto
    then have "strtoul 10 (show_int (sint w)) = of_int (sint w)"
      using True n d [of n] by (simp add: strtoul_def show_int_def n_def [symmetric])
    then show ?thesis by (simp only: ucast_of_int) simp
  next
    case False
    define n where "n = nat (sint w)"
    have n: "n < 2 ^ 64" "sint w = int n" using False r by (simp_all add: n_def)
    have "strtoul 10 (show_int (sint w)) = of_int (sint w)"
      using False n strtoul_show_base [of 10 n] by (simp add: show_base_10 show_int_def n_def [symmetric])
    then show ?thesis by (simp only: ucast_of_int) simp
  qed
qed

lemma strtoll_show_int64: "strtoll 10 (show_int (sint w)) = (w :: u64)"
proof -
  have r: "- (2 ^ 63) \<le> sint w" "sint w < 2 ^ 63" using sint_greater_eq [of w] sint_less [of w] by simp_all
  note d = show_base_digits [of 10, unfolded show_base_10]
  show ?thesis
  proof (cases "sint w < 0")
    case True
    define n where "n = nat (- sint w)"
    have n: "sint w = - int n" using True by (simp add: n_def)
    have "scan_number 10 (CHR ''-'' # show_nat n) = (True, show_nat n, [])"
      using d [of n] by (intro scan_number_digits) auto
    then have "strtoll 10 (show_int (sint w)) = of_int (sint w)"
      using True r d [of n] by (simp add: strtoll_def show_int_def Let_def n flip: n_def)
    then show ?thesis by simp
  next
    case False
    define n where "n = nat (sint w)"
    have n: "sint w = int n" using False by (simp add: n_def)
    have "scan_number 10 (show_nat n) = (False, show_nat n, [])"
      using d [of n] by (intro scan_number_digits) auto
    then have "strtoll 10 (show_int (sint w)) = of_int (sint w)"
      using False r d [of n] by (simp add: strtoll_def show_int_def Let_def n flip: n_def)
    then show ?thesis by simp
  qed
qed

end
