(* ===== verification/TlshQuartile.thy ===== *)
theory TlshQuartile
  imports AvPrelude "HOL-Library.Multiset" "HOL-Library.Monad_Syntax"
begin

text \<open>
  The quartiles of the TLSH bucket counts: \<^verbatim>\<open>partition\<close> and \<^verbatim>\<open>find_quartile\<close> of
  \<^verbatim>\<open>src/userspace/avd/tlsh_core.c\<close>. Every array access is checked, so a value other than
  \<^verbatim>\<open>None\<close> means that no access left its array; the open-ended loops are partial functions, so it
  also means that they ended. The theorem is that \<^verbatim>\<open>find_quartile\<close> always returns, and returns the
  three order statistics of the first 128 counters.
\<close>

section \<open>The code\<close>

abbreviation EFF_BUCKETS :: nat where "EFF_BUCKETS \<equiv> 128"

definition aget :: "u32 list \<Rightarrow> nat \<Rightarrow> u32 option" where
  "aget b i = (if i < length b then Some (b ! i) else None)"

definition aset :: "u32 list \<Rightarrow> nat \<Rightarrow> u32 \<Rightarrow> u32 list option" where
  "aset b i v = (if i < length b then Some (b[i := v]) else None)"

text \<open>The three statements that exchange two elements.\<close>

definition aswap :: "u32 list \<Rightarrow> nat \<Rightarrow> nat \<Rightarrow> u32 list option" where
  "aswap b i j = do { t \<leftarrow> aget b i; x \<leftarrow> aget b j; b1 \<leftarrow> aset b i x; aset b1 j t }"

function part_loop :: "u32 list \<Rightarrow> u32 \<Rightarrow> nat \<Rightarrow> nat \<Rightarrow> nat \<Rightarrow> (nat \<times> u32 list) option" where
  "part_loop b val right i ret =
     (if i < right then do {
        x \<leftarrow> aget b i;
        if x < val then do { b1 \<leftarrow> aswap b ret i; part_loop b1 val right (i + 1) (ret + 1) }
        else part_loop b val right (i + 1) ret }
      else Some (ret, b))"
  by pat_completeness auto
termination by (relation "measure (\<lambda>(b, val, right, i, ret). right - i)") auto

declare part_loop.simps [simp del]

definition partition_range :: "u32 list \<Rightarrow> nat \<Rightarrow> nat \<Rightarrow> (nat \<times> u32 list) option" where
  "partition_range b left right =
     (if left = right then Some (left, b)
      else if left + 1 = right then do {
        x \<leftarrow> aget b left; y \<leftarrow> aget b right;
        b1 \<leftarrow> (if x > y then aswap b left right else Some b);
        Some (left, b1) }
      else do {
        let pivot = (left + right) div 2;
        val \<leftarrow> aget b pivot;
        x \<leftarrow> aget b right;
        b1 \<leftarrow> aset b pivot x;
        b2 \<leftarrow> aset b1 right val;
        (ret, b3) \<leftarrow> part_loop b2 val right left left;
        y \<leftarrow> aget b3 ret;
        b4 \<leftarrow> aset b3 right y;
        b5 \<leftarrow> aset b4 ret val;
        Some (ret, b5) })"

text \<open>The inner loop that narrows a range to one position.\<close>

partial_function (option) select :: "u32 list \<Rightarrow> nat \<Rightarrow> nat \<Rightarrow> nat \<Rightarrow> (u32 \<times> u32 list) option" where
  "select b l r p = do {
     (ret, b1) \<leftarrow> partition_range b l r;
     if ret > p then select b1 l (ret - 1) p
     else if ret < p then select b1 (ret + 1) r p
     else do { v \<leftarrow> aget b1 p; Some (v, b1) } }"

text \<open>The same loop for the median, which notes every pivot it passes. The shortcut arrays hold
  the elements written so far; writing past their end is \<^verbatim>\<open>None\<close>.\<close>

definition push :: "nat list \<Rightarrow> nat \<Rightarrow> nat list option" where
  "push s v = (if length s < EFF_BUCKETS then Some (s @ [v]) else None)"

partial_function (option) select_median ::
  "u32 list \<Rightarrow> nat \<Rightarrow> nat \<Rightarrow> nat list \<Rightarrow> nat list \<Rightarrow> nat \<Rightarrow> (u32 \<times> u32 list \<times> nat list \<times> nat list) option" where
  "select_median b l r scl scr p2 = do {
     (ret, b1) \<leftarrow> partition_range b l r;
     if ret > p2 then do { scr1 \<leftarrow> push scr ret; select_median b1 l (ret - 1) scl scr1 p2 }
     else if ret < p2 then do { scl1 \<leftarrow> push scl ret; select_median b1 (ret + 1) r scl1 scr p2 }
     else do { v \<leftarrow> aget b1 p2; Some (v, b1, scl, scr) } }"

declare select.simps [code] select_median.simps [code]

text \<open>The walks over the two shortcut arrays; running off the end leaves the quartile unset.\<close>

fun walk_left :: "nat list \<Rightarrow> u32 list \<Rightarrow> nat \<Rightarrow> nat \<Rightarrow> (u32 \<times> u32 list) option" where
  "walk_left [] b l p1 = None"
| "walk_left (r # rs) b l p1 =
     (if r > p1 then select b l r p1
      else if r < p1 then walk_left rs b r p1
      else do { v \<leftarrow> aget b p1; Some (v, b) })"

fun walk_right :: "nat list \<Rightarrow> u32 list \<Rightarrow> nat \<Rightarrow> nat \<Rightarrow> (u32 \<times> u32 list) option" where
  "walk_right [] b r p3 = None"
| "walk_right (l # ls) b r p3 =
     (if l < p3 then select b l r p3
      else if l > p3 then walk_right ls b l p3
      else do { v \<leftarrow> aget b p3; Some (v, b) })"

definition find_quartile :: "u32 list \<Rightarrow> (u32 \<times> u32 \<times> u32) option" where
  "find_quartile a_bucket = do {
     let p1 = EFF_BUCKETS div 4 - 1;
     let p2 = EFF_BUCKETS div 2 - 1;
     let p3 = EFF_BUCKETS - EFF_BUCKETS div 4 - 1;
     let last = EFF_BUCKETS - 1;
     b0 \<leftarrow> those (map (aget a_bucket) [0..<last + 1]);
     (q2, b1, scl, scr) \<leftarrow> select_median b0 0 last [] [] p2;
     scl1 \<leftarrow> push scl (p2 - 1);
     scr1 \<leftarrow> push scr (p2 + 1);
     (q1, b2) \<leftarrow> walk_left scl1 b1 0 p1;
     (q3, b3) \<leftarrow> walk_right scr1 b2 last p3;
     Some (q1, q2, q3) }"

section \<open>Partitioning\<close>

text \<open>\<open>reordered l r b b'\<close>: \<open>b'\<close> permutes the elements of \<open>b\<close> within the positions \<open>l\<close> to \<open>r\<close>.\<close>

definition reordered :: "nat \<Rightarrow> nat \<Rightarrow> u32 list \<Rightarrow> u32 list \<Rightarrow> bool" where
  "reordered l r b b' \<longleftrightarrow> mset b' = mset b \<and> (\<forall>i < length b. i < l \<or> r < i \<longrightarrow> b' ! i = b ! i)"

lemma reordered_length: "reordered l r b b' \<Longrightarrow> length b' = length b"
  by (metis reordered_def size_mset)

lemma reordered_refl [simp]: "reordered l r b b"
  by (simp add: reordered_def)

lemma reordered_trans:
  assumes "reordered l' r' b b'" "reordered l'' r'' b' b''" "l \<le> l'" "r' \<le> r" "l \<le> l''" "r'' \<le> r"
  shows "reordered l r b b''"
  using assms reordered_length [OF assms(1)] unfolding reordered_def by auto

lemma reordered_step: "reordered l r b b' \<Longrightarrow> reordered l r b' b'' \<Longrightarrow> reordered l r b b''"
  by (erule (1) reordered_trans) simp_all

lemma reordered_swap:
  assumes "l \<le> i" "i \<le> r" "l \<le> j" "j \<le> r" "i < length b" "j < length b"
  shows "reordered l r b (b[i := b ! j, j := b ! i])"
  using assms by (auto simp: reordered_def mset_swap)

lemma aswap_some: "i < length b \<Longrightarrow> j < length b \<Longrightarrow> aswap b i j = Some (b[i := b ! j, j := b ! i])"
  by (simp add: aswap_def aget_def aset_def)

lemma part_loop_spec:
  assumes "left \<le> ret" "ret \<le> i" "i \<le> right" "right < length b"
    "\<forall>k \<in> {left..<ret}. b ! k < val" "\<forall>k \<in> {ret..<i}. val \<le> b ! k" "b ! right = val"
  shows "\<exists>ret' b'. part_loop b val right i ret = Some (ret', b') \<and> ret \<le> ret' \<and> ret' \<le> right \<and>
    reordered left right b b' \<and> b' ! right = val \<and>
    (\<forall>k \<in> {left..<ret'}. b' ! k < val) \<and> (\<forall>k \<in> {ret'..<right}. val \<le> b' ! k)"
  using assms
proof (induction b val right i ret rule: part_loop.induct)
  case (1 b val right i ret)
  show ?case
  proof (cases "i < right")
    case False
    then show ?thesis using 1(3-9) by (subst part_loop.simps) auto
  next
    case True
    have i: "aget b i = Some (b ! i)" using True 1(6) by (simp add: aget_def)
    show ?thesis
    proof (cases "b ! i < val")
      case False
      have "\<forall>k \<in> {ret..<i + 1}. val \<le> b ! k" using 1(8) False by (auto simp: less_Suc_eq)
      then show ?thesis using 1(2) [OF True i False] 1(3-9) True False i
        by (subst part_loop.simps) auto
    next
      case less: True
      define b1 where "b1 = b[ret := b ! i, i := b ! ret]"
      have sw: "aswap b ret i = Some b1" using 1(3-6) True by (simp add: aswap_some b1_def)
      have r1: "reordered left right b b1" unfolding b1_def
        using 1(3-6) True by (intro reordered_swap) auto
      have "\<forall>k \<in> {left..<ret + 1}. b1 ! k < val" "\<forall>k \<in> {ret + 1..<i + 1}. val \<le> b1 ! k" "b1 ! right = val"
        using 1(3-9) True less by (auto simp: b1_def nth_list_update less_Suc_eq)
      then obtain ret' b' where h: "part_loop b1 val right (i + 1) (ret + 1) = Some (ret', b')" "ret + 1 \<le> ret'"
        "ret' \<le> right" "reordered left right b1 b'" "b' ! right = val" "\<forall>k \<in> {left..<ret'}. b' ! k < val"
        "\<forall>k \<in> {ret'..<right}. val \<le> b' ! k"
        using 1(1) [OF True i less sw] 1(3-6) True reordered_length [OF r1] by auto
      have "part_loop b val right i ret = Some (ret', b')"
        using True i less sw h(1) by (subst part_loop.simps) simp
      moreover have "reordered left right b b'" using reordered_trans [OF r1 h(4)] by simp
      ultimately show ?thesis using h by auto
    qed
  qed
qed

text \<open>What \<open>partition\<close> gives: a position in the range with nothing greater before it and nothing
  smaller after it, in a permutation of the range.\<close>

lemma partition_spec:
  assumes "l \<le> r" "r < length b"
  shows "\<exists>m b'. partition_range b l r = Some (m, b') \<and> l \<le> m \<and> m \<le> r \<and> reordered l r b b' \<and>
    (\<forall>k \<in> {l..<m}. b' ! k \<le> b' ! m) \<and> (\<forall>k \<in> {m<..r}. b' ! m \<le> b' ! k)"
proof -
  consider "l = r" | "l + 1 = r" | "l + 1 < r" using assms(1) by linarith
  then show ?thesis
  proof cases
    case 1
    then show ?thesis by (simp add: partition_range_def)
  next
    case 2
    show ?thesis
    proof (cases "b ! l > b ! r")
      case True
      have "reordered l r b (b[l := b ! r, r := b ! l])" using 2 assms by (intro reordered_swap) auto
      then show ?thesis using 2 True assms
        by (auto simp: partition_range_def aget_def aswap_some nth_list_update less_imp_le)
    qed (use 2 assms in \<open>auto simp: partition_range_def aget_def le_Suc_eq not_less\<close>)
  next
    case 3
    define p val b2 where "p = (l + r) div 2" and "val = b ! p" and "b2 = b[p := b ! r, r := val]"
    have p: "l \<le> p" "p < r" using 3 by (auto simp: p_def)
    have r2: "reordered l r b b2" unfolding b2_def val_def using p assms by (intro reordered_swap) auto
    obtain m b3 where h: "part_loop b2 val r l l = Some (m, b3)" "l \<le> m" "m \<le> r" "reordered l r b2 b3" "b3 ! r = val"
      "\<forall>k \<in> {l..<m}. b3 ! k < val" "\<forall>k \<in> {m..<r}. val \<le> b3 ! k"
      using part_loop_spec [of l l l r b2 val] assms p by (auto simp: b2_def)
    have len: "length b3 = length b" using reordered_length [OF r2] reordered_length [OF h(4)] by simp
    define b5 where "b5 = b3[r := b3 ! m, m := val]"
    have "partition_range b l r = Some (m, b5)"
      using 3 p assms h len by (simp add: partition_range_def aget_def aset_def p_def [symmetric] val_def [symmetric] b2_def [symmetric] b5_def)
    moreover have "reordered l r b3 b5"
      unfolding b5_def h(5) [symmetric] using h(2,3) assms len by (intro reordered_swap) auto
    then have "reordered l r b b5" using r2 h(4) by (blast intro: reordered_step)
    moreover have "b5 ! m = val" "\<forall>k \<in> {l..<m}. b5 ! k \<le> val" "\<forall>k \<in> {m<..r}. val \<le> b5 ! k"
      using h assms len by (auto simp: b5_def nth_list_update less_imp_le)
    ultimately show ?thesis using h(2,3) by auto
  qed
qed

section \<open>Selection\<close>

text \<open>\<open>sep b k\<close>: nothing before position \<open>k\<close> is greater than anything from \<open>k\<close> on. Reordering a
  range keeps every separation outside it, and two adjacent separations pin an order statistic.\<close>

definition sep :: "u32 list \<Rightarrow> nat \<Rightarrow> bool" where
  "sep b k \<longleftrightarrow> (\<forall>x \<in> set (take k b). \<forall>y \<in> set (drop k b). x \<le> y)"

lemma sep_0 [simp]: "sep b 0"
  by (simp add: sep_def)

lemma sep_full: "length b \<le> k \<Longrightarrow> sep b k"
  by (simp add: sep_def)

lemma sep_nth: "k \<le> length b \<Longrightarrow> sep b k \<longleftrightarrow> (\<forall>i < k. \<forall>j. k \<le> j \<and> j < length b \<longrightarrow> b ! i \<le> b ! j)"
proof
  assume s: "sep b k" and k: "k \<le> length b"
  have "b ! i \<le> b ! j" if ij: "i < k" "k \<le> j" "j < length b" for i j
  proof -
    have "b ! i \<in> set (take k b)" using ij k by (auto simp: in_set_conv_nth)
    moreover have "b ! j \<in> set (drop k b)" unfolding in_set_conv_nth
      using ij by (intro exI [of _ "j - k"]) auto
    ultimately show ?thesis using s by (simp add: sep_def)
  qed
  then show "\<forall>i < k. \<forall>j. k \<le> j \<and> j < length b \<longrightarrow> b ! i \<le> b ! j" by blast
next
  assume "\<forall>i < k. \<forall>j. k \<le> j \<and> j < length b \<longrightarrow> b ! i \<le> b ! j"
  then show "sep b k" by (auto simp: sep_def in_set_conv_nth)
qed

lemma reordered_sep:
  assumes "reordered l r b b'" "k \<le> l \<or> r < k" "sep b k"
  shows "sep b' k"
proof -
  have m: "mset (take k b') + mset (drop k b') = mset (take k b) + mset (drop k b)"
    using assms(1) by (simp add: reordered_def flip: mset_append)
  have len: "length b' = length b" by (rule reordered_length [OF assms(1)])
  from assms(2) have "mset (take k b') = mset (take k b) \<and> mset (drop k b') = mset (drop k b)"
  proof
    assume "k \<le> l"
    then have "take k b' = take k b" using assms(1) len by (intro nth_equalityI) (auto simp: reordered_def)
    then show ?thesis using m by simp
  next
    assume "r < k"
    then have "drop k b' = drop k b" using assms(1) len by (intro nth_equalityI) (auto simp: reordered_def)
    then show ?thesis using m by simp
  qed
  then show ?thesis using assms(3) unfolding sep_def by (metis set_mset_mset)
qed

lemma order_statistic:
  assumes "p < length b" "sep b p" "sep b (p + 1)"
  shows "b ! p = sort b ! p"
proof -
  have s: "sorted (sort (take p b) @ [b ! p] @ sort (drop (p + 1) b))"
  proof -
    have 1: "\<forall>x \<in> set (take p b). \<forall>y \<in> set (drop p b). x \<le> y" using assms(2) by (simp add: sep_def)
    have 2: "\<forall>x \<in> set (take (p + 1) b). \<forall>y \<in> set (drop (p + 1) b). x \<le> y" using assms(3) by (simp add: sep_def)
    have d: "drop p b = b ! p # drop (p + 1) b" and t: "take (p + 1) b = take p b @ [b ! p]"
      using assms(1) by (simp_all add: Cons_nth_drop_Suc take_Suc_conv_app_nth)
    show ?thesis using 1 2 unfolding d t by (auto simp: sorted_append)
  qed
  moreover have "mset (sort (take p b) @ [b ! p] @ sort (drop (p + 1) b)) = mset b"
    using arg_cong [where f = mset, OF id_take_nth_drop [OF assms(1)]] by simp
  ultimately have "sort b = sort (take p b) @ [b ! p] @ sort (drop (p + 1) b)"
    by (intro properties_for_sort)
  then show ?thesis using assms(1) by (simp add: nth_append)
qed

text \<open>What one call of \<open>partition_range\<close> on a separated range gives.\<close>

lemma partition_sep:
  assumes "l \<le> r" "r < length b" "sep b l" "sep b (r + 1)"
  shows "\<exists>m b'. partition_range b l r = Some (m, b') \<and> l \<le> m \<and> m \<le> r \<and> reordered l r b b' \<and>
    sep b' l \<and> sep b' (r + 1) \<and> sep b' m \<and> sep b' (m + 1)"
proof -
  obtain m b' where h: "partition_range b l r = Some (m, b')" "l \<le> m" "m \<le> r" "reordered l r b b'"
    "\<forall>k \<in> {l..<m}. b' ! k \<le> b' ! m" "\<forall>k \<in> {m<..r}. b' ! m \<le> b' ! k"
    using partition_spec [OF assms(1,2)] by blast
  have len: "length b' = length b" by (rule reordered_length [OF h(4)])
  have s: "sep b' l" "sep b' (r + 1)" using reordered_sep [OF h(4)] assms by auto
  have lr: "b' ! i \<le> b' ! j" if "i < l" "l \<le> j" "j < length b" for i j
    using s(1) that assms len by (subst (asm) sep_nth) auto
  have rr: "b' ! i \<le> b' ! j" if "i \<le> r" "r < j" "j < length b" for i j
    using s(2) that assms len by (subst (asm) sep_nth) auto
  have below: "b' ! i \<le> b' ! m" if "i < m" for i
    using that lr [of i m] h(2,3,5) assms by (cases "i < l") auto
  have above: "b' ! m \<le> b' ! j" if "m < j" "j < length b" for j
    using that rr [of m j] h(2,3,6) assms by (cases "r < j") auto
  have le: "b' ! i \<le> b' ! j" if "i \<le> m" "m \<le> j" "j < length b" for i j
    using that below [of i] above [of j] by (cases "i = m"; cases "j = m") auto
  have "sep b' m" "sep b' (m + 1)"
    using le h(3) assms len by (subst sep_nth; simp)+
  with h s show ?thesis by blast
qed

text \<open>The result of a selection: the order statistic, in a reordering of the range.\<close>

definition selected :: "nat \<Rightarrow> nat \<Rightarrow> nat \<Rightarrow> u32 list \<Rightarrow> (u32 \<times> u32 list) option \<Rightarrow> bool" where
  "selected l r p b res \<longleftrightarrow> (\<exists>b'. res = Some (sort b ! p, b') \<and> reordered l r b b')"

lemma reordered_sort: "reordered l r b b' \<Longrightarrow> sort b' = sort b"
  by (intro properties_for_sort) (simp_all add: reordered_def)

lemma selected_mono:
  assumes "reordered l' r' b b1" "selected l'' r'' p b1 res" "l \<le> l'" "r' \<le> r" "l \<le> l''" "r'' \<le> r"
  shows "selected l r p b res"
proof -
  obtain b' where "res = Some (sort b1 ! p, b')" "reordered l'' r'' b1 b'"
    using assms(2) by (auto simp: selected_def)
  then show ?thesis
    using reordered_trans [OF assms(1), of l'' r'' b' l r] reordered_sort [OF assms(1)] assms(3-6)
    by (simp add: selected_def)
qed

lemma selected_now:
  assumes "p < length b" "sep b p" "sep b (p + 1)"
  shows "selected l r p b (do { v \<leftarrow> aget b p; Some (v, b) })"
  using assms order_statistic by (auto simp: selected_def aget_def)

lemma select_spec:
  assumes "l \<le> p" "p \<le> r" "r < length b" "sep b l" "sep b (r + 1)"
  shows "selected l r p b (select b l r p)"
  using assms
proof (induction "r - l" arbitrary: b l r rule: less_induct)
  case less
  obtain m b1 where h: "partition_range b l r = Some (m, b1)" "l \<le> m" "m \<le> r" "reordered l r b b1" "sep b1 l"
    "sep b1 (r + 1)" "sep b1 m" "sep b1 (m + 1)"
    using partition_sep [of l r b] less.prems by auto
  have len: "length b1 = length b" by (rule reordered_length [OF h(4)])
  consider "p < m" | "m < p" | "m = p" by linarith
  then show ?case
  proof cases
    case 1
    then have "selected l (m - 1) p b1 (select b1 l (m - 1) p)" using less.prems h len by (intro less.hyps) auto
    then show ?thesis using selected_mono [OF h(4)] 1 h by (subst select.simps) auto
  next
    case 2
    then have "selected (m + 1) r p b1 (select b1 (m + 1) r p)" using less.prems h len by (intro less.hyps) auto
    then show ?thesis using selected_mono [OF h(4)] 2 h by (subst select.simps) auto
  next
    case 3
    then have "selected l r p b1 (do { v \<leftarrow> aget b1 p; Some (v, b1) })" using less.prems h len by (intro selected_now) auto
    then show ?thesis using selected_mono [OF h(4)] 3 h by (subst select.simps) auto
  qed
qed

text \<open>Pivots noted on the way to the median: each separates the array on both sides of itself.\<close>

definition pivots :: "u32 list \<Rightarrow> nat list \<Rightarrow> bool" where
  "pivots b s \<longleftrightarrow> (\<forall>c \<in> set s. sep b c \<and> sep b (c + 1))"

lemma pivots_reordered:
  "reordered l r b b' \<Longrightarrow> (\<forall>c \<in> set s. c < l \<or> r < c) \<Longrightarrow> pivots b s \<Longrightarrow> pivots b' s"
  unfolding pivots_def by (metis Suc_eq_plus1 Suc_leI less_SucI reordered_sep less_imp_le)

lemma select_median_spec:
  assumes "l \<le> p" "p \<le> r" "r < length b" "length b \<le> EFF_BUCKETS" "sep b l" "sep b (r + 1)"
    "\<forall>c \<in> set scl. c < l" "\<forall>c \<in> set scr. r < c \<and> c < length b" "pivots b scl" "pivots b scr"
    "length scl \<le> l" "length scr + r < length b"
  shows "\<exists>b' scl' scr'. select_median b l r scl scr p = Some (sort b ! p, b', scl', scr') \<and> reordered l r b b' \<and>
    sep b' p \<and> sep b' (p + 1) \<and> (\<forall>c \<in> set scl'. c < p) \<and> (\<forall>c \<in> set scr'. p < c \<and> c < length b) \<and>
    pivots b' scl' \<and> pivots b' scr' \<and> length scl' \<le> p \<and> length scr' + p < length b"
  using assms
proof (induction "r - l" arbitrary: b l r scl scr rule: less_induct)
  case less
  obtain m b1 where h: "partition_range b l r = Some (m, b1)" "l \<le> m" "m \<le> r" "reordered l r b b1" "sep b1 l"
    "sep b1 (r + 1)" "sep b1 m" "sep b1 (m + 1)"
    using partition_sep [of l r b] less.prems by auto
  have len: "length b1 = length b" by (rule reordered_length [OF h(4)])
  have so: "sort b1 = sort b" by (rule reordered_sort [OF h(4)])
  have pv: "pivots b1 scl" "pivots b1 scr"
    using pivots_reordered [OF h(4)] less.prems(7-10) by blast+
  consider "p < m" | "m < p" | "m = p" by linarith
  then show ?case
  proof cases
    case 1
    have "push scr m = Some (scr @ [m])" using less.prems by (simp add: push_def)
    moreover have "pivots b1 (scr @ [m])" using pv h by (auto simp: pivots_def)
    then obtain b' scl' scr' where "select_median b1 l (m - 1) scl (scr @ [m]) p = Some (sort b1 ! p, b', scl', scr')"
      "reordered l (m - 1) b1 b'" "sep b' p" "sep b' (p + 1)" "\<forall>c \<in> set scl'. c < p"
      "\<forall>c \<in> set scr'. p < c \<and> c < length b1" "pivots b' scl'" "pivots b' scr'" "length scl' \<le> p" "length scr' + p < length b1"
      using less.hyps [of "m - 1" l b1 scl "scr @ [m]"] less.prems h len pv 1 by fastforce
    ultimately show ?thesis
      using reordered_trans [OF h(4), of l "m - 1" b' l r] 1 h len so by (subst select_median.simps) simp
  next
    case 2
    have "push scl m = Some (scl @ [m])" using less.prems by (simp add: push_def)
    moreover have "pivots b1 (scl @ [m])" using pv h by (auto simp: pivots_def)
    then obtain b' scl' scr' where "select_median b1 (m + 1) r (scl @ [m]) scr p = Some (sort b1 ! p, b', scl', scr')"
      "reordered (m + 1) r b1 b'" "sep b' p" "sep b' (p + 1)" "\<forall>c \<in> set scl'. c < p"
      "\<forall>c \<in> set scr'. p < c \<and> c < length b1" "pivots b' scl'" "pivots b' scr'" "length scl' \<le> p" "length scr' + p < length b1"
      using less.hyps [of r "m + 1" b1 "scl @ [m]" scr] less.prems h len pv 2 by fastforce
    ultimately show ?thesis
      using reordered_trans [OF h(4), of "m + 1" r b' l r] 2 h len so by (subst select_median.simps) simp
  next
    case 3
    have v: "aget b1 p = Some (sort b ! p)"
      using order_statistic [of p b1] h(7,8) 3 less.prems(2,3) len so by (simp add: aget_def)
    have "\<forall>c \<in> set scl. c < p" "\<forall>c \<in> set scr. p < c \<and> c < length b" "length scl \<le> p" "length scr + p < length b"
      using less.prems by auto
    moreover have "select_median b l r scl scr p = Some (sort b ! p, b1, scl, scr)"
      using 3 h(1) v by (subst select_median.simps) simp
    ultimately show ?thesis using h(4,7,8) 3 pv by simp
  qed
qed

lemma selected_widen: "selected l' r' p b res \<Longrightarrow> l \<le> l' \<Longrightarrow> r' \<le> r \<Longrightarrow> selected l r p b res"
  using selected_mono [OF reordered_refl [of l r]] by blast

lemma walk_left_spec:
  assumes "pivots b cs" "l \<le> p" "p < k" "k < length b" "sep b l" "sep b (k + 1)" "\<forall>c \<in> set cs. c \<le> k"
  shows "selected 0 k p b (walk_left (cs @ [k]) b l p)"
  using assms
proof (induction cs arbitrary: l)
  case Nil
  then have "selected l k p b (select b l k p)" by (intro select_spec) auto
  then show ?case using Nil.prems by (auto intro: selected_widen)
next
  case (Cons c cs)
  have c: "sep b c" "sep b (c + 1)" "c \<le> k" using Cons.prems by (auto simp: pivots_def)
  consider "p < c" | "c < p" | "c = p" by linarith
  then show ?case
  proof cases
    case 1
    then have "selected l c p b (select b l c p)" using Cons.prems c by (intro select_spec) auto
    then show ?thesis using 1 c(3) by (auto intro: selected_widen)
  next
    case 2
    then show ?thesis using Cons.IH [of c] Cons.prems c by (auto simp: pivots_def)
  next
    case 3
    then show ?thesis using selected_now [of p b 0 k] c Cons.prems by simp
  qed
qed

lemma walk_right_spec:
  assumes "pivots b cs" "k < p" "p \<le> r" "r < length b" "sep b k" "sep b (r + 1)"
    "\<forall>c \<in> set cs. k \<le> c \<and> c < length b"
  shows "selected k (length b - 1) p b (walk_right (cs @ [k]) b r p)"
  using assms
proof (induction cs arbitrary: r)
  case Nil
  then have "selected k r p b (select b k r p)" by (intro select_spec) auto
  then show ?case using Nil.prems by (auto intro: selected_widen)
next
  case (Cons c cs)
  have c: "sep b c" "sep b (c + 1)" "k \<le> c" "c < length b" using Cons.prems by (auto simp: pivots_def)
  consider "c < p" | "p < c" | "c = p" by linarith
  then show ?case
  proof cases
    case 1
    then have "selected c r p b (select b c r p)" using Cons.prems c by (intro select_spec) auto
    then have "selected k (length b - 1) p b (select b c r p)" using c(3) Cons.prems by (elim selected_widen) auto
    then show ?thesis using 1 by simp
  next
    case 2
    then show ?thesis using Cons.IH [of c] Cons.prems c by (auto simp: pivots_def)
  next
    case 3
    then show ?thesis using selected_now [of p b k "length b - 1"] c Cons.prems by simp
  qed
qed

section \<open>The quartiles\<close>

lemma those_aget: "n \<le> length b \<Longrightarrow> those (map (aget b) [0..<n]) = Some (take n b)"
proof (induction n)
  case (Suc n)
  have those_snoc: "those (xs @ [y]) = (case those xs of None \<Rightarrow> None | Some ys \<Rightarrow> map_option (\<lambda>z. ys @ [z]) y)" for xs y
    by (induction xs) (auto simp: option.map_comp comp_def split: option.splits)
  show ?case using Suc by (simp add: those_snoc aget_def take_Suc_conv_app_nth)
qed simp

lemma find_quartile_ranks:
  assumes "EFF_BUCKETS \<le> length a"
  shows "find_quartile a =
    Some (sort (take EFF_BUCKETS a) ! 31, sort (take EFF_BUCKETS a) ! 63, sort (take EFF_BUCKETS a) ! 95)"
proof -
  define b where "b = take EFF_BUCKETS a"
  have n: "length b = 128" using assms by (simp add: b_def)
  have cp: "those (map (aget a) [0..<127 + 1]) = Some b"
    using those_aget [of 128 a] assms by (simp add: b_def)
  obtain b1 scl scr where m: "select_median b 0 127 [] [] 63 = Some (sort b ! 63, b1, scl, scr)" "reordered 0 127 b b1"
    "sep b1 63" "sep b1 64" "\<forall>c \<in> set scl. c < 63" "\<forall>c \<in> set scr. 63 < c \<and> c < 128" "pivots b1 scl" "pivots b1 scr"
    "length scl \<le> 63" "length scr + 63 < 128"
    using select_median_spec [of 0 63 127 b "[]" "[]"] n by (auto simp: sep_full pivots_def)
  have n1: "length b1 = 128" "sort b1 = sort b" using reordered_length [OF m(2)] reordered_sort [OF m(2)] n by simp_all
  have "\<forall>c \<in> set scl. c \<le> 62" using m(5) by fastforce
  then obtain b2 where l: "walk_left (scl @ [62]) b1 0 31 = Some (sort b ! 31, b2)" "reordered 0 62 b1 b2"
    using walk_left_spec [of b1 scl 0 31 62] m(3,7) n1 by (auto simp: selected_def)
  have n2: "length b2 = 128" "sort b2 = sort b" using reordered_length [OF l(2)] reordered_sort [OF l(2)] n1 by simp_all
  have "pivots b2 scr" using pivots_reordered [OF l(2) _ m(8)] m(6) by fastforce
  moreover have "sep b2 64" using reordered_sep [OF l(2) _ m(4)] by simp
  moreover have "\<forall>c \<in> set scr. 64 \<le> c \<and> c < length b2" using m(6) n2 by fastforce
  ultimately obtain b3 where r: "walk_right (scr @ [64]) b2 127 95 = Some (sort b ! 95, b3)"
    using walk_right_spec [of b2 scr 64 95 127] n2 by (auto simp: selected_def sep_full)
  show ?thesis
    using cp m(1,9,10) l(1) r by (simp add: find_quartile_def push_def b_def [symmetric] del: upt_Suc)
qed

text \<open>C21. \<^verbatim>\<open>find_quartile\<close> always returns, whatever the bucket counts are: no loop runs forever, no
  index leaves the scratch copy or the shortcut arrays, every quartile is set, and the three values
  are the elements of rank 31, 63 and 95 of the first 128 counters in sorted order.\<close>

theorem find_quartile_order_statistics:
  assumes "EFF_BUCKETS \<le> length a"
  shows "find_quartile a =
    Some (sort (take EFF_BUCKETS a) ! 31, sort (take EFF_BUCKETS a) ! 63, sort (take EFF_BUCKETS a) ! 95)"
  using assms by (rule find_quartile_ranks)

theorem find_quartile_order_statistics_witness:
  "find_quartile (map (\<lambda>i. of_nat (i * 5 mod 7)) [0..<256]) =
    Some (sort (take 128 (map (\<lambda>i. of_nat (i * 5 mod 7)) [0..<256])) ! 31,
          sort (take 128 (map (\<lambda>i. of_nat (i * 5 mod 7)) [0..<256])) ! 63,
          sort (take 128 (map (\<lambda>i. of_nat (i * 5 mod 7)) [0..<256])) ! 95)"
  using find_quartile_order_statistics [of "map (\<lambda>i. of_nat (i * 5 mod 7)) [0..<256]"] by simp

end
