(* ===== verification/TlshHash.thy ===== *)
theory TlshHash
  imports TlshQuartile
begin

text \<open>
  The TLSH digest of a byte stream: the Pearson mapping, the length classes, the streaming update
  with its sliding window, the finalisation and the hexadecimal codec of
  \<^verbatim>\<open>src/userspace/avd/tlsh_core.c\<close>. The reference it is compared with reads the whole message at once:
  bucket counts as occurrences of triplet hashes, quartiles by sorting, the length class by counting
  breakpoints.
\<close>

section \<open>The code\<close>

definition v_table :: "u8 list" where
  "v_table = [
    1, 87, 49, 12, 176, 178, 102, 166, 121, 193, 6, 84, 249, 230, 44, 163,
    14, 197, 213, 181, 161, 85, 218, 80, 64, 239, 24, 226, 236, 142, 38, 200,
    110, 177, 104, 103, 141, 253, 255, 50, 77, 101, 81, 18, 45, 96, 31, 222,
    25, 107, 190, 70, 86, 237, 240, 34, 72, 242, 20, 214, 244, 227, 149, 235,
    97, 234, 57, 22, 60, 250, 82, 175, 208, 5, 127, 199, 111, 62, 135, 248,
    174, 169, 211, 58, 66, 154, 106, 195, 245, 171, 17, 187, 182, 179, 0, 243,
    132, 56, 148, 75, 128, 133, 158, 100, 130, 126, 91, 13, 153, 246, 216, 219,
    119, 68, 223, 78, 83, 88, 201, 99, 122, 11, 92, 32, 136, 114, 52, 10,
    138, 30, 48, 183, 156, 35, 61, 26, 143, 74, 251, 94, 129, 162, 63, 152,
    170, 7, 115, 167, 241, 206, 3, 150, 55, 59, 151, 220, 90, 53, 23, 131,
    125, 173, 15, 238, 79, 95, 89, 16, 105, 137, 225, 224, 217, 160, 37, 123,
    118, 73, 2, 157, 46, 116, 9, 145, 134, 228, 207, 212, 202, 215, 69, 229,
    27, 188, 67, 124, 168, 252, 42, 4, 29, 108, 21, 247, 19, 205, 39, 203,
    233, 40, 186, 147, 198, 192, 155, 33, 164, 191, 98, 204, 165, 180, 117, 76,
    140, 36, 210, 172, 41, 54, 159, 8, 185, 232, 113, 196, 231, 47, 146, 120,
    51, 65, 28, 144, 254, 221, 93, 189, 194, 139, 112, 43, 71, 109, 184, 209]"

definition fast_b_mapping :: "u8 \<Rightarrow> u8 \<Rightarrow> u8 \<Rightarrow> u8 \<Rightarrow> u8" where
  "fast_b_mapping ms i j k =
     v_table ! unat (v_table ! unat (v_table ! unat (ms XOR i) XOR j) XOR k)"

definition topval :: "u32 list" where
  "topval = [
    1, 2, 3, 5, 7, 11, 17, 25, 38, 57, 86, 129, 194, 291,
    437, 656, 854, 1110, 1443, 1876, 2439, 3171, 3475, 3823, 4205, 4626, 5088, 5597,
    6157, 6772, 7450, 8195, 9014, 9916, 10907, 11998, 13198, 14518, 15970, 17567, 19323, 21256,
    23382, 25720, 28292, 31121, 34233, 37656, 41422, 45564, 50121, 55133, 60646, 66711, 73382, 80721,
    88793, 97672, 107439, 118183, 130002, 143002, 157302, 173032, 190335, 209369, 230306, 253337, 278670, 306538,
    337191, 370911, 408002, 448802, 493682, 543050, 597356, 657091, 722800, 795081, 874589, 962048, 1058252, 1164078,
    1280486, 1408534, 1549388, 1704327, 1874759, 2062236, 2268459, 2495305, 2744836, 3019320, 3321252, 3653374, 4018711, 4420582,
    4862641, 5348905, 5883796, 6472176, 7119394, 7831333, 8614467, 9475909, 10423501, 11465851, 12612437, 13873681, 15261050, 16787154,
    18465870, 20312458, 22343706, 24578077, 27035886, 29739474, 32713425, 35984770, 39583245, 43541573, 47895730, 52685306, 57953837, 63749221,
    70124148, 77136564, 84850228, 93335252, 102668779, 112935659, 124229227, 136652151, 150317384, 165349128, 181884040, 200072456, 220079703, 242087671,
    266296456, 292926096, 322218735, 354440623, 389884688, 428873168, 471760495, 518936559, 570830240, 627913311, 690704607, 759775136, 835752671, 919327967,
    1011260767, 1112386880, 1223623232, 1345985727, 1480584256, 1628642751, 1791507135, 1970657856, 2167723648, 2384496256, 2622945920, 2885240448, 3173764736, 3491141248,
    3840255616, 4224281216]"

text \<open>The bisection over the breakpoints. An index outside the table is \<^verbatim>\<open>None\<close>.\<close>

partial_function (option) bisect :: "u32 \<Rightarrow> nat \<Rightarrow> nat \<Rightarrow> nat \<Rightarrow> u8 option" where
  "bisect len bottom upper idx =
     (if idx = 0 then Some (of_nat idx)
      else do {
        hi \<leftarrow> aget topval idx;
        lo \<leftarrow> aget topval (idx - 1);
        if len \<le> hi \<and> len > lo then Some (of_nat idx)
        else if len < hi then bisect len bottom (idx - 1) ((bottom + (idx - 1)) div 2)
        else bisect len (idx + 1) upper ((idx + 1 + upper) div 2) })"

declare bisect.simps [code]

definition l_capturing :: "u32 \<Rightarrow> u8 option" where
  "l_capturing len = do {
     greatest \<leftarrow> aget topval 169;
     if len > greatest then Some 169 else bisect len 0 170 85 }"

abbreviation BUCKET_COUNT :: nat where "BUCKET_COUNT \<equiv> 256"
abbreviation SLIDING_WND_SIZE :: nat where "SLIDING_WND_SIZE \<equiv> 5"
abbreviation MIN_DATA_LENGTH :: nat where "MIN_DATA_LENGTH \<equiv> 50"
abbreviation TLSH_CODE_SIZE :: nat where "TLSH_CODE_SIZE \<equiv> 32"
abbreviation TLSH_DIGEST_HEXLEN :: nat where "TLSH_DIGEST_HEXLEN \<equiv> 70"

record tlsh_digest =
  d_checksum :: u8
  Lvalue :: u8
  Q1ratio :: u8
  Q2ratio :: u8
  tmp_code :: "u8 list"

text \<open>The bucket array is \<^verbatim>\<open>None\<close> until the first update allocates it.\<close>

record tlsh_ctx =
  a_bucket :: "u32 list option"
  slide_window :: "u8 list"
  data_len :: u32
  checksum :: u8
  alloc_failed :: bool

definition tlsh_init :: tlsh_ctx where
  "tlsh_init = \<lparr>a_bucket = None, slide_window = replicate 5 0, data_len = 0, checksum = 0, alloc_failed = False\<rparr>"

definition tlsh_free :: "tlsh_ctx \<Rightarrow> tlsh_ctx" where
  "tlsh_free ctx = ctx\<lparr>a_bucket := None\<rparr>"

definition hit :: "u32 list \<Rightarrow> u8 \<Rightarrow> u32 list" where
  "hit a r = a[unat r := a ! unat r + 1]"

text \<open>The body of the loop: one byte at window position \<open>j\<close>, after \<open>fed_len\<close> earlier bytes.\<close>

definition feed_byte :: "u8 \<Rightarrow> u32 \<Rightarrow> nat \<Rightarrow> u32 list \<times> u8 list \<times> u8 \<Rightarrow> u32 list \<times> u8 list \<times> u8" where
  "feed_byte x fed_len j = (\<lambda>(a, sw0, chk).
     let sw = sw0[j := x] in
     if fed_len \<ge> of_nat (SLIDING_WND_SIZE - 1) then
       let j1 = (j + SLIDING_WND_SIZE - 1) mod SLIDING_WND_SIZE;
           j2 = (j + SLIDING_WND_SIZE - 2) mod SLIDING_WND_SIZE;
           j3 = (j + SLIDING_WND_SIZE - 3) mod SLIDING_WND_SIZE;
           j4 = (j + SLIDING_WND_SIZE - 4) mod SLIDING_WND_SIZE;
           chk1 = fast_b_mapping 1 (sw ! j) (sw ! j1) chk;
           a1 = hit a (fast_b_mapping 49 (sw ! j) (sw ! j1) (sw ! j2));
           a2 = hit a1 (fast_b_mapping 12 (sw ! j) (sw ! j1) (sw ! j3));
           a3 = hit a2 (fast_b_mapping 178 (sw ! j) (sw ! j2) (sw ! j3));
           a4 = hit a3 (fast_b_mapping 166 (sw ! j) (sw ! j2) (sw ! j4));
           a5 = hit a4 (fast_b_mapping 84 (sw ! j) (sw ! j1) (sw ! j4));
           a6 = hit a5 (fast_b_mapping 230 (sw ! j) (sw ! j3) (sw ! j4))
       in (a6, sw, chk1)
     else (a, sw, chk))"

fun feed_loop :: "u8 list \<Rightarrow> u32 \<Rightarrow> nat \<Rightarrow> u32 list \<times> u8 list \<times> u8 \<Rightarrow> u32 list \<times> u8 list \<times> u8" where
  "feed_loop [] fed_len j st = st"
| "feed_loop (x # xs) fed_len j st =
     feed_loop xs (fed_len + 1) ((j + 1) mod SLIDING_WND_SIZE) (feed_byte x fed_len j st)"

text \<open>\<open>calloc_ok\<close> is the outcome of the allocation, if this call makes it.\<close>

definition tlsh_update :: "bool \<Rightarrow> u8 list \<Rightarrow> tlsh_ctx \<Rightarrow> tlsh_ctx" where
  "tlsh_update calloc_ok data ctx =
     (if alloc_failed ctx then ctx
      else if a_bucket ctx = None \<and> \<not> calloc_ok then ctx\<lparr>alloc_failed := True\<rparr>
      else
        let a0 = (case a_bucket ctx of Some a \<Rightarrow> a | None \<Rightarrow> replicate BUCKET_COUNT 0);
            (a, sw, chk) = feed_loop data (data_len ctx) (unat (data_len ctx) mod SLIDING_WND_SIZE)
                             (a0, slide_window ctx, checksum ctx)
        in ctx\<lparr>a_bucket := Some a, slide_window := sw, checksum := chk,
               data_len := data_len ctx + of_nat (length data)\<rparr>)"

definition quart_code :: "u32 \<Rightarrow> u32 \<Rightarrow> u32 \<Rightarrow> u32 \<Rightarrow> nat \<Rightarrow> u8" where
  "quart_code q1 q2 q3 k j =
     (if q3 < k then push_bit (j * 2) 3
      else if q2 < k then push_bit (j * 2) 2
      else if q1 < k then push_bit (j * 2) 1 else 0)"

definition code_byte :: "u32 \<Rightarrow> u32 \<Rightarrow> u32 \<Rightarrow> u32 list \<Rightarrow> nat \<Rightarrow> u8" where
  "code_byte q1 q2 q3 a i = foldl (\<lambda>h j. h + quart_code q1 q2 q3 (a ! (4 * i + j)) j) 0 [0..<4]"

text \<open>The outcome is \<^verbatim>\<open>None\<close> for a loop that does not return; then \<open>Some (digest or none, context)\<close>.\<close>

definition tlsh_final :: "tlsh_ctx \<Rightarrow> (tlsh_digest option \<times> tlsh_ctx) option" where
  "tlsh_final ctx =
     (if alloc_failed ctx \<or> data_len ctx < of_nat MIN_DATA_LENGTH then Some (None, tlsh_free ctx)
      else case a_bucket ctx of
        None \<Rightarrow> Some (None, tlsh_free ctx)
      | Some a \<Rightarrow> do {
          (q1, q2, q3) \<leftarrow> find_quartile a;
          if q3 = 0 then Some (None, tlsh_free ctx)
          else
            let nonzero = length (filter (\<lambda>(i, j). a ! (4 * i + j) > 0) (List.product [0..<TLSH_CODE_SIZE] [0..<4])) in
            if nonzero \<le> 4 * TLSH_CODE_SIZE div 2 then Some (None, tlsh_free ctx)
            else do {
              lv \<leftarrow> l_capturing (data_len ctx);
              Some (Some \<lparr>d_checksum = checksum ctx, Lvalue = lv,
                      Q1ratio = ucast ((ucast q1 :: u64) * 100 div ucast q3 mod 16),
                      Q2ratio = ucast ((ucast q2 :: u64) * 100 div ucast q3 mod 16),
                      tmp_code = map (code_byte q1 q2 q3 a) [0..<TLSH_CODE_SIZE]\<rparr>,
                    tlsh_free ctx) } })"

subsection \<open>The hexadecimal form\<close>

definition swap_byte :: "u8 \<Rightarrow> u8" where
  "swap_byte b = drop_bit 4 (b AND 0xF0) OR push_bit 4 (b AND 0x0F)"

definition hex_upper :: string where
  "hex_upper = ''0123456789ABCDEF''"

definition raw_of :: "tlsh_digest \<Rightarrow> u8 list" where
  "raw_of d = [swap_byte (d_checksum d), swap_byte (Lvalue d), swap_byte (Q1ratio d OR push_bit 4 (Q2ratio d))] @
     map (\<lambda>i. tmp_code d ! (TLSH_CODE_SIZE - 1 - i)) [0..<TLSH_CODE_SIZE]"

definition tlsh_to_hex :: "tlsh_digest \<Rightarrow> string" where
  "tlsh_to_hex d = concat (map (\<lambda>b. [hex_upper ! unat (drop_bit 4 b), hex_upper ! unat (b AND 0x0F)]) (raw_of d))"

definition hex_nibble :: "char \<Rightarrow> u8 option" where
  "hex_nibble c =
     (if ccode CHR ''0'' \<le> ccode c \<and> ccode c \<le> ccode CHR ''9'' then Some (of_nat (ccode c - ccode CHR ''0''))
      else if ccode CHR ''A'' \<le> ccode c \<and> ccode c \<le> ccode CHR ''F'' then Some (of_nat (ccode c - ccode CHR ''A'' + 10))
      else if ccode CHR ''a'' \<le> ccode c \<and> ccode c \<le> ccode CHR ''f'' then Some (of_nat (ccode c - ccode CHR ''a'' + 10))
      else None)"

definition raw_byte :: "string \<Rightarrow> nat \<Rightarrow> u8 option" where
  "raw_byte str i = do { hi \<leftarrow> hex_nibble (str ! (2 * i)); lo \<leftarrow> hex_nibble (str ! (2 * i + 1));
                         Some (push_bit 4 hi OR lo) }"

definition tlsh_from_hex :: "string \<Rightarrow> tlsh_digest option" where
  "tlsh_from_hex str =
     (if length str \<noteq> TLSH_DIGEST_HEXLEN then None
      else do {
        raw \<leftarrow> those (map (raw_byte str) [0..<3 + TLSH_CODE_SIZE]);
        let qb = swap_byte (raw ! 2);
        Some \<lparr>d_checksum = swap_byte (raw ! 0), Lvalue = swap_byte (raw ! 1),
              Q1ratio = qb AND 0x0F, Q2ratio = drop_bit 4 qb AND 0x0F,
              tmp_code = map (\<lambda>i. raw ! (3 + (TLSH_CODE_SIZE - 1 - i))) [0..<TLSH_CODE_SIZE]\<rparr> })"

section \<open>Length classes\<close>

definition len_class :: "u32 \<Rightarrow> nat" where
  "len_class len = length (takeWhile (\<lambda>t. t < len) topval)"

lemma length_topval: "length topval = 170"
  by (simp add: topval_def)

lemma topval_increasing: "sorted_wrt (<) topval"
proof -
  have "successively (<) topval" by code_simp
  then show ?thesis by (simp add: successively_conv_sorted_wrt)
qed

lemma len_class_bound: "len_class len \<le> 170"
  unfolding len_class_def length_topval [symmetric] by (rule length_takeWhile_le)

lemma topval_less_iff: "i < 170 \<Longrightarrow> topval ! i < len \<longleftrightarrow> i < len_class len"
proof -
  assume i: "i < 170"
  show ?thesis
  proof
    assume "i < len_class len"
    then show "topval ! i < len" unfolding len_class_def
      by (metis nth_mem set_takeWhileD takeWhile_nth)
  next
    assume l: "topval ! i < len"
    show "i < len_class len"
    proof (rule ccontr)
      assume "\<not> i < len_class len"
      then have b: "len_class len \<le> i" by simp
      then have "\<not> topval ! len_class len < len"
        unfolding len_class_def using i by (intro nth_length_takeWhile) (simp add: length_topval flip: len_class_def)
      moreover have "topval ! len_class len \<le> topval ! i"
        using b i topval_increasing by (cases "len_class len = i") (auto simp: sorted_wrt_iff_nth_less length_topval less_imp_le)
      ultimately show False using l by simp
    qed
  qed
qed

lemma bisect_spec:
  assumes "bottom \<le> len_class len" "len_class len \<le> upper" "len_class len < 170" "idx = (bottom + upper) div 2" "upper \<le> 170"
    "bottom = 0 \<longrightarrow> upper \<in> {170, 84, 41, 19, 8, 3, 0}"
  shows "bisect len bottom upper idx = Some (of_nat (len_class len))"
  using assms
proof (induction "upper - bottom" arbitrary: bottom upper idx rule: less_induct)
  case less
  let ?B = "len_class len"
  show ?case
  proof (cases "idx = 0")
    case True
    then have "bottom = 0" "upper = 0" using less.prems by auto
    then show ?thesis using less.prems True by (subst bisect.simps) simp
  next
    case False
    have lt: "idx < 170" using less.prems by auto
    have get: "aget topval idx = Some (topval ! idx)" "aget topval (idx - 1) = Some (topval ! (idx - 1))"
      using lt by (simp_all add: aget_def length_topval)
    have lo: "len > topval ! (idx - 1) \<longleftrightarrow> idx \<le> ?B" using topval_less_iff [of "idx - 1" len] lt False by auto
    have hi: "len \<le> topval ! idx \<longleftrightarrow> ?B \<le> idx" using topval_less_iff [of idx len] lt by auto
    consider "idx = ?B" | "?B < idx" | "idx < ?B" by linarith
    then show ?thesis
    proof cases
      case 1
      then show ?thesis using get lo hi False by (subst bisect.simps) simp
    next
      case 2
      have "len < topval ! idx"
      proof -
        have "topval ! (idx - 1) < topval ! idx"
          using topval_increasing lt False by (simp add: sorted_wrt_iff_nth_less length_topval)
        moreover have "len \<le> topval ! (idx - 1)" using lo 2 by auto
        ultimately show ?thesis by simp
      qed
      moreover have "bisect len bottom (idx - 1) ((bottom + (idx - 1)) div 2) = Some (of_nat ?B)"
        using less.prems 2 False by (intro less.hyps) auto
      ultimately show ?thesis using get lo 2 False by (subst bisect.simps) simp
    next
      case 3
      have "bisect len (idx + 1) upper ((idx + 1 + upper) div 2) = Some (of_nat ?B)"
        using less.prems 3 False by (intro less.hyps) auto
      moreover have "\<not> len \<le> topval ! idx" using hi 3 by auto
      ultimately show ?thesis using get 3 False by (subst bisect.simps) auto
    qed
  qed
qed

lemma l_capturing_class:
  "l_capturing len = Some (of_nat (min 169 (length (takeWhile (\<lambda>t. t < len) topval))))"
proof -
  have g: "aget topval 169 = Some (topval ! 169)" by (simp add: aget_def length_topval)
  have i: "topval ! 169 < len \<longleftrightarrow> 169 < len_class len" by (rule topval_less_iff) simp
  show ?thesis
  proof (cases "topval ! 169 < len")
    case True
    then show ?thesis using g i by (simp add: l_capturing_def min_def flip: len_class_def)
  next
    case False
    then have "bisect len 0 170 85 = Some (of_nat (len_class len))" using i by (intro bisect_spec) auto
    then show ?thesis using g i False by (simp add: l_capturing_def min_def flip: len_class_def)
  qed
qed

text \<open>The length class is always found: the bisection ends for every 32-bit length, reads no
  entry outside the 170-entry table, and gives the first class whose breakpoint reaches the length,
  or the last class for a length past the table.\<close>

theorem l_capturing_exact:
  "\<exists>c < 170. l_capturing len = Some (of_nat c) \<and> (c = 0 \<or> topval ! (c - 1) < len) \<and>
     (len \<le> topval ! c \<or> c = 169)"
proof (intro exI conjI)
  let ?c = "min 169 (len_class len)"
  show "?c < 170" by simp
  show "l_capturing len = Some (of_nat ?c)" using l_capturing_class by (simp add: len_class_def)
  show "?c = 0 \<or> topval ! (?c - 1) < len" using topval_less_iff [of "?c - 1" len] by auto
  show "len \<le> topval ! ?c \<or> ?c = 169" using topval_less_iff [of ?c len] by (auto simp: min_def not_le)
qed

section \<open>The reference digest\<close>

text \<open>The bytes at distance \<open>0\<close> to \<open>4\<close> before position \<open>i\<close>, the six triplet hashes of that window,
  and the checksum and bucket counts of a whole message.\<close>

definition triplets :: "u8 list \<Rightarrow> nat \<Rightarrow> u8 list" where
  "triplets M i = (let b = (\<lambda>k. M ! (i - k)) in
     [fast_b_mapping 49 (b 0) (b 1) (b 2), fast_b_mapping 12 (b 0) (b 1) (b 3),
      fast_b_mapping 178 (b 0) (b 2) (b 3), fast_b_mapping 166 (b 0) (b 2) (b 4),
      fast_b_mapping 84 (b 0) (b 1) (b 4), fast_b_mapping 230 (b 0) (b 3) (b 4)])"

definition all_triplets :: "u8 list \<Rightarrow> u8 list" where
  "all_triplets M = concat (map (triplets M) [4..<length M])"

definition bucket_counts :: "u8 list \<Rightarrow> u32 list" where
  "bucket_counts M = map (\<lambda>k. of_nat (count_list (all_triplets M) (of_nat k))) [0..<256]"

definition msg_checksum :: "u8 list \<Rightarrow> u8" where
  "msg_checksum M = foldl (\<lambda>c i. fast_b_mapping 1 (M ! i) (M ! (i - 1)) c) 0 [4..<length M]"

definition reference_digest :: "u8 list \<Rightarrow> tlsh_digest option" where
  "reference_digest M =
     (let a = bucket_counts M; s = sort (take 128 a); q1 = s ! 31; q2 = s ! 63; q3 = s ! 95 in
      if length M < 50 \<or> q3 = 0 \<or> length (filter (\<lambda>k. 0 < k) (take 128 a)) \<le> 64 then None
      else Some \<lparr>d_checksum = msg_checksum M,
                 Lvalue = of_nat (min 169 (length (takeWhile (\<lambda>t. unat t < length M) topval))),
                 Q1ratio = of_nat (unat q1 * 100 div unat q3 mod 16),
                 Q2ratio = of_nat (unat q2 * 100 div unat q3 mod 16),
                 tmp_code = map (\<lambda>i. \<Sum>j\<leftarrow>[0..<4]. quart_code q1 q2 q3 (a ! (4 * i + j)) j) [0..<32]\<rparr>)"

section \<open>Streaming\<close>

text \<open>What the loop state holds after the message \<open>M\<close>: the counts, the last five bytes at their
  positions modulo five, and the checksum.\<close>

definition loop_rep :: "u8 list \<Rightarrow> u32 list \<times> u8 list \<times> u8 \<Rightarrow> bool" where
  "loop_rep M = (\<lambda>(a, sw, chk). a = bucket_counts M \<and> length sw = 5 \<and>
     (\<forall>i < length M. length M \<le> i + 5 \<longrightarrow> sw ! (i mod 5) = M ! i) \<and> chk = msg_checksum M)"

lemma loop_rep_init: "loop_rep [] (replicate 256 0, replicate 5 0, 0)"
  by (simp add: loop_rep_def bucket_counts_def all_triplets_def msg_checksum_def map_replicate_const)

lemma hit_counts:
  "hit (map (\<lambda>k. of_nat (count_list xs (of_nat k))) [0..<256]) r =
   map (\<lambda>k. of_nat (count_list (xs @ [r]) (of_nat k))) [0..<256]"
proof -
  have "unat r < 256" using unsigned_less [of r] by simp
  moreover have eq: "r = of_nat k \<longleftrightarrow> unat r = k" if "k < 256" for k
  proof -
    have "unat (of_nat k :: u8) = k" using that by (simp add: unat_of_nat take_bit_eq_mod)
    then show ?thesis by auto
  qed
  ultimately show ?thesis
    by (intro nth_equalityI) (auto simp: hit_def nth_list_update eq simp del: unsigned_of_nat)
qed

lemma hits_counts:
  "foldl hit (map (\<lambda>k. of_nat (count_list xs (of_nat k))) [0..<256]) rs =
   map (\<lambda>k. of_nat (count_list (xs @ rs) (of_nat k))) [0..<256]"
proof (induction rs arbitrary: xs)
  case (Cons r rs)
  show ?case using Cons.IH [of "xs @ [r]"] by (simp only: foldl_Cons hit_counts append_assoc append_Cons append_Nil)
qed simp

lemma triplets_append: "i < length M \<Longrightarrow> triplets (M @ xs) i = triplets M i"
proof -
  assume "i < length M"
  then have "(M @ xs) ! (i - k) = M ! (i - k)" for k by (simp add: nth_append less_imp_diff_less)
  then show ?thesis by (simp only: triplets_def Let_def)
qed

lemma all_triplets_snoc:
  "all_triplets (M @ [x]) = (if 4 \<le> length M then all_triplets M @ triplets (M @ [x]) (length M) else all_triplets M)"
proof -
  have "map (triplets (M @ [x])) [4..<length M] = map (triplets M) [4..<length M]"
    by (simp add: triplets_append)
  then show ?thesis unfolding all_triplets_def by (simp only: length_append_singleton upt_Suc map_append concat_append if_distrib) simp
qed

lemma nth_snoc_prev: "4 \<le> length M \<Longrightarrow> (M @ [x]) ! (length M - 1) = last M"
  by (cases M rule: rev_cases) (simp_all add: nth_append)

lemma msg_checksum_snoc:
  "msg_checksum (M @ [x]) =
    (if 4 \<le> length M then fast_b_mapping 1 x (last M) (msg_checksum M) else msg_checksum M)"
proof -
  have "foldl (\<lambda>c i. fast_b_mapping 1 ((M @ [x]) ! i) ((M @ [x]) ! (i - 1)) c) 0 [4..<length M] =
    foldl (\<lambda>c i. fast_b_mapping 1 (M ! i) (M ! (i - 1)) c) 0 [4..<length M]"
    by (intro foldl_cong) (auto simp: nth_append)
  then show ?thesis unfolding msg_checksum_def
    by (cases "4 \<le> length M") (simp_all add: nth_snoc_prev del: One_nat_def)
qed

lemma back_mod5: "k \<le> 4 \<Longrightarrow> 4 \<le> n \<Longrightarrow> (n mod 5 + 5 - k) mod 5 = (n - k) mod (5 :: nat)"
proof -
  assume k: "k \<le> 4" "4 \<le> n"
  have "(n - k) + 5 = (n mod 5 + 5 - k) + 5 * (n div 5)"
    using k mod_mult_div_eq [of n 5] by linarith
  then have "((n - k) + 5) mod 5 = ((n mod 5 + 5 - k) + 5 * (n div 5)) mod 5" by (rule arg_cong)
  then show ?thesis by simp
qed

lemma feed_byte_rep:
  assumes "loop_rep M (a, sw, chk)" "length M < 2 ^ 32"
  shows "loop_rep (M @ [x]) (feed_byte x (of_nat (length M)) (length M mod 5) (a, sw, chk))"
proof -
  let ?n = "length M" and ?j = "length M mod 5"
  have a: "a = bucket_counts M" and sw: "length sw = 5" and chk: "chk = msg_checksum M"
    and win: "\<forall>i < ?n. ?n \<le> i + 5 \<longrightarrow> sw ! (i mod 5) = M ! i"
    using assms(1) by (simp_all add: loop_rep_def)
  have win': "sw[?j := x] ! (i mod 5) = (M @ [x]) ! i" if "i < ?n + 1" "?n + 1 \<le> i + 5" for i
  proof (cases "i = ?n")
    case False
    then have "i < ?n" "?n < i + 5" using that by simp_all
    then have "i mod 5 \<noteq> ?j" using mod_eq_dvd_iff_nat [of i ?n 5] by (auto dest: dvd_imp_le)
    then show ?thesis using False that win by (simp add: nth_append)
  qed (use sw in simp)
  have fed: "(of_nat (SLIDING_WND_SIZE - 1) \<le> (of_nat ?n :: u32)) \<longleftrightarrow> 4 \<le> ?n"
    using assms(2) by (simp add: word_le_nat_alt unat_of_nat take_bit_eq_mod)
  show ?thesis
  proof (cases "4 \<le> ?n")
    case False
    then show ?thesis using win' a chk sw fed
      by (simp add: feed_byte_def loop_rep_def bucket_counts_def all_triplets_snoc msg_checksum_snoc)
  next
    case True
    have behind: "sw[?j := x] ! ((?j + 5 - k) mod 5) = (M @ [x]) ! (?n - k)" if "k \<le> 4" for k
      using win' [of "?n - k"] back_mod5 [OF that True] that True by simp
    have "(1 :: nat) \<le> 4" "(2 :: nat) \<le> 4" "(3 :: nat) \<le> 4" "(4 :: nat) \<le> 4" by simp_all
    note atk = this [THEN behind]
    have j0: "sw[?j := x] ! ?j = x" using sw by simp
    have tr: "triplets (M @ [x]) ?n = [fast_b_mapping 49 x ((M @ [x]) ! (?n - 1)) ((M @ [x]) ! (?n - 2)),
       fast_b_mapping 12 x ((M @ [x]) ! (?n - 1)) ((M @ [x]) ! (?n - 3)),
       fast_b_mapping 178 x ((M @ [x]) ! (?n - 2)) ((M @ [x]) ! (?n - 3)),
       fast_b_mapping 166 x ((M @ [x]) ! (?n - 2)) ((M @ [x]) ! (?n - 4)),
       fast_b_mapping 84 x ((M @ [x]) ! (?n - 1)) ((M @ [x]) ! (?n - 4)),
       fast_b_mapping 230 x ((M @ [x]) ! (?n - 3)) ((M @ [x]) ! (?n - 4))]"
      by (simp add: triplets_def)
    have l: "(M @ [x]) ! (?n - 1) = last M" using True by (rule nth_snoc_prev)
    have "feed_byte x (of_nat ?n) ?j (a, sw, chk) =
      (foldl hit a (triplets (M @ [x]) ?n), sw[?j := x], fast_b_mapping 1 x (last M) chk)"
      unfolding feed_byte_def Let_def prod.case
      by (simp only: True fed if_True j0 atk l [symmetric] tr foldl_Cons foldl_Nil)
    moreover have "foldl hit a (triplets (M @ [x]) ?n) = bucket_counts (M @ [x])"
      unfolding a bucket_counts_def hits_counts using True by (simp only: all_triplets_snoc if_True)
    ultimately show ?thesis using True win' sw chk by (simp add: loop_rep_def msg_checksum_snoc)
  qed
qed

lemma feed_loop_rep:
  "loop_rep M st \<Longrightarrow> length M + length xs \<le> 2 ^ 32 \<Longrightarrow>
    loop_rep (M @ xs) (feed_loop xs (of_nat (length M)) (length M mod 5) st)"
proof (induction xs arbitrary: M st)
  case (Cons x xs)
  have "loop_rep (M @ [x]) (feed_byte x (of_nat (length M)) (length M mod 5) st)"
    using feed_byte_rep [of M "fst st" "fst (snd st)" "snd (snd st)"] Cons.prems by simp
  from Cons.IH [OF this] Cons.prems show ?case by (simp add: mod_Suc_eq add.commute)
qed simp

text \<open>A context that has consumed the message \<open>M\<close>.\<close>

definition ctx_holds :: "u8 list \<Rightarrow> tlsh_ctx \<Rightarrow> bool" where
  "ctx_holds M ctx \<longleftrightarrow> \<not> alloc_failed ctx \<and> length M < 2 ^ 32 \<and> data_len ctx = of_nat (length M) \<and>
     (a_bucket ctx = None \<longrightarrow> M = []) \<and>
     loop_rep M (case a_bucket ctx of Some a \<Rightarrow> a | None \<Rightarrow> replicate 256 0, slide_window ctx, checksum ctx)"

lemma ctx_holds_init: "ctx_holds [] tlsh_init"
  using loop_rep_init by (simp add: ctx_holds_def tlsh_init_def)

lemma unat_of_len: "n < 2 ^ 32 \<Longrightarrow> unat (of_nat n :: u32) = n"
  by (simp add: unat_of_nat take_bit_eq_mod)

lemma tlsh_update_holds:
  assumes "ctx_holds M ctx" "calloc_ok \<or> a_bucket ctx \<noteq> None" "length M + length data < 2 ^ 32"
  shows "ctx_holds (M @ data) (tlsh_update calloc_ok data ctx)" "a_bucket (tlsh_update calloc_ok data ctx) \<noteq> None"
proof -
  define a0 where "a0 = (case a_bucket ctx of Some a \<Rightarrow> a | None \<Rightarrow> replicate BUCKET_COUNT 0)"
  obtain a sw chk where f: "feed_loop data (data_len ctx) (unat (data_len ctx) mod 5) (a0, slide_window ctx, checksum ctx) = (a, sw, chk)"
    by (metis prod_cases3)
  have "loop_rep (M @ data) (a, sw, chk)"
    using feed_loop_rep [of M "(a0, slide_window ctx, checksum ctx)" data] assms f
    by (simp add: ctx_holds_def a0_def unat_of_len)
  then show "ctx_holds (M @ data) (tlsh_update calloc_ok data ctx)" "a_bucket (tlsh_update calloc_ok data ctx) \<noteq> None"
    using assms f by (auto simp: tlsh_update_def ctx_holds_def Let_def a0_def [symmetric] split: prod.splits)
qed

text \<open>A failed allocation is final.\<close>

lemma tlsh_update_failed: "alloc_failed ctx \<Longrightarrow> tlsh_update ok data ctx = ctx"
  by (simp add: tlsh_update_def)

lemma tlsh_update_fails: "\<not> alloc_failed ctx \<Longrightarrow> a_bucket ctx = None \<Longrightarrow> alloc_failed (tlsh_update False data ctx)"
  by (simp add: tlsh_update_def)

lemma length_bucket_counts [simp]: "length (bucket_counts M) = 256"
  by (simp add: bucket_counts_def)

lemma nonzero_product:
  assumes "128 \<le> length a"
  shows "length (filter (\<lambda>(i, j). P (a ! (4 * i + j))) (List.product [0..<32] [0..<4])) = length (filter P (take 128 a))"
proof -
  have i: "map (\<lambda>(i, j). 4 * i + j) (List.product [0..<32] [0..<4]) = [0..<128]" by code_simp
  have "take 128 a = map (\<lambda>k. a ! k) [0..<128]" using assms by (intro nth_equalityI) simp_all
  also have "\<dots> = map (\<lambda>(i, j). a ! (4 * i + j)) (List.product [0..<32] [0..<4])"
    unfolding i [symmetric] by (simp add: split_def comp_def)
  finally show ?thesis by (simp add: filter_map split_def comp_def)
qed

lemma code_byte_sum: "code_byte q1 q2 q3 a i = (\<Sum>j\<leftarrow>[0..<4]. quart_code q1 q2 q3 (a ! (4 * i + j)) j)"
  by (simp add: code_byte_def upt_rec)

lemma ratio_word: "ucast ((ucast q :: u64) * 100 div ucast (r :: u32) mod 16) = (of_nat (unat q * 100 div unat r mod 16) :: u8)"
  for q :: u32
proof -
  have q: "unat q < 2 ^ 32" using unsigned_less [of q] by simp
  have u: "unat (ucast w :: u64) = unat w" for w :: u32
  proof -
    have "unat w < 2 ^ 32" using unsigned_less [of w] by simp
    then show ?thesis by (simp add: unsigned_ucast_eq take_bit_eq_mod)
  qed
  have "unat ((ucast q :: u64) * 100) = unat q * 100"
    using q by (simp add: unat_word_ariths u)
  then have "unat ((ucast q :: u64) * 100 div ucast r mod 16) = unat q * 100 div unat r mod 16"
    by (simp add: unat_mod_distrib unat_div_distrib u)
  then show ?thesis by (metis of_nat_unat)
qed

lemma tlsh_final_holds:
  assumes "ctx_holds M ctx"
  shows "tlsh_final ctx = Some (reference_digest M, tlsh_free ctx)"
proof -
  have len: "length M < 2 ^ 32" and dl: "data_len ctx = of_nat (length M)" and nf: "\<not> alloc_failed ctx"
    using assms by (simp_all add: ctx_holds_def)
  have short: "data_len ctx < of_nat 50 \<longleftrightarrow> length M < 50"
    using len by (simp add: dl word_less_nat_alt unat_of_len)
  have tw: "takeWhile (\<lambda>t. t < of_nat (length M)) topval = takeWhile (\<lambda>t. unat t < length M) topval"
    using len by (simp add: word_less_nat_alt unat_of_len)
  show ?thesis
  proof (cases "length M < 50")
    case True
    then show ?thesis using short by (simp add: tlsh_final_def reference_digest_def Let_def)
  next
    case False
    then have "M \<noteq> []" by auto
    then have a: "a_bucket ctx = Some (bucket_counts M)" and chk: "checksum ctx = msg_checksum M"
      using assms by (auto simp: ctx_holds_def loop_rep_def split: option.splits)
    define q1 q2 q3 where "q1 = sort (take 128 (bucket_counts M)) ! 31" and "q2 = sort (take 128 (bucket_counts M)) ! 63"
      and "q3 = sort (take 128 (bucket_counts M)) ! 95"
    have fq: "find_quartile (bucket_counts M) = Some (q1, q2, q3)"
      unfolding q1_def q2_def q3_def by (rule find_quartile_ranks) simp
    have lc: "l_capturing (data_len ctx) = Some (of_nat (min 169 (length (takeWhile (\<lambda>t. unat t < length M) topval))))"
      unfolding dl l_capturing_class tw ..
    have nz: "length (filter (\<lambda>(i, j). 0 < bucket_counts M ! (4 * i + j)) (List.product [0..<32] [0..<4])) =
      length (filter (\<lambda>k. 0 < k) (take 128 (bucket_counts M)))"
      by (rule nonzero_product) simp
    show ?thesis
      unfolding tlsh_final_def reference_digest_def Let_def
      using False short nf
      by (simp add: a fq lc nz chk ratio_word code_byte_sum [abs_def] del: of_nat_numeral flip: q1_def q2_def q3_def)
  qed
qed

section \<open>The hexadecimal form is a bijection\<close>

text \<open>The digests that the format can carry, and the case folding of hexadecimal letters.\<close>

definition digest_wf :: "tlsh_digest \<Rightarrow> bool" where
  "digest_wf d \<longleftrightarrow> Q1ratio d < 16 \<and> Q2ratio d < 16 \<and> length (tmp_code d) = TLSH_CODE_SIZE"

definition hex_up :: "char \<Rightarrow> char" where
  "hex_up c = (if 97 \<le> ccode c \<and> ccode c \<le> 102 then char_of (ccode c - 32) else c)"

text \<open>Facts on single bytes and nibbles are checked on all of them.\<close>

lemma all_u8: "(\<And>k. k \<in> set [0..<256] \<Longrightarrow> P (of_nat k)) \<Longrightarrow> P (b :: u8)"
proof -
  assume a: "\<And>k. k \<in> set [0..<256] \<Longrightarrow> P (of_nat k)"
  have "unat b < 256" using unsigned_less [of b] by simp
  then have "P (of_nat (unat b))" by (intro a) simp
  then show "P b" by simp
qed

lemma all_nibble: "(\<And>k. k \<in> set [0..<16] \<Longrightarrow> P (of_nat k)) \<Longrightarrow> b < 16 \<Longrightarrow> P (b :: u8)"
proof -
  assume a: "\<And>k. k \<in> set [0..<16] \<Longrightarrow> P (of_nat k)" "b < 16"
  then have "unat b < 16" by (simp add: word_less_nat_alt)
  then have "P (of_nat (unat b))" by (intro a) simp
  then show "P b" by simp
qed

definition byte_ok :: "u8 \<Rightarrow> bool" where
  "byte_ok b \<longleftrightarrow> swap_byte (swap_byte b) = b \<and> push_bit 4 (drop_bit 4 b) OR (b AND 0xF) = b \<and>
     (b AND 0xF) OR push_bit 4 (drop_bit 4 b AND 0xF) = b \<and>
     b AND 0xF < 16 \<and> drop_bit 4 b < 16 \<and> drop_bit 4 b AND 0xF < 16"

definition nibbles_ok :: "u8 \<Rightarrow> u8 \<Rightarrow> bool" where
  "nibbles_ok hi lo \<longleftrightarrow> drop_bit 4 (push_bit 4 hi OR lo) = hi \<and> (push_bit 4 hi OR lo) AND 0xF = lo \<and>
     (lo OR push_bit 4 hi) AND 0xF = lo \<and> drop_bit 4 (lo OR push_bit 4 hi) AND 0xF = hi"

lemma byte_ok: "byte_ok b"
proof (rule all_u8)
  have "\<forall>k \<in> set [0..<256]. byte_ok (of_nat k)" by code_simp
  then show "k \<in> set [0..<256] \<Longrightarrow> byte_ok (of_nat k)" for k by (rule bspec)
qed

lemma nibbles_ok: "hi < 16 \<Longrightarrow> lo < 16 \<Longrightarrow> nibbles_ok hi lo"
proof -
  assume h: "hi < 16" and l: "lo < 16"
  have *: "\<forall>k \<in> set [0..<16]. \<forall>m \<in> set [0..<16]. nibbles_ok (of_nat k) (of_nat m)" by code_simp
  show ?thesis
  proof (rule all_nibble [OF _ h])
    fix k assume k: "k \<in> set [0..<16]"
    show "nibbles_ok (of_nat k) lo"
      by (rule all_nibble [OF _ l]) (rule bspec [OF bspec [OF * k]])
  qed
qed

lemma hex_nibble_upper: "n < 16 \<Longrightarrow> hex_nibble (hex_upper ! n) = Some (of_nat n)"
proof -
  have "\<forall>n \<in> set [0..<16]. hex_nibble (hex_upper ! n) = Some (of_nat n)" by code_simp
  then show "n < 16 \<Longrightarrow> hex_nibble (hex_upper ! n) = Some (of_nat n)" by (simp only: set_upt atLeastLessThan_iff) simp
qed
definition hex_value :: "nat \<Rightarrow> nat" where
  "hex_value n = (if n \<le> 57 then n - 48 else if n \<le> 70 then n - 55 else n - 87)"

lemma hex_upper_value:
  "n \<in> set ([48..<58] @ [65..<71] @ [97..<103]) \<Longrightarrow>
    hex_upper ! hex_value n = char_of (if 97 \<le> n then n - 32 else n)"
proof -
  have "\<forall>n \<in> set ([48..<58] @ [65..<71] @ [97..<103]).
    hex_upper ! hex_value n = char_of (if 97 \<le> n then n - 32 else n)"
    by (simp add: hex_upper_def hex_value_def upt_rec char_of_def bit_Suc_0_iff bit_0)
  then show "n \<in> set ([48..<58] @ [65..<71] @ [97..<103]) \<Longrightarrow>
    hex_upper ! hex_value n = char_of (if 97 \<le> n then n - 32 else n)" by (rule bspec)
qed

lemma hex_nibble_value: "hex_nibble c = (if isxdigit c then Some (of_nat (hex_value (ccode c))) else None)"
  by (auto simp: hex_nibble_def isxdigit_def hex_value_def ccode_def)

lemma hex_nibble_Some:
  assumes "hex_nibble c = Some v"
  shows "isxdigit c" "v < 16" "hex_upper ! unat v = hex_up c"
proof -
  show x: "isxdigit c" using assms by (simp add: hex_nibble_value split: if_splits)
  then have n: "ccode c \<in> set ([48..<58] @ [65..<71] @ [97..<103])"
    unfolding set_append set_upt by (auto simp: isxdigit_def)
  have v: "v = of_nat (hex_value (ccode c))" using assms x by (simp add: hex_nibble_value)
  have "hex_value (ccode c) < 16" using x by (auto simp: hex_value_def isxdigit_def)
  then have u: "unat v = hex_value (ccode c)" by (simp add: v unat_of_nat take_bit_eq_mod)
  show "v < 16" using u \<open>hex_value (ccode c) < 16\<close> by (simp add: word_less_nat_alt)
  show "hex_upper ! unat v = hex_up c"
    using hex_upper_value [OF n] x unfolding u by (auto simp: hex_up_def ccode_def isxdigit_def)
qed

lemma hex_pair_nth:
  "i < length bs \<Longrightarrow> concat (map (\<lambda>b. [f b, g b]) bs) ! (2 * i) = f (bs ! i) \<and>
     concat (map (\<lambda>b. [f b, g b]) bs) ! (2 * i + 1) = g (bs ! i)"
proof (induction bs arbitrary: i)
  case (Cons b bs)
  then show ?case by (cases i) auto
qed simp

lemma length_hex_pairs: "length (concat (map (\<lambda>b. [f b, g b]) bs)) = 2 * length bs"
  by (induction bs) auto

lemma those_Some: "those (map f xs) = Some ys \<longleftrightarrow> length ys = length xs \<and> (\<forall>i < length xs. f (xs ! i) = Some (ys ! i))"
proof (induction xs arbitrary: ys)
  case (Cons x xs)
  show ?case
  proof (cases ys)
    case (Cons y ys')
    then show ?thesis using Cons.IH [of ys'] by (auto simp: nth_Cons split: option.splits nat.splits)
  qed (auto split: option.splits)
qed auto

lemma those_None: "those (map f xs) = None \<longleftrightarrow> (\<exists>x \<in> set xs. f x = None)"
  by (induction xs) (auto split: option.splits)

lemma length_raw_of [simp]: "length (raw_of d) = 35"
  by (simp add: raw_of_def)

lemma to_hex_nth:
  assumes "i < 35"
  shows "tlsh_to_hex d ! (2 * i) = hex_upper ! unat (drop_bit 4 (raw_of d ! i))"
    "tlsh_to_hex d ! (2 * i + 1) = hex_upper ! unat (raw_of d ! i AND 0xF)"
  using hex_pair_nth [of i "raw_of d" "\<lambda>b. hex_upper ! unat (drop_bit 4 b)" "\<lambda>b. hex_upper ! unat (b AND 0xF)"] assms
  by (simp_all add: tlsh_to_hex_def)

lemma length_to_hex [simp]: "length (tlsh_to_hex d) = 70"
  by (simp add: tlsh_to_hex_def length_hex_pairs)

lemma raw_byte_to_hex:
  assumes "i < 35"
  shows "raw_byte (tlsh_to_hex d) i = Some (raw_of d ! i)"
proof -
  let ?b = "raw_of d ! i"
  have b: "byte_ok ?b" by (rule byte_ok)
  have "unat (drop_bit 4 ?b) < 16" "unat (?b AND 0xF) < 16"
    using b by (simp_all add: byte_ok_def word_less_nat_alt)
  then have n: "hex_nibble (hex_upper ! unat (drop_bit 4 ?b)) = Some (drop_bit 4 ?b)"
    "hex_nibble (hex_upper ! unat (?b AND 0xF)) = Some (?b AND 0xF)"
    by (simp_all only: hex_nibble_upper of_nat_unat ucast_id)
  have j: "push_bit 4 (drop_bit 4 ?b) OR (?b AND 0xF) = ?b" using b by (simp only: byte_ok_def)
  show ?thesis
    unfolding raw_byte_def to_hex_nth [OF assms] n by (simp only: bind.bind_lunit j)
qed

text \<open>The digest that 35 raw bytes stand for.\<close>

definition of_raw :: "u8 list \<Rightarrow> tlsh_digest" where
  "of_raw raw = \<lparr>d_checksum = swap_byte (raw ! 0), Lvalue = swap_byte (raw ! 1),
     Q1ratio = swap_byte (raw ! 2) AND 0x0F, Q2ratio = drop_bit 4 (swap_byte (raw ! 2)) AND 0x0F,
     tmp_code = map (\<lambda>i. raw ! (3 + (TLSH_CODE_SIZE - 1 - i))) [0..<TLSH_CODE_SIZE]\<rparr>"

lemma tlsh_from_hex_raw:
  "tlsh_from_hex s = Some d \<longleftrightarrow> length s = 70 \<and>
    (\<exists>raw. length raw = 35 \<and> (\<forall>i < 35. raw_byte s i = Some (raw ! i)) \<and> d = of_raw raw)"
proof -
  have "tlsh_from_hex s = (if length s = 70 then map_option of_raw (those (map (raw_byte s) [0..<35])) else None)"
    by (cases "those (map (raw_byte s) [0..<35])") (simp_all add: tlsh_from_hex_def of_raw_def Let_def)
  then show ?thesis by (auto simp: those_Some)
qed

lemma swap_swap [simp]: "swap_byte (swap_byte b) = b"
  using byte_ok [of b] by (simp add: byte_ok_def)

lemma raw_of_nth:
  "raw_of d ! 0 = swap_byte (d_checksum d)" "raw_of d ! 1 = swap_byte (Lvalue d)"
  "raw_of d ! 2 = swap_byte (Q1ratio d OR push_bit 4 (Q2ratio d))"
  "i < 32 \<Longrightarrow> raw_of d ! (3 + i) = tmp_code d ! (31 - i)"
  by (simp_all add: raw_of_def nth_append)

lemma of_raw_of: "digest_wf d \<Longrightarrow> of_raw (raw_of d) = d"
proof -
  assume wf: "digest_wf d"
  have "nibbles_ok (Q2ratio d) (Q1ratio d)" using wf by (intro nibbles_ok) (simp_all add: digest_wf_def)
  then have q: "(Q1ratio d OR push_bit 4 (Q2ratio d)) AND 0xF = Q1ratio d"
    "drop_bit 4 (Q1ratio d OR push_bit 4 (Q2ratio d)) AND 0xF = Q2ratio d" by (simp_all only: nibbles_ok_def)
  have c: "map (\<lambda>i. raw_of d ! (3 + (32 - 1 - i))) [0..<32] = tmp_code d"
    using wf by (intro nth_equalityI) (simp_all add: digest_wf_def raw_of_nth(4) del: add.commute)
  show ?thesis unfolding of_raw_def raw_of_nth(1-3) c swap_swap q by simp
qed

lemma raw_of_of_raw: "length raw = 35 \<Longrightarrow> raw_of (of_raw raw) = raw"
proof -
  assume len: "length raw = 35"
  have q: "(b AND 0xF) OR push_bit 4 (drop_bit 4 b AND 0xF) = b" for b :: u8
    using byte_ok [of b] by (simp only: byte_ok_def)
  have "raw_of (of_raw raw) = [raw ! 0, raw ! 1, raw ! 2] @ map (\<lambda>i. raw ! (3 + i)) [0..<32]"
    unfolding raw_of_def of_raw_def tlsh_digest.select_convs q swap_swap by simp
  also have "\<dots> = raw" using len by (intro nth_equalityI) (auto simp: nth_append nth_Cons' less_Suc_eq le_Suc_eq numeral_2_eq_2)
  finally show ?thesis .
qed

lemma digest_wf_of_raw: "digest_wf (of_raw raw)"
  using byte_ok [of "swap_byte (raw ! 2)"] by (simp add: digest_wf_def of_raw_def byte_ok_def)

lemma raw_byte_Some:
  "raw_byte s i = Some b \<Longrightarrow> isxdigit (s ! (2 * i)) \<and> isxdigit (s ! (2 * i + 1)) \<and>
     hex_upper ! unat (drop_bit 4 b) = hex_up (s ! (2 * i)) \<and> hex_upper ! unat (b AND 0xF) = hex_up (s ! (2 * i + 1))"
proof -
  assume "raw_byte s i = Some b"
  then obtain hi lo where h: "hex_nibble (s ! (2 * i)) = Some hi" "hex_nibble (s ! (2 * i + 1)) = Some lo"
    "b = push_bit 4 hi OR lo" by (auto simp: raw_byte_def bind_eq_Some_conv)
  have "nibbles_ok hi lo" using hex_nibble_Some(2) [OF h(1)] hex_nibble_Some(2) [OF h(2)] by (rule nibbles_ok)
  then have "drop_bit 4 b = hi" "b AND 0xF = lo" unfolding h(3) by (simp_all only: nibbles_ok_def)
  then show ?thesis using hex_nibble_Some [OF h(1)] hex_nibble_Some [OF h(2)] by simp
qed

lemma even_odd_all:
  assumes "\<forall>i < n. P (2 * i) \<and> P (2 * i + 1)" "k < 2 * n"
  shows "P (k :: nat)"
proof -
  have "k div 2 < n" using assms(2) by simp
  then have "P (2 * (k div 2))" "P (2 * (k div 2) + 1)" using assms(1) by auto
  then show ?thesis by (cases "even k") (auto elim!: oddE evenE)
qed

lemma tlsh_from_hex_defined: "tlsh_from_hex s \<noteq> None \<longleftrightarrow> length s = 70 \<and> (\<forall>c \<in> set s. isxdigit c)"
proof
  assume "tlsh_from_hex s \<noteq> None"
  then obtain d where "tlsh_from_hex s = Some d" by blast
  then obtain raw where r: "length s = 70" "\<forall>i < 35. raw_byte s i = Some (raw ! i)"
    unfolding tlsh_from_hex_raw by blast
  have "isxdigit (s ! k)" if "k < 70" for k
    by (rule even_odd_all [of 35]) (use r(2) raw_byte_Some that in auto)
  then show "length s = 70 \<and> (\<forall>c \<in> set s. isxdigit c)" using r(1) by (metis in_set_conv_nth)
next
  assume h: "length s = 70 \<and> (\<forall>c \<in> set s. isxdigit c)"
  have "raw_byte s i \<noteq> None" if "i < 35" for i
  proof -
    have "isxdigit (s ! (2 * i))" "isxdigit (s ! (2 * i + 1))" using h that by (auto intro!: bspec nth_mem)
    then show ?thesis by (simp add: raw_byte_def hex_nibble_value)
  qed
  then have "those (map (raw_byte s) [0..<35]) \<noteq> None" by (simp add: those_None)
  then show "tlsh_from_hex s \<noteq> None" using h by (auto simp: tlsh_from_hex_def Let_def)
qed

lemma tlsh_from_to_hex: "digest_wf d \<Longrightarrow> tlsh_from_hex (tlsh_to_hex d) = Some d"
  unfolding tlsh_from_hex_raw using raw_byte_to_hex of_raw_of [of d] by (intro conjI exI [of _ "raw_of d"]) simp_all

lemma tlsh_to_from_hex:
  assumes "tlsh_from_hex s = Some e"
  shows "digest_wf e" "tlsh_to_hex e = map hex_up s"
proof -
  obtain raw where r: "length s = 70" "length raw = 35" "\<forall>i < 35. raw_byte s i = Some (raw ! i)" "e = of_raw raw"
    using assms unfolding tlsh_from_hex_raw by blast
  show "digest_wf e" unfolding r(4) by (rule digest_wf_of_raw)
  have "tlsh_to_hex e ! k = hex_up (s ! k)" if "k < 70" for k
    by (rule even_odd_all [of 35])
      (use r(2,3) raw_byte_Some to_hex_nth [of _ e] raw_of_of_raw that in \<open>auto simp: r(4)\<close>)
  then show "tlsh_to_hex e = map hex_up s" using r(1) by (intro nth_equalityI) simp_all
qed

text \<open>C23. The hexadecimal form loses nothing: a well-formed digest is read back from its 70 upper-case
  digits, a string is accepted exactly when it is 70 hexadecimal digits of either case, and the
  digest read prints as that string in upper case.\<close>

theorem tlsh_hex_roundtrip:
  "(digest_wf d \<longrightarrow> tlsh_from_hex (tlsh_to_hex d) = Some d) \<and>
   (tlsh_from_hex s = Some e \<longrightarrow> digest_wf e \<and> tlsh_to_hex e = map hex_up s) \<and>
   (tlsh_from_hex s \<noteq> None \<longleftrightarrow> length s = TLSH_DIGEST_HEXLEN \<and> (\<forall>c \<in> set s. isxdigit c))"
  using tlsh_from_to_hex tlsh_to_from_hex tlsh_from_hex_defined by blast

theorem tlsh_hex_roundtrip_witness:
  "tlsh_from_hex (tlsh_to_hex \<lparr>d_checksum = 0xD6, Lvalue = 15, Q1ratio = 2, Q2ratio = 3, tmp_code = replicate 32 0x1B\<rparr>) =
     Some \<lparr>d_checksum = 0xD6, Lvalue = 15, Q1ratio = 2, Q2ratio = 3, tmp_code = replicate 32 0x1B\<rparr>"
  using tlsh_hex_roundtrip [of "\<lparr>d_checksum = 0xD6, Lvalue = 15, Q1ratio = 2, Q2ratio = 3, tmp_code = replicate 32 0x1B\<rparr>"]
  by (simp add: digest_wf_def)

end
