(* ===== verification/TlshShim.thy ===== *)
theory TlshShim
  imports TlshHash TlshDiffTable
begin

text \<open>
  Comparing two TLSH digests (\<^verbatim>\<open>tlsh_total_diff\<close> of \<^verbatim>\<open>src/userspace/avd/tlsh_core.c\<close>) and the public
  contract of \<^verbatim>\<open>src/userspace/avd/tlsh_shim.c\<close>: hashing a file descriptor within a byte budget and the
  distance of two printed digests. The file is its byte list and a script of what each \<^verbatim>\<open>read\<close> does.
\<close>

section \<open>The distance\<close>

abbreviation RANGE_LVALUE :: u32 where "RANGE_LVALUE \<equiv> 256"
abbreviation RANGE_QRATIO :: u32 where "RANGE_QRATIO \<equiv> 16"
abbreviation LENGTH_MULT :: int where "LENGTH_MULT \<equiv> 12"
abbreviation QRATIO_MULT :: int where "QRATIO_MULT \<equiv> 12"

definition mod_diff :: "u32 \<Rightarrow> u32 \<Rightarrow> u32 \<Rightarrow> int" where
  "mod_diff x y r =
     (let (dl, dr) = (if y > x then (sint (y - x), sint (x + r - y)) else (sint (x - y), sint (y + r - x)))
      in if dl > dr then dr else dl)"

definition h_distance :: "u8 list \<Rightarrow> u8 list \<Rightarrow> nat \<Rightarrow> int" where
  "h_distance x y len = foldl (\<lambda>diff i. diff + bit_pairs_diff_table ! unat (x ! i) ! unat (y ! i)) 0 [0..<len]"

definition tlsh_total_diff :: "tlsh_digest \<Rightarrow> tlsh_digest \<Rightarrow> int" where
  "tlsh_total_diff a b =
     (let ldiff = mod_diff (ucast (Lvalue a)) (ucast (Lvalue b)) RANGE_LVALUE;
          diff0 = (if ldiff = 0 then 0 else if ldiff = 1 then 1 else ldiff * LENGTH_MULT);
          q1diff = mod_diff (ucast (Q1ratio a)) (ucast (Q1ratio b)) RANGE_QRATIO;
          diff1 = diff0 + (if q1diff \<le> 1 then q1diff else (q1diff - 1) * QRATIO_MULT);
          q2diff = mod_diff (ucast (Q2ratio a)) (ucast (Q2ratio b)) RANGE_QRATIO;
          diff2 = diff1 + (if q2diff \<le> 1 then q2diff else (q2diff - 1) * QRATIO_MULT);
          diff3 = (if d_checksum a \<noteq> d_checksum b then diff2 + 1 else diff2)
      in diff3 + h_distance (tmp_code a) (tmp_code b) TLSH_CODE_SIZE)"

definition av_tlsh_diff :: "string \<Rightarrow> string \<Rightarrow> int" where
  "av_tlsh_diff hash_a hash_b =
     (case tlsh_from_hex hash_a of None \<Rightarrow> - 1
      | Some a \<Rightarrow> (case tlsh_from_hex hash_b of None \<Rightarrow> - 1 | Some b \<Rightarrow> tlsh_total_diff a b))"

section \<open>Hashing a file descriptor\<close>

text \<open>What one \<^verbatim>\<open>read\<close> does: deliver up to \<open>k\<close> of the bytes asked for (with the outcome of the
  allocation, if the update makes it), be interrupted by a signal, or fail. Past the script every
  read reports the end of the file.\<close>

datatype read_event = Deliver nat bool | Interrupted | Failed

primrec read_chunks :: "read_event list \<Rightarrow> u8 list \<Rightarrow> nat \<Rightarrow> nat \<Rightarrow> tlsh_ctx \<Rightarrow> bool \<Rightarrow> (tlsh_ctx \<times> bool) option" where
  "read_chunks [] rest tot max_len ctx any = Some (ctx, any)"
| "read_chunks (e # es) rest tot max_len ctx any =
     (if tot < max_len then
        let want = (if max_len - tot < 65536 then max_len - tot else 65536) in
        case e of
          Deliver k calloc_ok \<Rightarrow>
            let d = take (min k want) rest in
            if d = [] then Some (ctx, any)
            else read_chunks es (drop (length d) rest) (tot + length d) max_len (tlsh_update calloc_ok d ctx) True
        | Interrupted \<Rightarrow> read_chunks es rest tot max_len ctx any
        | Failed \<Rightarrow> None
      else Some (ctx, any))"

definition av_tlsh_hash_fd :: "bool \<Rightarrow> read_event list \<Rightarrow> u8 list \<Rightarrow> nat \<Rightarrow> nat \<Rightarrow> (int \<times> string) option" where
  "av_tlsh_hash_fd lseek_ok es content outlen max_len =
     (if \<not> lseek_ok then Some (- 1, [])
      else case read_chunks es content 0 max_len tlsh_init False of
        None \<Rightarrow> Some (- 1, [])
      | Some (ctx, any) \<Rightarrow>
          if \<not> any then Some (- 2, [])
          else (case tlsh_final ctx of
              None \<Rightarrow> None
            | Some (None, _) \<Rightarrow> Some (- 2, [])
            | Some (Some digest, _) \<Rightarrow>
                if TLSH_DIGEST_HEXLEN \<ge> outlen then Some (- 3, []) else Some (0, tlsh_to_hex digest)))"

section \<open>The distance is a symmetric separating measure\<close>

lemma sint_small: "n < 2 ^ 31 \<Longrightarrow> sint (of_nat n :: u32) = int n"
  by (simp add: sint_uint uint_nat unat_of_nat take_bit_eq_mod signed_take_bit_int_eq_self_iff)

lemma mod_diff_int:
  assumes "unat x < n" "unat y < n" "unat r = n" "n \<le> 256"
  shows "mod_diff x y r = min (abs (int (unat x) - int (unat y))) (int n - abs (int (unat x) - int (unat y)))"
proof -
  define a b where "a = unat x" and "b = unat y"
  have w: "x = of_nat a" "y = of_nat b" "r = of_nat n" by (simp_all add: a_def b_def assms(3) [symmetric])
  have ab: "a < n" "b < n" using assms by (simp_all add: a_def b_def)
  have gt: "y > x \<longleftrightarrow> b > a" by (simp add: a_def b_def word_less_nat_alt)
  have up: "sint (y - x) = int b - int a" "sint (x + r - y) = int a + int n - int b" if "b > a"
  proof -
    have "y - x = of_nat (b - a)" "x + r - y = of_nat (a + n - b)" using that ab by (simp_all add: w of_nat_diff)
    then show "sint (y - x) = int b - int a" "sint (x + r - y) = int a + int n - int b"
      using that ab assms(4) sint_small [of "b - a"] sint_small [of "a + n - b"] by (simp_all only:) simp_all
  qed
  have down: "sint (x - y) = int a - int b" "sint (y + r - x) = int b + int n - int a" if "\<not> b > a"
  proof -
    have "x - y = of_nat (a - b)" "y + r - x = of_nat (b + n - a)" using that ab by (simp_all add: w of_nat_diff)
    then show "sint (x - y) = int a - int b" "sint (y + r - x) = int b + int n - int a"
      using that ab assms(4) sint_small [of "a - b"] sint_small [of "b + n - a"] by (simp_all only:) simp_all
  qed
  show ?thesis
    unfolding mod_diff_def gt a_def [symmetric] b_def [symmetric] using up down ab by (simp add: min_def)
qed

lemma h_distance_sum:
  "h_distance x y n = (\<Sum>i\<leftarrow>[0..<n]. byte_diff (uint (x ! i)) (uint (y ! i)))"
proof -
  have e: "bit_pairs_diff_table ! unat b ! unat c = byte_diff (uint b) (uint c)" for b c :: u8
  proof -
    have "unat b < 256" "unat c < 256" using unsigned_less [of b] unsigned_less [of c] by simp_all
    then show ?thesis by (simp add: diff_table_entry)
  qed
  show ?thesis unfolding h_distance_def e by (induction n) simp_all
qed

lemma h_distance_sym: "h_distance x y n = h_distance y x n"
  unfolding h_distance_sum by (simp only: byte_diff_sym)

lemma h_distance_range: "0 \<le> h_distance x y n \<and> h_distance x y n \<le> 24 * int n"
  unfolding h_distance_sum using byte_diff_range
  by (induction n) (auto simp: add_increasing intro: add_mono order_trans)

lemma h_distance_0: "h_distance x y n = 0 \<longleftrightarrow> (\<forall>i < n. x ! i = y ! i)"
proof (induction n)
  case (Suc n)
  have u: "byte_diff (uint b) (uint c) = 0 \<longleftrightarrow> b = c" for b c :: u8
    using unsigned_less [of b] unsigned_less [of c] by (subst byte_diff_eq_0) (auto simp: word_uint_eq_iff)
  have "h_distance x y (Suc n) = h_distance x y n + byte_diff (uint (x ! n)) (uint (y ! n))"
    by (simp add: h_distance_sum)
  then show ?case
    using h_distance_range [of x y n] byte_diff_range(1) [of "uint (x ! n)" "uint (y ! n)"] Suc u [of "x ! n" "y ! n"]
    by (auto simp: less_Suc_eq)
qed (simp add: h_distance_def)


text \<open>The digests' distance, over integers.\<close>

definition circular :: "int \<Rightarrow> u8 \<Rightarrow> u8 \<Rightarrow> int" where
  "circular n x y = (let d = abs (uint x - uint y) in min d (n - d))"

definition length_term :: "int \<Rightarrow> int" where
  "length_term d = (if d \<le> 1 then d else d * 12)"

definition ratio_term :: "int \<Rightarrow> int" where
  "ratio_term d = (if d \<le> 1 then d else (d - 1) * 12)"

lemma mod_diff_circular:
  assumes "uint x < int n" "uint y < int n" "unat r = n" "n \<le> 256"
  shows "mod_diff (ucast x) (ucast y) r = circular (int n) x y"
proof -
  have u: "unat (ucast (b :: u8) :: u32) = unat b" for b
  proof -
    have "unat b < 2 ^ 8" using unsigned_less [of b] by simp
    then show ?thesis by (simp add: unsigned_ucast_eq take_bit_eq_mod)
  qed
  have "unat x < n" "unat y < n" using assms(1,2) unfolding uint_nat of_nat_less_iff by blast+
  then show ?thesis
    using mod_diff_int [of "ucast x" n "ucast y" r] assms(3,4) unfolding circular_def Let_def uint_nat u by blast
qed

lemma circular_facts:
  assumes "uint x < n" "uint y < n"
  shows "circular n x y = circular n y x" "0 \<le> circular n x y" "2 * circular n x y \<le> n" "circular n x y = 0 \<longleftrightarrow> x = y"
proof -
  show "circular n x y = circular n y x" by (simp add: circular_def abs_minus_commute)
  define u v where "u = uint x" and "v = uint y"
  have uv: "0 \<le> u" "0 \<le> v" "u < n" "v < n" using assms by (simp_all add: u_def v_def)
  show "0 \<le> circular n x y" "2 * circular n x y \<le> n" "circular n x y = 0 \<longleftrightarrow> x = y"
    using uv unfolding circular_def Let_def word_uint_eq_iff u_def [symmetric] v_def [symmetric]
    by (auto simp: min_def abs_if)
qed

lemma term_facts:
  "0 \<le> d \<Longrightarrow> 0 \<le> length_term d" "0 \<le> d \<Longrightarrow> length_term d = 0 \<longleftrightarrow> d = 0" "0 \<le> d \<Longrightarrow> d \<le> n \<Longrightarrow> length_term d \<le> 12 * n"
  "0 \<le> d \<Longrightarrow> 0 \<le> ratio_term d" "0 \<le> d \<Longrightarrow> ratio_term d = 0 \<longleftrightarrow> d = 0" "0 \<le> d \<Longrightarrow> d \<le> 8 \<Longrightarrow> ratio_term d \<le> 84"
  by (auto simp: length_term_def ratio_term_def)

lemma u8_range: "uint (b :: u8) < 256"
  using unsigned_less [of b, where 'a = int] by simp

lemma tlsh_total_diff_terms:
  assumes "digest_wf a" "digest_wf b"
  shows "tlsh_total_diff a b =
    length_term (circular 256 (Lvalue a) (Lvalue b)) + ratio_term (circular 16 (Q1ratio a) (Q1ratio b)) +
    ratio_term (circular 16 (Q2ratio a) (Q2ratio b)) + (if d_checksum a = d_checksum b then 0 else 1) +
    h_distance (tmp_code a) (tmp_code b) 32"
proof -
  have q: "uint (Q1ratio a) < 16" "uint (Q1ratio b) < 16" "uint (Q2ratio a) < 16" "uint (Q2ratio b) < 16"
    using assms by (simp_all add: digest_wf_def word_less_def)
  have m: "mod_diff (ucast (Lvalue a)) (ucast (Lvalue b)) 256 = circular 256 (Lvalue a) (Lvalue b)"
    "mod_diff (ucast (Q1ratio a)) (ucast (Q1ratio b)) 16 = circular 16 (Q1ratio a) (Q1ratio b)"
    "mod_diff (ucast (Q2ratio a)) (ucast (Q2ratio b)) 16 = circular 16 (Q2ratio a) (Q2ratio b)"
    using mod_diff_circular [of _ 256] mod_diff_circular [of _ 16] q u8_range by simp_all
  show ?thesis
    using circular_facts(2) [OF u8_range u8_range, of "Lvalue a" "Lvalue b"]
    by (simp add: tlsh_total_diff_def Let_def m length_term_def ratio_term_def)
qed

lemma tlsh_total_diff_measure:
  assumes "digest_wf a" "digest_wf b"
  shows "tlsh_total_diff a b = tlsh_total_diff b a" "0 \<le> tlsh_total_diff a b" "tlsh_total_diff a b \<le> 2473"
    "tlsh_total_diff a b = 0 \<longleftrightarrow> a = b"
proof -
  have q: "uint (Q1ratio a) < 16" "uint (Q1ratio b) < 16" "uint (Q2ratio a) < 16" "uint (Q2ratio b) < 16"
    using assms by (simp_all add: digest_wf_def word_less_def)
  note c = circular_facts [OF u8_range u8_range, of "Lvalue a" "Lvalue b"]
    circular_facts [OF q(1) q(2)] circular_facts [OF q(3) q(4)]
  note t = tlsh_total_diff_terms [OF assms]
  have l: "0 \<le> length_term (circular 256 (Lvalue a) (Lvalue b))" "length_term (circular 256 (Lvalue a) (Lvalue b)) \<le> 1536"
    "length_term (circular 256 (Lvalue a) (Lvalue b)) = 0 \<longleftrightarrow> Lvalue a = Lvalue b"
    using c(1-4) term_facts(1,2) term_facts(3) [of _ 128] by auto
  have r1: "0 \<le> ratio_term (circular 16 (Q1ratio a) (Q1ratio b))" "ratio_term (circular 16 (Q1ratio a) (Q1ratio b)) \<le> 84"
    "ratio_term (circular 16 (Q1ratio a) (Q1ratio b)) = 0 \<longleftrightarrow> Q1ratio a = Q1ratio b"
    using c(5-8) term_facts(4-6) by auto
  have r2: "0 \<le> ratio_term (circular 16 (Q2ratio a) (Q2ratio b))" "ratio_term (circular 16 (Q2ratio a) (Q2ratio b)) \<le> 84"
    "ratio_term (circular 16 (Q2ratio a) (Q2ratio b)) = 0 \<longleftrightarrow> Q2ratio a = Q2ratio b"
    using c(9-12) term_facts(4-6) by auto
  note h = h_distance_range [of "tmp_code a" "tmp_code b" 32] h_distance_0 [of "tmp_code a" "tmp_code b" 32]
  show "0 \<le> tlsh_total_diff a b" "tlsh_total_diff a b \<le> 2473" unfolding t using l r1 r2 h(1) by simp_all
  show "tlsh_total_diff a b = tlsh_total_diff b a"
    unfolding t tlsh_total_diff_terms [OF assms(2,1)] c(1) c(5) c(9) by (simp add: h_distance_sym)
  have "tlsh_total_diff a b = 0 \<longleftrightarrow> Lvalue a = Lvalue b \<and> Q1ratio a = Q1ratio b \<and> Q2ratio a = Q2ratio b \<and>
    d_checksum a = d_checksum b \<and> (\<forall>i < 32. tmp_code a ! i = tmp_code b ! i)"
    unfolding t l(3) [symmetric] r1(3) [symmetric] r2(3) [symmetric] h(2) [symmetric] using l(1) r1(1) r2(1) h(1) by (simp split: if_splits) linarith
  moreover have "(\<forall>i < 32. tmp_code a ! i = tmp_code b ! i) \<longleftrightarrow> tmp_code a = tmp_code b"
    using assms by (simp add: digest_wf_def list_eq_iff_nth_eq)
  ultimately show "tlsh_total_diff a b = 0 \<longleftrightarrow> a = b" by auto
qed

text \<open>C24. The distance of two printed digests is symmetric, bounded (so its sum never overflows an
  \<^verbatim>\<open>int\<close>), negative exactly when one of the strings is malformed, and zero exactly for the same
  digest, whatever the case of its letters.\<close>

theorem tlsh_diff_measure:
  "av_tlsh_diff a b = av_tlsh_diff b a \<and> - 1 \<le> av_tlsh_diff a b \<and> av_tlsh_diff a b \<le> 2473 \<and>
   (av_tlsh_diff a b = - 1 \<longleftrightarrow> tlsh_from_hex a = None \<or> tlsh_from_hex b = None) \<and>
   (av_tlsh_diff a b = 0 \<longleftrightarrow> tlsh_from_hex a \<noteq> None \<and> tlsh_from_hex b \<noteq> None \<and> map hex_up a = map hex_up b)"
proof (cases "tlsh_from_hex a")
  case None
  then show ?thesis by (auto simp: av_tlsh_diff_def split: option.split)
next
  case (Some d)
  note da = this
  show ?thesis
  proof (cases "tlsh_from_hex b")
    case None
    then show ?thesis using Some by (simp add: av_tlsh_diff_def)
  next
    case (Some e)
    have wf: "digest_wf d" "digest_wf e" using tlsh_to_from_hex(1) da Some by blast+
    have "d = e \<longleftrightarrow> map hex_up a = map hex_up b"
      using tlsh_to_from_hex(2) [OF da] tlsh_to_from_hex(2) [OF Some] tlsh_from_to_hex [OF wf(1)] tlsh_from_to_hex [OF wf(2)]
      by auto
    then show ?thesis
      using tlsh_total_diff_measure [OF wf] da Some by (simp add: av_tlsh_diff_def)
  qed
qed


section \<open>The descriptor hash\<close>

text \<open>The bytes a script of reads delivers within a budget, and the outcome of the one allocation;
  \<^verbatim>\<open>None\<close> when a read fails.\<close>

primrec delivered :: "read_event list \<Rightarrow> u8 list \<Rightarrow> nat \<Rightarrow> (u8 list \<times> bool) option" where
  "delivered [] rest b = Some ([], True)"
| "delivered (e # es) rest b =
     (if b = 0 then Some ([], True)
      else case e of
        Deliver k ok \<Rightarrow>
          let d = take (min k (min b 65536)) rest in
          if d = [] then Some ([], True)
          else map_option (\<lambda>(D, _). (d @ D, ok)) (delivered es (drop (length d) rest) (b - length d))
      | Interrupted \<Rightarrow> delivered es rest b
      | Failed \<Rightarrow> None)"

text \<open>One delivering read, with the block it delivers named.\<close>

definition block :: "nat \<Rightarrow> nat \<Rightarrow> u8 list \<Rightarrow> u8 list" where
  "block k b rest = take (min k (min b 65536)) rest"

lemma delivered_deliver:
  "delivered (Deliver k ok # es) rest b =
     (if b = 0 \<or> block k b rest = [] then Some ([], True)
      else map_option (\<lambda>(D, _). (block k b rest @ D, ok))
             (delivered es (drop (length (block k b rest)) rest) (b - length (block k b rest))))"
proof -
  have if_if: "(if p then x else if q then x else y) = (if p \<or> q then x else y)" for p q and x y :: "(u8 list \<times> bool) option"
    by simp
  show ?thesis unfolding delivered.simps read_event.case Let_def block_def if_if ..
qed

lemma read_chunks_deliver:
  "read_chunks (Deliver k ok # es) rest tot mx ctx any =
     (if tot \<ge> mx \<or> block k (mx - tot) rest = [] then Some (ctx, any)
      else read_chunks es (drop (length (block k (mx - tot) rest)) rest) (tot + length (block k (mx - tot) rest)) mx
             (tlsh_update ok (block k (mx - tot) rest) ctx) True)"
proof -
  have w: "(if mx - tot < 65536 then mx - tot else 65536) = min (mx - tot) 65536" by simp
  have if_if: "(if a < b then if q then x else y else x) = (if b \<le> a \<or> q then x else y)"
    for q and a b :: nat and x y :: "(tlsh_ctx \<times> bool) option" by auto
  show ?thesis unfolding read_chunks.simps read_event.case Let_def w block_def if_if ..
qed

lemma length_block: "length (block k b rest) \<le> min b (length rest)"
  by (simp add: block_def)

lemma take_length_take: "take (length (take n xs)) xs = take n xs"
  by (metis append_eq_conv_conj append_take_drop_id)

lemma delivered_prefix:
  "delivered es rest b = Some (D, ok) \<Longrightarrow> D = take (length D) rest \<and> length D \<le> b"
proof (induction es arbitrary: rest b D ok)
  case (Cons e es)
  show ?case
  proof (cases e)
    case (Deliver k ok')
    define d where "d = block k b rest"
    have d: "d = take (length d) rest" "length d \<le> b"
      using length_block [of k b rest] unfolding d_def block_def take_length_take by simp_all
    show ?thesis
    proof (cases "b = 0 \<or> d = []")
      case True
      then show ?thesis using Cons.prems unfolding Deliver delivered_deliver d_def [symmetric] by simp
    next
      case False
      then obtain D' ok'' where r: "delivered es (drop (length d) rest) (b - length d) = Some (D', ok'')" "D = d @ D'"
        using Cons.prems unfolding Deliver delivered_deliver d_def [symmetric] by auto
      have "D' = take (length D') (drop (length d) rest)" "length D' \<le> b - length d"
        using Cons.IH [OF r(1)] by auto
      then have "take (length d + length D') rest = d @ D'" using d(1) by (simp add: take_add)
      then show ?thesis using r(2) d(2) \<open>length D' \<le> b - length d\<close> by simp
    qed
  qed (use Cons in \<open>auto split: if_splits\<close>)
qed simp

lemma read_chunks_failed:
  "alloc_failed ctx \<Longrightarrow> read_chunks es rest tot mx ctx any =
     map_option (\<lambda>(D, _). (ctx, any \<or> D \<noteq> [])) (delivered es rest (mx - tot))"
proof (induction es arbitrary: rest tot any)
  case (Cons e es)
  show ?case
  proof (cases e)
    case (Deliver k ok)
    then show ?thesis using Cons.IH Cons.prems unfolding Deliver delivered_deliver read_chunks_deliver
      by (simp add: tlsh_update_failed option.map_comp comp_def split_def)
  qed (use Cons in auto)
qed simp

lemma budget_left:
  "n \<le> min (mx - tot) r \<Longrightarrow> m + min (mx - tot) r < (N :: nat) \<Longrightarrow> m + n + min (mx - (tot + n)) (r - n) < N"
  unfolding min_def by arith

lemma read_chunks_holds:
  assumes "ctx_holds M ctx" "M \<noteq> []" "length M + min (mx - tot) (length rest) < 2 ^ 32"
  shows "rel_option (\<lambda>(D, _) (ctx', any'). any' = (any \<or> D \<noteq> []) \<and> ctx_holds (M @ D) ctx')
    (delivered es rest (mx - tot)) (read_chunks es rest tot mx ctx any)"
  using assms
proof (induction es arbitrary: rest tot any M ctx)
  case (Cons e es)
  show ?case
  proof (cases "e \<noteq> Failed \<and> e \<noteq> Interrupted \<and> tot < mx")
    case False
    then show ?thesis using Cons by auto
  next
    case ev: True
    then obtain k ok where e: "e = Deliver k ok" by (cases e) auto
    define d where "d = block k (mx - tot) rest"
    note eqs = delivered_deliver [of k ok es rest "mx - tot", folded d_def]
      read_chunks_deliver [of k ok es rest tot mx ctx any, folded d_def]
    show ?thesis
    proof (cases "d = []")
      case True
      then show ?thesis using Cons.prems unfolding e eqs by simp
    next
      case False
      have b: "a_bucket ctx \<noteq> None" using Cons.prems(1,2) by (auto simp: ctx_holds_def)
      have len: "length d \<le> min (mx - tot) (length rest)" unfolding d_def by (rule length_block)
      then have "ctx_holds (M @ d) (tlsh_update ok d ctx)"
        using Cons.prems b by (intro tlsh_update_holds) auto
      moreover have "length (M @ d) + min (mx - (tot + length d)) (length (drop (length d) rest)) < 2 ^ 32"
        using budget_left [OF len Cons.prems(3)] by simp
      ultimately have "rel_option (\<lambda>(D, _) (ctx', any'). any' = (True \<or> D \<noteq> []) \<and> ctx_holds ((M @ d) @ D) ctx')
        (delivered es (drop (length d) rest) (mx - (tot + length d)))
        (read_chunks es (drop (length d) rest) (tot + length d) mx (tlsh_update ok d ctx) True)"
        using Cons.prems(2) by (intro Cons.IH) simp_all
      then show ?thesis
        using False ev unfolding e eqs by (auto simp: option.rel_map split_def elim!: option.rel_mono_strong)
    qed
  qed
qed simp


lemma read_chunks_first:
  assumes "min (mx - tot) (length rest) < 2 ^ 32"
  shows "rel_option (\<lambda>(D, ok) (ctx', any'). any' = (D \<noteq> []) \<and>
      (D = [] \<or> (if ok then ctx_holds D ctx' else alloc_failed ctx')))
    (delivered es rest (mx - tot)) (read_chunks es rest tot mx tlsh_init False)"
  using assms
proof (induction es)
  case (Cons e es)
  show ?case
  proof (cases e)
    case (Deliver k ok)
    define d where "d = block k (mx - tot) rest"
    note eqs = delivered_deliver [of k ok es rest "mx - tot", folded d_def]
      read_chunks_deliver [of k ok es rest tot mx tlsh_init False, folded d_def]
    have len: "length d \<le> min (mx - tot) (length rest)" unfolding d_def by (rule length_block)
    show ?thesis
    proof (cases "mx \<le> tot \<or> d = []")
      case True
      then show ?thesis unfolding Deliver eqs by simp
    next
      case False
      show ?thesis
      proof (cases ok)
        case True
        have "ctx_holds d (tlsh_update True d tlsh_init)"
          using tlsh_update_holds(1) [OF ctx_holds_init, of True d] le_less_trans [OF len Cons.prems] by simp
        from read_chunks_holds [OF this, of mx "tot + length d" "drop (length d) rest" True es]
        have "rel_option (\<lambda>(D, _) (ctx', any'). any' = (True \<or> D \<noteq> []) \<and> ctx_holds (d @ D) ctx')
          (delivered es (drop (length d) rest) (mx - (tot + length d)))
          (read_chunks es (drop (length d) rest) (tot + length d) mx (tlsh_update True d tlsh_init) True)"
          using False budget_left [OF len, of 0] Cons.prems by simp
        then show ?thesis
          using False True unfolding Deliver eqs by (auto simp: option.rel_map split_def elim!: option.rel_mono_strong)
      next
        case nok: False
        have "alloc_failed (tlsh_update ok d tlsh_init)" using nok by (simp add: tlsh_update_def tlsh_init_def)
        then show ?thesis
          using False nok unfolding Deliver eqs
          by (auto simp: read_chunks_failed option.rel_map split_def intro!: option.rel_refl)
      qed
    qed
  qed (use Cons in auto)
qed simp

lemma hash_fd_delivered:
  assumes "max_len < 2 ^ 32 \<or> length content < 2 ^ 32"
  shows "av_tlsh_hash_fd lseek_ok es content outlen max_len = Some (
    if \<not> lseek_ok then (- 1, [])
    else case delivered es content max_len of
      None \<Rightarrow> (- 1, [])
    | Some (D, alloc_ok) \<Rightarrow>
        (if D = [] \<or> \<not> alloc_ok then (- 2, [])
         else case reference_digest D of
           None \<Rightarrow> (- 2, [])
         | Some d \<Rightarrow> if outlen \<le> TLSH_DIGEST_HEXLEN then (- 3, []) else (0, tlsh_to_hex d))) \<and>
    (case delivered es content max_len of
       None \<Rightarrow> True | Some (D, _) \<Rightarrow> D = take (length D) content \<and> length D \<le> max_len)"
proof (intro conjI)
  have "min (max_len - 0) (length content) < 2 ^ 32" using assms by auto
  from read_chunks_first [OF this, of es]
  have r: "rel_option (\<lambda>(D, ok) (ctx', any'). any' = (D \<noteq> []) \<and> (D = [] \<or> (if ok then ctx_holds D ctx' else alloc_failed ctx')))
    (delivered es content max_len) (read_chunks es content 0 max_len tlsh_init False)" by simp
  show "av_tlsh_hash_fd lseek_ok es content outlen max_len = Some (
    if \<not> lseek_ok then (- 1, [])
    else case delivered es content max_len of
      None \<Rightarrow> (- 1, [])
    | Some (D, alloc_ok) \<Rightarrow>
        (if D = [] \<or> \<not> alloc_ok then (- 2, [])
         else case reference_digest D of
           None \<Rightarrow> (- 2, [])
         | Some d \<Rightarrow> if outlen \<le> TLSH_DIGEST_HEXLEN then (- 3, []) else (0, tlsh_to_hex d)))"
  proof (cases "delivered es content max_len")
    case None
    then show ?thesis using r by (simp add: av_tlsh_hash_fd_def)
  next
    case (Some p)
    obtain D ok where p: "p = (D, ok)" by (cases p)
    from r obtain ctx where c: "read_chunks es content 0 max_len tlsh_init False = Some (ctx, D \<noteq> [])"
      "D = [] \<or> (if ok then ctx_holds D ctx else alloc_failed ctx)"
      unfolding Some p by (auto simp: option_rel_Some1)
    show ?thesis
    proof (cases "D = []")
      case False
      show ?thesis
      proof (cases ok)
        case True
        then have "tlsh_final ctx = Some (reference_digest D, tlsh_free ctx)" using c False by (intro tlsh_final_holds) simp
        then show ?thesis using False True c unfolding Some p by (simp add: av_tlsh_hash_fd_def split: option.split)
      next
        case nok: False
        then have "tlsh_final ctx = Some (None, tlsh_free ctx)" using c False by (simp add: tlsh_final_def)
        then show ?thesis using False nok c unfolding Some p by (simp add: av_tlsh_hash_fd_def)
      qed
    qed (use c in \<open>simp add: Some p av_tlsh_hash_fd_def\<close>)
  qed
qed (auto split: option.split dest: delivered_prefix)

text \<open>C22. The descriptor hash is the TLSH digest of what was read: within a budget below 4 GiB, for
  every way the reads split the file, are interrupted or end early, the outcome is the reference
  digest of the bytes delivered (a prefix of the file no longer than the budget), no digest for an
  empty, short or uniform input, an error after a failed seek or read or for a small output buffer,
  and never a digest of a part only when the allocation failed.\<close>

theorem tlsh_hash_fd_reference:
  assumes "max_len < 2 ^ 32 \<or> length content < 2 ^ 32"
  shows "av_tlsh_hash_fd lseek_ok es content outlen max_len = Some (
    if \<not> lseek_ok then (- 1, [])
    else case delivered es content max_len of
      None \<Rightarrow> (- 1, [])
    | Some (D, alloc_ok) \<Rightarrow>
        (if D = [] \<or> \<not> alloc_ok then (- 2, [])
         else case reference_digest D of
           None \<Rightarrow> (- 2, [])
         | Some d \<Rightarrow> if outlen \<le> TLSH_DIGEST_HEXLEN then (- 3, []) else (0, tlsh_to_hex d))) \<and>
    (case delivered es content max_len of
       None \<Rightarrow> True | Some (D, _) \<Rightarrow> D = take (length D) content \<and> length D \<le> max_len)"
  by (rule hash_fd_delivered [OF assms])

theorem tlsh_hash_fd_reference_witness:
  "av_tlsh_hash_fd True [Interrupted, Deliver 100 True] (replicate 20 65) 200 (2 ^ 28) = Some (- 2, [])"
  using tlsh_hash_fd_reference [of "2 ^ 28" "replicate 20 65" True "[Interrupted, Deliver 100 True]" 200]
  by (simp add: reference_digest_def Let_def)

end
