(* ===== verification/AvdCorpus.thy ===== *)
theory AvdCorpus
  imports AvUser TlshShim
begin

text \<open>
  The similarity corpora of \<^verbatim>\<open>src/userspace/avd/avd.c\<close>: parsing and loading the two corpus files
  and matching a scanned file against them. \<^verbatim>\<open>libfuzzy\<close> is not part of the repository; the record
  \<open>libfuzzy\<close> holds the four of its functions the daemon calls. TLSH is the model of the repository's own
  port. The outcomes of memory allocation and of the reads are arguments.
\<close>

section \<open>Loading\<close>

record corpus_entry =
  ce_hash :: string
  ce_name :: string

definition parse_corpus_line :: "string \<Rightarrow> (string \<times> string) option" where
  "parse_corpus_line line0 =
     (let line = takeWhile (\<lambda>c. c \<noteq> CR \<and> c \<noteq> NL) line0 in
      if line = [] \<or> hd line = CHR ''#'' then None
      else if CHR '','' \<notin> set line then None
      else
        let hash_part = takeWhile (\<lambda>c. c \<noteq> CHR '','') line;
            name_part = drop (length hash_part + 1) line
        in if hash_part = [] \<or> name_part = [] then None else Some (hash_part, name_part))"

text \<open>The loop both loaders share. \<open>skip\<close> is the extra length check of the TLSH loader, \<open>hlen\<close> the size
  of the hash field, \<open>grow\<close> the outcome of \<^verbatim>\<open>realloc\<close> for a capacity. The flag is false when memory ran
  out; the entries read so far stay.\<close>

primrec load_entries ::
  "(string \<Rightarrow> bool) \<Rightarrow> nat \<Rightarrow> (nat \<Rightarrow> bool) \<Rightarrow> string list \<Rightarrow> nat \<Rightarrow> corpus_entry list \<Rightarrow> bool \<times> corpus_entry list" where
  "load_entries skip hlen grow [] capacity cs = (True, cs)"
| "load_entries skip hlen grow (line # ls) capacity cs =
     (case parse_corpus_line (cstr line) of
        None \<Rightarrow> load_entries skip hlen grow ls capacity cs
      | Some (hash_part, name_part) \<Rightarrow>
          if skip hash_part then load_entries skip hlen grow ls capacity cs
          else
            let e = \<lparr>ce_hash = snprintf hlen hash_part, ce_name = snprintf 128 name_part\<rparr> in
            if length cs = capacity then
              if grow (capacity * 2) then load_entries skip hlen grow ls (capacity * 2) (cs @ [e]) else (False, cs)
            else load_entries skip hlen grow ls capacity (cs @ [e]))"

definition load_fuzzy_corpus ::
  "nat \<Rightarrow> string option \<Rightarrow> bool \<Rightarrow> (nat \<Rightarrow> bool) \<Rightarrow> int \<times> corpus_entry list" where
  "load_fuzzy_corpus fuzzy_max_result file malloc_ok grow =
     (case file of
        None \<Rightarrow> (0, [])
      | Some txt \<Rightarrow>
          if \<not> malloc_ok then (- 1, [])
          else let (ok, cs) = load_entries (\<lambda>_. False) fuzzy_max_result grow (fgets_lines 512 txt) 16 []
            in (if ok then 0 else - 1, cs))"

definition AV_TLSH_HASH_BUFSZ :: nat where "AV_TLSH_HASH_BUFSZ = 200"

definition load_tlsh_corpus :: "string option \<Rightarrow> bool \<Rightarrow> (nat \<Rightarrow> bool) \<Rightarrow> int \<times> corpus_entry list" where
  "load_tlsh_corpus file malloc_ok grow =
     (let hash_maxlen = TLSH_DIGEST_HEXLEN in
      if hash_maxlen + 1 > AV_TLSH_HASH_BUFSZ then (- 1, [])
      else case file of
        None \<Rightarrow> (0, [])
      | Some txt \<Rightarrow>
          if \<not> malloc_ok then (- 1, [])
          else
            let (ok, cs) = load_entries (\<lambda>h. length h > hash_maxlen) AV_TLSH_HASH_BUFSZ grow (fgets_lines 512 txt) 16 []
            in (if ok then 0 else - 1, cs))"

section \<open>Matching\<close>

datatype match_result = NoMatch | Match string int | HashError

definition MAX_FUZZY_TLSH_FILE_SIZE :: nat where "MAX_FUZZY_TLSH_FILE_SIZE = 256 * 1024 * 1024"
definition FUZZY_MATCH_THRESHOLD :: int where "FUZZY_MATCH_THRESHOLD = 60"
definition TLSH_MATCH_MAX_DIFF :: int where "TLSH_MATCH_MAX_DIFF = 30"

record 's libfuzzy =
  fuzzy_new :: "'s option"
  fuzzy_update :: "'s \<Rightarrow> u8 list \<Rightarrow> 's option"
  fuzzy_digest :: "'s \<Rightarrow> string option"
  fuzzy_compare :: "string \<Rightarrow> string \<Rightarrow> int"

text \<open>\<open>st_size\<close> is what \<^verbatim>\<open>fstat\<close> reported, if it did.\<close>

definition fuzzy_tlsh_size_ok :: "u64 option \<Rightarrow> bool" where
  "fuzzy_tlsh_size_ok st_size = (case st_size of None \<Rightarrow> True | Some n \<Rightarrow> \<not> sint n > int MAX_FUZZY_TLSH_FILE_SIZE)"

primrec fuzzy_stream :: "'s libfuzzy \<Rightarrow> read_event list \<Rightarrow> u8 list \<Rightarrow> nat \<Rightarrow> 's \<Rightarrow> 's option" where
  "fuzzy_stream L [] rest tot st = Some st"
| "fuzzy_stream L (e # es) rest tot st =
     (if tot < MAX_FUZZY_TLSH_FILE_SIZE then
        let chunk = (if MAX_FUZZY_TLSH_FILE_SIZE - tot < 65536 then MAX_FUZZY_TLSH_FILE_SIZE - tot else 65536) in
        case e of
          Deliver k _ \<Rightarrow>
            let d = take (min k chunk) rest in
            if d = [] then Some st
            else (case fuzzy_update L st d of
                None \<Rightarrow> None
              | Some st' \<Rightarrow> fuzzy_stream L es (drop (length d) rest) (tot + length d) st')
        | Interrupted \<Rightarrow> fuzzy_stream L es rest tot st
        | Failed \<Rightarrow> None
      else Some st)"

primrec best_score :: "(string \<Rightarrow> int) \<Rightarrow> corpus_entry list \<Rightarrow> int \<times> string \<Rightarrow> int \<times> string" where
  "best_score cmp [] best = best"
| "best_score cmp (e # es) best =
     best_score cmp es (if cmp (ce_hash e) > fst best then (cmp (ce_hash e), ce_name e) else best)"

definition check_fuzzy_corpus ::
  "'s libfuzzy \<Rightarrow> corpus_entry list \<Rightarrow> u64 option \<Rightarrow> bool \<Rightarrow> bool \<Rightarrow> read_event list \<Rightarrow> u8 list \<Rightarrow> match_result" where
  "check_fuzzy_corpus L fuzzy_corpus st_size dup_ok lseek_ok es content =
     (if fuzzy_corpus = [] then NoMatch
      else if \<not> fuzzy_tlsh_size_ok st_size then NoMatch
      else if \<not> dup_ok then HashError
      else if \<not> lseek_ok then HashError
      else case fuzzy_new L of
        None \<Rightarrow> HashError
      | Some st0 \<Rightarrow>
          (case fuzzy_stream L es content 0 st0 of
             None \<Rightarrow> HashError
           | Some st \<Rightarrow>
               (case fuzzy_digest L st of
                  None \<Rightarrow> HashError
                | Some file_hash \<Rightarrow>
                    let (score, name) = best_score (fuzzy_compare L file_hash) fuzzy_corpus
                                          (- 1, ce_name (hd fuzzy_corpus))
                    in if score \<ge> FUZZY_MATCH_THRESHOLD then Match (snprintf 128 name) score else NoMatch)))"

primrec best_diff :: "(string \<Rightarrow> int) \<Rightarrow> corpus_entry list \<Rightarrow> int \<times> string \<Rightarrow> int \<times> string" where
  "best_diff dif [] best = best"
| "best_diff dif (e # es) best =
     (let diff = dif (ce_hash e) in
      best_diff dif es
        (if diff < 0 then best else if fst best < 0 \<or> diff < fst best then (diff, ce_name e) else best))"

text \<open>\<open>None\<close> would be a read outside an array, inside the hash.\<close>

definition check_tlsh_corpus ::
  "corpus_entry list \<Rightarrow> u64 option \<Rightarrow> bool \<Rightarrow> bool \<Rightarrow> read_event list \<Rightarrow> u8 list \<Rightarrow> match_result option" where
  "check_tlsh_corpus tlsh_corpus st_size dup_ok lseek_ok es content =
     (if tlsh_corpus = [] then Some NoMatch
      else if \<not> fuzzy_tlsh_size_ok st_size then Some NoMatch
      else if \<not> dup_ok then Some HashError
      else case av_tlsh_hash_fd lseek_ok es content AV_TLSH_HASH_BUFSZ MAX_FUZZY_TLSH_FILE_SIZE of
        None \<Rightarrow> None
      | Some (hash_ret, file_hash) \<Rightarrow>
          if hash_ret = - 2 then Some NoMatch
          else if hash_ret \<noteq> 0 then Some HashError
          else
            let (diff, name) = best_diff (av_tlsh_diff file_hash) tlsh_corpus (- 1, ce_name (hd tlsh_corpus))
            in Some (if diff \<ge> 0 \<and> diff \<le> TLSH_MATCH_MAX_DIFF then Match (snprintf 128 name) diff else NoMatch))"

section \<open>What the matches mean\<close>

lemma best_score_spec:
  "(\<forall>e \<in> set es. cmp (ce_hash e) \<le> fst (best_score cmp es b)) \<and> fst b \<le> fst (best_score cmp es b) \<and>
   (best_score cmp es b = b \<or> (\<exists>e \<in> set es. best_score cmp es b = (cmp (ce_hash e), ce_name e)))"
proof (induction es arbitrary: b)
  case (Cons e es)
  define b' where "b' = (if cmp (ce_hash e) > fst b then (cmp (ce_hash e), ce_name e) else b)"
  have "best_score cmp (e # es) b = best_score cmp es b'" by (simp add: b'_def)
  moreover have "cmp (ce_hash e) \<le> fst b'" "fst b \<le> fst b'" "b' = b \<or> b' = (cmp (ce_hash e), ce_name e)"
    by (simp_all add: b'_def)
  ultimately show ?case using Cons.IH [of b'] by auto
qed simp

lemma best_diff_spec:
  "(\<forall>e \<in> set es. 0 \<le> dif (ce_hash e) \<longrightarrow> 0 \<le> fst (best_diff dif es b) \<and> fst (best_diff dif es b) \<le> dif (ce_hash e)) \<and>
   (0 \<le> fst b \<longrightarrow> 0 \<le> fst (best_diff dif es b) \<and> fst (best_diff dif es b) \<le> fst b) \<and>
   (best_diff dif es b = b \<or> (\<exists>e \<in> set es. 0 \<le> dif (ce_hash e) \<and> best_diff dif es b = (dif (ce_hash e), ce_name e)))"
proof (induction es arbitrary: b)
  case (Cons e es)
  define b' where "b' = (if dif (ce_hash e) < 0 then b
     else if fst b < 0 \<or> dif (ce_hash e) < fst b then (dif (ce_hash e), ce_name e) else b)"
  have "best_diff dif (e # es) b = best_diff dif es b'" by (simp add: b'_def Let_def)
  moreover have "0 \<le> dif (ce_hash e) \<longrightarrow> 0 \<le> fst b' \<and> fst b' \<le> dif (ce_hash e)"
    "0 \<le> fst b \<longrightarrow> 0 \<le> fst b' \<and> fst b' \<le> fst b"
    "b' = b \<or> 0 \<le> dif (ce_hash e) \<and> b' = (dif (ce_hash e), ce_name e)"
    by (simp_all add: b'_def)
  ultimately show ?case using Cons.IH [of b'] by auto
qed simp

lemma reference_digest_wf: "reference_digest M = Some d \<Longrightarrow> digest_wf d"
  by (auto simp: reference_digest_def Let_def digest_wf_def word_less_nat_alt unat_of_nat
      split: if_splits)

lemma diff_self: "digest_wf d \<Longrightarrow> av_tlsh_diff (tlsh_to_hex d) (tlsh_to_hex d) = 0"
  by (simp add: av_tlsh_diff_def tlsh_from_to_hex tlsh_total_diff_measure(4))

text \<open>The verdict the two thresholds allow: \<open>close\<close> says an entry is near enough, \<open>better\<close> that it
  is nearer than another.\<close>

definition match_correct ::
  "corpus_entry list \<Rightarrow> (corpus_entry \<Rightarrow> bool) \<Rightarrow> (corpus_entry \<Rightarrow> corpus_entry \<Rightarrow> bool) \<Rightarrow> (corpus_entry \<Rightarrow> int) \<Rightarrow> match_result \<Rightarrow> bool" where
  "match_correct cs close better val r =
     (case r of
        NoMatch \<Rightarrow> \<forall>e \<in> set cs. \<not> close e
      | Match n v \<Rightarrow> \<exists>e \<in> set cs. close e \<and> n = snprintf 128 (ce_name e) \<and> v = val e \<and> (\<forall>e' \<in> set cs. \<not> better e' e)
      | HashError \<Rightarrow> False)"

lemma fuzzy_best_correct:
  assumes "cs \<noteq> []" "best_score cmp cs (- 1, n0) = (score, name)"
  shows "match_correct cs (\<lambda>e. 60 \<le> cmp (ce_hash e)) (\<lambda>e' e. cmp (ce_hash e) < cmp (ce_hash e')) (\<lambda>e. cmp (ce_hash e))
    (if score \<ge> FUZZY_MATCH_THRESHOLD then Match (snprintf 128 name) score else NoMatch)"
proof -
  note b = best_score_spec [of cs cmp "(- 1, n0)", unfolded assms(2) fst_conv snd_conv]
  have le: "\<forall>e \<in> set cs. cmp (ce_hash e) \<le> score" using b by blast
  show ?thesis
  proof (cases "score \<ge> 60")
    case True
    then obtain e where e: "e \<in> set cs" "score = cmp (ce_hash e)" "name = ce_name e" using b by auto
    then show ?thesis using True le by (force simp: match_correct_def FUZZY_MATCH_THRESHOLD_def not_less)
  next
    case False
    then show ?thesis using le by (force simp: match_correct_def FUZZY_MATCH_THRESHOLD_def)
  qed
qed

lemma tlsh_best_correct:
  assumes "cs \<noteq> []" "best_diff dif cs (- 1, n0) = (diff, name)"
  shows "match_correct cs (\<lambda>e. 0 \<le> dif (ce_hash e) \<and> dif (ce_hash e) \<le> 30)
    (\<lambda>e' e. 0 \<le> dif (ce_hash e') \<and> dif (ce_hash e') < dif (ce_hash e)) (\<lambda>e. dif (ce_hash e))
    (if diff \<ge> 0 \<and> diff \<le> TLSH_MATCH_MAX_DIFF then Match (snprintf 128 name) diff else NoMatch)"
proof -
  note b = best_diff_spec [of cs dif "(- 1, n0)", unfolded assms(2) fst_conv snd_conv]
  have le: "\<forall>e \<in> set cs. 0 \<le> dif (ce_hash e) \<longrightarrow> 0 \<le> diff \<and> diff \<le> dif (ce_hash e)" using b by blast
  show ?thesis
  proof (cases "0 \<le> diff \<and> diff \<le> 30")
    case True
    then obtain e where e: "e \<in> set cs" "diff = dif (ce_hash e)" "name = ce_name e" using b by auto
    then show ?thesis using True le by (force simp: match_correct_def TLSH_MATCH_MAX_DIFF_def not_less)
  next
    case False
    then have "\<not> (0 \<le> dif (ce_hash e) \<and> dif (ce_hash e) \<le> 30)" if "e \<in> set cs" for e using le that by force
    then show ?thesis using False by (auto simp: match_correct_def TLSH_MATCH_MAX_DIFF_def)
  qed
qed

lemma check_tlsh_shape:
  "check_tlsh_corpus cs sz dup lseek es content = Some (
     if cs = [] \<or> \<not> fuzzy_tlsh_size_ok sz then NoMatch
     else if \<not> dup \<or> \<not> lseek then HashError
     else case delivered es content MAX_FUZZY_TLSH_FILE_SIZE of
       None \<Rightarrow> HashError
     | Some (D, alloc_ok) \<Rightarrow>
         if D = [] \<or> \<not> alloc_ok then NoMatch
         else case reference_digest D of
           None \<Rightarrow> NoMatch
         | Some d \<Rightarrow> case best_diff (av_tlsh_diff (tlsh_to_hex d)) cs (- 1, ce_name (hd cs)) of (diff, name) \<Rightarrow>
             if diff \<ge> 0 \<and> diff \<le> TLSH_MATCH_MAX_DIFF then Match (snprintf 128 name) diff else NoMatch)"
proof -
  have m: "MAX_FUZZY_TLSH_FILE_SIZE < 2 ^ 32 \<or> length content < 2 ^ 32" by (simp add: MAX_FUZZY_TLSH_FILE_SIZE_def)
  note h = hash_fd_delivered [OF m, THEN conjunct1, of lseek es AV_TLSH_HASH_BUFSZ]
  show ?thesis
    unfolding check_tlsh_corpus_def h
    by (auto simp: AV_TLSH_HASH_BUFSZ_def split: option.split prod.split)
qed

lemma tlsh_match_self:
  assumes "match_correct cs (\<lambda>e. 0 \<le> c e \<and> c e \<le> 30) (\<lambda>e' e. 0 \<le> c e' \<and> c e' < c e) c r" "e \<in> set cs" "c e = 0"
  shows "\<exists>n. r = Match n 0"
  using assms unfolding match_correct_def by (cases r; fastforce)

text \<open>C33. TLSH matching finds the nearest known sample and nothing else. It never reads outside an array.
  For a file whose reads deliver bytes with a digest, the answer is the name and the distance of a
  corpus entry at distance at most 30 with none nearer, or no match when every entry is malformed or
  further away; in particular a file with the digest of a corpus entry is matched at distance
  zero. A file over 256 MiB, an empty one and one without a digest match nothing, and a failed call is
  an error, not a verdict.\<close>

theorem tlsh_corpus_exact:
  "\<exists>r. check_tlsh_corpus cs sz dup lseek es content = Some r \<and>
     (if cs \<noteq> [] \<and> fuzzy_tlsh_size_ok sz then
        if dup \<and> lseek then
          case delivered es content MAX_FUZZY_TLSH_FILE_SIZE of
            None \<Rightarrow> r = HashError
          | Some (D, alloc_ok) \<Rightarrow>
              if D \<noteq> [] \<and> alloc_ok then
                case reference_digest D of
                  None \<Rightarrow> r = NoMatch
                | Some d \<Rightarrow>
                    let dist = (\<lambda>e. av_tlsh_diff (tlsh_to_hex d) (ce_hash e)) in
                    match_correct cs (\<lambda>e. 0 \<le> dist e \<and> dist e \<le> 30) (\<lambda>e' e. 0 \<le> dist e' \<and> dist e' < dist e) dist r \<and>
                    (if tlsh_to_hex d \<in> ce_hash ` set cs then \<exists>n. r = Match n 0 else True)
              else r = NoMatch
        else r = HashError
      else r = NoMatch)"
proof -
  have m: "match_correct cs (\<lambda>e. 0 \<le> c e \<and> c e \<le> 30) (\<lambda>e' e. 0 \<le> c e' \<and> c e' < c e) c r \<and>
      (if tlsh_to_hex d \<in> ce_hash ` set cs then \<exists>n. r = Match n 0 else True)"
    if "cs \<noteq> []" "reference_digest D = Some d" "c = (\<lambda>e. av_tlsh_diff (tlsh_to_hex d) (ce_hash e))"
      "best_diff (av_tlsh_diff (tlsh_to_hex d)) cs (- 1, ce_name (hd cs)) = (diff, name)"
      "r = (if diff \<ge> 0 \<and> diff \<le> TLSH_MATCH_MAX_DIFF then Match (snprintf 128 name) diff else NoMatch)"
    for D d c diff name r
  proof -
    have m: "match_correct cs (\<lambda>e. 0 \<le> c e \<and> c e \<le> 30) (\<lambda>e' e. 0 \<le> c e' \<and> c e' < c e) c r"
      unfolding that(3,5) by (rule tlsh_best_correct [OF that(1,4)])
    moreover have "c e = 0" if "ce_hash e = tlsh_to_hex d" for e
      using diff_self [OF reference_digest_wf [OF \<open>reference_digest D = Some d\<close>]] that
      by (simp add: \<open>c = (\<lambda>e. av_tlsh_diff (tlsh_to_hex d) (ce_hash e))\<close>)
    ultimately show ?thesis using tlsh_match_self by (auto simp: image_iff dest!: sym [of "tlsh_to_hex d"])
  qed
  show ?thesis
    unfolding check_tlsh_shape Let_def using m by (auto split: option.split prod.split simp del: image_iff)
qed

text \<open>Loading gives back the lines of a well-formed file.\<close>

definition corpus_line_ok :: "(string \<times> string) \<Rightarrow> bool" where
  "corpus_line_ok p \<longleftrightarrow> fst p \<noteq> [] \<and> snd p \<noteq> [] \<and> hd (fst p) \<noteq> CHR ''#'' \<and> CHR '','' \<notin> set (fst p) \<and>
     set (fst p @ snd p) \<inter> {NUL, CR, NL} = {} \<and> length (fst p) + length (snd p) < 510"

lemma parse_corpus_line_ok:
  assumes "corpus_line_ok (h, n)"
  shows "parse_corpus_line (cstr ((h @ CHR '','' # n) @ [NL])) = Some (h, n)"
proof -
  have n: "NUL \<noteq> CHR '',''" "NUL \<noteq> NL" "CR \<noteq> CHR '',''" "NL \<noteq> CHR '',''" "NL \<noteq> CR" by (simp_all add: NUL_def NL_def CR_def)
  have c: "cstr ((h @ CHR '','' # n) @ [NL]) = (h @ CHR '','' # n) @ [NL]"
    using assms n by (intro cstr_id) (auto simp: corpus_line_ok_def)
  have t: "takeWhile (\<lambda>c. c \<noteq> CR \<and> c \<noteq> NL) ((h @ CHR '','' # n) @ [NL]) = h @ CHR '','' # n"
    using assms n by (subst takeWhile_append2) (auto simp: corpus_line_ok_def)
  have w: "takeWhile (\<lambda>c. c \<noteq> CHR '','') (h @ CHR '','' # n) = h"
    using assms by (subst takeWhile_append2) (auto simp: corpus_line_ok_def)
  show ?thesis
    unfolding parse_corpus_line_def c t Let_def w using assms by (simp add: corpus_line_ok_def)
qed

lemma load_entries_lines:
  assumes "\<forall>p \<in> set ps. corpus_line_ok p \<and> \<not> skip (fst p)" "\<forall>k. grow k" "length cs \<le> capacity" "0 < capacity"
  shows "load_entries skip hlen grow (map (\<lambda>p. (fst p @ CHR '','' # snd p) @ [NL]) ps) capacity cs =
    (True, cs @ map (\<lambda>p. \<lparr>ce_hash = snprintf hlen (fst p), ce_name = snprintf 128 (snd p)\<rparr>) ps)"
  using assms
proof (induction ps arbitrary: capacity cs)
  case (Cons p ps)
  obtain h n where p: "p = (h, n)" by (cases p)
  let ?e = "\<lparr>ce_hash = snprintf hlen h, ce_name = snprintf 128 n\<rparr>"
  let ?ls = "map (\<lambda>p. (fst p @ CHR '','' # snd p) @ [NL]) ps"
  let ?es = "map (\<lambda>p. \<lparr>ce_hash = snprintf hlen (fst p), ce_name = snprintf 128 (snd p)\<rparr>) ps"
  have q: "parse_corpus_line (cstr ((h @ CHR '','' # n) @ [NL])) = Some (h, n)"
    using Cons.prems(1) p parse_corpus_line_ok [of h n] by simp
  have IH: "load_entries skip hlen grow ?ls c (cs @ [?e]) = (True, (cs @ [?e]) @ ?es)" if "length cs + 1 \<le> c" for c
    using Cons.prems that by (intro Cons.IH) simp_all
  have "load_entries skip hlen grow (((h @ CHR '','' # n) @ [NL]) # ?ls) capacity cs =
    load_entries skip hlen grow ?ls (if length cs = capacity then capacity * 2 else capacity) (cs @ [?e])"
    using Cons.prems(1,2) by (simp only: load_entries.simps q option.case prod.case Let_def p) (simp add: p)
  also have "\<dots> = (True, (cs @ [?e]) @ ?es)" using Cons.prems(3,4) by (intro IH) auto
  finally show ?case by (simp add: p)
qed simp

text \<open>A corpus file means what it says: loading a file of lines \<^verbatim>\<open>hash,name\<close> (each under 512
  bytes, no carriage return, the hash without a comma and not starting with a hash sign) yields
  exactly those entries in order, with hash and name cut to their fields, however often the array has
  to grow; TLSH entries longer than a digest are the ones the other loader leaves out.\<close>

theorem corpus_file_roundtrip:
  assumes "\<forall>p \<in> set ps. corpus_line_ok p" "\<forall>k. grow k"
  shows "load_fuzzy_corpus fmax (Some (concat (map (\<lambda>p. (fst p @ CHR '','' # snd p) @ [NL]) ps))) True grow =
      (0, map (\<lambda>p. \<lparr>ce_hash = snprintf fmax (fst p), ce_name = snprintf 128 (snd p)\<rparr>) ps)"
    and "(\<forall>p \<in> set ps. length (fst p) \<le> TLSH_DIGEST_HEXLEN) \<Longrightarrow>
      load_tlsh_corpus (Some (concat (map (\<lambda>p. (fst p @ CHR '','' # snd p) @ [NL]) ps))) True grow =
      (0, map (\<lambda>p. \<lparr>ce_hash = fst p, ce_name = snprintf 128 (snd p)\<rparr>) ps)"
proof -
  have "\<forall>l \<in> set (map (\<lambda>p. fst p @ CHR '','' # snd p) ps). NL \<notin> set l \<and> length l + 1 < 512"
    using assms(1) by (auto simp: corpus_line_ok_def NL_def)
  from fgets_lines_file [OF this]
  have f: "fgets_lines 512 (concat (map (\<lambda>p. (fst p @ CHR '','' # snd p) @ [NL]) ps)) =
    map (\<lambda>p. (fst p @ CHR '','' # snd p) @ [NL]) ps" by (simp add: comp_def)
  note l = load_entries_lines [of ps _ grow "[]" 16, OF _ assms(2)]
  show "load_fuzzy_corpus fmax (Some (concat (map (\<lambda>p. (fst p @ CHR '','' # snd p) @ [NL]) ps))) True grow =
      (0, map (\<lambda>p. \<lparr>ce_hash = snprintf fmax (fst p), ce_name = snprintf 128 (snd p)\<rparr>) ps)"
    unfolding load_fuzzy_corpus_def using assms(1) l [of "\<lambda>_. False"] by (simp only: option.case f) simp
  assume t: "\<forall>p \<in> set ps. length (fst p) \<le> TLSH_DIGEST_HEXLEN"
  then have "map (\<lambda>p. \<lparr>ce_hash = snprintf AV_TLSH_HASH_BUFSZ (fst p), ce_name = snprintf 128 (snd p)\<rparr>) ps =
    map (\<lambda>p. \<lparr>ce_hash = fst p, ce_name = snprintf 128 (snd p)\<rparr>) ps"
    by (auto simp: AV_TLSH_HASH_BUFSZ_def snprintf_def)
  then show "load_tlsh_corpus (Some (concat (map (\<lambda>p. (fst p @ CHR '','' # snd p) @ [NL]) ps))) True grow =
      (0, map (\<lambda>p. \<lparr>ce_hash = fst p, ce_name = snprintf 128 (snd p)\<rparr>) ps)"
    unfolding load_tlsh_corpus_def using assms(1) t l [of "\<lambda>h. length h > TLSH_DIGEST_HEXLEN"]
    by (simp only: option.case f Let_def) (simp add: AV_TLSH_HASH_BUFSZ_def not_less)
qed

end
