(* ===== verification/QuarantineMeta.thy ===== *)
theory QuarantineMeta
  imports AvUser NetlinkChan
begin

text \<open>
  The quarantine sidecar of \<^verbatim>\<open>src/userspace/avd/avd.c\<close>: the text \<^verbatim>\<open>write_quarantine_meta\<close> prints and
  the parser \<^verbatim>\<open>read_quarantine_meta\<close>, both down to the buffer sizes and the widths of the numbers.
  Opening, \<^verbatim>\<open>fdopen\<close> and closing the file are outcomes passed as arguments.
\<close>

section \<open>The code\<close>

record quarantine_meta =
  original_path :: string
  original_mode :: u32
  original_uid :: u32
  original_gid :: u32
  qm_timestamp :: u64
  qm_rule :: string
  qm_sha256 :: string

record file_stat =
  st_mode :: u32
  st_uid :: u32
  st_gid :: u32

text \<open>The seven \<^verbatim>\<open>fprintf\<close> calls.\<close>

definition meta_lines :: "file_stat option \<Rightarrow> u64 \<Rightarrow> string \<Rightarrow> string option \<Rightarrow> string option \<Rightarrow> string list" where
  "meta_lines orig_st now orig_path rule_name sha256_hex =
     [''ORIGINAL_MODE='' @ show_base 8 (case orig_st of Some st \<Rightarrow> unat (st_mode st AND 0xFFF) | None \<Rightarrow> 384),
      ''ORIGINAL_UID='' @ show_int (case orig_st of Some st \<Rightarrow> sint (st_uid st) | None \<Rightarrow> 0),
      ''ORIGINAL_GID='' @ show_int (case orig_st of Some st \<Rightarrow> sint (st_gid st) | None \<Rightarrow> 0),
      ''TIMESTAMP='' @ show_int (sint now),
      ''RULE_NAME='' @ (case rule_name of Some r \<Rightarrow> r | None \<Rightarrow> []),
      ''SHA256='' @ (case sha256_hex of Some h \<Rightarrow> h | None \<Rightarrow> []),
      ''ORIGINAL_PATH='' @ orig_path]"

text \<open>\<open>None\<close> is the return value \<^verbatim>\<open>-1\<close>, with no sidecar left; otherwise the path and the text.\<close>

definition write_quarantine_meta ::
  "bool \<Rightarrow> bool \<Rightarrow> bool \<Rightarrow> string \<Rightarrow> file_stat option \<Rightarrow> u64 \<Rightarrow> string \<Rightarrow> string option \<Rightarrow> string option \<Rightarrow> (string \<times> string) option" where
  "write_quarantine_meta open_ok fdopen_ok fclose_ok dest orig_st now orig_path rule_name sha256_hex =
     (let meta_path = dest @ ''.meta'' in
      if truncates (PATH_MAX + 8) meta_path then None
      else if \<not> open_ok \<or> \<not> fdopen_ok \<or> \<not> fclose_ok then None
      else Some (meta_path, concat (map (\<lambda>l. l @ [NL]) (meta_lines orig_st now orig_path rule_name sha256_hex))))"

definition meta_field :: "string \<Rightarrow> quarantine_meta \<Rightarrow> quarantine_meta" where
  "meta_field line out =
     (if starts_with ''ORIGINAL_PATH='' line then out\<lparr>original_path := snprintf PATH_MAX (drop 14 line)\<rparr>
      else if starts_with ''ORIGINAL_MODE='' line then out\<lparr>original_mode := ucast (strtoul 8 (drop 14 line))\<rparr>
      else if starts_with ''ORIGINAL_UID='' line then out\<lparr>original_uid := ucast (strtoul 10 (drop 13 line))\<rparr>
      else if starts_with ''ORIGINAL_GID='' line then out\<lparr>original_gid := ucast (strtoul 10 (drop 13 line))\<rparr>
      else if starts_with ''TIMESTAMP='' line then out\<lparr>qm_timestamp := strtoll 10 (drop 10 line)\<rparr>
      else if starts_with ''RULE_NAME='' line then out\<lparr>qm_rule := snprintf (AV_RULE_NAME_MAXLEN + 1) (drop 10 line)\<rparr>
      else if starts_with ''SHA256='' line then out\<lparr>qm_sha256 := snprintf 65 (drop 7 line)\<rparr>
      else out)"

text \<open>\<open>file\<close> is the content of the sidecar, or \<^verbatim>\<open>None\<close> when it cannot be opened.\<close>

definition read_quarantine_meta :: "string option \<Rightarrow> quarantine_meta option" where
  "read_quarantine_meta content =
     (case content of
        None \<Rightarrow> None
      | Some s \<Rightarrow>
          let out0 = \<lparr>original_path = [], original_mode = 384, original_uid = 0, original_gid = 0,
                      qm_timestamp = 0, qm_rule = [], qm_sha256 = []\<rparr>;
              out = foldl (\<lambda>out l. meta_field (strip_nl l) out) out0 (fgets_lines (PATH_MAX + 64) s)
          in if original_path out = [] then None else Some out)"

section \<open>Reading back\<close>

lemma no_nl_show_base: "2 \<le> b \<Longrightarrow> b \<le> 10 \<Longrightarrow> NL \<notin> set (show_base b n)"
  using show_base_digits [of b n] by (auto simp: is_digit_def NL_def ccode_def)

lemma no_nl_show_int: "NL \<notin> set (show_int i)"
  using no_nl_show_base [of 10] by (simp add: show_int_def show_base_10 NL_def)

lemma length_show_base:
  assumes "2 \<le> b" "n < b ^ k" "0 < k"
  shows "length (show_base b n) \<le> k"
  using assms
proof (induction k arbitrary: n)
  case (Suc k)
  show ?case
  proof (cases "n < b")
    case False
    then have "0 < k" using Suc.prems by (cases k) auto
    moreover have "n div b < b ^ k" using Suc.prems by (simp add: less_mult_imp_div_less mult.commute)
    ultimately have "length (show_base b (n div b)) \<le> k" using Suc by simp
    then show ?thesis using False Suc.prems(1) by (subst show_base.simps) simp
  qed (subst show_base.simps, simp)
qed simp

lemma length_show_int: "- (10 ^ k) < i \<Longrightarrow> i < 10 ^ k \<Longrightarrow> 0 < k \<Longrightarrow> length (show_int i) \<le> k + 1"
  using length_show_base [of 10 "nat (- i)" k] length_show_base [of 10 "nat i" k]
  by (auto simp: show_int_def show_base_10 nat_less_iff le_SucI)

lemma meta_field_line:
  "meta_field (''ORIGINAL_PATH='' @ v) out = out\<lparr>original_path := snprintf PATH_MAX v\<rparr>"
  "meta_field (''ORIGINAL_MODE='' @ v) out = out\<lparr>original_mode := ucast (strtoul 8 v)\<rparr>"
  "meta_field (''ORIGINAL_UID='' @ v) out = out\<lparr>original_uid := ucast (strtoul 10 v)\<rparr>"
  "meta_field (''ORIGINAL_GID='' @ v) out = out\<lparr>original_gid := ucast (strtoul 10 v)\<rparr>"
  "meta_field (''TIMESTAMP='' @ v) out = out\<lparr>qm_timestamp := strtoll 10 v\<rparr>"
  "meta_field (''RULE_NAME='' @ v) out = out\<lparr>qm_rule := snprintf (AV_RULE_NAME_MAXLEN + 1) v\<rparr>"
  "meta_field (''SHA256='' @ v) out = out\<lparr>qm_sha256 := snprintf 65 v\<rparr>"
  by (simp_all add: meta_field_def starts_with_def strneq_def)

text \<open>A field that fits on its line.\<close>

definition field_ok :: "nat \<Rightarrow> string \<Rightarrow> bool" where
  "field_ok n v \<longleftrightarrow> NL \<notin> set v \<and> length v < n"

lemma meta_lines_short:
  assumes "field_ok PATH_MAX path" "field_ok (AV_RULE_NAME_MAXLEN + 1) rule" "field_ok 65 sha"
  shows "\<forall>l \<in> set (meta_lines st now path (Some rule) (Some sha)). NL \<notin> set l \<and> length l + 1 < PATH_MAX + 64"
proof -
  have m: "length (show_base 8 (case st of Some s \<Rightarrow> unat (st_mode s AND 0xFFF) | None \<Rightarrow> 384)) \<le> 11"
  proof -
    have "unat w < 8 ^ 11" for w :: u32 using unsigned_less [of w, where 'a = nat] by simp
    then show ?thesis by (intro length_show_base) (auto split: option.split)
  qed
  have i: "length (show_int (sint w)) \<le> 11" for w :: u32
    using sint_greater_eq [of w] sint_less [of w] length_show_int [of 10 "sint w"] by simp
  have j: "length (show_int (sint w)) \<le> 20" for w :: u64
    using sint_greater_eq [of w] sint_less [of w] length_show_int [of 19 "sint w"] by simp
  have "length (show_int 0) \<le> 11" by (simp add: show_int_def show_nat.simps)
  then have u: "length (show_int (case st of Some s \<Rightarrow> sint (st_uid s) | None \<Rightarrow> 0)) \<le> 11"
    "length (show_int (case st of Some s \<Rightarrow> sint (st_gid s) | None \<Rightarrow> 0)) \<le> 11"
    using i by (simp_all split: option.split)
  have nl: "NL \<noteq> CHR ''O''" "NL \<notin> set ''ORIGINAL_MODE=''" "NL \<notin> set ''ORIGINAL_UID=''" "NL \<notin> set ''ORIGINAL_GID=''"
    "NL \<notin> set ''TIMESTAMP=''" "NL \<notin> set ''RULE_NAME=''" "NL \<notin> set ''SHA256=''" "NL \<notin> set ''ORIGINAL_PATH=''"
    by (simp_all add: NL_def)
  have len: "length ''ORIGINAL_MODE='' = 14" "length ''ORIGINAL_UID='' = 13" "length ''ORIGINAL_GID='' = 13"
    "length ''TIMESTAMP='' = 10" "length ''RULE_NAME='' = 10" "length ''SHA256='' = 7" "length ''ORIGINAL_PATH='' = 14"
    by simp_all
  have app: "NL \<notin> set (p @ v) \<and> length (p @ v) + 1 < PATH_MAX + 64"
    if "NL \<notin> set p" "NL \<notin> set v" "length p \<le> 14" "length v < PATH_MAX" for p v
    using that by simp
  show ?thesis
    unfolding meta_lines_def option.case list.set ball_simps
    using app m i j [of now] u nl len assms no_nl_show_int no_nl_show_base [of 8]
    by (intro conjI TrueI app) (simp_all only: field_ok_def AV_RULE_NAME_MAXLEN_def, simp_all)
qed

text \<open>What a sidecar records of a file, and what reading it gives.\<close>

definition recorded :: "file_stat option \<Rightarrow> u64 \<Rightarrow> string \<Rightarrow> string \<Rightarrow> string \<Rightarrow> quarantine_meta" where
  "recorded orig_st now path rule sha =
     \<lparr>original_path = path,
      original_mode = (case orig_st of Some st \<Rightarrow> st_mode st AND 0xFFF | None \<Rightarrow> 384),
      original_uid = (case orig_st of Some st \<Rightarrow> st_uid st | None \<Rightarrow> 0),
      original_gid = (case orig_st of Some st \<Rightarrow> st_gid st | None \<Rightarrow> 0),
      qm_timestamp = now, qm_rule = rule, qm_sha256 = sha\<rparr>"

lemma snprintf_fits: "length v < n \<Longrightarrow> snprintf n v = v"
  by (simp add: snprintf_def)

lemma strtoul_mode: "ucast (strtoul 8 (show_base 8 (unat w))) = (w :: u32)"
proof -
  have n: "unat w < 2 ^ 32" using unsigned_less [of w] by simp
  then have "strtoul 8 (show_base 8 (unat w)) = of_nat (unat w)" by (intro strtoul_show_base) simp_all
  also have "ucast (of_nat (unat w) :: u64) = (of_nat (unat w) :: u32)"
    by (rule bit_word_eqI) (simp add: bit_simps)
  finally show ?thesis by simp
qed

text \<open>C25. The quarantine record survives the disk: for a path without a newline that fits the path
  buffer, whatever the mode, the owner, the group (negative as \<^verbatim>\<open>%d\<close> prints them) and the time are,
  reading the sidecar back gives exactly what was recorded; nothing is read from a missing one.\<close>

theorem quarantine_meta_roundtrip:
  assumes "path \<noteq> []" "field_ok PATH_MAX path" "field_ok (AV_RULE_NAME_MAXLEN + 1) rule" "field_ok 65 sha"
    "write_quarantine_meta open_ok fdopen_ok fclose_ok dest orig_st now path (Some rule) (Some sha) = Some (meta_path, content)"
  shows "meta_path = dest @ ''.meta'' \<and> read_quarantine_meta (Some content) = Some (recorded orig_st now path rule sha)"
proof -
  have c: "meta_path = dest @ ''.meta''" "content = concat (map (\<lambda>l. l @ [NL]) (meta_lines orig_st now path (Some rule) (Some sha)))"
    using assms(5) by (auto simp: write_quarantine_meta_def Let_def split: if_splits)
  have ls: "fgets_lines (PATH_MAX + 64) content = map (\<lambda>l. l @ [NL]) (meta_lines orig_st now path (Some rule) (Some sha))"
    unfolding c(2) by (rule fgets_lines_file [OF meta_lines_short [OF assms(2-4)]])
  have fit: "length path < PATH_MAX" "length rule < AV_RULE_NAME_MAXLEN + 1" "length sha < 65"
    using assms(2-4) by (simp_all only: field_ok_def)
  have m: "ucast (strtoul 8 (show_base 8 (case orig_st of Some s \<Rightarrow> unat (st_mode s AND 0xFFF) | None \<Rightarrow> 384)))
      = (case orig_st of Some s \<Rightarrow> st_mode s AND 0xFFF | None \<Rightarrow> (384 :: u32))"
    using strtoul_mode strtoul_mode [of 384] by (simp split: option.split)
  have u: "ucast (strtoul 10 (show_int (case orig_st of Some s \<Rightarrow> sint (f s) | None \<Rightarrow> 0)))
      = (case orig_st of Some s \<Rightarrow> f s | None \<Rightarrow> (0 :: u32))" for f
    using strtoul_show_int32 strtoul_show_int32 [of 0] by (simp split: option.split)
  show ?thesis
    using assms(1) c(1)
    by (simp only: read_quarantine_meta_def ls foldl_map strip_nl_line meta_lines_def foldl_Cons foldl_Nil meta_field_line
        option.case Let_def m u strtoll_show_int64 snprintf_fits [OF fit(1)] snprintf_fits [OF fit(2)] snprintf_fits [OF fit(3)])
      (simp add: recorded_def)
qed

theorem quarantine_meta_roundtrip_witness:
  "\<exists>content. write_quarantine_meta True True True ''/q/1_a'' (Some \<lparr>st_mode = 0x89ED, st_uid = 1000, st_gid = - 1\<rparr>) 5
     ''/home/u/a'' (Some ''Test'') (Some ''ab'') = Some (''/q/1_a.meta'', content) \<and>
   read_quarantine_meta (Some content) =
     Some (recorded (Some \<lparr>st_mode = 0x89ED, st_uid = 1000, st_gid = - 1\<rparr>) 5 ''/home/u/a'' ''Test'' ''ab'')"
proof -
  obtain content where c: "write_quarantine_meta True True True ''/q/1_a''
     (Some \<lparr>st_mode = 0x89ED, st_uid = 1000, st_gid = - 1\<rparr>) 5 ''/home/u/a'' (Some ''Test'') (Some ''ab'') = Some (''/q/1_a.meta'', content)"
    by (simp add: write_quarantine_meta_def truncates_def)
  moreover have "read_quarantine_meta (Some content) =
     Some (recorded (Some \<lparr>st_mode = 0x89ED, st_uid = 1000, st_gid = - 1\<rparr>) 5 ''/home/u/a'' ''Test'' ''ab'')"
    by (rule conjunct2 [OF quarantine_meta_roundtrip [OF _ _ _ _ c]]) (simp_all add: field_ok_def NL_def AV_RULE_NAME_MAXLEN_def)
  ultimately show ?thesis by (intro exI [of _ content] conjI)
qed

lemma show_int_0: "show_int 0 = ''0''"
  by code_simp

text \<open>A newline in the file name is different. The parser takes every later line of the sidecar for
  a field, so the rest of the path after a newline overrides the fields already read: here a file of
  user 1000 whose name ends in a newline and \<^verbatim>\<open>ORIGINAL_UID=0\<close> is recorded as owned by root.\<close>

lemma newline_path_overrides_owner:
  "\<exists>content. write_quarantine_meta True True True ''/q/1_a'' (Some \<lparr>st_mode = 0x1A4, st_uid = 1000, st_gid = 1000\<rparr>) 5
     (''/tmp/x'' @ NL # ''ORIGINAL_UID=0'') (Some ''Test'') (Some ''ab'') = Some (''/q/1_a.meta'', content) \<and>
   map_option original_uid (read_quarantine_meta (Some content)) = Some 0 \<and>
   map_option original_path (read_quarantine_meta (Some content)) = Some ''/tmp/x''"
proof -
  define st where "st = Some \<lparr>st_mode = 0x1A4, st_uid = 1000, st_gid = (1000 :: u32)\<rparr>"
  define ls where "ls = meta_lines st 5 ''/tmp/x'' (Some ''Test'') (Some ''ab'') @ [''ORIGINAL_UID='' @ show_int 0]"
  define content where "content = concat (map (\<lambda>l. l @ [NL]) ls)"
  have w: "write_quarantine_meta True True True ''/q/1_a'' st 5 (''/tmp/x'' @ NL # ''ORIGINAL_UID=0'') (Some ''Test'') (Some ''ab'')
      = Some (''/q/1_a.meta'', content)"
    by (simp add: write_quarantine_meta_def truncates_def content_def ls_def meta_lines_def show_int_0)
  have short: "\<forall>l \<in> set ls. NL \<notin> set l \<and> length l + 1 < PATH_MAX + 64"
  proof -
    have "\<forall>l \<in> set (meta_lines st 5 ''/tmp/x'' (Some ''Test'') (Some ''ab'')). NL \<notin> set l \<and> length l + 1 < PATH_MAX + 64"
      by (rule meta_lines_short) (simp_all add: field_ok_def NL_def AV_RULE_NAME_MAXLEN_def)
    then show ?thesis by (auto simp: ls_def show_int_0 NL_def)
  qed
  have z: "ucast (strtoul 10 (show_int 0)) = (0 :: u32)" using strtoul_show_int32 [of 0] by simp
  have p: "snprintf PATH_MAX ''/tmp/x'' = ''/tmp/x''" by (simp add: snprintf_def)
  have "read_quarantine_meta (Some content) = Some (foldl (\<lambda>out l. meta_field (strip_nl l) out)
      \<lparr>original_path = [], original_mode = 384, original_uid = 0, original_gid = 0, qm_timestamp = 0, qm_rule = [], qm_sha256 = []\<rparr>
      (map (\<lambda>l. l @ [NL]) ls))"
    unfolding read_quarantine_meta_def content_def option.case fgets_lines_file [OF short]
    by (simp only: foldl_map strip_nl_line ls_def meta_lines_def foldl_append foldl_Cons foldl_Nil meta_field_line Let_def p) simp
  then show ?thesis using w unfolding st_def
    by (simp only: foldl_map strip_nl_line ls_def meta_lines_def foldl_append foldl_Cons foldl_Nil meta_field_line p z) simp
qed

end
