(* ===== verification/AvdControl.thy ===== *)
theory AvdControl
  imports QuarantineMeta
begin

text \<open>
  The control socket of \<^verbatim>\<open>src/userspace/avd/avd.c\<close>: the verdict history ring, reading a request line,
  the commands and the dispatcher, and a whole connection. A reply is the list of the writes made; a
  change to the file system is an element of the list of operations that succeeded. What the system
  calls return is a field of the record \<open>ctl_env\<close>.
\<close>

section \<open>The verdict history\<close>

definition AVD_VERDICT_HISTORY_MAX :: nat where "AVD_VERDICT_HISTORY_MAX = 500"

record verdict_record =
  vr_id :: u64
  vr_time :: u64
  vr_pid :: u32
  vr_uid :: u32
  vr_path :: string
  vr_sha256 :: string
  vr_verdict :: u8
  vr_rule :: string
  vr_score :: u32
  vr_on_demand :: bool

record history =
  verdict_history :: "verdict_record list"
  verdict_history_count :: nat
  verdict_history_next :: nat
  verdict_history_next_id :: u64

definition verdict_zero :: verdict_record where
  "verdict_zero = \<lparr>vr_id = 0, vr_time = 0, vr_pid = 0, vr_uid = 0, vr_path = [], vr_sha256 = [], vr_verdict = 0,
     vr_rule = [], vr_score = 0, vr_on_demand = False\<rparr>"

definition history_init :: history where
  "history_init = \<lparr>verdict_history = replicate AVD_VERDICT_HISTORY_MAX verdict_zero, verdict_history_count = 0,
     verdict_history_next = 0, verdict_history_next_id = 1\<rparr>"

definition record_verdict_history ::
  "u64 \<Rightarrow> u32 \<Rightarrow> u32 \<Rightarrow> string option \<Rightarrow> string option \<Rightarrow> u8 \<Rightarrow> string option \<Rightarrow> u32 \<Rightarrow> bool \<Rightarrow> history \<Rightarrow> history" where
  "record_verdict_history now pid uid path sha256_hex verdict rule_name score on_demand h =
     (let str = (\<lambda>n s. snprintf n (case s of Some t \<Rightarrow> t | None \<Rightarrow> []));
          rec = \<lparr>vr_id = verdict_history_next_id h, vr_time = now, vr_pid = pid, vr_uid = uid,
                 vr_path = str PATH_MAX path, vr_sha256 = str 65 sha256_hex, vr_verdict = verdict,
                 vr_rule = str (AV_RULE_NAME_MAXLEN + 1) rule_name, vr_score = score, vr_on_demand = on_demand\<rparr>
      in h\<lparr>verdict_history := (verdict_history h)[verdict_history_next h := rec],
           verdict_history_next_id := verdict_history_next_id h + 1,
           verdict_history_next := (verdict_history_next h + 1) mod AVD_VERDICT_HISTORY_MAX,
           verdict_history_count :=
             (if verdict_history_count h < AVD_VERDICT_HISTORY_MAX then verdict_history_count h + 1
              else verdict_history_count h)\<rparr>)"

definition snapshot :: "history \<Rightarrow> verdict_record list" where
  "snapshot h = map (\<lambda>i. verdict_history h !
      ((verdict_history_next h + AVD_VERDICT_HISTORY_MAX - 1 - i) mod AVD_VERDICT_HISTORY_MAX))
    [0..<verdict_history_count h]"

definition verdict_visible_to :: "verdict_record \<Rightarrow> u32 \<Rightarrow> bool \<Rightarrow> bool" where
  "verdict_visible_to rec peer_uid is_root \<longleftrightarrow> is_root \<or> vr_uid rec = peer_uid"

section \<open>Replies\<close>

definition send_err :: "string \<Rightarrow> string" where
  "send_err msg = snprintf 256 (''ERR '' @ msg @ [NL])"

fun join_tab :: "string list \<Rightarrow> string" where
  "join_tab [] = [NL]"
| "join_tab [f] = f @ [NL]"
| "join_tab (f # g # fs) = f @ TAB # join_tab (g # fs)"

abbreviation ok_line :: string where "ok_line \<equiv> ''OK'' @ [NL]"
abbreviation end_line :: string where "end_line \<equiv> ''END'' @ [NL]"

definition count_line :: "nat \<Rightarrow> string" where
  "count_line n = snprintf 32 (''COUNT '' @ show_nat n @ [NL])"

definition verdict_row :: "verdict_record \<Rightarrow> string" where
  "verdict_row r = snprintf (PATH_MAX + 256) (join_tab
     [show_nat (unat (vr_id r)), show_int (sint (vr_time r)), show_nat (unat (vr_pid r)), vr_path r, vr_sha256 r,
      (if vr_verdict r = AV_VERDICT_MALICIOUS then ''MALICIOUS'' else ''CLEAN''), vr_rule r,
      show_int (sint (vr_score r)), (if vr_on_demand r then ''1'' else ''0'')])"

text \<open>Counting, then writing, the visible rows up to \<open>n\<close>; \<open>sent i\<close> is the outcome of writing row \<open>i\<close>.
  The flag says that no write failed.\<close>

primrec count_rows :: "(verdict_record \<Rightarrow> bool) \<Rightarrow> nat \<Rightarrow> verdict_record list \<Rightarrow> nat \<Rightarrow> nat" where
  "count_rows vis n [] tk = tk"
| "count_rows vis n (r # rs) tk =
     (if tk < n then count_rows vis n rs (if vis r then tk + 1 else tk) else tk)"

primrec send_rows ::
  "(verdict_record \<Rightarrow> bool) \<Rightarrow> (nat \<Rightarrow> bool) \<Rightarrow> nat \<Rightarrow> verdict_record list \<Rightarrow> nat \<Rightarrow> string list \<times> bool" where
  "send_rows vis sent n [] tk = ([], True)"
| "send_rows vis sent n (r # rs) tk =
     (if tk < n then
        if \<not> vis r then send_rows vis sent n rs tk
        else if \<not> sent tk then ([verdict_row r], False)
        else let (out, ok) = send_rows vis sent n rs (tk + 1) in (verdict_row r # out, ok)
      else ([], True))"

definition cmd_verdicts_recent :: "bool \<Rightarrow> (nat \<Rightarrow> bool) \<Rightarrow> nat \<Rightarrow> u32 \<Rightarrow> bool \<Rightarrow> history \<Rightarrow> string list" where
  "cmd_verdicts_recent malloc_ok sent n peer_uid is_root h =
     (if verdict_history_count h > 0 \<and> \<not> malloc_ok then [send_err ''out of memory'']
      else
        let snap = (if verdict_history_count h > 0 then snapshot h else []);
            vis = (\<lambda>r. verdict_visible_to r peer_uid is_root);
            (rows, ok) = send_rows vis sent n snap 0
        in [ok_line, count_line (count_rows vis n snap 0)] @ rows @ (if ok then [end_line] else []))"

section \<open>The quarantine commands\<close>

datatype fs_op = Fchmod string u32 | Fchown string u32 u32 | Rename string string | Unlink string | ScanFile string

record scan_result =
  sr_verdict :: u8
  sr_rule :: string
  sr_score :: u32
  sr_sha256 :: string

record ctl_env =
  ce_malloc :: bool
  ce_sent :: "nat \<Rightarrow> bool"
  ce_scandir :: "string list option"
  ce_meta1 :: "string \<Rightarrow> string option"
  ce_meta2 :: "string \<Rightarrow> string option"
  ce_open :: "string \<Rightarrow> bool"
  ce_isreg :: "string \<Rightarrow> bool"
  ce_lstat :: "string \<Rightarrow> bool"
  ce_fchmod :: bool
  ce_fchown :: bool
  ce_rename :: bool
  ce_unlink :: "string \<Rightarrow> errno option"
  ce_fcntl :: bool
  ce_scan :: "string \<Rightarrow> scan_result"

definition quarantine_id_valid :: "string \<Rightarrow> bool" where
  "quarantine_id_valid qid \<longleftrightarrow>
     qid \<noteq> [] \<and> CHR ''/'' \<notin> set qid \<and> qid \<noteq> ''.'' \<and> qid \<noteq> ''..'' \<and> length qid < PATH_MAX - 32"

definition quarantined_suffix :: string where
  "quarantined_suffix = ''.quarantined''"

definition filter_quarantined :: "string \<Rightarrow> bool" where
  "filter_quarantined d_name \<longleftrightarrow>
     length d_name > length quarantined_suffix \<and>
     drop (length d_name - length quarantined_suffix) d_name = quarantined_suffix"

definition list_meta_path :: "string \<Rightarrow> string \<Rightarrow> string" where
  "list_meta_path qdir d_name = snprintf (PATH_MAX + 72) (qdir @ CHR ''/'' # d_name @ ''.meta'')"

definition list_visible :: "ctl_env \<Rightarrow> string \<Rightarrow> u32 \<Rightarrow> bool \<Rightarrow> string \<Rightarrow> bool" where
  "list_visible E qdir peer_uid is_root d_name \<longleftrightarrow>
     is_root \<or> (case read_quarantine_meta (ce_meta1 E (list_meta_path qdir d_name)) of
                   Some meta \<Rightarrow> original_uid meta = peer_uid | None \<Rightarrow> False)"

definition list_row :: "ctl_env \<Rightarrow> string \<Rightarrow> string \<Rightarrow> string" where
  "list_row E qdir d_name =
     (let qid = snprintf PATH_MAX (take (length d_name - length quarantined_suffix) d_name) in
      snprintf (PATH_MAX * 2 + 256)
        (case read_quarantine_meta (ce_meta2 E (list_meta_path qdir d_name)) of
           Some meta \<Rightarrow> join_tab [qid, original_path meta, show_int (sint (qm_timestamp meta)), qm_rule meta, qm_sha256 meta]
         | None \<Rightarrow> join_tab [qid, ''?'', ''0'', ''?'', ''?'']))"

text \<open>Writing stops at the first row that could not be written; \<open>i\<close> counts the rows written.\<close>

primrec list_rows :: "ctl_env \<Rightarrow> string \<Rightarrow> u32 \<Rightarrow> bool \<Rightarrow> string list \<Rightarrow> nat \<Rightarrow> string list \<times> bool" where
  "list_rows E qdir peer_uid is_root [] i = ([], True)"
| "list_rows E qdir peer_uid is_root (d # ds) i =
     (if \<not> list_visible E qdir peer_uid is_root d then list_rows E qdir peer_uid is_root ds i
      else if \<not> ce_sent E i then ([list_row E qdir d], False)
      else let (out, ok) = list_rows E qdir peer_uid is_root ds (i + 1) in (list_row E qdir d # out, ok))"

definition cmd_quarantine_list :: "ctl_env \<Rightarrow> string \<Rightarrow> u32 \<Rightarrow> bool \<Rightarrow> string list" where
  "cmd_quarantine_list E qdir peer_uid is_root =
     (case ce_scandir E of
        None \<Rightarrow> [send_err ''could not read quarantine directory'']
      | Some names0 \<Rightarrow>
          let names = filter filter_quarantined names0 in
          if names \<noteq> [] \<and> \<not> ce_malloc E then [send_err ''out of memory'']
          else let (rows, ok) = list_rows E qdir peer_uid is_root names 0 in
            [ok_line, count_line (length (filter (list_visible E qdir peer_uid is_root) names))] @ rows @
            (if ok then [end_line] else []))"

definition quarantine_dest :: "string \<Rightarrow> string \<Rightarrow> string" where
  "quarantine_dest qdir qid = qdir @ CHR ''/'' # qid @ quarantined_suffix"

definition cmd_quarantine_restore :: "ctl_env \<Rightarrow> string \<Rightarrow> string \<Rightarrow> string list \<times> fs_op list" where
  "cmd_quarantine_restore E qdir qid =
     (if \<not> quarantine_id_valid qid then ([send_err ''invalid id''], [])
      else
        let dest = quarantine_dest qdir qid; meta_path = dest @ ''.meta'' in
        if truncates (PATH_MAX * 2) dest \<or> truncates (PATH_MAX * 2 + 8) meta_path
        then ([send_err ''internal path error''], [])
        else case read_quarantine_meta (ce_meta1 E meta_path) of
          None \<Rightarrow> ([send_err (''no metadata for this id (quarantined before this feature '' @
                     ''existed, or corrupt) - cannot determine where to restore it'')], [])
        | Some meta \<Rightarrow>
            if \<not> ce_open E dest then ([send_err ''quarantined file not found''], [])
            else if \<not> ce_isreg E dest
              then ([send_err ''quarantined file is not a regular file - refusing to restore''], [])
            else if ce_lstat E (original_path meta)
              then ([send_err ''original path is occupied - move or remove it first''], [])
            else if \<not> ce_fchmod E then ([send_err ''chmod failed''], [])
            else
              let ops = Fchmod dest (original_mode meta) #
                    (if ce_fchown E then [Fchown dest (original_uid meta) (original_gid meta)] else [])
              in if \<not> ce_rename E
                 then ([send_err (''rename failed (different filesystem? check '' @
                          ''/var/lib/av-quarantine manually)'')], ops)
                 else ([ok_line], ops @ [Rename dest (original_path meta)] @
                        (if ce_unlink E meta_path = None then [Unlink meta_path] else [])))"

definition cmd_quarantine_delete :: "ctl_env \<Rightarrow> string \<Rightarrow> string \<Rightarrow> string list \<times> fs_op list" where
  "cmd_quarantine_delete E qdir qid =
     (if \<not> quarantine_id_valid qid then ([send_err ''invalid id''], [])
      else
        let dest = quarantine_dest qdir qid; meta_path = dest @ ''.meta'' in
        if truncates (PATH_MAX * 2) dest \<or> truncates (PATH_MAX * 2 + 8) meta_path
        then ([send_err ''internal path error''], [])
        else
          let rm = (\<lambda>p. if ce_unlink E p = None then [Unlink p] else []) in
          if ce_unlink E dest \<noteq> None \<and> ce_unlink E dest \<noteq> Some ENOENT then ([send_err ''delete failed''], [])
          else ([ok_line], rm dest @ rm meta_path))"

definition cmd_scan :: "ctl_env \<Rightarrow> string \<Rightarrow> string list \<times> fs_op list" where
  "cmd_scan E path =
     (if path = [] \<or> hd path \<noteq> CHR ''/'' then ([send_err ''path must be absolute''], [])
      else if \<not> ce_open E path then ([send_err ''could not open path for scanning''], [])
      else if \<not> ce_isreg E path then ([send_err ''path is not a regular file''], [])
      else if \<not> ce_fcntl E then ([send_err ''could not prepare file for scanning''], [])
      else
        let result = ce_scan E path in
        ([ok_line, count_line 1,
          snprintf (PATH_MAX + 256) (join_tab
            [(if sr_verdict result = AV_VERDICT_MALICIOUS then ''MALICIOUS'' else ''CLEAN''), sr_rule result,
             show_int (sint (sr_score result)), sr_sha256 result]),
          end_line], [ScanFile path]))"

section \<open>The dispatcher and a connection\<close>

text \<open>The figures the status line shows.\<close>

record ctl_status =
  cs_uptime :: u64
  cs_rules :: bool
  cs_fuzzy :: nat
  cs_tlsh :: nat
  cs_queue :: nat
  cs_threads :: u32

definition cmd_status :: "ctl_status \<Rightarrow> string list" where
  "cmd_status S =
     [ok_line, count_line 1,
      snprintf 256 (join_tab [show_int (sint (cs_uptime S)), (if cs_rules S then ''1'' else ''0''), show_nat (cs_fuzzy S),
        show_nat (cs_tlsh S), show_nat (cs_queue S), show_int (sint (cs_threads S))]),
      end_line]"

text \<open>\<^verbatim>\<open>strtoul\<close> leaves its end pointer at the start when there is no digit.\<close>

definition no_number :: "string \<Rightarrow> bool" where
  "no_number s \<longleftrightarrow> (case scan_number 10 s of (_, ds, _) \<Rightarrow> ds = [])"

definition handle_control_line ::
  "ctl_env \<Rightarrow> ctl_status \<Rightarrow> string \<Rightarrow> history \<Rightarrow> string \<Rightarrow> u32 \<Rightarrow> bool \<Rightarrow> string list \<times> fs_op list" where
  "handle_control_line E S qdir h line peer_uid is_root =
     (if line = ''STATUS'' then (cmd_status S, [])
      else if starts_with ''VERDICTS RECENT '' line then
        let arg = drop 16 line in
        if no_number arg then ([send_err ''malformed VERDICTS RECENT (expected a count)''], [])
        else (cmd_verdicts_recent (ce_malloc E) (ce_sent E) (unat (strtoul 10 arg)) peer_uid is_root h, [])
      else if line = ''QUARANTINE LIST'' then (cmd_quarantine_list E qdir peer_uid is_root, [])
      else if starts_with ''QUARANTINE RESTORE '' line then
        if \<not> is_root then ([send_err ''permission denied (use: pkexec avctl quarantine restore <id>)''], [])
        else cmd_quarantine_restore E qdir (drop 19 line)
      else if starts_with ''QUARANTINE DELETE '' line then
        if \<not> is_root then ([send_err ''permission denied (use: pkexec avctl quarantine delete <id>)''], [])
        else cmd_quarantine_delete E qdir (drop 18 line)
      else if starts_with ''SCAN '' line then
        if \<not> is_root then ([send_err ''permission denied (use: pkexec avctl scan <path>)''], [])
        else cmd_scan E (drop 5 line)
      else ([send_err ''unknown command''], []))"

text \<open>One \<^verbatim>\<open>read\<close> of a request byte: whether the deadline had passed before it, and what it returned.
  Past the end of the script every read reports the end of the connection.\<close>

datatype rl_event = RlByte char | RlEof | RlIntr | RlErr

datatype rl_result = Line string | Closed | Malformed

primrec read_line :: "(bool \<times> rl_event) list \<Rightarrow> nat \<Rightarrow> string \<Rightarrow> rl_result" where
  "read_line [] bufsz buf = (if length buf + 1 < bufsz then (if buf = [] then Closed else Malformed) else Malformed)"
| "read_line (e # es) bufsz buf =
     (if length buf + 1 < bufsz then
        if fst e then Malformed
        else case snd e of
          RlIntr \<Rightarrow> read_line es bufsz buf
        | RlErr \<Rightarrow> Malformed
        | RlEof \<Rightarrow> if buf = [] then Closed else Malformed
        | RlByte c \<Rightarrow> if c = NL then Line buf else read_line es bufsz (buf @ [c])
      else Malformed)"

abbreviation AVD_SOCK_LINE_MAX :: nat where "AVD_SOCK_LINE_MAX \<equiv> PATH_MAX + 256"

text \<open>\<open>cred\<close> is the peer's user id, if \<^verbatim>\<open>SO_PEERCRED\<close> could be read. An empty line has length 0 like
  a closed connection and gets no answer; a line is a C string, so it ends at its first NUL.\<close>

definition control_conn_main ::
  "ctl_env \<Rightarrow> ctl_status \<Rightarrow> string \<Rightarrow> history \<Rightarrow> u32 option \<Rightarrow> (bool \<times> rl_event) list \<Rightarrow> string list \<times> fs_op list" where
  "control_conn_main E S qdir h cred es =
     (let uid = (case cred of Some u \<Rightarrow> u | None \<Rightarrow> - 1);
          is_root = (case cred of Some u \<Rightarrow> u = 0 | None \<Rightarrow> False)
      in case read_line es AVD_SOCK_LINE_MAX [] of
        Malformed \<Rightarrow> ([send_err ''malformed request (missing newline, line too long, or timed out)''], [])
      | Closed \<Rightarrow> ([], [])
      | Line l \<Rightarrow> if l = [] then ([], []) else handle_control_line E S qdir h (cstr l) uid is_root)"

section \<open>The ring is a bounded history\<close>

text \<open>\<open>hist_of H h\<close>: the ring holds the completed scans \<open>H\<close>, oldest first.\<close>

definition hist_of :: "verdict_record list \<Rightarrow> history \<Rightarrow> bool" where
  "hist_of H h \<longleftrightarrow> length (verdict_history h) = AVD_VERDICT_HISTORY_MAX \<and>
     verdict_history_next h = length H mod AVD_VERDICT_HISTORY_MAX \<and>
     verdict_history_count h = min (length H) AVD_VERDICT_HISTORY_MAX \<and>
     verdict_history_next_id h = of_nat (length H + 1) \<and>
     (\<forall>k < length H. length H \<le> k + AVD_VERDICT_HISTORY_MAX \<longrightarrow> verdict_history h ! (k mod AVD_VERDICT_HISTORY_MAX) = H ! k) \<and>
     (\<forall>k < length H. vr_id (H ! k) = of_nat (k + 1))"

lemma hist_of_init: "hist_of [] history_init"
  by (simp add: hist_of_def history_init_def)

definition stored ::
  "history \<Rightarrow> u64 \<Rightarrow> u32 \<Rightarrow> u32 \<Rightarrow> string option \<Rightarrow> string option \<Rightarrow> u8 \<Rightarrow> string option \<Rightarrow> u32 \<Rightarrow> bool \<Rightarrow> verdict_record" where
  "stored h now pid uid path sha256_hex verdict rule_name score on_demand =
     (let str = (\<lambda>n s. snprintf n (case s of Some t \<Rightarrow> t | None \<Rightarrow> [])) in
      \<lparr>vr_id = verdict_history_next_id h, vr_time = now, vr_pid = pid, vr_uid = uid,
       vr_path = str PATH_MAX path, vr_sha256 = str 65 sha256_hex, vr_verdict = verdict,
       vr_rule = str (AV_RULE_NAME_MAXLEN + 1) rule_name, vr_score = score, vr_on_demand = on_demand\<rparr>)"

lemma hist_of_record:
  assumes "hist_of H h"
  shows "hist_of (H @ [stored h now pid uid path sha verdict rule score od])
    (record_verdict_history now pid uid path sha verdict rule score od h)"
proof -
  let ?M = AVD_VERDICT_HISTORY_MAX
  have M: "0 < ?M" by (simp add: AVD_VERDICT_HISTORY_MAX_def)
  have slot: "k mod ?M \<noteq> length H mod ?M" if "k < length H" "length H < k + ?M" for k
    using that mod_eq_dvd_iff_nat [of k "length H" ?M] by (auto dest: dvd_imp_le)
  have lt: "length H mod ?M < length (verdict_history h)" using assms M by (simp add: hist_of_def)
  define r where "r = stored h now pid uid path sha verdict rule score od"
  define h' where "h' = record_verdict_history now pid uid path sha verdict rule score od h"
  have h': "verdict_history h' = (verdict_history h)[length H mod ?M := r]"
    "verdict_history_next h' = (length H mod ?M + 1) mod ?M"
    "verdict_history_next_id h' = of_nat (length H + 1) + 1"
    "verdict_history_count h' = min (length H + 1) ?M" "vr_id r = of_nat (length H + 1)"
    using assms by (auto simp: h'_def r_def hist_of_def record_verdict_history_def stored_def Let_def)
  have "verdict_history h' ! (k mod ?M) = (H @ [r]) ! k" if "k < length H + 1" "length H + 1 \<le> k + ?M" for k
  proof (cases "k = length H")
    case True
    then show ?thesis using lt by (simp add: h')
  next
    case False
    then have "k mod ?M \<noteq> length H mod ?M" "k < length H" "length H \<le> k + ?M" using slot that by auto
    then show ?thesis using assms by (simp add: h' hist_of_def nth_append)
  qed
  moreover have "vr_id ((H @ [r]) ! k) = of_nat (k + 1)" if "k < length H + 1" for k
    using that assms by (cases "k = length H") (simp_all add: h' hist_of_def nth_append)
  ultimately have "hist_of (H @ [r]) h'" using assms by (simp add: hist_of_def h' mod_Suc_eq add.commute)
  then show ?thesis by (simp only: r_def h'_def)
qed

lemma snapshot_hist:
  assumes "hist_of H h"
  shows "snapshot h = take AVD_VERDICT_HISTORY_MAX (rev H)"
proof (rule nth_equalityI)
  let ?M = AVD_VERDICT_HISTORY_MAX
  have M: "0 < ?M" by (simp add: AVD_VERDICT_HISTORY_MAX_def)
  show "length (snapshot h) = length (take ?M (rev H))"
    using assms by (simp add: snapshot_def hist_of_def min.commute)
  fix i assume "i < length (snapshot h)"
  then have i: "i < length H" "i < ?M" using assms by (auto simp: snapshot_def hist_of_def)
  have "(length H mod ?M + ?M - 1 - i) mod ?M = (length H - 1 - i) mod ?M"
  proof -
    have "length H mod ?M + ?M - 1 - i + ?M * (length H div ?M) = (length H - 1 - i) + ?M"
      using i mult_div_mod_eq [of ?M "length H"] by linarith
    then show ?thesis by (metis mod_add_self2 mod_mult_self2)
  qed
  then have "snapshot h ! i = verdict_history h ! ((length H - 1 - i) mod ?M)"
    using assms i by (simp add: snapshot_def hist_of_def)
  also have "\<dots> = H ! (length H - 1 - i)" using assms i by (simp add: hist_of_def)
  also have "\<dots> = take ?M (rev H) ! i" using i by (simp add: rev_nth)
  finally show "snapshot h ! i = take ?M (rev H) ! i" .
qed

lemma count_rows_filter: "count_rows vis n rs tk = tk + length (take (n - tk) (filter vis rs))"
proof (induction rs arbitrary: tk)
  case (Cons r rs)
  show ?case
  proof (cases "tk < n \<and> vis r")
    case True
    then have "n - tk = Suc (n - (tk + 1))" by linarith
    then show ?thesis using True Cons.IH [of "tk + 1"] by (simp del: diff_Suc_eq_diff_pred)
  qed (use Cons.IH in auto)
qed simp

lemma send_rows_prefix:
  "\<exists>k. fst (send_rows vis sent n rs tk) = map verdict_row (take k (take (n - tk) (filter vis rs))) \<and>
     (snd (send_rows vis sent n rs tk) \<longrightarrow> fst (send_rows vis sent n rs tk) = map verdict_row (take (n - tk) (filter vis rs))) \<and>
     ((\<forall>i. sent i) \<longrightarrow> snd (send_rows vis sent n rs tk))"
proof (induction rs arbitrary: tk)
  case (Cons r rs)
  consider "\<not> tk < n" | "tk < n" "\<not> vis r" | "tk < n" "vis r" "\<not> sent tk" | "tk < n" "vis r" "sent tk" by blast
  then show ?case
  proof cases
    case 1
    then show ?thesis by (intro exI [of _ 0]) simp
  next
    case 2
    then show ?thesis using Cons.IH [of tk] by simp
  next
    case 3
    then have "n - tk = Suc (n - tk - 1)" by simp
    then have "take 1 (take (n - tk) (filter vis (r # rs))) = [r]" using 3 by (simp add: take_Suc min_def)
    then show ?thesis using 3 by (intro exI [of _ 1]) auto
  next
    case 4
    then have n: "n - tk = Suc (n - (tk + 1))" by simp
    obtain rows ok where s: "send_rows vis sent n rs (tk + 1) = (rows, ok)" by fastforce
    then have e: "send_rows vis sent n (r # rs) tk = (verdict_row r # rows, ok)" using 4 by simp
    have f: "take (n - tk) (filter vis (r # rs)) = r # take (n - (tk + 1)) (filter vis rs)" using 4 by (simp add: n)
    obtain k where k: "rows = map verdict_row (take k (take (n - (tk + 1)) (filter vis rs)))"
      "ok \<longrightarrow> rows = map verdict_row (take (n - (tk + 1)) (filter vis rs))" "(\<forall>i. sent i) \<longrightarrow> ok"
      using Cons.IH [of "tk + 1"] unfolding s fst_conv snd_conv by blast
    show ?thesis unfolding e f fst_conv snd_conv
      by (intro exI [of _ "Suc k"] conjI) (use k in simp_all)
  qed
qed simp

lemma snapshot_empty: "verdict_history_count h = 0 \<Longrightarrow> snapshot h = []"
  by (simp add: snapshot_def)

lemma cmd_verdicts_recent_shape:
  "cmd_verdicts_recent malloc_ok sent n uid root h = [send_err ''out of memory''] \<or>
   (let V = take n (filter (\<lambda>r. verdict_visible_to r uid root) (snapshot h)) in
    \<exists>k. cmd_verdicts_recent malloc_ok sent n uid root h = [ok_line, count_line (length V)] @ map verdict_row (take k V) \<or>
        cmd_verdicts_recent malloc_ok sent n uid root h = [ok_line, count_line (length V)] @ map verdict_row V @ [end_line])"
proof (cases "verdict_history_count h > 0 \<and> \<not> malloc_ok")
  case False
  have s: "(if verdict_history_count h > 0 then snapshot h else []) = snapshot h"
    using snapshot_empty by simp
  define vis where "vis = (\<lambda>r. verdict_visible_to r uid root)"
  define V where "V = take n (filter vis (snapshot h))"
  obtain rows ok where r: "send_rows vis sent n (snapshot h) 0 = (rows, ok)" by fastforce
  have c: "cmd_verdicts_recent malloc_ok sent n uid root h =
      [ok_line, count_line (length V)] @ rows @ (if ok then [end_line] else [])"
    using False r by (simp add: cmd_verdicts_recent_def s count_rows_filter V_def vis_def Let_def)
  obtain k where "rows = map verdict_row (take k V)" "ok \<longrightarrow> rows = map verdict_row V"
    using send_rows_prefix [of vis sent n "snapshot h" 0] r by (auto simp: V_def)
  then show ?thesis using c unfolding V_def vis_def Let_def by (cases ok) auto
qed (simp add: cmd_verdicts_recent_def)

text \<open>C26. The verdict ring is the list of completed scans, cut to the last 500: a new scan is appended
  with the next id, and a \<^verbatim>\<open>VERDICTS RECENT n\<close> whose writes succeed shows, newest first, the first
  \<open>n\<close> of those scans that the peer may see, with their exact number announced before them.\<close>

theorem verdict_ring_refines:
  assumes "hist_of H h"
  shows "hist_of (H @ [stored h now pid uid path sha verdict rule score od])
      (record_verdict_history now pid uid path sha verdict rule score od h) \<and>
    cmd_verdicts_recent True (\<lambda>_. True) n peer root h =
      (let V = take n (filter (\<lambda>r. root \<or> vr_uid r = peer) (take AVD_VERDICT_HISTORY_MAX (rev H))) in
       [ok_line, count_line (length V)] @ map verdict_row V @ [end_line])"
proof
  show "hist_of (H @ [stored h now pid uid path sha verdict rule score od])
      (record_verdict_history now pid uid path sha verdict rule score od h)" by (rule hist_of_record [OF assms])
  define vis where "vis = (\<lambda>r. verdict_visible_to r peer root)"
  obtain rows ok where r: "send_rows vis (\<lambda>_. True) n (snapshot h) 0 = (rows, ok)" by fastforce
  then have "ok" "rows = map verdict_row (take n (filter vis (snapshot h)))"
    using send_rows_prefix [of vis "\<lambda>_. True" n "snapshot h" 0] by auto
  then show "cmd_verdicts_recent True (\<lambda>_. True) n peer root h =
      (let V = take n (filter (\<lambda>r. root \<or> vr_uid r = peer) (take AVD_VERDICT_HISTORY_MAX (rev H))) in
       [ok_line, count_line (length V)] @ map verdict_row V @ [end_line])"
    using r snapshot_empty [of h]
    by (simp add: cmd_verdicts_recent_def count_rows_filter vis_def verdict_visible_to_def Let_def flip: snapshot_hist [OF assms])
qed

theorem verdict_ring_refines_witness:
  "cmd_verdicts_recent True (\<lambda>_. True) 5 1000 False (record_verdict_history 7 0 1000 (Some ''/a'') None 0 None 0 True history_init) =
     [ok_line, count_line 1, verdict_row (stored history_init 7 0 1000 (Some ''/a'') None 0 None 0 True), end_line]"
proof -
  have "hist_of ([] @ [stored history_init 7 0 1000 (Some ''/a'') None 0 None 0 True])
      (record_verdict_history 7 0 1000 (Some ''/a'') None 0 None 0 True history_init)"
    using verdict_ring_refines [OF hist_of_init] by blast
  from conjunct2 [OF verdict_ring_refines [OF this, of _ _ _ _ _ _ _ _ _ 5 1000 False]]
  show ?thesis by (simp add: stored_def AVD_VERDICT_HISTORY_MAX_def Let_def)
qed

section \<open>Who may do what\<close>

text \<open>A path below the quarantine directory: an entry with no slash in its name, or its sidecar.\<close>

definition in_quarantine :: "string \<Rightarrow> string \<Rightarrow> bool" where
  "in_quarantine qdir p \<longleftrightarrow> (\<exists>x. quarantine_id_valid x \<and>
     (p = quarantine_dest qdir x \<or> p = quarantine_dest qdir x @ ''.meta''))"

text \<open>What an operation may touch: everything stays in quarantine, except that a file is moved to the
  unoccupied path its sidecar records, and a scan reads an absolute path.\<close>

fun op_confined :: "ctl_env \<Rightarrow> string \<Rightarrow> fs_op \<Rightarrow> bool" where
  "op_confined E qdir (Fchmod p m) = in_quarantine qdir p"
| "op_confined E qdir (Fchown p u g) = in_quarantine qdir p"
| "op_confined E qdir (Unlink p) = in_quarantine qdir p"
| "op_confined E qdir (Rename p q) = (in_quarantine qdir p \<and> \<not> ce_lstat E q \<and> ce_isreg E p \<and>
     map_option original_path (read_quarantine_meta (ce_meta1 E (p @ ''.meta''))) = Some q)"
| "op_confined E qdir (ScanFile p) = (p \<noteq> [] \<and> hd p = CHR ''/'' \<and> ce_isreg E p)"

text \<open>A moved file got its recorded mode before it became reachable.\<close>

definition mode_first :: "ctl_env \<Rightarrow> fs_op list \<Rightarrow> bool" where
  "mode_first E ops \<longleftrightarrow> (\<forall>p q. Rename p q \<in> set ops \<longrightarrow> (\<exists>m. read_quarantine_meta (ce_meta1 E (p @ ''.meta'')) = Some m \<and>
     ops \<noteq> [] \<and> hd ops = Fchmod p (original_mode m)))"

text \<open>What a peer may be shown: an error, the totals, or rows of its own files.\<close>

definition own_rows :: "ctl_env \<Rightarrow> string \<Rightarrow> history \<Rightarrow> u32 \<Rightarrow> string list \<Rightarrow> bool" where
  "own_rows E qdir h uid rows \<longleftrightarrow>
     set rows \<subseteq> verdict_row ` {r \<in> set (snapshot h). vr_uid r = uid} \<or>
     set rows \<subseteq> list_row E qdir ` {d. map_option original_uid (read_quarantine_meta (ce_meta1 E (list_meta_path qdir d))) = Some uid}"

definition shown_to :: "ctl_env \<Rightarrow> ctl_status \<Rightarrow> string \<Rightarrow> history \<Rightarrow> u32 \<Rightarrow> string list \<Rightarrow> bool" where
  "shown_to E S qdir h uid out \<longleftrightarrow> out = [] \<or> (\<exists>m. out = [send_err m]) \<or> out = cmd_status S \<or>
     (\<exists>n rows tail. out = [ok_line, count_line n] @ rows @ tail \<and> tail \<in> {[], [end_line]} \<and> own_rows E qdir h uid rows)"

lemma list_rows_visible:
  "set (fst (list_rows E qdir uid root ds i)) \<subseteq> list_row E qdir ` {d. list_visible E qdir uid root d}"
  by (induction ds arbitrary: i) (auto simp: split_def Let_def)

lemma in_quarantine_dest:
  "quarantine_id_valid x \<Longrightarrow> in_quarantine qdir (quarantine_dest qdir x)"
  "quarantine_id_valid x \<Longrightarrow> in_quarantine qdir (quarantine_dest qdir x @ ''.meta'')"
  by (auto simp: in_quarantine_def)

lemma restore_confined:
  "cmd_quarantine_restore E qdir qid = (out, ops) \<Longrightarrow> (\<forall>op \<in> set ops. op_confined E qdir op) \<and> mode_first E ops"
  by (auto simp: cmd_quarantine_restore_def Let_def in_quarantine_dest mode_first_def split: if_splits option.splits)

lemma delete_confined:
  "cmd_quarantine_delete E qdir qid = (out, ops) \<Longrightarrow> (\<forall>op \<in> set ops. op_confined E qdir op) \<and> mode_first E ops"
  by (auto simp: cmd_quarantine_delete_def Let_def in_quarantine_dest mode_first_def split: if_splits option.splits)

lemma scan_confined:
  "cmd_scan E p = (out, ops) \<Longrightarrow> (\<forall>op \<in> set ops. op_confined E qdir op) \<and> mode_first E ops"
  by (auto simp: cmd_scan_def Let_def mode_first_def split: if_splits)

lemma shown_verdicts: "shown_to E S qdir h uid (cmd_verdicts_recent mo sent n uid False h)"
proof -
  define V where "V = take n (filter (\<lambda>r. verdict_visible_to r uid False) (snapshot h))"
  have V: "set V \<subseteq> {r \<in> set (snapshot h). vr_uid r = uid}"
    by (auto simp: V_def verdict_visible_to_def dest: in_set_takeD)
  have own: "own_rows E qdir h uid (map verdict_row (take k V))" for k
    unfolding own_rows_def using V by (auto dest: in_set_takeD)
  consider "cmd_verdicts_recent mo sent n uid False h = [send_err ''out of memory'']"
    | k where "cmd_verdicts_recent mo sent n uid False h = [ok_line, count_line (length V)] @ map verdict_row (take k V) @ []"
    | "cmd_verdicts_recent mo sent n uid False h = [ok_line, count_line (length V)] @ map verdict_row (take (length V) V) @ [end_line]"
    using cmd_verdicts_recent_shape [of mo sent n uid False h] unfolding Let_def V_def [symmetric] by auto
  then show ?thesis
    by cases (unfold shown_to_def, blast, use own in blast, use own in blast)
qed

lemma shown_list: "shown_to E S qdir h uid (cmd_quarantine_list E qdir uid False)"
proof -
  have own: "own_rows E qdir h uid (fst (list_rows E qdir uid False ns i))" for ns i
    using list_rows_visible [of E qdir uid False ns i] unfolding own_rows_def list_visible_def
    by (auto split: option.splits)
  show ?thesis
  proof (cases "ce_scandir E")
    case None
    then show ?thesis unfolding shown_to_def cmd_quarantine_list_def by simp blast
  next
    case (Some names0)
    define names where "names = filter filter_quarantined names0"
    obtain rows ok where r: "list_rows E qdir uid False names 0 = (rows, ok)" by fastforce
    have o: "own_rows E qdir h uid rows" using own [of names 0] r by simp
    define n tail where "n = length (filter (list_visible E qdir uid False) names)" and "tail = (if ok then [end_line] else [])"
    have t: "tail \<in> {[], [end_line]}" by (simp add: tail_def)
    have e: "cmd_quarantine_list E qdir uid False =
      (if names \<noteq> [] \<and> \<not> ce_malloc E then [send_err ''out of memory'']
       else [ok_line, count_line n] @ rows @ tail)"
      unfolding cmd_quarantine_list_def Some option.case Let_def names_def [symmetric] r prod.case n_def tail_def ..
    show ?thesis
    proof (cases "names \<noteq> [] \<and> \<not> ce_malloc E")
      case True
      then show ?thesis unfolding e shown_to_def by simp blast
    next
      case False
      then show ?thesis unfolding e shown_to_def using o t by (simp only: if_False) blast
    qed
  qed
qed

lemma handle_line_gate:
  assumes "handle_control_line E S qdir h line uid root = (out, ops)"
  shows "(\<forall>op \<in> set ops. op_confined E qdir op) \<and> mode_first E ops \<and>
    (root \<or> ops = [] \<and> shown_to E S qdir h uid out)"
proof -
  have none: "(\<forall>op \<in> set []. op_confined E qdir op) \<and> mode_first E []" by (simp add: mode_first_def)
  have err: "shown_to E S qdir h uid [send_err m]" for m by (auto simp: shown_to_def)
  have st: "shown_to E S qdir h uid (cmd_status S)" by (simp add: shown_to_def)
  show ?thesis
  proof (cases root)
    case True
    then show ?thesis
      using assms none restore_confined delete_confined scan_confined
      by (simp add: handle_control_line_def Let_def split: if_splits; blast)
  next
    case False
    then show ?thesis
      using assms none err st shown_verdicts shown_list
      by (simp add: handle_control_line_def Let_def split: if_splits; blast)
  qed
qed


definition quiet_env :: ctl_env where
  "quiet_env = \<lparr>ce_malloc = True, ce_sent = (\<lambda>_. True), ce_scandir = Some [], ce_meta1 = (\<lambda>_. None), ce_meta2 = (\<lambda>_. None),
     ce_open = (\<lambda>_. True), ce_isreg = (\<lambda>_. True), ce_lstat = (\<lambda>_. False), ce_fchmod = True, ce_fchown = True,
     ce_rename = True, ce_unlink = (\<lambda>_. None), ce_fcntl = True,
     ce_scan = (\<lambda>_. \<lparr>sr_verdict = 0, sr_rule = [], sr_score = 0, sr_sha256 = []\<rparr>)\<rparr>"


end
