(* ===== verification/AvdTrust.thy ===== *)
theory AvdTrust
  imports QuarantineMeta
begin

text \<open>
  The trust gate over the directories the daemon runs in (\<^verbatim>\<open>trust_one_component\<close>,
  \<^verbatim>\<open>dir_hierarchy_trusted\<close>, \<^verbatim>\<open>ensure_quarantine_dir\<close> of \<^verbatim>\<open>src/userspace/avd/avd.c\<close>). What \<^verbatim>\<open>lstat\<close>
  reports is a function of the path. The result carries the list of the components examined, in
  order.
\<close>

section \<open>The code\<close>

definition S_IFMT :: u32 where "S_IFMT = 0xF000"
definition S_ISLNK :: "u32 \<Rightarrow> bool" where "S_ISLNK m \<longleftrightarrow> m AND S_IFMT = 0xA000"
definition S_ISDIR :: "u32 \<Rightarrow> bool" where "S_ISDIR m \<longleftrightarrow> m AND S_IFMT = 0x4000"
definition S_ISVTX :: u32 where "S_ISVTX = 0x200"
definition S_IWGRP_IWOTH :: u32 where "S_IWGRP_IWOTH = 0x12"

definition trust_one_component :: "(string \<Rightarrow> file_stat option) \<Rightarrow> u32 \<Rightarrow> string \<Rightarrow> bool \<Rightarrow> bool" where
  "trust_one_component fs euid cpath allow_sticky_ww =
     (case fs cpath of
        None \<Rightarrow> False
      | Some st \<Rightarrow>
          if S_ISLNK (st_mode st) then False
          else if \<not> S_ISDIR (st_mode st) then False
          else if st_uid st \<noteq> euid \<and> st_uid st \<noteq> 0 then False
          else if st_mode st AND S_IWGRP_IWOTH \<noteq> 0 \<and> (\<not> allow_sticky_ww \<or> st_mode st AND S_ISVTX = 0) then False
          else True)"

fun strip_slashes :: "string \<Rightarrow> string" where
  "strip_slashes s = (if 1 < length s \<and> last s = CHR ''/'' then strip_slashes (butlast s) else s)"

declare strip_slashes.simps [simp del]

primrec check_prefixes ::
  "(string \<Rightarrow> file_stat option) \<Rightarrow> u32 \<Rightarrow> string \<Rightarrow> bool \<Rightarrow> nat list \<Rightarrow> bool \<times> string list" where
  "check_prefixes fs euid buf allow [] = (True, [])"
| "check_prefixes fs euid buf allow (i # js) =
     (if i = length buf \<or> buf ! i = CHR ''/'' then
        if i = 1 \<or> buf ! (i - 1) = CHR ''/'' then check_prefixes fs euid buf allow js
        else
          let p = take i buf; is_final = (i = length buf) in
          if \<not> trust_one_component fs euid p (if is_final then allow else True) then (False, [p])
          else let (r, seen) = check_prefixes fs euid buf allow js in (r, p # seen)
      else check_prefixes fs euid buf allow js)"

definition dir_hierarchy_trusted ::
  "(string \<Rightarrow> file_stat option) \<Rightarrow> u32 \<Rightarrow> string \<Rightarrow> bool \<Rightarrow> bool \<times> string list" where
  "dir_hierarchy_trusted fs euid dir allow_sticky_ww =
     (if dir = [] \<or> hd dir \<noteq> CHR ''/'' then (False, [])
      else if truncates PATH_MAX dir then (False, [])
      else
        let buf = strip_slashes dir in
        if \<not> trust_one_component fs euid ''/'' True then (False, [''/''])
        else let (r, seen) = check_prefixes fs euid buf allow_sticky_ww [1..<length buf + 1] in (r, ''/'' # seen))"

text \<open>\<open>mkdir\<close> is its error number, or \<^verbatim>\<open>None\<close> for success.\<close>

definition ensure_quarantine_dir :: "(string \<Rightarrow> file_stat option) \<Rightarrow> u32 \<Rightarrow> errno option \<Rightarrow> string \<Rightarrow> bool" where
  "ensure_quarantine_dir fs euid mkdir qdir =
     (if mkdir \<noteq> None \<and> mkdir \<noteq> Some EEXIST then False
      else fst (dir_hierarchy_trusted fs euid qdir False))"

section \<open>What the gate guarantees\<close>

text \<open>A directory nobody but root and the daemon can change: not a symbolic link, and writable by
  others only if it is sticky and sharing is tolerated. Then the prefixes of a path that name its
  components, and whether nothing but slashes follows one.\<close>

definition private_dir :: "(string \<Rightarrow> file_stat option) \<Rightarrow> u32 \<Rightarrow> bool \<Rightarrow> string \<Rightarrow> bool" where
  "private_dir fs euid shared p \<longleftrightarrow> (\<exists>st. fs p = Some st \<and> S_ISDIR (st_mode st) \<and> st_uid st \<in> {euid, 0} \<and>
     (st_mode st AND S_IWGRP_IWOTH = 0 \<or> shared \<and> st_mode st AND S_ISVTX \<noteq> 0))"

definition component_of :: "string \<Rightarrow> string \<Rightarrow> string \<Rightarrow> bool" where
  "component_of dir p r \<longleftrightarrow> dir = p @ r \<and> p \<noteq> [] \<and> last p \<noteq> CHR ''/'' \<and> (r = [] \<or> hd r = CHR ''/'')"

lemma trust_one_private: "trust_one_component fs euid p shared = private_dir fs euid shared p"
proof -
  have "\<not> S_ISLNK m" if "S_ISDIR m" for m using that by (auto simp: S_ISLNK_def S_ISDIR_def)
  then show ?thesis by (auto simp: trust_one_component_def private_dir_def split: option.split)
qed

lemma strip_slashes_split: "\<exists>k. s = strip_slashes s @ replicate k CHR ''/''"
proof (induction s rule: strip_slashes.induct)
  case (1 s)
  show ?case
  proof (cases "1 < length s \<and> last s = CHR ''/''")
    case True
    then obtain k where k: "butlast s = strip_slashes (butlast s) @ replicate k CHR ''/''" using 1 by blast
    have "s = butlast s @ [CHR ''/'']" using True by (metis append_butlast_last_id list.size(3) not_less_zero)
    then have "s = strip_slashes (butlast s) @ replicate (Suc k) CHR ''/''"
      using k by (metis append.assoc replicate_append_same replicate_Suc)
    moreover have "strip_slashes s = strip_slashes (butlast s)" using True by (subst strip_slashes.simps) simp
    ultimately show ?thesis by metis
  qed (subst strip_slashes.simps, auto intro: exI [of _ 0])
qed

lemma strip_slashes_last: "s \<noteq> [] \<Longrightarrow> strip_slashes s \<noteq> [] \<and> (length (strip_slashes s) = 1 \<or> last (strip_slashes s) \<noteq> CHR ''/'')"
proof (induction s rule: strip_slashes.induct)
  case (1 s)
  show ?case
  proof (cases "1 < length s \<and> last s = CHR ''/''")
    case True
    then have "butlast s \<noteq> []" by (cases s rule: rev_cases) auto
    then show ?thesis using 1 True by (subst (1 2 3) strip_slashes.simps) simp
  next
    case False
    then have "length s = 1 \<or> last s \<noteq> CHR ''/''" using 1(2) by (cases s) auto
    then show ?thesis using False 1(2) by (subst (1 2 3) strip_slashes.simps) auto
  qed
qed

text \<open>The indices at which the loop checks a prefix.\<close>

definition boundary :: "string \<Rightarrow> nat \<Rightarrow> bool" where
  "boundary buf i \<longleftrightarrow> (i = length buf \<or> buf ! i = CHR ''/'') \<and> i \<noteq> 1 \<and> buf ! (i - 1) \<noteq> CHR ''/''"

lemma check_prefixes_spec:
  "\<exists>rest. map (\<lambda>i. take i buf) (filter (boundary buf) js) = snd (check_prefixes fs euid buf allow js) @ rest \<and>
    (fst (check_prefixes fs euid buf allow js) \<longleftrightarrow>
       (\<forall>i \<in> set js. boundary buf i \<longrightarrow> private_dir fs euid (i \<noteq> length buf \<or> allow) (take i buf))) \<and>
    (\<forall>p \<in> set (butlast (snd (check_prefixes fs euid buf allow js))). \<exists>i \<in> set js. p = take i buf \<and>
       private_dir fs euid (i \<noteq> length buf \<or> allow) p)"
proof (induction js)
  case (Cons i js)
  obtain r seen where c: "check_prefixes fs euid buf allow js = (r, seen)" by fastforce
  show ?case
  proof (cases "boundary buf i")
    case False
    then have "check_prefixes fs euid buf allow (i # js) = (r, seen)" by (auto simp: boundary_def c)
    then show ?thesis using Cons False by (auto simp: c)
  next
    case b: True
    define sh where "sh = (if i = length buf then allow else True)"
    have shared: "(i \<noteq> length buf \<or> allow) = sh" by (simp add: sh_def)
    have step: "check_prefixes fs euid buf allow (i # js) =
      (if \<not> private_dir fs euid sh (take i buf) then (False, [take i buf]) else (r, take i buf # seen))"
      using b by (auto simp: boundary_def c trust_one_private sh_def)
    show ?thesis
    proof (cases "private_dir fs euid sh (take i buf)")
      case True
      obtain rest where ih: "map (\<lambda>i. take i buf) (filter (boundary buf) js) = seen @ rest"
        "r \<longleftrightarrow> (\<forall>i \<in> set js. boundary buf i \<longrightarrow> private_dir fs euid (i \<noteq> length buf \<or> allow) (take i buf))"
        "\<forall>p \<in> set (butlast seen). \<exists>i \<in> set js. p = take i buf \<and> private_dir fs euid (i \<noteq> length buf \<or> allow) p"
        using Cons by (auto simp: c)
      have e: "check_prefixes fs euid buf allow (i # js) = (r, take i buf # seen)" using step True by simp
      show ?thesis
        unfolding e fst_conv snd_conv
        by (intro exI [of _ rest] conjI) (use b ih True shared in auto)
    next
      case False
      have e: "check_prefixes fs euid buf allow (i # js) = (False, [take i buf])" using step False by simp
      show ?thesis unfolding e fst_conv snd_conv
        by (intro exI [of _ "map (\<lambda>i. take i buf) (filter (boundary buf) js)"] conjI) (use b False shared in auto)
    qed
  qed
qed simp

lemma component_boundary:
  assumes "dir \<noteq> []" "hd dir = CHR ''/''"
  shows "component_of dir p r \<longleftrightarrow> (\<exists>i \<in> set [1..<length (strip_slashes dir) + 1]. boundary (strip_slashes dir) i \<and>
      p = take i (strip_slashes dir) \<and> r = drop i dir)"
    and "component_of dir p r \<Longrightarrow> set r \<subseteq> {CHR ''/''} \<longleftrightarrow> length p = length (strip_slashes dir)"
proof -
  let ?b = "strip_slashes dir"
  obtain k where d: "dir = ?b @ replicate k CHR ''/''" using strip_slashes_split by blast
  have b: "?b \<noteq> []" "length ?b = 1 \<or> last ?b \<noteq> CHR ''/''" using strip_slashes_last [OF assms(1)] by auto
  have b0: "?b ! 0 = CHR ''/''" using d b(1) assms by (metis hd_append2 hd_conv_nth)
  have lastb: "1 < length ?b \<Longrightarrow> last ?b \<noteq> CHR ''/''" using b by auto
  have nth: "dir ! i = (if i < length ?b then ?b ! i else CHR ''/'')" if "i < length dir" for i
    using that d by (metis (no_types, lifting) length_append length_replicate nth_append nth_replicate add_diff_inverse_nat nat_add_left_cancel_less)
  have le: "length p \<le> length ?b \<and> p = take (length p) ?b \<and> r = drop (length p) dir \<and> boundary ?b (length p) \<and> 1 \<le> length p"
    if c: "component_of dir p r" for p r
  proof -
    have p: "dir = p @ r" "p \<noteq> []" "last p \<noteq> CHR ''/''" "r = [] \<or> hd r = CHR ''/''" using c by (simp_all add: component_of_def)
    have "0 < length p" using p(2) by simp
    then have lp: "last p = dir ! (length p - 1)" "length p - 1 < length dir"
      unfolding p(1) length_append using p(2) by (simp add: last_conv_nth nth_append, linarith)
    have "length p - 1 < length ?b" using nth [OF lp(2)] lp(1) p(3) by (metis (full_types))
    then have l: "length p \<le> length ?b" by linarith
    have t: "p = take (length p) ?b" using p(1) d l by (metis append_eq_conv_conj take_append diff_is_0_eq take_0 append_Nil2)
    have bl: "?b ! (length p - 1) = last p" using nth [OF lp(2)] lp(1) \<open>length p - 1 < length ?b\<close> by simp
    have "length p \<noteq> 1" using bl b0 p(3) by auto
    moreover have "length p = length ?b \<or> ?b ! length p = CHR ''/''"
    proof (cases "length p < length ?b")
      case True
      then have "r \<noteq> []" using p(1) d by (metis append_Nil2 leD length_append le_add1)
      then have "dir ! length p = CHR ''/''" using p(1,4) by (simp add: nth_append hd_conv_nth)
      then show ?thesis using nth [of "length p"] True d by (metis length_append trans_less_add1)
    qed (use l in simp)
    ultimately show ?thesis using l t p bl by (simp add: boundary_def Suc_le_eq)
  qed
  show "set r \<subseteq> {CHR ''/''} \<longleftrightarrow> length p = length ?b" if c: "component_of dir p r"
  proof -
    note l = le [OF c]
    show ?thesis
    proof (cases "length p = length ?b")
      case True
      then have "r = replicate k CHR ''/''" using l d by (metis append_eq_conv_conj)
      then show ?thesis using True by auto
    next
      case False
      then have lt: "length p < length ?b" "1 < length ?b" using l by linarith+
      have "last ?b \<in> set (drop (length p) ?b)" using lt by (metis last_drop last_in_set drop_eq_Nil leD)
      moreover have "r = drop (length p) ?b @ replicate k CHR ''/''" using l d lt by (metis drop_append diff_is_0_eq drop_0 less_imp_le)
      ultimately have "last ?b \<in> set r" by simp
      then show ?thesis using lastb [OF lt(2)] False by auto
    qed
  qed
  show "component_of dir p r \<longleftrightarrow> (\<exists>i \<in> set [1..<length ?b + 1]. boundary ?b i \<and> p = take i ?b \<and> r = drop i dir)"
  proof
    assume "component_of dir p r"
    from le [OF this] show "\<exists>i \<in> set [1..<length ?b + 1]. boundary ?b i \<and> p = take i ?b \<and> r = drop i dir"
      by (intro bexI [of _ "length p"]) auto
  next
    assume "\<exists>i \<in> set [1..<length ?b + 1]. boundary ?b i \<and> p = take i ?b \<and> r = drop i dir"
    then obtain i where i: "1 \<le> i" "i \<le> length ?b" "boundary ?b i" "p = take i ?b" "r = drop i dir" by auto
    have td: "take i ?b = take i dir" using i(2) d by (metis take_append diff_is_0_eq take_0 append_Nil2)
    have "take i ?b \<noteq> []" using i(1) b(1) by (cases i) auto
    then have "last p = ?b ! (i - 1)" unfolding i(4) using i(1,2) by (simp add: last_conv_nth min_absorb2)
    moreover have "r = [] \<or> hd r = CHR ''/''"
    proof (cases "i < length dir")
      case True
      then show ?thesis using nth [OF True] i(3,5) by (auto simp: hd_drop_conv_nth boundary_def split: if_splits)
    qed (use i in simp)
    ultimately show "component_of dir p r" using i b(1) td by (auto simp: component_of_def boundary_def)
  qed
qed

lemma not_component_root: "\<not> component_of ''/'' p r"
  by (auto simp: component_of_def append_eq_Cons_conv Cons_eq_append_conv)

text \<open>A component above a prefix that the loop examined is one it examined before.\<close>

lemma above_examined:
  assumes "b ! 0 = CHR ''/''" "map (\<lambda>i. take i b) (filter (boundary b) [1..<length b + 1]) = ps @ rest" "j < length ps"
    "component_of (ps ! j) p r" "r \<noteq> []"
  shows "p \<in> set (take j ps) \<and> length p < length b"
proof -
  define L where "L = filter (boundary b) [1..<length b + 1]"
  have sorted: "sorted_wrt (<) L" unfolding L_def by (rule sorted_wrt_filter [OF sorted_wrt_upt])
  have mapL: "map (\<lambda>i. take i b) L = ps @ rest" using assms(2) by (simp add: L_def)
  have jL: "j < length L" using assms(3) mapL by (metis length_append length_map trans_less_add1)
  have nth: "ps ! m = take (L ! m) b" if "m < length ps" for m
    using mapL that by (metis jL length_append length_map nth_append nth_map trans_less_add1)
  have "\<forall>m \<in> set L. 1 \<le> m \<and> m \<le> length b" by (auto simp: L_def)
  then have i: "1 \<le> L ! j" "L ! j \<le> length b" using nth_mem [OF jL] by blast+
  have pr: "take (L ! j) b = p @ r" "p \<noteq> []" "last p \<noteq> CHR ''/''" "hd r = CHR ''/''"
    using assms(4,5) nth [OF assms(3)] by (auto simp: component_of_def)
  have lp: "length p < L ! j" "1 \<le> length p" using arg_cong [where f = length, OF pr(1)] i assms(5) pr(2) by (simp_all add: Suc_le_eq)
  have bn: "b ! m = (p @ r) ! m" if "m < L ! j" for m using that by (simp flip: pr(1))
  have "b ! length p = CHR ''/''" using bn [OF lp(1)] assms(5) pr(4) by (simp add: nth_append hd_conv_nth)
  moreover have l: "b ! (length p - 1) = last p" using bn [of "length p - 1"] lp pr(2) by (simp add: nth_append last_conv_nth)
  then have "length p \<noteq> 1" using pr(3) assms(1) by auto
  ultimately have "boundary b (length p)" using pr(3) l by (simp add: boundary_def)
  moreover have "length p < length b + 1" using lp i by linarith
  ultimately have "length p \<in> set L" using lp(2) unfolding L_def set_filter set_upt by simp
  then obtain j' where j': "j' < length L" "L ! j' = length p" by (auto simp: in_set_conv_nth)
  have "j' < j"
  proof (rule ccontr)
    assume "\<not> j' < j"
    then have "L ! j \<le> L ! j'" using sorted j'(1) jL by (cases "j = j'") (auto simp: sorted_wrt_iff_nth_less intro: less_imp_le)
    then show False using lp j'(2) by simp
  qed
  moreover have "take (length p) b = p" using pr(1) lp(1) by (metis append_eq_conv_conj less_imp_le min.absorb1 take_take)
  ultimately have "ps ! j' = p" "j' < j" using nth [of j'] assms(3) j'(2) by auto
  then show ?thesis using assms(3) lp i by (auto simp: in_set_conv_nth)
qed

text \<open>C28. The gate decides exactly this: the path is absolute and fits, and the root directory and
  every directory on the way down to the last are real directories of root or the daemon that nobody
  else can write to (a sticky one is tolerated on the way, and at the end only if the caller allows
  it). And it looks from the root down: whatever component it has examined, every component above it
  was examined before and found trusted, so nothing is ever resolved through an untrusted one.\<close>

theorem hierarchy_trusted_exact:
  assumes "dir_hierarchy_trusted fs euid dir sticky_ok = (trusted, seen)"
  shows "(trusted \<longleftrightarrow> dir \<noteq> [] \<and> hd dir = CHR ''/'' \<and> length dir < PATH_MAX \<and> private_dir fs euid True ''/'' \<and>
      (\<forall>p r. component_of dir p r \<longrightarrow> private_dir fs euid (\<not> set r \<subseteq> {CHR ''/''} \<or> sticky_ok) p)) \<and>
    (\<forall>k < length seen. \<forall>p r. component_of (seen ! k) p r \<longrightarrow> r \<noteq> [] \<longrightarrow> p \<in> set (take k seen) \<and> private_dir fs euid True p)"
proof -
  let ?b = "strip_slashes dir"
  let ?idx = "[1..<length ?b + 1]"
  consider (bad) "dir = [] \<or> hd dir \<noteq> CHR ''/'' \<or> truncates PATH_MAX dir"
    | (root) "dir \<noteq> []" "hd dir = CHR ''/''" "\<not> truncates PATH_MAX dir" "\<not> private_dir fs euid True ''/''"
    | (walk) "dir \<noteq> []" "hd dir = CHR ''/''" "\<not> truncates PATH_MAX dir" "private_dir fs euid True ''/''" by blast
  then show ?thesis
  proof cases
    case bad
    then have "trusted = False" "seen = []" using assms by (auto simp: dir_hierarchy_trusted_def split: if_splits)
    then show ?thesis using bad by (auto simp: truncates_def)
  next
    case root
    then have "trusted = False" "seen = [''/'']" using assms by (auto simp: dir_hierarchy_trusted_def trust_one_private)
    then show ?thesis using root not_component_root by auto
  next
    case walk
    obtain ok tl where c: "check_prefixes fs euid ?b sticky_ok ?idx = (ok, tl)" by fastforce
    have res: "trusted = ok" "seen = ''/'' # tl"
      using assms walk c by (auto simp: dir_hierarchy_trusted_def trust_one_private split_def Let_def)
    obtain rest where sp: "map (\<lambda>i. take i ?b) (filter (boundary ?b) ?idx) = tl @ rest"
      "ok \<longleftrightarrow> (\<forall>i \<in> set ?idx. boundary ?b i \<longrightarrow> private_dir fs euid (i \<noteq> length ?b \<or> sticky_ok) (take i ?b))"
      "\<forall>p \<in> set (butlast tl). \<exists>i \<in> set ?idx. p = take i ?b \<and> private_dir fs euid (i \<noteq> length ?b \<or> sticky_ok) p"
      using check_prefixes_spec [of ?b ?idx fs euid sticky_ok] unfolding c fst_conv snd_conv by blast
    note comp = component_boundary [OF walk(1,2)]
    have "trusted \<longleftrightarrow> (\<forall>p r. component_of dir p r \<longrightarrow> private_dir fs euid (\<not> set r \<subseteq> {CHR ''/''} \<or> sticky_ok) p)"
    proof
      assume t: trusted
      show "\<forall>p r. component_of dir p r \<longrightarrow> private_dir fs euid (\<not> set r \<subseteq> {CHR ''/''} \<or> sticky_ok) p"
      proof (intro allI impI)
        fix p r assume pr: "component_of dir p r"
        then obtain i where "i \<in> set ?idx" "boundary ?b i" "p = take i ?b" using comp(1) by blast
        then show "private_dir fs euid (\<not> set r \<subseteq> {CHR ''/''} \<or> sticky_ok) p"
          using t sp(2) comp(2) [OF pr] unfolding res by auto
      qed
    next
      assume a: "\<forall>p r. component_of dir p r \<longrightarrow> private_dir fs euid (\<not> set r \<subseteq> {CHR ''/''} \<or> sticky_ok) p"
      have "private_dir fs euid (i \<noteq> length ?b \<or> sticky_ok) (take i ?b)" if i: "i \<in> set ?idx" "boundary ?b i" for i
      proof -
        have pr: "component_of dir (take i ?b) (drop i dir)" using i comp(1) by blast
        have "(\<not> set (drop i dir) \<subseteq> {CHR ''/''}) = (i \<noteq> length ?b)" using comp(2) [OF pr] i(1) by auto
        then show ?thesis using a [rule_format, OF pr] by (simp only:)
      qed
      then show trusted using sp(2) res by blast
    qed
    moreover have "p \<in> set (take k seen) \<and> private_dir fs euid True p"
      if k: "k < length seen" and pr: "component_of (seen ! k) p r" and r: "r \<noteq> []" for k p r
    proof (cases k)
      case 0
      then show ?thesis using pr not_component_root by (simp add: res)
    next
      case (Suc j)
      obtain n where d: "dir = ?b @ replicate n CHR ''/''" using strip_slashes_split by blast
      have "?b ! 0 = CHR ''/''" using d strip_slashes_last [OF walk(1)] walk(2) by (metis hd_append2 hd_conv_nth)
      from above_examined [OF this sp(1), of j p r] k pr r Suc
      have p: "p \<in> set (take j tl)" "length p < length ?b" by (auto simp: res)
      have "set (take j tl) \<subseteq> set (butlast tl)" using k Suc by (simp add: res butlast_conv_take set_take_subset_set_take)
      then obtain i where "i \<in> set ?idx" "p = take i ?b" "private_dir fs euid (i \<noteq> length ?b \<or> sticky_ok) p"
        using p(1) sp(3) by blast
      then show ?thesis using p Suc by (auto simp: res)
    qed
    ultimately show ?thesis using walk by (auto simp: truncates_def)
  qed
qed

theorem hierarchy_trusted_exact_witness:
  "private_dir (\<lambda>p. Some \<lparr>st_mode = 0x41C0, st_uid = 0, st_gid = 0\<rparr>) 0 False ''/a''"
proof -
  define fs :: "string \<Rightarrow> file_stat option" where "fs = (\<lambda>p. Some \<lparr>st_mode = 0x41C0, st_uid = 0, st_gid = 0\<rparr>)"
  have t: "trust_one_component fs 0 p s" for p s
    by (simp add: trust_one_component_def fs_def S_ISLNK_def S_ISDIR_def S_IFMT_def S_IWGRP_IWOTH_def)
  have "dir_hierarchy_trusted fs 0 ''/a/'' False = (True, [''/'', ''/a''])"
    by (simp add: dir_hierarchy_trusted_def truncates_def t strip_slashes.simps upt_rec)
  from hierarchy_trusted_exact [OF this]
  have a: "\<forall>p r. component_of ''/a/'' p r \<longrightarrow> private_dir fs 0 (\<not> set r \<subseteq> {CHR ''/''} \<or> False) p" by blast
  have "component_of ''/a/'' ''/a'' ''/''" by (simp add: component_of_def)
  from a [rule_format, OF this] show ?thesis by (simp add: fs_def)
qed

end
