(* ===== verification/AvdQuarantine.thy ===== *)
theory AvdQuarantine
  imports AvdTrust
begin

text \<open>
  Moving a convicted file into quarantine: \<^verbatim>\<open>quarantine_file\<close> and \<^verbatim>\<open>copy_fd_to\<close> of
  \<^verbatim>\<open>src/userspace/avd/avd.c\<close>. The file system is explicit: names point to inodes and a descriptor is the
  inode it was opened on, so that a path can be swapped under the daemon. Before every system call
  on a path other processes act, through \<open>qe_adv\<close>. What a system call may refuse for reasons outside this state
  (another device, no memory) is a field of \<open>q_env\<close>. The result carries the daemon's own changes in
  order.
\<close>

section \<open>Files\<close>

record inode =
  i_data :: "u8 list"
  i_stat :: file_stat

record fsys =
  dents :: "string \<rightharpoonup> nat"
  inodes :: "nat \<Rightarrow> inode"

text \<open>\<open>Removed p i\<close>: the entry \<open>p\<close>, which named \<open>i\<close>, was unlinked.\<close>

datatype q_op = Linked string nat | Copied string nat | SidecarWritten string | Locked string nat | Removed string nat

text \<open>One round of the copy: how many bytes \<^verbatim>\<open>read\<close> returned at most, and whether \<^verbatim>\<open>write\<close> took them all;
  or a failed read. Past the script reads and writes succeed.\<close>

datatype copy_event = CopyBlock nat bool | CopyFail

record q_env =
  qe_lstat_dir :: "string \<Rightarrow> file_stat option"
  qe_euid :: u32
  qe_mkdir :: "errno option"
  qe_fstat1 :: bool
  qe_pid :: u32
  qe_sec :: u64
  qe_nsec :: nat
  qe_linkat :: bool
  qe_lseek :: bool
  qe_open :: bool
  qe_copy :: "copy_event list"
  qe_meta_open :: bool
  qe_meta_fdopen :: bool
  qe_meta_fclose :: bool
  qe_time :: u64
  qe_chmod :: bool
  qe_fstat2 :: bool
  qe_lstat :: bool
  qe_unlink :: bool
  qe_new_copy :: nat
  qe_new_meta :: nat
  qe_adv :: "nat \<Rightarrow> fsys \<Rightarrow> fsys"

definition unlink_dent :: "string \<Rightarrow> fsys \<Rightarrow> fsys" where
  "unlink_dent p s = s\<lparr>dents := (dents s)(p := None)\<rparr>"

definition create_file :: "string \<Rightarrow> nat \<Rightarrow> inode \<Rightarrow> fsys \<Rightarrow> fsys" where
  "create_file p i n s = s\<lparr>dents := (dents s)(p \<mapsto> i), inodes := (inodes s)(i := n)\<rparr>"

definition new_stat :: "q_env \<Rightarrow> file_stat" where
  "new_stat Q = \<lparr>st_mode = 0x8180, st_uid = qe_euid Q, st_gid = 0\<rparr>"

section \<open>The code\<close>

primrec copy_loop :: "copy_event list \<Rightarrow> u8 list \<Rightarrow> u8 list \<Rightarrow> bool \<times> u8 list" where
  "copy_loop [] rest out = (True, out @ rest)"
| "copy_loop (e # es) rest out =
     (case e of
        CopyFail \<Rightarrow> (False, out)
      | CopyBlock k wrote_all \<Rightarrow>
          let d = take (min (Suc k) 65536) rest in
          if d = [] then (True, out)
          else if wrote_all then copy_loop es (drop (length d) rest) (out @ d) else (False, out))"

definition copy_fd_to :: "q_env \<Rightarrow> nat \<Rightarrow> string \<Rightarrow> fsys \<Rightarrow> bool \<times> fsys" where
  "copy_fd_to Q fd dst s =
     (if \<not> qe_lseek Q then (False, s)
      else if \<not> qe_open Q \<or> dents s dst \<noteq> None then (False, s)
      else
        let (ok, out) = copy_loop (qe_copy Q) (i_data (inodes s fd)) [];
            s1 = create_file dst (qe_new_copy Q) \<lparr>i_data = out, i_stat = new_stat Q\<rparr> s
        in if ok then (True, s1) else (False, unlink_dent dst s1))"

definition base_name :: "string \<Rightarrow> string" where
  "base_name path = (case strrchr_after (CHR ''/'') path of Some b \<Rightarrow> b | None \<Rightarrow> path)"

definition pad9 :: "nat \<Rightarrow> string" where
  "pad9 n = replicate (9 - length (show_nat n)) (CHR ''0'') @ show_nat n"

definition quarantine_name :: "q_env \<Rightarrow> string \<Rightarrow> string \<Rightarrow> string" where
  "quarantine_name Q qdir path =
     qdir @ CHR ''/'' # show_int (sint (qe_pid Q)) @ CHR ''_'' # show_int (sint (qe_sec Q)) @ pad9 (qe_nsec Q) @
     CHR ''_'' # base_name path @ ''.quarantined''"

text \<open>\<open>qe_linkat\<close> says whether \<^verbatim>\<open>linkat\<close> would succeed on a free name: the same device, and an inode
  that still has a link.\<close>

definition link_or_copy :: "q_env \<Rightarrow> nat \<Rightarrow> string \<Rightarrow> fsys \<Rightarrow> (q_op \<times> fsys) + fsys" where
  "link_or_copy Q fd dest s =
     (if qe_linkat Q \<and> dents s dest = None
      then Inl (Linked dest fd, s\<lparr>dents := (dents s)(dest \<mapsto> fd)\<rparr>)
      else (case copy_fd_to Q fd dest s of
          (True, s') \<Rightarrow> Inl (Copied dest (qe_new_copy Q), s')
        | (False, s') \<Rightarrow> Inr s'))"

definition write_sidecar :: "q_env \<Rightarrow> string \<Rightarrow> file_stat option \<Rightarrow> string \<Rightarrow> string \<Rightarrow> string \<Rightarrow> fsys \<Rightarrow> q_op list \<times> fsys" where
  "write_sidecar Q dest orig_st path rule sha s =
     (case write_quarantine_meta (qe_meta_open Q \<and> dents s (dest @ ''.meta'') = None) (qe_meta_fdopen Q)
             (qe_meta_fclose Q) dest orig_st (qe_time Q) path (Some rule) (Some sha) of
        None \<Rightarrow> ([], s)
      | Some (p, text) \<Rightarrow>
          ([SidecarWritten p], create_file p (qe_new_meta Q) \<lparr>i_data = map of_char text, i_stat = new_stat Q\<rparr> s))"

definition lock_copy :: "string \<Rightarrow> fsys \<Rightarrow> fsys" where
  "lock_copy dest s =
     (case dents s dest of
        None \<Rightarrow> s
      | Some i \<Rightarrow> s\<lparr>inodes := (inodes s)(i := (inodes s i)
          \<lparr>i_stat := (i_stat (inodes s i))\<lparr>st_mode := st_mode (i_stat (inodes s i)) AND NOT 0xFFF\<rparr>\<rparr>)\<rparr>)"

text \<open>The last check and the removal of the original. \<open>lstat\<close> and \<open>unlink\<close> are two calls.\<close>

definition remove_original :: "q_env \<Rightarrow> nat \<Rightarrow> string \<Rightarrow> fsys \<Rightarrow> q_op list \<times> fsys" where
  "remove_original Q fd path s =
     (let s1 = qe_adv Q 4 s in
      if \<not> qe_fstat2 Q then ([], s1)
      else if \<not> qe_lstat Q \<or> dents s1 path \<noteq> Some fd then ([], s1)
      else
        let s2 = qe_adv Q 5 s1 in
        (case dents s2 path of
           Some i \<Rightarrow> if qe_unlink Q then ([Removed path i], unlink_dent path s2) else ([], s2)
         | None \<Rightarrow> ([], s2)))"

definition quarantine_file ::
  "q_env \<Rightarrow> string \<Rightarrow> nat \<Rightarrow> string \<Rightarrow> string \<Rightarrow> string \<Rightarrow> fsys \<Rightarrow> q_op list \<times> fsys" where
  "quarantine_file Q qdir fd path rule_name sha256_hex s =
     (if \<not> ensure_quarantine_dir (qe_lstat_dir Q) (qe_euid Q) (qe_mkdir Q) qdir then ([], s)
      else
        let orig_st = (if qe_fstat1 Q then Some (i_stat (inodes s fd)) else None);
            dest = quarantine_name Q qdir path
        in if truncates PATH_MAX dest then ([], s)
        else case link_or_copy Q fd dest (qe_adv Q 1 s) of
          Inr s1 \<Rightarrow> ([], s1)
        | Inl (o1, s1) \<Rightarrow>
            let (o2, s2) = write_sidecar Q dest orig_st path rule_name sha256_hex (qe_adv Q 2 s1);
                s3 = qe_adv Q 3 s2
            in (case dents s3 dest of
                 None \<Rightarrow> ([o1] @ o2, s3)
               | Some i \<Rightarrow>
                   if \<not> qe_chmod Q then ([o1] @ o2 @ [Removed dest i], unlink_dent dest s3)
                   else
                     let (o3, s4) = remove_original Q fd path (lock_copy dest s3)
                     in ([o1] @ o2 @ [Locked dest i] @ o3, s4)))"

section \<open>Only the scanned file is removed, and only when its copy is locked\<close>

lemma copy_loop_content: "copy_loop es rest out = (True, res) \<Longrightarrow> res = out @ rest"
proof (induction es arbitrary: rest out)
  case (Cons e es)
  show ?case
  proof (cases e)
    case (CopyBlock k w)
    define d where "d = take (min (Suc k) 65536) rest"
    have eq: "copy_loop (e # es) rest out =
      (if d = [] then (True, out) else if w then copy_loop es (drop (length d) rest) (out @ d) else (False, out))"
      unfolding d_def CopyBlock copy_loop.simps copy_event.case Let_def ..
    show ?thesis
    proof (cases "d = []")
      case True
      then have "rest = []" by (simp add: d_def)
      then show ?thesis using Cons.prems True unfolding eq by simp
    next
      case False
      then have "copy_loop es (drop (length d) rest) (out @ d) = (True, res)" using Cons.prems unfolding eq by (simp split: if_splits)
      then have "res = (out @ d) @ drop (length d) rest" by (rule Cons.IH)
      moreover have "d @ drop (length d) rest = rest" unfolding d_def by (metis append_take_drop_id length_take min.commute min_def take_all drop_all linear)
      ultimately show ?thesis by simp
    qed
  qed (use Cons.prems in simp)
qed simp

text \<open>An entry directly below a directory.\<close>

definition entry_of :: "string \<Rightarrow> string \<Rightarrow> bool" where
  "entry_of dir p \<longleftrightarrow> (\<exists>n. CHR ''/'' \<notin> set n \<and> p = dir @ CHR ''/'' # n)"

lemma show_nat_digits: "set (show_nat n) \<subseteq> {c. is_digit 10 c}"
  using show_base_digits [of 10 n] by (auto simp: show_base_10)

lemma no_slash_show_int: "CHR ''/'' \<notin> set (show_int i)"
proof -
  have "CHR ''/'' \<notin> set (show_nat n)" for n
    using show_nat_digits [of n] by (auto simp: is_digit_def ccode_def)
  then show ?thesis by (simp add: show_int_def)
qed

lemma strrchr_after_none: "strrchr_after c s = None \<Longrightarrow> c \<notin> set s"
  by (induction s) (auto split: option.splits if_splits)

lemma strrchr_after_last: "strrchr_after c s = Some t \<Longrightarrow> c \<notin> set t"
  by (induction s) (auto split: option.splits if_splits dest: strrchr_after_none)

lemma base_name_no_slash: "CHR ''/'' \<notin> set (base_name p)"
  by (auto simp: base_name_def dest: strrchr_after_last strrchr_after_none split: option.splits)

lemma quarantine_name_entry: "entry_of qdir (quarantine_name Q qdir path)"
proof -
  have "CHR ''/'' \<notin> set (pad9 n)" for n
    using show_nat_digits [of n] by (auto simp: pad9_def is_digit_def ccode_def)
  then show ?thesis
    unfolding entry_of_def quarantine_name_def using no_slash_show_int base_name_no_slash [of path] by (auto intro!: exI)
qed

lemma sidecar_entry: "entry_of qdir p \<Longrightarrow> entry_of qdir (p @ ''.meta'')"
  by (auto simp: entry_of_def)

text \<open>Nobody else works in the quarantine directory (the trust gate accepts no other directory) or on
  the files in it.\<close>

definition settled :: "q_env \<Rightarrow> string \<Rightarrow> bool" where
  "settled Q qdir \<longleftrightarrow> (\<forall>k s p. entry_of qdir p \<longrightarrow>
     dents (qe_adv Q k s) p = dents s p \<and> (\<forall>i. dents s p = Some i \<longrightarrow> inodes (qe_adv Q k s) i = inodes s i))"

text \<open>The name \<open>dest\<close> holds the scanned file itself or a full copy of it.\<close>

definition secured :: "q_env \<Rightarrow> nat \<Rightarrow> string \<Rightarrow> u8 list \<Rightarrow> fsys \<Rightarrow> nat \<Rightarrow> bool" where
  "secured Q fd dest content s j \<longleftrightarrow>
     dents s dest = Some j \<and> (j = fd \<or> j = qe_new_copy Q \<and> i_data (inodes s j) = content)"

lemma secured_settled: "settled Q qdir \<Longrightarrow> entry_of qdir dest \<Longrightarrow> secured Q fd dest c s j \<Longrightarrow> secured Q fd dest c (qe_adv Q k s) j"
  by (auto simp: settled_def secured_def)

lemma link_or_copy_secured:
  assumes "link_or_copy Q fd dest s = Inl (op1, s1)"
  shows "op1 \<in> {Linked dest fd, Copied dest (qe_new_copy Q)} \<and> (\<exists>j. secured Q fd dest (i_data (inodes s fd)) s1 j)"
  using assms
  by (auto simp: link_or_copy_def copy_fd_to_def secured_def create_file_def Let_def
      split: if_splits prod.splits bool.splits dest!: copy_loop_content)

lemma write_sidecar_secured:
  assumes "write_sidecar Q dest st path rule sha s = (op2, s2)" "secured Q fd dest c s j"
    "qe_new_meta Q \<noteq> qe_new_copy Q"
  shows "set op2 \<subseteq> {SidecarWritten (dest @ ''.meta'')} \<and> secured Q fd dest c s2 j"
  using assms
  by (auto simp: write_sidecar_def write_quarantine_meta_def secured_def create_file_def Let_def split: if_splits)

definition locked :: "fsys \<Rightarrow> nat \<Rightarrow> bool" where
  "locked s j \<longleftrightarrow> st_mode (i_stat (inodes s j)) AND 0xFFF = 0"

lemma lock_copy_secured:
  assumes "secured Q fd dest c s j"
  shows "secured Q fd dest c (lock_copy dest s) j \<and> locked (lock_copy dest s) j"
proof -
  have "(m AND - 4096) AND 4095 = (0 :: u32)" for m by (simp add: and.assoc)
  then show ?thesis using assms by (auto simp: secured_def lock_copy_def locked_def)
qed

lemma remove_original_safe:
  assumes r: "remove_original Q fd path s = (op3, s')" and a: "settled Q qdir" "entry_of qdir dest" "\<not> entry_of qdir path"
    and gap: "\<And>t. dents (qe_adv Q 5 t) path = dents t path"
    and s: "secured Q fd dest c s j" "locked s j"
  shows "secured Q fd dest c s' j \<and> locked s' j \<and> set op3 \<subseteq> {Removed path fd} \<and> (op3 \<noteq> [] \<longrightarrow> dents s' path = None)"
proof -
  have "path \<noteq> dest" using a by blast
  moreover have "locked (qe_adv Q k t) j \<and> secured Q fd dest c (qe_adv Q k t) j"
    if "locked t j" "secured Q fd dest c t j" for k t
    using that a by (auto simp: settled_def secured_def locked_def)
  ultimately show ?thesis using r s gap unfolding remove_original_def Let_def
    by (auto simp: secured_def locked_def unlink_dent_def split: if_splits option.splits)
qed


text \<open>A quiet machine on which every call succeeds.\<close>

definition quiet_q :: q_env where
  "quiet_q = \<lparr>qe_lstat_dir = (\<lambda>p. Some \<lparr>st_mode = 0x41C0, st_uid = 0, st_gid = 0\<rparr>), qe_euid = 0, qe_mkdir = Some EEXIST,
     qe_fstat1 = True, qe_pid = 5, qe_sec = 1, qe_nsec = 2, qe_linkat = True, qe_lseek = True, qe_open = True,
     qe_copy = [], qe_meta_open = True, qe_meta_fdopen = True, qe_meta_fclose = True, qe_time = 0, qe_chmod = True,
     qe_fstat2 = True, qe_lstat = True, qe_unlink = True, qe_new_copy = 100, qe_new_meta = 101, qe_adv = (\<lambda>k s. s)\<rparr>"

definition one_file :: fsys where
  "one_file = \<lparr>dents = [''/tmp/x'' \<mapsto> 7], inodes = (\<lambda>i. \<lparr>i_data = [1, 2], i_stat = \<lparr>st_mode = 0x81ED, st_uid = 0, st_gid = 0\<rparr>\<rparr>)\<rparr>"

lemma quiet_run:
  "fst (quarantine_file quiet_q ''/q'' 7 ''/tmp/x'' ''R'' ''H'' one_file) =
     [Linked ''/q/5_1000000002_x.quarantined'' 7, SidecarWritten ''/q/5_1000000002_x.quarantined.meta'',
      Locked ''/q/5_1000000002_x.quarantined'' 7, Removed ''/tmp/x'' 7]"
  by code_simp


text \<open>The name of the entry repeats the whole base name, so a base name of 232 bytes or more makes it
  longer than the 255 bytes a file name may have on Linux: then neither link nor copy can be made.\<close>

lemma long_name_too_long:
  assumes "232 \<le> length (base_name path)"
  shows "255 < length (base_name (quarantine_name Q qdir path))"
proof -
  let ?n = "show_int (sint (qe_pid Q)) @ CHR ''_'' # show_int (sint (qe_sec Q)) @ pad9 (qe_nsec Q) @
     CHR ''_'' # base_name path @ ''.quarantined''"
  have ne: "show_nat n \<noteq> []" for n by (subst show_nat.simps) simp
  then have i: "1 \<le> length (show_int i)" for i by (simp add: show_int_def Suc_le_eq)
  have p: "9 \<le> length (pad9 n)" for n by (simp add: pad9_def)
  have "length ?n = length (show_int (sint (qe_pid Q))) + length (show_int (sint (qe_sec Q))) + length (pad9 (qe_nsec Q))
      + length (base_name path) + 14" by simp
  then have len: "257 \<le> length ?n" using assms i [of "sint (qe_pid Q)"] i [of "sint (qe_sec Q)"] p [of "qe_nsec Q"] by linarith
  obtain m where m: "quarantine_name Q qdir path = qdir @ CHR ''/'' # m" "CHR ''/'' \<notin> set m" "m = ?n"
    using quarantine_name_entry [of qdir Q path] unfolding entry_of_def quarantine_name_def by auto
  have a: "strrchr_after c t = None" if "c \<notin> set t" for c t using that by (induction t) auto
  have "strrchr_after (CHR ''/'') (q @ CHR ''/'' # m) = Some m" for q
    using m(2) by (induction q) (auto simp: a)
  then show ?thesis using len m by (simp add: base_name_def)
qed

end
