(* ===== verification/Sha256.thy ===== *)
theory Sha256
  imports HashPass "HOL-Library.Monad_Syntax"
begin

text \<open>
  The self-contained SHA-256 of the daemon (\<^verbatim>\<open>userspace/avd/sha256.c\<close>), against the standard
  FIPS 180-4: the compression on a 64-word array, the buffering of a message that arrives in pieces,
  the padding loop and the hex digest of a file. The two loops whose end depends on the buffer level
  are partial functions, and their return is proved.
\<close>

section \<open>The code\<close>

record sha256_ctx =
  state :: "u32 list"
  bitlen :: u64
  buffer :: "u8 list"
  buflen :: nat

definition sha256_k :: "u32 list" where
  "sha256_k = concat [
    [0x428a2f98, 0x71374491, 0xb5c0fbcf, 0xe9b5dba5, 0x3956c25b, 0x59f111f1],
    [0x923f82a4, 0xab1c5ed5, 0xd807aa98, 0x12835b01, 0x243185be, 0x550c7dc3],
    [0x72be5d74, 0x80deb1fe, 0x9bdc06a7, 0xc19bf174, 0xe49b69c1, 0xefbe4786],
    [0x0fc19dc6, 0x240ca1cc, 0x2de92c6f, 0x4a7484aa, 0x5cb0a9dc, 0x76f988da],
    [0x983e5152, 0xa831c66d, 0xb00327c8, 0xbf597fc7, 0xc6e00bf3, 0xd5a79147],
    [0x06ca6351, 0x14292967, 0x27b70a85, 0x2e1b2138, 0x4d2c6dfc, 0x53380d13],
    [0x650a7354, 0x766a0abb, 0x81c2c92e, 0x92722c85, 0xa2bfe8a1, 0xa81a664b],
    [0xc24b8b70, 0xc76c51a3, 0xd192e819, 0xd6990624, 0xf40e3585, 0x106aa070],
    [0x19a4c116, 0x1e376c08, 0x2748774c, 0x34b0bcb5, 0x391c0cb3, 0x4ed8aa4a],
    [0x5b9cca4f, 0x682e6ff3, 0x748f82ee, 0x78a5636f, 0x84c87814, 0x8cc70208],
    [0x90befffa, 0xa4506ceb, 0xbef9a3f7, 0xc67178f2]]"

definition ROTR :: "u32 \<Rightarrow> nat \<Rightarrow> u32" where
  "ROTR x n = drop_bit n x OR push_bit (32 - n) x"

definition load_be :: "u8 list \<Rightarrow> nat \<Rightarrow> u32" where
  "load_be block i = push_bit 24 (ucast (block ! (i * 4))) OR push_bit 16 (ucast (block ! (i * 4 + 1))) OR
     push_bit 8 (ucast (block ! (i * 4 + 2))) OR ucast (block ! (i * 4 + 3))"

definition sched_step :: "nat \<Rightarrow> u32 list \<Rightarrow> u32 list" where
  "sched_step i w =
     (let s0 = ROTR (w ! (i - 15)) 7 XOR ROTR (w ! (i - 15)) 18 XOR drop_bit 3 (w ! (i - 15));
          s1 = ROTR (w ! (i - 2)) 17 XOR ROTR (w ! (i - 2)) 19 XOR drop_bit 10 (w ! (i - 2))
      in w[i := w ! (i - 16) + s0 + w ! (i - 7) + s1])"

definition schedule :: "u8 list \<Rightarrow> u32 list" where
  "schedule block = fold sched_step [16..<64] (map (load_be block) [0..<16] @ replicate 48 0)"

type_synonym regs8 = "u32 \<times> u32 \<times> u32 \<times> u32 \<times> u32 \<times> u32 \<times> u32 \<times> u32"

definition round_step :: "u32 list \<Rightarrow> nat \<Rightarrow> regs8 \<Rightarrow> regs8" where
  "round_step w i r =
     (case r of (a, b, c, d, e, f, g, h) \<Rightarrow>
        let s1 = ROTR e 6 XOR ROTR e 11 XOR ROTR e 25;
            ch = (e AND f) XOR (NOT e AND g);
            temp1 = h + s1 + ch + sha256_k ! i + w ! i;
            s0 = ROTR a 2 XOR ROTR a 13 XOR ROTR a 22;
            maj = (a AND b) XOR (a AND c) XOR (b AND c);
            temp2 = s0 + maj
        in (temp1 + temp2, a, b, c, d + temp1, e, f, g))"

definition regs_of :: "u32 list \<Rightarrow> regs8" where
  "regs_of s = (s ! 0, s ! 1, s ! 2, s ! 3, s ! 4, s ! 5, s ! 6, s ! 7)"

definition list_of_regs :: "regs8 \<Rightarrow> u32 list" where
  "list_of_regs r = (case r of (a, b, c, d, e, f, g, h) \<Rightarrow> [a, b, c, d, e, f, g, h])"

definition sha256_transform :: "u8 list \<Rightarrow> sha256_ctx \<Rightarrow> sha256_ctx" where
  "sha256_transform block ctx =
     (let w = schedule block; r = fold (round_step w) [0..<64] (regs_of (state ctx))
      in ctx\<lparr>state := map2 (+) (state ctx) (list_of_regs r)\<rparr>)"

definition sha256_init :: "sha256_ctx \<Rightarrow> sha256_ctx" where
  "sha256_init ctx =
     ctx\<lparr>state := [0x6a09e667, 0xbb67ae85, 0x3c6ef372, 0xa54ff53a, 0x510e527f, 0x9b05688c, 0x1f83d9ab, 0x5be0cd19],
         bitlen := 0, buflen := 0\<rparr>"

definition memcpy :: "u8 list \<Rightarrow> nat \<Rightarrow> u8 list \<Rightarrow> u8 list" where
  "memcpy dst off src = take off dst @ src @ drop (off + length src) dst"

partial_function (option) sha256_update :: "sha256_ctx \<Rightarrow> u8 list \<Rightarrow> sha256_ctx option" where
  "sha256_update ctx data =
     (if data = [] then Some ctx
      else
        let tk = min (64 - buflen ctx) (length data);
            c1 = ctx\<lparr>buffer := memcpy (buffer ctx) (buflen ctx) (take tk data), buflen := buflen ctx + tk,
                     bitlen := bitlen ctx + of_nat tk * 8\<rparr>;
            c2 = (if buflen c1 = 64 then (sha256_transform (buffer c1) c1)\<lparr>buflen := 0\<rparr> else c1)
        in sha256_update c2 (drop tk data))"

partial_function (option) pad_loop :: "sha256_ctx \<Rightarrow> sha256_ctx option" where
  "pad_loop ctx = (if buflen ctx = 56 then Some ctx else Option.bind (sha256_update ctx [0]) pad_loop)"

declare sha256_update.simps [code] pad_loop.simps [code]

definition store_be8 :: "u64 \<Rightarrow> u8 list" where
  "store_be8 n = map (\<lambda>i. ucast (drop_bit (56 - 8 * i) n)) [0..<8]"

definition store_be :: "u32 \<Rightarrow> u8 list" where
  "store_be x = [ucast (drop_bit 24 x), ucast (drop_bit 16 x), ucast (drop_bit 8 x), ucast x]"

definition sha256_final :: "sha256_ctx \<Rightarrow> (u8 list \<times> sha256_ctx) option" where
  "sha256_final ctx =
     (let len = bitlen ctx
      in Option.bind (sha256_update ctx [0x80]) (\<lambda>c1.
         Option.bind (pad_loop c1) (\<lambda>c2.
           let c3 = c2\<lparr>buffer := memcpy (buffer c2) 56 (store_be8 len)\<rparr>;
               c4 = sha256_transform (buffer c3) c3
           in Some (concat (map store_be (state c4)), c4))))"

text \<open>\<open>sha256_fd\<close>: the outcomes of \<^verbatim>\<open>dup\<close>, \<^verbatim>\<open>fdopen\<close> and \<^verbatim>\<open>fseek\<close>, the blocks that
  \<^verbatim>\<open>fread\<close> returns and whether the stream then has its error flag set.\<close>

fun feed_blocks :: "sha256_ctx \<Rightarrow> u8 list list \<Rightarrow> sha256_ctx option" where
  "feed_blocks ctx [] = Some ctx"
| "feed_blocks ctx (b # bs) = (if b = [] then Some ctx else Option.bind (sha256_update ctx b) (\<lambda>c. feed_blocks c bs))"

definition sha256_fd :: "bool \<Rightarrow> bool \<Rightarrow> bool \<Rightarrow> u8 list list \<Rightarrow> bool \<Rightarrow> sha256_ctx \<Rightarrow> string option option" where
  "sha256_fd dup_ok fdopen_ok seek_ok chunks err garbage =
     (if \<not> dup_ok \<or> \<not> fdopen_ok \<or> \<not> seek_ok then Some None
      else
        Option.bind (feed_blocks (sha256_init garbage) chunks) (\<lambda>ctx.
          if err then Some None
          else Option.bind (sha256_final ctx) (\<lambda>(digest, _).
            Some (Some (concat (map (\<lambda>b. [hex_digit (unat (drop_bit 4 b)), hex_digit (unat (b AND 0xf))]) digest))))))"

section \<open>The standard\<close>

definition Ch :: "u32 \<Rightarrow> u32 \<Rightarrow> u32 \<Rightarrow> u32" where
  "Ch x y z = (x AND y) XOR (NOT x AND z)"

definition Maj :: "u32 \<Rightarrow> u32 \<Rightarrow> u32 \<Rightarrow> u32" where
  "Maj x y z = (x AND y) XOR (x AND z) XOR (y AND z)"

definition Sigma0 :: "u32 \<Rightarrow> u32" where
  "Sigma0 x = word_rotr 2 x XOR word_rotr 13 x XOR word_rotr 22 x"

definition Sigma1 :: "u32 \<Rightarrow> u32" where
  "Sigma1 x = word_rotr 6 x XOR word_rotr 11 x XOR word_rotr 25 x"

definition sigma0 :: "u32 \<Rightarrow> u32" where
  "sigma0 x = word_rotr 7 x XOR word_rotr 18 x XOR drop_bit 3 x"

definition sigma1 :: "u32 \<Rightarrow> u32" where
  "sigma1 x = word_rotr 17 x XOR word_rotr 19 x XOR drop_bit 10 x"

fun msg_word :: "u8 list \<Rightarrow> nat \<Rightarrow> u32" where
  "msg_word M t =
     (if t < 16 then word_rcat (take 4 (drop (4 * t) M))
      else sigma1 (msg_word M (t - 2)) + msg_word M (t - 7) + sigma0 (msg_word M (t - 15)) + msg_word M (t - 16))"

declare msg_word.simps [simp del]

definition fips_round :: "u8 list \<Rightarrow> nat \<Rightarrow> regs8 \<Rightarrow> regs8" where
  "fips_round M t r =
     (case r of (a, b, c, d, e, f, g, h) \<Rightarrow>
        let T1 = h + Sigma1 e + Ch e f g + sha256_k ! t + msg_word M t; T2 = Sigma0 a + Maj a b c
        in (T1 + T2, a, b, c, d + T1, e, f, g))"

definition compress :: "u8 list \<Rightarrow> u32 list \<Rightarrow> u32 list" where
  "compress M H = map2 (+) H (list_of_regs (fold (fips_round M) [0..<64] (regs_of H)))"

definition H0 :: "u32 list" where
  "H0 = [0x6a09e667, 0xbb67ae85, 0x3c6ef372, 0xa54ff53a, 0x510e527f, 0x9b05688c, 0x1f83d9ab, 0x5be0cd19]"

function blocks :: "u8 list \<Rightarrow> u8 list list" where
  "blocks m = (if length m < 64 then [] else take 64 m # blocks (drop 64 m))"
  by pat_completeness auto
termination by (relation "measure length") auto

declare blocks.simps [simp del]

definition padded :: "u8 list \<Rightarrow> u8 list" where
  "padded m = m @ [0x80] @ replicate ((119 - length m mod 64) mod 64) 0 @ store_be8 (of_nat (8 * length m))"

definition fips_sha256 :: "u8 list \<Rightarrow> u8 list" where
  "fips_sha256 m = concat (map store_be (fold compress (blocks (padded m)) H0))"

section \<open>The compression\<close>

lemma ROTR_rotr: "0 < n \<Longrightarrow> n < 32 \<Longrightarrow> ROTR x n = word_rotr n x"
proof (rule bit_word_eqI)
  fix i
  assume n: "0 < n" "n < 32" and i: "i < LENGTH(32)"
  then have "(i + n) mod 32 = (if i + n < 32 then i + n else i + n - 32)" by (simp add: mod_if)
  with n i show "bit (ROTR x n) i = bit (word_rotr n x) i"
    by (auto simp: ROTR_def bit_simps add.commute not_less dest: bit_imp_le_length)
qed

lemma and_zero_disjoint:
  "push_bit 24 (ucast (a :: u8)) AND (push_bit 16 (ucast (b :: u8)) OR push_bit 8 (ucast (c :: u8)) OR ucast (d :: u8)) = (0 :: u32)"
  "push_bit 16 (ucast b) AND (push_bit 8 (ucast c) OR ucast d) = (0 :: u32)"
  "push_bit 8 (ucast c) AND ucast d = (0 :: u32)"
  by (rule bit_word_eqI; auto simp: bit_simps dest!: bit_imp_le_length)+

lemma load_be_rcat:
  "push_bit 24 (ucast (a :: u8)) OR push_bit 16 (ucast (b :: u8)) OR push_bit 8 (ucast (c :: u8)) OR ucast (d :: u8) =
     (word_rcat [a, b, c, d] :: u32)"
proof -
  have u: "word_of_int (uint x) = (ucast x :: u32)" for x :: u8 by simp
  have "push_bit 24 (ucast a) OR push_bit 16 (ucast b) OR push_bit 8 (ucast c) OR ucast d =
      push_bit 24 (ucast a) + (push_bit 16 (ucast b) + (push_bit 8 (ucast c) + (ucast d :: u32)))"
    by (simp only: or.assoc disjunctive_add_eq_or [OF and_zero_disjoint(1)]
        disjunctive_add_eq_or [OF and_zero_disjoint(2)] disjunctive_add_eq_or [OF and_zero_disjoint(3)])
  also have "\<dots> = word_of_int (uint a * 2 ^ 24 + (uint b * 2 ^ 16 + (uint c * 2 ^ 8 + uint d)))"
    by (simp only: push_bit_eq_mult of_int_add of_int_mult of_int_power of_int_numeral u)
  also have "\<dots> = word_rcat [a, b, c, d]"
    unfolding word_rcat_def
    by (simp add: algebra_simps)
  finally show ?thesis .
qed

lemma take4_drop: "i * 4 + 3 < length M \<Longrightarrow>
    take 4 (drop (4 * i) M) = [M ! (i * 4), M ! (i * 4 + 1), M ! (i * 4 + 2), M ! (i * 4 + 3)]"
  by (simp add: Cons_nth_drop_Suc [symmetric] numeral_eq_Suc mult.commute)

lemma load_be_msg: "length M = 64 \<Longrightarrow> i < 16 \<Longrightarrow> load_be M i = msg_word M i"
  by (subst msg_word.simps) (simp add: load_be_def load_be_rcat take4_drop)

lemma sched_step_length [simp]: "length (sched_step i w) = length w"
  by (simp add: sched_step_def Let_def)

lemma schedule_inv:
  assumes "length M = 64" and "16 \<le> n" and "n \<le> 64"
  shows "length (fold sched_step [16..<n] (map (load_be M) [0..<16] @ replicate 48 0)) = 64 \<and>
    (\<forall>j < n. fold sched_step [16..<n] (map (load_be M) [0..<16] @ replicate 48 0) ! j = msg_word M j)"
  using assms(2,3)
proof (induction n rule: dec_induct)
  case base
  then show ?case using load_be_msg [OF assms(1)] by (simp add: nth_append)
next
  case (step n)
  let ?w = "fold sched_step [16..<n] (map (load_be M) [0..<16] @ replicate 48 0)"
  have w: "length ?w = 64" "\<forall>j < n. ?w ! j = msg_word M j" using step by simp_all
  have "?w ! (n - 16) + sigma0 (?w ! (n - 15)) + ?w ! (n - 7) + sigma1 (?w ! (n - 2)) = msg_word M n"
    using w(2) step(1) by (subst msg_word.simps [of M n]) (simp add: algebra_simps)
  then have "sched_step n ?w = ?w[n := msg_word M n]"
    by (simp add: sched_step_def Let_def ROTR_rotr sigma0_def sigma1_def)
  with w step(1,4) show ?case by (auto simp: less_Suc_eq)
qed

lemma schedule_msg: "length M = 64 \<Longrightarrow> i < 64 \<Longrightarrow> schedule M ! i = msg_word M i"
  using schedule_inv [of M 64] by (simp add: schedule_def)

lemma round_step_fips: "length M = 64 \<Longrightarrow> i < 64 \<Longrightarrow> round_step (schedule M) i r = fips_round M i r"
  by (simp add: round_step_def fips_round_def schedule_msg ROTR_rotr Ch_def Maj_def Sigma0_def Sigma1_def Let_def
      split: prod.split)

lemma transform_compress: "length M = 64 \<Longrightarrow> sha256_transform M ctx = ctx\<lparr>state := compress M (state ctx)\<rparr>"
proof -
  assume "length M = 64"
  then have "fold (round_step (schedule M)) [0..<64] r = fold (fips_round M) [0..<64] r" for r
    by (intro fold_cong) (simp_all add: fun_eq_iff round_step_fips)
  then show ?thesis by (simp add: sha256_transform_def compress_def Let_def)
qed

section \<open>Buffering\<close>

lemma blocks_short: "length m < 64 \<Longrightarrow> blocks m = []"
  by (subst blocks.simps) simp

lemma blocks_append: "64 dvd length a \<Longrightarrow> blocks (a @ b) = blocks a @ blocks b"
proof (induction a rule: blocks.induct)
  case (1 a)
  show ?case
  proof (cases "length a < 64")
    case True
    with 1(2) have "a = []" by (metis dvd_imp_le length_0_conv not_less zero_less_iff_neq_zero)
    then show ?thesis by (simp add: blocks_short)
  next
    case False
    then have "64 dvd length (drop 64 a)" using 1(2) by (simp add: dvd_diff_nat)
    from 1(1) [OF False this] False show ?thesis
      by (subst (1 2) blocks.simps) simp
  qed
qed

lemma blocks_one: "length b = 64 \<Longrightarrow> blocks b = [b]"
  by (subst blocks.simps) (simp add: blocks_short)

text \<open>The context stands for the message \<open>a @ r\<close>: whole blocks \<open>a\<close> absorbed, the rest \<open>r\<close> buffered.\<close>

definition ctx_rep :: "sha256_ctx \<Rightarrow> u8 list \<Rightarrow> u8 list \<Rightarrow> bool" where
  "ctx_rep ctx a r \<longleftrightarrow> 64 dvd length a \<and> length r < 64 \<and> length (buffer ctx) = 64 \<and> buflen ctx = length r \<and>
     take (length r) (buffer ctx) = r \<and> bitlen ctx = of_nat (8 * length (a @ r)) \<and>
     state ctx = fold compress (blocks a) H0"

lemma memcpy_take: "off + length src \<le> length dst \<Longrightarrow>
    take (off + length src) (memcpy dst off src) = take off dst @ src \<and> length (memcpy dst off src) = length dst"
  by (simp add: memcpy_def)

lemma sha256_update_rep:
  assumes "ctx_rep ctx a r"
  shows "\<exists>c a' r'. sha256_update ctx d = Some c \<and> ctx_rep c a' r' \<and> a' @ r' = a @ r @ d"
  using assms
proof (induction d arbitrary: ctx a r rule: length_induct)
  case (1 d)
  show ?case
  proof (cases "d = []")
    case True
    with 1(2) show ?thesis by (subst sha256_update.simps) auto
  next
    case False
    define tk where "tk = min (64 - buflen ctx) (length d)"
    define c1 where "c1 = ctx\<lparr>buffer := memcpy (buffer ctx) (buflen ctx) (take tk d), buflen := buflen ctx + tk,
      bitlen := bitlen ctx + of_nat tk * 8\<rparr>"
    define c2 where "c2 = (if buflen c1 = 64 then (sha256_transform (buffer c1) c1)\<lparr>buflen := 0\<rparr> else c1)"
    note rep = 1(2) [unfolded ctx_rep_def]
    have tk: "0 < tk" "tk \<le> length d" "length r + tk \<le> 64" using False rep by (auto simp: tk_def)
    have mc: "take (length r + tk) (buffer c1) = r @ take tk d" "length (buffer c1) = 64"
      using memcpy_take [of "buflen ctx" "take tk d" "buffer ctx"] rep tk by (auto simp: c1_def)
    have bl: "buflen c1 = length r + tk" "state c1 = state ctx"
      "bitlen c1 = of_nat (8 * length (a @ r @ take tk d))"
      using rep tk by (simp_all add: c1_def algebra_simps)
    have rec: "sha256_update ctx d = sha256_update c2 (drop tk d)"
      unfolding c2_def c1_def tk_def using False by (subst sha256_update.simps) (simp only: Let_def if_False)
    have "\<exists>a' r'. ctx_rep c2 a' r' \<and> a' @ r' = a @ r @ take tk d"
    proof (cases "length r + tk = 64")
      case True
      then have buf: "buffer c1 = r @ take tk d" "length (r @ take tk d) = 64" using mc tk by simp_all
      then have "state c2 = fold compress (blocks (a @ r @ take tk d)) H0"
        using rep bl True by (simp add: c2_def transform_compress blocks_append blocks_one)
      moreover have "length (buffer c2) = 64" "buflen c2 = 0" and bit: "bitlen c2 = bitlen c1"
        using True bl buf by (simp_all add: c2_def transform_compress)
      moreover have "bitlen c2 = of_nat (8 * length ((a @ r @ take tk d) @ []))" unfolding bit bl(3) by simp
      moreover have "64 dvd length (a @ r @ take tk d)" using rep buf(2) by (simp add: dvd_add)
      ultimately have "ctx_rep c2 (a @ r @ take tk d) []"
        unfolding ctx_rep_def by (intro conjI) (assumption | simp)+
      then show ?thesis by fastforce
    next
      case False
      then have "ctx_rep c2 a (r @ take tk d)"
        using rep bl mc tk by (simp add: c2_def ctx_rep_def)
      then show ?thesis by blast
    qed
    then obtain a' r' where ar: "ctx_rep c2 a' r'" "a' @ r' = a @ r @ take tk d" by blast
    have "length (drop tk d) < length d" using tk by simp
    from 1(1) [rule_format, OF this ar(1)] obtain c a2 r2 where
      "sha256_update c2 (drop tk d) = Some c" "ctx_rep c a2 r2" "a2 @ r2 = a' @ r' @ drop tk d" by blast
    moreover have "a' @ r' @ drop tk d = a @ r @ d" using ar(2)
      by (metis append.assoc append_take_drop_id)
    ultimately show ?thesis using rec by auto
  qed
qed

section \<open>Padding\<close>

lemma ctx_rep_mod: "ctx_rep ctx a r \<Longrightarrow> length r = length (a @ r) mod 64 \<and> buflen ctx = length r"
  by (auto simp: ctx_rep_def)

lemma pad_count: "x < 64 \<Longrightarrow> (120 - x) mod 64 = Suc z \<Longrightarrow> x \<noteq> 56 \<and> (120 - Suc x mod 64) mod 64 = (z :: nat)"
  by (cases "x = 63") (auto simp: mod_if split: if_splits)

lemma pad_loop_rep:
  assumes "ctx_rep ctx a r" and "(120 - length r) mod 64 = z"
  shows "\<exists>c a' r'. pad_loop ctx = Some c \<and> ctx_rep c a' r' \<and> a' @ r' = a @ r @ replicate z 0 \<and> length r' = 56"
  using assms
proof (induction z arbitrary: ctx a r)
  case 0
  then have "length r = 56" by (auto simp: ctx_rep_def mod_if split: if_splits)
  moreover from this 0 have "pad_loop ctx = Some ctx"
    by (subst pad_loop.simps) (simp add: ctx_rep_def)
  ultimately show ?case using 0 by auto
next
  case (Suc z)
  have x: "length r < 64" using Suc.prems(1) by (simp add: ctx_rep_def)
  obtain c a1 r1 where u: "sha256_update ctx [0] = Some c" "ctx_rep c a1 r1" "a1 @ r1 = a @ r @ [0]"
    using sha256_update_rep [OF Suc.prems(1)] by blast
  have "length r1 = Suc (length r) mod 64"
    using ctx_rep_mod [OF u(2)] ctx_rep_mod [OF Suc.prems(1)] u(3)
    by (metis append.assoc length_append_singleton mod_Suc_eq)
  then have "(120 - length r1) mod 64 = z" using pad_count [OF x Suc.prems(2)] by simp
  from Suc.IH [OF u(2) this] obtain c' a' r' where
    p: "pad_loop c = Some c'" "ctx_rep c' a' r'" "a' @ r' = a1 @ r1 @ replicate z 0" "length r' = 56" by blast
  have "buflen ctx \<noteq> 56" using pad_count [OF x Suc.prems(2)] Suc.prems(1) by (simp add: ctx_rep_def)
  then have "pad_loop ctx = Some c'" using u(1) p(1) by (subst pad_loop.simps) simp
  moreover have "a' @ r' = (a1 @ r1) @ replicate z 0" using p(3) by simp
  then have "a' @ r' = a @ r @ replicate (Suc z) 0" unfolding u(3) by simp
  ultimately show ?case using p(2,4) by blast
qed

lemma length_store_be8 [simp]: "length (store_be8 n) = 8"
  by (simp add: store_be8_def)

lemma pad_total: "(120 - Suc n mod 64) mod 64 = (119 - n mod 64) mod (64 :: nat)"
  by (cases "n mod 64 = 63") (simp_all add: mod_Suc)

lemma sha256_final_fips:
  assumes "ctx_rep ctx a r"
  shows "\<exists>c. sha256_final ctx = Some (fips_sha256 (a @ r), c)"
proof -
  let ?m = "a @ r" and ?len = "of_nat (8 * length (a @ r)) :: u64"
  obtain c1 a1 r1 where u: "sha256_update ctx [0x80] = Some c1" "ctx_rep c1 a1 r1" "a1 @ r1 = ?m @ [0x80]"
    using sha256_update_rep [OF assms] by fastforce
  have "length r1 = Suc (length ?m) mod 64" using ctx_rep_mod [OF u(2)] u(3) by simp
  then have z: "(120 - length r1) mod 64 = (119 - length ?m mod 64) mod 64" by (simp only: pad_total)
  obtain c2 a2 r2 where p: "pad_loop c1 = Some c2" "ctx_rep c2 a2 r2" "length r2 = 56"
    "a2 @ r2 = a1 @ r1 @ replicate ((119 - length ?m mod 64) mod 64) 0"
    using pad_loop_rep [OF u(2) z] by blast
  let ?b = "memcpy (buffer c2) 56 (store_be8 ?len)"
  have b: "?b = r2 @ store_be8 ?len" "length ?b = 64" using p(2,3) by (simp_all add: memcpy_def ctx_rep_def)
  have pd: "padded ?m = a2 @ ?b" unfolding padded_def b(1) using p(4) u(3) by (metis append.assoc)
  have "fold compress (blocks (padded ?m)) H0 = compress ?b (state c2)"
    unfolding pd using p(2) b(2) by (simp add: ctx_rep_def blocks_append blocks_one)
  moreover have "bitlen ctx = ?len" using assms by (simp add: ctx_rep_def)
  ultimately show ?thesis
    using u(1) p(1) b(2) by (simp add: sha256_final_def Let_def transform_compress fips_sha256_def del: of_nat_mult)
qed

section \<open>Streams\<close>

fun update_all :: "sha256_ctx \<Rightarrow> u8 list list \<Rightarrow> sha256_ctx option" where
  "update_all ctx [] = Some ctx"
| "update_all ctx (b # bs) = Option.bind (sha256_update ctx b) (\<lambda>c. update_all c bs)"

lemma update_all_rep:
  "ctx_rep ctx a r \<Longrightarrow> \<exists>c a' r'. update_all ctx bs = Some c \<and> ctx_rep c a' r' \<and> a' @ r' = a @ r @ concat bs"
proof (induction bs arbitrary: ctx a r)
  case (Cons b bs)
  obtain c a1 r1 where u: "sha256_update ctx b = Some c" "ctx_rep c a1 r1" "a1 @ r1 = a @ r @ b"
    using sha256_update_rep [OF Cons.prems] by blast
  from Cons.IH [OF u(2)] u show ?case by (metis append.assoc bind.bind_lunit concat.simps(2) update_all.simps(2))
qed auto

lemma feed_blocks_all: "feed_blocks ctx bs = update_all ctx (takeWhile (\<lambda>b. b \<noteq> []) bs)"
  by (induction bs arbitrary: ctx) simp_all

lemma sha256_init_rep: "length (buffer g) = 64 \<Longrightarrow> ctx_rep (sha256_init g) [] []"
  by (simp add: ctx_rep_def sha256_init_def H0_def blocks_short)

lemma hex_nibbles: "[hex_digit (unat (drop_bit 4 b)), hex_digit (unat (b AND 0xf))] = byte_hex (b :: u8)"
proof -
  have "b AND 0xf = take_bit 4 b" by (simp add: take_bit_eq_mask mask_eq_exp_minus_1)
  then show ?thesis
    by (simp add: byte_hex_def drop_bit_eq_div take_bit_eq_mod unat_div_distrib unat_mod_distrib)
qed

section \<open>Properties\<close>



text \<open>The tables of the standard: the first 32 bits of the fractional parts of the cube roots of the
  first 64 primes, and of the square roots of the first eight.\<close>

definition is_prime :: "nat \<Rightarrow> bool" where
  "is_prime p \<longleftrightarrow> 1 < p \<and> (\<forall>d \<in> set [2..<p]. \<not> d dvd p)"

lemma is_prime_small:
  assumes "p < 324"
  shows "is_prime p \<longleftrightarrow> 1 < p \<and> (\<forall>d \<in> set [2, 3, 5, 7, 11, 13, 17]. d < p \<longrightarrow> p mod d \<noteq> 0)"
proof
  assume "is_prime p"
  then show "1 < p \<and> (\<forall>d \<in> set [2, 3, 5, 7, 11, 13, 17]. d < p \<longrightarrow> p mod d \<noteq> 0)"
    by (auto simp: is_prime_def mod_eq_0_iff_dvd)
next
  assume r: "1 < p \<and> (\<forall>d \<in> set [2, 3, 5, 7, 11, 13, 17]. d < p \<longrightarrow> p mod d \<noteq> 0)"
  have small: "\<not> d dvd p" if d: "1 < d" "d < 18" "d < p" for d
  proof
    assume dv: "d dvd p"
    from d(1,2) have "d = 2 \<or> d = 3 \<or> d = 4 \<or> d = 5 \<or> d = 6 \<or> d = 7 \<or> d = 8 \<or> d = 9 \<or> d = 10 \<or>
      d = 11 \<or> d = 12 \<or> d = 13 \<or> d = 14 \<or> d = 15 \<or> d = 16 \<or> d = 17" by presburger
    then have "\<exists>q \<in> set [2, 3, 5, 7, 11, 13, 17]. q dvd d" by (elim disjE) simp_all
    then obtain q where q: "q \<in> set [2, 3, 5, 7, 11, 13, 17]" "q dvd d" by blast
    then have "q < p" "q dvd p" using d dv dvd_imp_le [OF q(2)] by (auto intro: dvd_trans)
    with r q(1) show False by (auto simp: mod_eq_0_iff_dvd)
  qed
  have "\<not> d dvd p" if d: "1 < d" "d < p" for d
  proof
    assume "d dvd p"
    then obtain e where e: "p = d * e" by blast
    have "d < 18 \<or> e < 18" using assms e mult_le_mono [of 18 d 18 e] by linarith
    moreover have "e \<noteq> 0" "e \<noteq> 1" using e d by auto
    then have "1 < e" "e < p" using d unfolding e by auto
    moreover have "d dvd p" "e dvd p" unfolding e by simp_all
    ultimately show False using small [of d] small [of e] d by blast
  qed
  with r show "is_prime p" by (auto simp: is_prime_def)
qed

definition root_frac :: "nat \<Rightarrow> int \<Rightarrow> u32 \<Rightarrow> bool" where
  "root_frac n p x \<longleftrightarrow> (\<exists>a \<in> set [0..<20]. let m = int a * 2 ^ 32 + uint x in m ^ n \<le> p * 2 ^ (32 * n) \<and> p * 2 ^ (32 * n) < (m + 1) ^ n)"

definition first_primes :: "nat list" where
  "first_primes = filter is_prime [0..<312]"

lemma first_primes_list: "first_primes = [2, 3, 5, 7, 11, 13, 17, 19, 23, 29, 31, 37, 41, 43, 47, 53, 59, 61, 67, 71,
   73, 79, 83, 89, 97, 101, 103, 107, 109, 113, 127, 131, 137, 139, 149, 151, 157, 163, 167, 173, 179, 181, 191, 193,
   197, 199, 211, 223, 227, 229, 233, 239, 241, 251, 257, 263, 269, 271, 277, 281, 283, 293, 307, 311]"
proof -
  have "first_primes = filter (\<lambda>p. 1 < p \<and> (\<forall>d \<in> set [2, 3, 5, 7, 11, 13, 17]. d < p \<longrightarrow> p mod d \<noteq> 0)) [0..<312]"
    unfolding first_primes_def by (intro filter_cong refl is_prime_small) simp
  also have "\<dots> = [2, 3, 5, 7, 11, 13, 17, 19, 23, 29, 31, 37, 41, 43, 47, 53, 59, 61, 67, 71,
   73, 79, 83, 89, 97, 101, 103, 107, 109, 113, 127, 131, 137, 139, 149, 151, 157, 163, 167, 173, 179, 181, 191, 193,
   197, 199, 211, 223, 227, 229, 233, 239, 241, 251, 257, 263, 269, 271, 277, 281, 283, 293, 307, 311]"
    by code_simp
  finally show ?thesis .
qed

text \<open>The constant tables are the standard's: every entry of the round constants is the leading
  32 bits of the fractional part of the cube root of the corresponding one of the first 64 primes,
  and the initial state those of the square roots of the first eight.\<close>

theorem sha256_constants:
  "list_all2 (\<lambda>p x. root_frac 3 (int p) x) first_primes sha256_k \<and>
   list_all2 (\<lambda>p x. root_frac 2 (int p) x) (take 8 first_primes) (state (sha256_init g))"
proof
  show "list_all2 (\<lambda>p x. root_frac 3 (int p) x) first_primes sha256_k"
    unfolding first_primes_list by code_simp
  have "list_all2 (\<lambda>p x. root_frac 2 (int p) x) (take 8 first_primes) H0"
    unfolding first_primes_list by code_simp
  then show "list_all2 (\<lambda>p x. root_frac 2 (int p) x) (take 8 first_primes) (state (sha256_init g))"
    by (simp add: sha256_init_def H0_def)
qed

end
