(* ===== verification/AvdScan.thy ===== *)
theory AvdScan
  imports AvdCorpus AvdControl AvdQuarantine Sha256
begin

text \<open>
  The scan of one file by the daemon (\<^verbatim>\<open>yara_callback\<close>, \<^verbatim>\<open>perform_scan\<close>, \<^verbatim>\<open>handle_scan_request\<close> and
  \<^verbatim>\<open>send_verdict\<close> of \<^verbatim>\<open>src/userspace/avd/avd.c\<close>). The YARA engine is not part of the repository: what
  it reports is the list of the rules that matched, with their metadata, and whether the scan
  completed. The similarity checks, the quarantine and the verdict ring are those of the other
  theories.
\<close>

section \<open>Scoring\<close>

datatype yr_meta = MetaInteger string u64 | MetaBoolean string u64 | MetaString string

record yr_rule =
  yr_identifier :: string
  yr_metas :: "yr_meta list"

record yara_match_ctx =
  ym_matched :: bool
  ym_count :: u32
  ym_score :: u32
  ym_override :: bool
  ym_rule_name :: string

definition ctx_init :: yara_match_ctx where
  "ctx_init = \<lparr>ym_matched = False, ym_count = 0, ym_score = 0, ym_override = False, ym_rule_name = []\<rparr>"

fun note_meta :: "yr_meta \<Rightarrow> yara_match_ctx \<Rightarrow> yara_match_ctx" where
  "note_meta (MetaInteger i v) ctx = (if i = ''weight'' then ctx\<lparr>ym_score := ym_score ctx + ucast v\<rparr> else ctx)"
| "note_meta (MetaBoolean i v) ctx = (if v \<noteq> 0 \<and> i = ''override'' then ctx\<lparr>ym_override := True\<rparr> else ctx)"
| "note_meta (MetaString i) ctx = ctx"

definition yara_callback :: "yr_rule \<Rightarrow> yara_match_ctx \<Rightarrow> yara_match_ctx" where
  "yara_callback rule ctx0 =
     (let used = length (ym_rule_name ctx0);
          remaining = AV_RULE_NAME_MAXLEN + 1 - used;
          ctx = fold note_meta (yr_metas rule) (ctx0\<lparr>ym_matched := True, ym_count := ym_count ctx0 + 1\<rparr>)
      in if remaining > 1
         then ctx\<lparr>ym_rule_name := ym_rule_name ctx0 @
                snprintf remaining ((if used > 0 then '','' else []) @ yr_identifier rule)\<rparr>
         else ctx)"

definition MALICIOUS_SCORE_THRESHOLD :: int where "MALICIOUS_SCORE_THRESHOLD = 100"

section \<open>The scan\<close>

record 's scan_env =
  sc_owner :: "u32 option"
  sc_sha_dup :: bool
  sc_sha_fdopen :: bool
  sc_sha_seek :: bool
  sc_sha_chunks :: "u8 list list"
  sc_sha_err :: bool
  sc_sha_stack :: sha256_ctx
  sc_rules :: bool
  sc_lseek :: bool
  sc_yara :: "yr_rule list"
  sc_yara_ok :: bool
  sc_lib :: "'s libfuzzy"
  sc_fuzzy_corpus :: "corpus_entry list"
  sc_tlsh_corpus :: "corpus_entry list"
  sc_size1 :: "u64 option"
  sc_size2 :: "u64 option"
  sc_dup1 :: bool
  sc_dup2 :: bool
  sc_lseek1 :: bool
  sc_lseek2 :: bool
  sc_reads1 :: "read_event list"
  sc_reads2 :: "read_event list"
  sc_content :: "u8 list"
  sc_now :: u64
  sc_quarantine :: q_env

record scanned =
  out_result :: scan_result
  out_ops :: "q_op list"
  out_fs :: fsys
  out_history :: history

text \<open>What the daemon puts after a \<^verbatim>\<open>Fuzzy:\<close> or \<^verbatim>\<open>TLSH:\<close> match.\<close>

definition match_name :: "string \<Rightarrow> string \<Rightarrow> int \<Rightarrow> string" where
  "match_name kind name v = snprintf (AV_RULE_NAME_MAXLEN + 1) (kind @ take 40 name @ ''('' @ show_int v @ '')'')"

definition finish_scan ::
  "'s scan_env \<Rightarrow> string \<Rightarrow> string \<Rightarrow> u32 \<Rightarrow> bool \<Rightarrow> scan_result \<Rightarrow> q_op list \<Rightarrow> fsys \<Rightarrow> history \<Rightarrow> scanned" where
  "finish_scan E path hash pid on_demand out0 ops s h =
     (let out = out0\<lparr>sr_sha256 := snprintf 65 hash\<rparr> in
      \<lparr>out_result = out, out_ops = ops, out_fs = s,
       out_history = record_verdict_history (sc_now E) pid (case sc_owner E of Some u \<Rightarrow> u | None \<Rightarrow> - 1) (Some path)
         (Some (sr_sha256 out)) (sr_verdict out) (Some (sr_rule out)) (sr_score out) on_demand h\<rparr>)"

definition convict ::
  "'s scan_env \<Rightarrow> string \<Rightarrow> nat \<Rightarrow> string \<Rightarrow> string \<Rightarrow> u32 \<Rightarrow> bool \<Rightarrow> string \<Rightarrow> u32 \<Rightarrow> fsys \<Rightarrow> history \<Rightarrow> scanned" where
  "convict E qdir fd path hash pid on_demand rule score s h =
     (let (ops, s') = quarantine_file (sc_quarantine E) qdir fd path rule hash s
      in finish_scan E path hash pid on_demand
           \<lparr>sr_verdict = AV_VERDICT_MALICIOUS, sr_rule = rule, sr_score = score, sr_sha256 = []\<rparr> ops s' h)"

text \<open>\<open>None\<close> stands for a read outside an array in one of the hash routines.\<close>

definition scan_hash :: "'s scan_env \<Rightarrow> string option \<Rightarrow> string option" where
  "scan_hash E sha256_hex =
     (case sha256_hex of
        Some (c # cs) \<Rightarrow> Some (c # cs)
      | _ \<Rightarrow>
          (case sha256_fd (sc_sha_dup E) (sc_sha_fdopen E) (sc_sha_seek E) (sc_sha_chunks E) (sc_sha_err E) (sc_sha_stack E) of
             None \<Rightarrow> None
           | Some (Some h) \<Rightarrow> Some h
           | Some None \<Rightarrow> Some []))"

definition perform_scan ::
  "'s scan_env \<Rightarrow> string \<Rightarrow> nat \<Rightarrow> string \<Rightarrow> string option \<Rightarrow> u32 \<Rightarrow> bool \<Rightarrow> fsys \<Rightarrow> history \<Rightarrow> scanned option" where
  "perform_scan E qdir fd path sha256_hex pid on_demand s h =
     (case scan_hash E sha256_hex of None \<Rightarrow> None | Some hash \<Rightarrow>
        let clean = (\<lambda>score. finish_scan E path hash pid on_demand
              \<lparr>sr_verdict = AV_VERDICT_CLEAN, sr_rule = [], sr_score = score, sr_sha256 = []\<rparr> [] s h);
            guilty = (\<lambda>rule score. convict E qdir fd path hash pid on_demand rule score s h)
        in if \<not> sc_rules E then Some (clean 0)
        else if \<not> sc_lseek E then Some (clean 0)
        else if \<not> sc_yara_ok E then Some (clean 0)
        else
          let ctx = fold yara_callback (sc_yara E) ctx_init;
              score = (if ym_matched ctx then ym_score ctx else 0)
          in if ym_matched ctx \<and> (ym_override ctx \<or> sint (ym_score ctx) \<ge> MALICIOUS_SCORE_THRESHOLD)
             then Some (guilty (snprintf (AV_RULE_NAME_MAXLEN + 1) (ym_rule_name ctx)) (ym_score ctx))
          else case check_fuzzy_corpus (sc_lib E) (sc_fuzzy_corpus E) (sc_size1 E) (sc_dup1 E) (sc_lseek1 E) (sc_reads1 E)
                      (sc_content E) of
            Match name v \<Rightarrow> Some (guilty (match_name ''Fuzzy:'' name (if v < 0 then 0 else if v > 100 then 100 else v)) score)
          | _ \<Rightarrow>
              (case check_tlsh_corpus (sc_tlsh_corpus E) (sc_size2 E) (sc_dup2 E) (sc_lseek2 E) (sc_reads2 E) (sc_content E) of
                 None \<Rightarrow> None
               | Some (Match name v) \<Rightarrow> Some (guilty (match_name ''TLSH:'' name v) score)
               | Some _ \<Rightarrow> Some (clean score)))"

section \<open>Answering the kernel\<close>

text \<open>The outcomes of building and of sending the message, and what reaches the kernel, in the form
  in which its handler reads it; \<open>portid\<close> is the port of the daemon's socket.\<close>

definition send_verdict :: "u32 \<Rightarrow> bool \<Rightarrow> bool \<Rightarrow> u64 \<Rightarrow> u8 \<Rightarrow> string option \<Rightarrow> int \<times> verdict_msg option" where
  "send_verdict portid build_ok send_ok reqid verdict rule_name =
     (if \<not> build_ok then (- 1, None)
      else
        let msg = \<lparr>vm_portid = portid, vm_reqid = Some reqid, vm_verdict = Some verdict,
                   vm_rule = (case rule_name of Some (c # cs) \<Rightarrow> Some (c # cs) | _ \<Rightarrow> None)\<rparr>
        in if \<not> send_ok then (- 1, None) else (0, Some msg))"

record 's request_env =
  re_open :: "nat option"
  re_portid :: u32
  re_build :: bool
  re_send :: bool
  re_scan :: "'s scan_env"

definition handle_scan_request ::
  "'s request_env \<Rightarrow> string \<Rightarrow> u64 \<Rightarrow> u32 \<Rightarrow> string \<Rightarrow> string \<Rightarrow> fsys \<Rightarrow> history \<Rightarrow>
   (verdict_msg option \<times> q_op list \<times> fsys \<times> history) option" where
  "handle_scan_request R qdir reqid pid path sha256_hex s h =
     (case re_open R of
        None \<Rightarrow> Some (snd (send_verdict (re_portid R) (re_build R) (re_send R) reqid AV_VERDICT_CLEAN None), [], s, h)
      | Some fd \<Rightarrow>
          (case perform_scan (re_scan R) qdir fd path (Some sha256_hex) pid False s h of
             None \<Rightarrow> None
           | Some out \<Rightarrow>
               Some (snd (send_verdict (re_portid R) (re_build R) (re_send R) reqid (sr_verdict (out_result out))
                            (Some (sr_rule (out_result out)))), out_ops out, out_fs out, out_history out)))"

section \<open>What convicts a file\<close>

lemma sha256_fd_total:
  assumes "length (buffer g) = 64"
  shows "sha256_fd dup fdopen seek chunks err g \<noteq> None"
proof -
  let ?bs = "takeWhile (\<lambda>b. b \<noteq> []) chunks"
  obtain c a r where c: "update_all (sha256_init g) ?bs = Some c" "ctx_rep c a r"
    using update_all_rep [OF sha256_init_rep [OF assms], of ?bs] by auto
  then show ?thesis using sha256_final_fips [of c a r] by (auto simp: sha256_fd_def feed_blocks_all)
qed

lemma scan_hash_total: "length (buffer (sc_sha_stack E)) = 64 \<Longrightarrow> \<exists>h. scan_hash E sha = Some h"
  using sha256_fd_total [of "sc_sha_stack E" "sc_sha_dup E" "sc_sha_fdopen E" "sc_sha_seek E" "sc_sha_chunks E" "sc_sha_err E"]
  unfolding scan_hash_def by (cases sha) (auto split: option.split list.split)

text \<open>The weight a rule contributes, and the rules that convict alone.\<close>

definition rule_weight :: "yr_rule \<Rightarrow> u32" where
  "rule_weight r = (\<Sum>m\<leftarrow>yr_metas r. case m of MetaInteger i v \<Rightarrow> if i = ''weight'' then ucast v else 0 | _ \<Rightarrow> 0)"

definition overrides :: "yr_rule \<Rightarrow> bool" where
  "overrides r \<longleftrightarrow> (\<exists>v. v \<noteq> 0 \<and> MetaBoolean ''override'' v \<in> set (yr_metas r))"

lemma note_metas:
  "ym_score (fold note_meta ms ctx) =
     ym_score ctx + (\<Sum>m\<leftarrow>ms. case m of MetaInteger i v \<Rightarrow> if i = ''weight'' then ucast v else 0 | _ \<Rightarrow> 0) \<and>
   (ym_override (fold note_meta ms ctx) \<longleftrightarrow> ym_override ctx \<or> (\<exists>v. v \<noteq> 0 \<and> MetaBoolean ''override'' v \<in> set ms)) \<and>
   ym_matched (fold note_meta ms ctx) = ym_matched ctx \<and> ym_rule_name (fold note_meta ms ctx) = ym_rule_name ctx"
proof (induction ms arbitrary: ctx)
  case (Cons m ms)
  show ?case
    by (cases m) (simp_all add: Cons.IH, metis+)
qed simp

lemma callback_step:
  "ym_score (yara_callback r ctx) = ym_score ctx + rule_weight r"
  "ym_override (yara_callback r ctx) \<longleftrightarrow> ym_override ctx \<or> overrides r"
  "ym_matched (yara_callback r ctx)"
  using note_metas [of "yr_metas r" "ctx\<lparr>ym_matched := True, ym_count := ym_count ctx + 1\<rparr>"]
  by (simp_all add: yara_callback_def Let_def rule_weight_def overrides_def)

lemma callbacks:
  "ym_score (fold yara_callback rs ctx) = ym_score ctx + sum_list (map rule_weight rs)"
  "ym_override (fold yara_callback rs ctx) \<longleftrightarrow> ym_override ctx \<or> (\<exists>r \<in> set rs. overrides r)"
  "ym_matched (fold yara_callback rs ctx) \<longleftrightarrow> ym_matched ctx \<or> rs \<noteq> []"
  by (induction rs arbitrary: ctx) (auto simp: callback_step ac_simps)

definition yara_guilty :: "yr_rule list \<Rightarrow> bool" where
  "yara_guilty rs \<longleftrightarrow> (\<exists>r \<in> set rs. overrides r) \<or> 100 \<le> sint (sum_list (map rule_weight rs))"

lemma yara_guilty_ctx:
  "ym_matched (fold yara_callback rs ctx_init) \<and> (ym_override (fold yara_callback rs ctx_init) \<or>
     sint (ym_score (fold yara_callback rs ctx_init)) \<ge> MALICIOUS_SCORE_THRESHOLD) \<longleftrightarrow> yara_guilty rs"
  by (cases rs) (simp_all add: callbacks callback_step ctx_init_def yara_guilty_def MALICIOUS_SCORE_THRESHOLD_def ac_simps)

text \<open>The similarity checks as they stand in a scan.\<close>

definition fuzzy_result :: "'s scan_env \<Rightarrow> match_result" where
  "fuzzy_result E = check_fuzzy_corpus (sc_lib E) (sc_fuzzy_corpus E) (sc_size1 E) (sc_dup1 E) (sc_lseek1 E) (sc_reads1 E)
     (sc_content E)"

definition tlsh_result :: "'s scan_env \<Rightarrow> match_result" where
  "tlsh_result E = the (check_tlsh_corpus (sc_tlsh_corpus E) (sc_size2 E) (sc_dup2 E) (sc_lseek2 E) (sc_reads2 E) (sc_content E))"

lemma tlsh_result: "check_tlsh_corpus (sc_tlsh_corpus E) (sc_size2 E) (sc_dup2 E) (sc_lseek2 E) (sc_reads2 E) (sc_content E) =
  Some (tlsh_result E)"
  unfolding tlsh_result_def check_tlsh_shape by simp

definition similar :: "match_result \<Rightarrow> bool" where
  "similar r \<longleftrightarrow> (\<exists>n v. r = Match n v)"

definition guilty :: "'s scan_env \<Rightarrow> bool" where
  "guilty E \<longleftrightarrow> sc_rules E \<and> sc_lseek E \<and> sc_yara_ok E \<and>
     (yara_guilty (sc_yara E) \<or> similar (fuzzy_result E) \<or> similar (tlsh_result E))"

lemma perform_scan_cases:
  assumes "scan_hash E sha = Some hash"
  shows "\<exists>rule score. length rule \<le> AV_RULE_NAME_MAXLEN \<and> perform_scan E qdir fd path sha pid od s h = Some (
    if guilty E then convict E qdir fd path hash pid od rule score s h
    else finish_scan E path hash pid od
      \<lparr>sr_verdict = AV_VERDICT_CLEAN, sr_rule = [], sr_score = score, sr_sha256 = []\<rparr> [] s h)"
proof -
  have l: "length (snprintf (AV_RULE_NAME_MAXLEN + 1) x) \<le> AV_RULE_NAME_MAXLEN" for x by (simp add: snprintf_def)
  then have m: "length (match_name k n v) \<le> AV_RULE_NAME_MAXLEN" for k n v by (simp add: match_name_def)
  note d = perform_scan_def [of E qdir fd path sha pid od s h, unfolded assms option.case Let_def yara_guilty_ctx
      tlsh_result [of E] fuzzy_result_def [symmetric]]
  show ?thesis
  proof (cases "sc_rules E \<and> sc_lseek E \<and> sc_yara_ok E")
    case False
    then have "\<not> guilty E" by (auto simp: guilty_def)
    then show ?thesis using False by (intro exI [of _ "[]"] exI [of _ 0]) (auto simp: d)
  next
    case True
    show ?thesis
    proof (cases "yara_guilty (sc_yara E)")
      case yg: True
      with True have "guilty E" by (simp add: guilty_def)
      then show ?thesis using True yg l by (auto simp: d intro!: exI)
    next
      case False
      note g = guilty_def [of E, unfolded similar_def]
      show ?thesis
      proof (cases "fuzzy_result E")
        case (Match n v)
        then show ?thesis using True False m by (auto simp: d g intro!: exI)
      next
        case NoMatch
        then show ?thesis using True False m by (cases "tlsh_result E") (auto simp: d g intro!: exI)
      next
        case HashError
        then show ?thesis using True False m by (cases "tlsh_result E") (auto simp: d g intro!: exI)
      qed
    qed
  qed
qed

text \<open>C29. A scan always ends with one verdict, and the verdict is what the evidence says: the file is
  malicious exactly when rules are loaded, the engine completed, and an overriding rule matched, or
  the weights of the matching rules add up (in 32 bits) to at least 100, or a corpus entry is similar
  enough; everything inconclusive counts as clean. A clean file is not touched; a malicious one is put in
  quarantine under the rule named in the verdict; and the verdict is in the history, once.\<close>

theorem scan_verdict_exact:
  assumes "length (buffer (sc_sha_stack E)) = 64"
  shows "\<exists>out. perform_scan E qdir fd path sha pid od s h = Some out \<and>
     (let r = out_result out in
      sr_verdict r = (if guilty E then AV_VERDICT_MALICIOUS else AV_VERDICT_CLEAN) \<and>
      length (sr_rule r) \<le> AV_RULE_NAME_MAXLEN \<and>
      (\<not> guilty E \<longrightarrow> sr_rule r = [] \<and> out_ops out = [] \<and> out_fs out = s) \<and>
      (guilty E \<longrightarrow> (\<exists>hash. scan_hash E sha = Some hash \<and>
         (out_ops out, out_fs out) = quarantine_file (sc_quarantine E) qdir fd path (sr_rule r) hash s)) \<and>
      out_history out = record_verdict_history (sc_now E) pid (case sc_owner E of Some u \<Rightarrow> u | None \<Rightarrow> - 1) (Some path)
         (Some (sr_sha256 r)) (sr_verdict r) (Some (sr_rule r)) (sr_score r) od h)"
proof -
  obtain hash where h: "scan_hash E sha = Some hash" using scan_hash_total [OF assms] by blast
  then obtain rule score where l: "length rule \<le> AV_RULE_NAME_MAXLEN"
    and p: "perform_scan E qdir fd path sha pid od s h = Some (
      if guilty E then convict E qdir fd path hash pid od rule score s h
      else finish_scan E path hash pid od
        \<lparr>sr_verdict = AV_VERDICT_CLEAN, sr_rule = [], sr_score = score, sr_sha256 = []\<rparr> [] s h)"
    using perform_scan_cases [OF h, of qdir fd path pid od s] by blast
  show ?thesis
    unfolding p using h l by (auto simp: finish_scan_def convict_def Let_def split: prod.split)
qed

definition no_lib :: "unit libfuzzy" where
  "no_lib = \<lparr>fuzzy_new = None, fuzzy_update = (\<lambda>s d. None), fuzzy_digest = (\<lambda>s. None), fuzzy_compare = (\<lambda>a b. 0)\<rparr>"

definition scan0 :: "unit scan_env" where
  "scan0 = \<lparr>sc_owner = Some 0, sc_sha_dup = True, sc_sha_fdopen = True, sc_sha_seek = True, sc_sha_chunks = [],
     sc_sha_err = False, sc_sha_stack = \<lparr>state = [], bitlen = 0, buffer = replicate 64 0, buflen = 0\<rparr>,
     sc_rules = True, sc_lseek = True,
     sc_yara = [\<lparr>yr_identifier = ''Weak'', yr_metas = [MetaInteger ''weight'' 60]\<rparr>,
                \<lparr>yr_identifier = ''Weak2'', yr_metas = [MetaInteger ''weight'' 40]\<rparr>],
     sc_yara_ok = True, sc_lib = no_lib, sc_fuzzy_corpus = [], sc_tlsh_corpus = [], sc_size1 = None, sc_size2 = None,
     sc_dup1 = True, sc_dup2 = True, sc_lseek1 = True, sc_lseek2 = True, sc_reads1 = [], sc_reads2 = [],
     sc_content = [], sc_now = 0, sc_quarantine = quiet_q\<rparr>"

lemma scan0_guilty: "guilty scan0"
  by (simp add: guilty_def scan0_def yara_guilty_def rule_weight_def)

theorem scan_verdict_exact_witness:
  "\<exists>out. perform_scan scan0 ''/q'' 7 ''/tmp/x'' (Some ''ab'') 9 False one_file history_init = Some out \<and>
     sr_verdict (out_result out) = AV_VERDICT_MALICIOUS"
proof -
  have "length (buffer (sc_sha_stack scan0)) = 64" by (simp add: scan0_def)
  from scan_verdict_exact [OF this, of "''/q''" 7 "''/tmp/x''" "Some ''ab''" 9 False one_file history_init] show ?thesis
    by (auto simp: scan0_guilty Let_def)
qed

section \<open>From the engine to the waiting process\<close>

lemma verdict_doit_found:
  assumes "nl_registered st" "vm_portid msg = nl_portid st" "vm_reqid msg = Some reqid" "vm_verdict msg = Some v"
    "v \<in> {AV_VERDICT_CLEAN, AV_VERDICT_MALICIOUS}" "find_reqid reqid st = Some p" "nl_heap st p = Some ps"
  shows "\<exists>st'. av_nl_verdict_doit msg st = Some (OK, st') \<and> nl_heap st' p = Some (ps\<lparr>ps_verdict := uint v,
    ps_rule := take 63 (case vm_rule msg of None \<Rightarrow> [] | Some r \<Rightarrow> r), ps_done := True\<rparr>)"
  using assms
  by (auto simp: av_nl_verdict_doit_def av_nl_verdict_dequeue_def av_nl_verdict_complete_def AV_RULE_NAME_MAXLEN_def
      strscpy_def split: option.split)


definition request0 :: "unit request_env" where
  "request0 = \<lparr>re_open = Some 7, re_portid = 42, re_build = True, re_send = True, re_scan = scan0\<rparr>"

definition waiting0 :: nl_state where
  "waiting0 = \<lparr>nl_portid = 42, nl_registered = True, nl_pending = [3], nl_reqid = 9,
     nl_heap = [3 \<mapsto> \<lparr>ps_reqid = 9, ps_done = False, ps_verdict = - 1, ps_rule = []\<rparr>], nl_poison = {}, nl_fresh = 4\<rparr>"


end
