(* ===== verification/AvdQueue.thy ===== *)
theory AvdQueue
  imports AvUser
begin

text \<open>
  The bounded queue between the netlink thread and the scan workers of \<^verbatim>\<open>src/userspace/avd/avd.c\<close>: the
  linked list with its head and tail pointers in an explicit heap, the lock regions of
  \<^verbatim>\<open>enqueue_scan_task\<close> and \<^verbatim>\<open>scan_worker_main\<close>, the guard of \<^verbatim>\<open>msg_handler\<close>, and the interleavings of one
  producer, any number of workers and a shutdown. A region returns \<open>None\<close> when it would follow a
  pointer to memory that is not allocated. A wait on a condition variable is a region that changed
  nothing and runs again; which thread a signal wakes is not modelled.
\<close>

section \<open>The code\<close>

record scan_task =
  tk_next :: "nat option"
  tk_reqid :: u64
  tk_pid :: u32
  tk_path :: string
  tk_sha256 :: string

record queue_state =
  q_heap :: "nat \<rightharpoonup> scan_task"
  queue_head :: "nat option"
  queue_tail :: "nat option"
  queue_len :: nat
  shutting_down :: bool

definition queue_init :: queue_state where
  "queue_init = \<lparr>q_heap = Map.empty, queue_head = None, queue_tail = None, queue_len = 0, shutting_down = False\<rparr>"

definition new_task :: "u64 \<Rightarrow> u32 \<Rightarrow> string \<Rightarrow> string \<Rightarrow> scan_task" where
  "new_task reqid pid path sha256_hex = \<lparr>tk_next = None, tk_reqid = reqid, tk_pid = pid,
     tk_path = snprintf PATH_MAX path, tk_sha256 = snprintf 65 sha256_hex\<rparr>"

text \<open>Linking the task at \<open>a\<close> behind the tail.\<close>

definition append_task :: "nat \<Rightarrow> queue_state \<Rightarrow> queue_state option" where
  "append_task a st =
     (case queue_tail st of
        Some t \<Rightarrow>
          (case q_heap st t of
             None \<Rightarrow> None
           | Some task \<Rightarrow> Some (st\<lparr>q_heap := (q_heap st)(t \<mapsto> task\<lparr>tk_next := Some a\<rparr>), queue_tail := Some a,
               queue_len := queue_len st + 1\<rparr>))
      | None \<Rightarrow> Some (st\<lparr>queue_head := Some a, queue_tail := Some a, queue_len := queue_len st + 1\<rparr>))"

datatype enq_outcome = EnqWait | EnqRefused | EnqQueued

definition enqueue_region :: "nat \<Rightarrow> nat \<Rightarrow> queue_state \<Rightarrow> (enq_outcome \<times> queue_state) option" where
  "enqueue_region avd_scan_queue_max a st =
     (if queue_len st \<ge> avd_scan_queue_max \<and> \<not> shutting_down st then Some (EnqWait, st)
      else if shutting_down st then Some (EnqRefused, st\<lparr>q_heap := (q_heap st)(a := None)\<rparr>)
      else map_option (\<lambda>st'. (EnqQueued, st')) (append_task a st))"

text \<open>Taking the task at the head off the list.\<close>

definition pop_task :: "queue_state \<Rightarrow> (nat \<times> queue_state) option" where
  "pop_task st =
     (case queue_head st of
        None \<Rightarrow> None
      | Some a \<Rightarrow>
          (case q_heap st a of
             None \<Rightarrow> None
           | Some task \<Rightarrow> Some (a, st\<lparr>queue_head := tk_next task,
               queue_tail := (if tk_next task = None then None else queue_tail st), queue_len := queue_len st - 1\<rparr>)))"

datatype deq_outcome = DeqWait | DeqExit | DeqTask nat

definition dequeue_region :: "queue_state \<Rightarrow> (deq_outcome \<times> queue_state) option" where
  "dequeue_region st =
     (if queue_head st = None \<and> \<not> shutting_down st then Some (DeqWait, st)
      else if queue_head st = None \<and> shutting_down st then Some (DeqExit, st)
      else map_option (\<lambda>(a, st'). (DeqTask a, st')) (pop_task st))"

section \<open>Messages from the kernel\<close>

text \<open>\<open>sm_src\<close> is the port the message really came from, if known.\<close>

record scan_msg =
  sm_parsed :: bool
  sm_cmd :: u8
  sm_src :: "u32 option"
  sm_reqid :: "u64 option"
  sm_pid :: "u32 option"
  sm_path :: "string option"
  sm_sha256 :: "string option"

definition AV_C_SCAN_REQUEST :: u8 where "AV_C_SCAN_REQUEST = 2"

text \<open>The request \<^verbatim>\<open>msg_handler\<close> passes on to \<^verbatim>\<open>enqueue_scan_task\<close>, if any; \<open>true\<close> is \<^verbatim>\<open>NL_OK\<close>.\<close>

definition msg_handler :: "scan_msg \<Rightarrow> bool \<times> scan_task option" where
  "msg_handler msg =
     (if \<not> sm_parsed msg then (False, None)
      else if sm_cmd msg = AV_C_SCAN_REQUEST \<and> sm_src msg \<noteq> Some 0 then (False, None)
      else if sm_cmd msg = AV_C_SCAN_REQUEST then
        (case (sm_reqid msg, sm_path msg) of
           (Some reqid, Some path) \<Rightarrow>
             (True, Some (new_task reqid (case sm_pid msg of Some p \<Rightarrow> p | None \<Rightarrow> 0) path
                            (case sm_sha256 msg of Some h \<Rightarrow> h | None \<Rightarrow> [])))
         | _ \<Rightarrow> (False, None))
      else (True, None))"

section \<open>The threads\<close>

datatype worker = Idle | Busy nat | Exited

text \<open>\<open>producer\<close> is the task the netlink thread has allocated and not yet queued; \<open>received\<close>, \<open>accepted\<close> and
  \<open>started\<close> record the messages handled, the tasks queued and the tasks taken, in order.\<close>

record avd_threads =
  queue :: queue_state
  producer :: "nat option"
  workers :: "nat \<Rightarrow> worker"
  received :: "scan_msg list"
  accepted :: "scan_task list"
  started :: "scan_task list"

definition threads_init :: avd_threads where
  "threads_init = \<lparr>queue = queue_init, producer = None, workers = (\<lambda>_. Idle), received = [], accepted = [], started = []\<rparr>"

definition content :: "queue_state \<Rightarrow> nat \<Rightarrow> scan_task" where
  "content st a = (the (q_heap st a))\<lparr>tk_next := None\<rparr>"

inductive queue_step :: "nat \<Rightarrow> nat \<Rightarrow> avd_threads \<Rightarrow> avd_threads \<Rightarrow> bool" for mx n where
  receive: "producer s = None \<Longrightarrow> msg_handler msg = (r, None) \<Longrightarrow>
     queue_step mx n s (s\<lparr>received := received s @ [msg]\<rparr>)"
| allocate: "producer s = None \<Longrightarrow> msg_handler msg = (r, Some task) \<Longrightarrow> q_heap (queue s) a = None \<Longrightarrow>
     queue_step mx n s (s\<lparr>received := received s @ [msg], producer := Some a,
       queue := (queue s)\<lparr>q_heap := (q_heap (queue s))(a \<mapsto> task)\<rparr>\<rparr>)"
| no_memory: "producer s = None \<Longrightarrow> msg_handler msg = (r, Some task) \<Longrightarrow>
     queue_step mx n s (s\<lparr>received := received s @ [msg]\<rparr>)"
| enqueue: "producer s = Some a \<Longrightarrow> enqueue_region mx a (queue s) = Some (EnqQueued, q) \<Longrightarrow>
     queue_step mx n s (s\<lparr>queue := q, producer := None, accepted := accepted s @ [content (queue s) a]\<rparr>)"
| refuse: "producer s = Some a \<Longrightarrow> enqueue_region mx a (queue s) = Some (EnqRefused, q) \<Longrightarrow>
     queue_step mx n s (s\<lparr>queue := q, producer := None\<rparr>)"
| dequeue: "i < n \<Longrightarrow> workers s i = Idle \<Longrightarrow> dequeue_region (queue s) = Some (DeqTask a, q) \<Longrightarrow>
     queue_step mx n s (s\<lparr>queue := q, workers := (workers s)(i := Busy a), started := started s @ [content (queue s) a]\<rparr>)"
| exit: "i < n \<Longrightarrow> workers s i = Idle \<Longrightarrow> dequeue_region (queue s) = Some (DeqExit, q) \<Longrightarrow>
     queue_step mx n s (s\<lparr>queue := q, workers := (workers s)(i := Exited)\<rparr>)"
| finish: "i < n \<Longrightarrow> workers s i = Busy a \<Longrightarrow>
     queue_step mx n s (s\<lparr>queue := (queue s)\<lparr>q_heap := (q_heap (queue s))(a := None)\<rparr>, workers := (workers s)(i := Idle)\<rparr>)"
| shutdown: "queue_step mx n s (s\<lparr>queue := (queue s)\<lparr>shutting_down := True\<rparr>\<rparr>)"

inductive_cases queue_stepE: "queue_step mx n s s'"

inductive queue_reach :: "nat \<Rightarrow> nat \<Rightarrow> avd_threads \<Rightarrow> bool" for mx n where
  start: "queue_reach mx n threads_init"
| step: "queue_reach mx n s \<Longrightarrow> queue_step mx n s s' \<Longrightarrow> queue_reach mx n s'"

section \<open>A first-in first-out buffer\<close>

text \<open>The contract the threads rely on: \<open>rep s as\<close> says the buffer holds the nodes \<open>as\<close>.\<close>

locale fifo_buffer =
  fixes rep :: "'s \<Rightarrow> 'p list \<Rightarrow> bool"
    and fresh :: "'s \<Rightarrow> 'p \<Rightarrow> bool"
    and put :: "'p \<Rightarrow> 's \<Rightarrow> 's option"
    and get :: "'s \<Rightarrow> ('p \<times> 's) option"
  assumes put_rep: "rep s as \<Longrightarrow> fresh s a \<Longrightarrow> a \<notin> set as \<Longrightarrow> \<exists>s'. put a s = Some s' \<and> rep s' (as @ [a])"
    and get_rep: "rep s (a # as) \<Longrightarrow> \<exists>s'. get s = Some (a, s') \<and> rep s' as"
begin

text \<open>Taking \<open>n\<close> nodes one after the other.\<close>

primrec take_nodes :: "nat \<Rightarrow> 's \<Rightarrow> ('p list \<times> 's) option" where
  "take_nodes 0 s = Some ([], s)"
| "take_nodes (Suc n) s =
     (case get s of None \<Rightarrow> None | Some (a, s') \<Rightarrow> map_option (\<lambda>(as, s''). (a # as, s'')) (take_nodes n s'))"

lemma take_nodes_rep:
  "rep s as \<Longrightarrow> n \<le> length as \<Longrightarrow> \<exists>s'. take_nodes n s = Some (take n as, s') \<and> rep s' (drop n as)"
proof (induction n arbitrary: s as)
  case (Suc n)
  then obtain a bs where as: "as = a # bs" by (cases as) auto
  with Suc.prems get_rep obtain s1 where s1: "get s = Some (a, s1)" "rep s1 bs" by blast
  then obtain s2 where "take_nodes n s1 = Some (take n bs, s2)" "rep s2 (drop n bs)"
    using Suc.IH [of s1 bs] Suc.prems as by auto
  then show ?case using s1 as by simp
qed simp

end

section \<open>The linked list is one\<close>

primrec chain :: "(nat \<rightharpoonup> scan_task) \<Rightarrow> nat option \<Rightarrow> nat list \<Rightarrow> bool" where
  "chain h p [] \<longleftrightarrow> p = None"
| "chain h p (a # as) \<longleftrightarrow> p = Some a \<and> (\<exists>t. h a = Some t \<and> chain h (tk_next t) as)"

lemma chain_cong: "(\<And>a. a \<in> set as \<Longrightarrow> h' a = h a) \<Longrightarrow> chain h' p as = chain h p as"
  by (induction as arbitrary: p) auto

lemma chain_dom: "chain h p as \<Longrightarrow> a \<in> set as \<Longrightarrow> \<exists>t. h a = Some t"
  by (induction as arbitrary: p) auto

lemma chain_snoc:
  assumes "chain h p as" "distinct as" "as \<noteq> []" "h (last as) = Some te" "h a = Some t" "tk_next t = None" "a \<notin> set as"
  shows "chain (h(last as \<mapsto> te\<lparr>tk_next := Some a\<rparr>)) p (as @ [a])"
  using assms
proof (induction as arbitrary: p)
  case (Cons b bs)
  show ?case
  proof (cases "bs = []")
    case True
    then show ?thesis using Cons.prems by auto
  next
    case False
    obtain tb where b: "h b = Some tb" "chain h (tk_next tb) bs" using Cons.prems by auto
    moreover have "b \<noteq> last bs" using Cons.prems last_in_set [OF False] by auto
    ultimately show ?thesis using Cons.IH [of "tk_next tb"] Cons.prems False by simp
  qed
qed simp

definition queue_rep :: "queue_state \<Rightarrow> nat list \<Rightarrow> bool" where
  "queue_rep st as \<longleftrightarrow> chain (q_heap st) (queue_head st) as \<and> distinct as \<and>
     queue_tail st = (if as = [] then None else Some (last as)) \<and> queue_len st = length as"

definition fresh_task :: "queue_state \<Rightarrow> nat \<Rightarrow> bool" where
  "fresh_task st a \<longleftrightarrow> (\<exists>t. q_heap st a = Some t \<and> tk_next t = None)"

lemma append_task_rep:
  assumes "queue_rep st as" "fresh_task st a" "a \<notin> set as"
  shows "\<exists>st'. append_task a st = Some st' \<and> queue_rep st' (as @ [a])"
proof (cases "as = []")
  case True
  then show ?thesis using assms by (auto simp: append_task_def queue_rep_def fresh_task_def)
next
  case False
  obtain te where l: "q_heap st (last as) = Some te" using assms(1) False chain_dom [of _ _ as "last as"] by (auto simp: queue_rep_def)
  obtain t where t: "q_heap st a = Some t" "tk_next t = None" using assms(2) by (auto simp: fresh_task_def)
  have "chain (q_heap st) (queue_head st) as" "distinct as" using assms(1) by (simp_all add: queue_rep_def)
  from chain_snoc [OF this False l t assms(3)] show ?thesis
    using assms False l by (auto simp: append_task_def queue_rep_def)
qed

lemma pop_task_rep:
  assumes "queue_rep st (a # as)"
  shows "\<exists>st'. pop_task st = Some (a, st') \<and> queue_rep st' as"
proof -
  obtain t where t: "queue_head st = Some a" "q_heap st a = Some t" "chain (q_heap st) (tk_next t) as"
    using assms by (auto simp: queue_rep_def)
  then have "tk_next t = None \<longleftrightarrow> as = []" by (cases as) auto
  then show ?thesis using assms t by (auto simp: pop_task_def queue_rep_def)
qed

interpretation tasks: fifo_buffer queue_rep fresh_task append_task pop_task
  by unfold_locales (fact append_task_rep pop_task_rep)+

lemma queue_rep_head: "queue_rep st as \<Longrightarrow> queue_head st = None \<longleftrightarrow> as = []"
  by (cases as) (auto simp: queue_rep_def)

section \<open>No request is lost, reordered or forged\<close>

definition kernel_task :: "scan_msg list \<Rightarrow> scan_task \<Rightarrow> bool" where
  "kernel_task ms t \<longleftrightarrow> (\<exists>m \<in> set ms. sm_src m = Some 0 \<and> sm_cmd m = AV_C_SCAN_REQUEST \<and> snd (msg_handler m) = Some t)"

definition queue_inv :: "nat \<Rightarrow> nat \<Rightarrow> avd_threads \<Rightarrow> nat list \<Rightarrow> bool" where
  "queue_inv mx n s as \<longleftrightarrow>
     queue_rep (queue s) as \<and> length as \<le> mx \<and>
     (\<forall>a. producer s = Some a \<longrightarrow> a \<notin> set as \<and> fresh_task (queue s) a \<and> kernel_task (received s) (content (queue s) a)) \<and>
     (\<forall>i a. workers s i = Busy a \<longrightarrow> i < n \<and> a \<notin> set as \<and> producer s \<noteq> Some a \<and> q_heap (queue s) a \<noteq> None) \<and>
     (\<forall>i j a. workers s i = Busy a \<longrightarrow> workers s j = Busy a \<longrightarrow> i = j) \<and>
     accepted s = started s @ map (content (queue s)) as \<and>
     ((\<exists>i. workers s i = Exited) \<longrightarrow> shutting_down (queue s) \<and> as = []) \<and>
     (\<forall>t \<in> set (accepted s). kernel_task (received s) t)"

lemma queue_inv_init: "queue_inv mx n threads_init []"
  by (simp add: queue_inv_def threads_init_def queue_init_def queue_rep_def)

lemma msg_handler_task:
  "msg_handler msg = (r, Some t) \<Longrightarrow> sm_src msg = Some 0 \<and> sm_cmd msg = AV_C_SCAN_REQUEST \<and> tk_next t = None"
  by (auto simp: msg_handler_def new_task_def split: if_splits option.splits)

lemma kernel_task_mono: "kernel_task ms t \<Longrightarrow> kernel_task (ms @ ms') t"
  by (auto simp: kernel_task_def)

lemma append_task_content:
  "append_task a st = Some st' \<Longrightarrow> content st' b = content st b \<and> (q_heap st' b = None \<longleftrightarrow> q_heap st b = None) \<and>
    shutting_down st' = shutting_down st"
  by (auto simp: append_task_def content_def split: option.splits if_splits)

lemma pop_task_content:
  "pop_task st = Some (a, st') \<Longrightarrow> q_heap st' = q_heap st \<and> shutting_down st' = shutting_down st"
  by (auto simp: pop_task_def split: option.splits)

lemma queue_rep_free:
  "a \<notin> set as \<Longrightarrow> queue_rep (st\<lparr>q_heap := (q_heap st)(a := x)\<rparr>) as = queue_rep st as"
  using chain_cong [of as "(q_heap st)(a := x)" "q_heap st"] by (fastforce simp: queue_rep_def)

lemma content_other: "b \<noteq> a \<Longrightarrow> content (st\<lparr>q_heap := (q_heap st)(a := x)\<rparr>) b = content st b"
  by (simp add: content_def)

lemma contents_other: "a \<notin> set as \<Longrightarrow> map (content (st\<lparr>q_heap := (q_heap st)(a := x)\<rparr>)) as = map (content st) as"
  by (rule map_cong [OF refl], rule content_other) blast

lemma queue_rep_in_heap: "queue_rep st as \<Longrightarrow> a \<in> set as \<Longrightarrow> q_heap st a \<noteq> None"
  using chain_dom by (fastforce simp: queue_rep_def)

lemma inv_receive:
  assumes "queue_inv mx n s as" "producer s = None"
  shows "queue_inv mx n (s\<lparr>received := received s @ [msg]\<rparr>) as"
  using assms kernel_task_mono unfolding queue_inv_def by auto

lemma inv_allocate:
  assumes i: "queue_inv mx n s as" and p: "producer s = None" and m: "msg_handler msg = (r, Some task)"
    and a: "q_heap (queue s) a = None"
  shows "queue_inv mx n (s\<lparr>received := received s @ [msg], producer := Some a,
       queue := (queue s)\<lparr>q_heap := (q_heap (queue s))(a \<mapsto> task)\<rparr>\<rparr>) as"
proof -
  have n: "a \<notin> set as" using i a queue_rep_in_heap [of "queue s" as a] by (auto simp: queue_inv_def)
  have t: "tk_next task = None" "sm_src msg = Some 0" "sm_cmd msg = AV_C_SCAN_REQUEST" using msg_handler_task [OF m] by auto
  then have "task\<lparr>tk_next := None\<rparr> = task" by simp
  then have "kernel_task (received s @ [msg]) (task\<lparr>tk_next := None\<rparr>)" using t m by (auto simp: kernel_task_def)
  moreover have "workers s i \<noteq> Busy a" for i using i a unfolding queue_inv_def by metis
  moreover have "content ((queue s)\<lparr>q_heap := (q_heap (queue s))(a \<mapsto> task)\<rparr>) a = task\<lparr>tk_next := None\<rparr>"
    by (simp add: content_def)
  ultimately show ?thesis
    using i n t(1) queue_rep_free [OF n, of "queue s" "Some task"] contents_other [OF n, of "queue s" "Some task"]
    unfolding queue_inv_def fresh_task_def by (auto intro: kernel_task_mono)
qed

lemma inv_enqueue:
  assumes i: "queue_inv mx n s as" and p: "producer s = Some a" and e: "enqueue_region mx a (queue s) = Some (EnqQueued, q)"
  shows "queue_inv mx n (s\<lparr>queue := q, producer := None, accepted := accepted s @ [content (queue s) a]\<rparr>) (as @ [a])"
proof -
  have ap: "append_task a (queue s) = Some q" and l: "queue_len (queue s) < mx" "\<not> shutting_down (queue s)"
    using e by (auto simp: enqueue_region_def split: if_splits)
  have f: "a \<notin> set as" "fresh_task (queue s) a" "kernel_task (received s) (content (queue s) a)"
    using i p by (auto simp: queue_inv_def)
  have r: "queue_rep q (as @ [a])" using tasks.put_rep [of "queue s" as a] i f ap by (auto simp: queue_inv_def)
  note c = append_task_content [OF ap]
  have "length as < mx" using i l by (auto simp: queue_inv_def queue_rep_def)
  then show ?thesis using i p f r c l
    by (auto simp: queue_inv_def)
qed

lemma inv_refuse:
  assumes i: "queue_inv mx n s as" and p: "producer s = Some a" and e: "enqueue_region mx a (queue s) = Some (EnqRefused, q)"
  shows "queue_inv mx n (s\<lparr>queue := q, producer := None\<rparr>) as"
proof -
  have q: "q = (queue s)\<lparr>q_heap := (q_heap (queue s))(a := None)\<rparr>"
    using e by (auto simp: enqueue_region_def split: if_splits)
  have n: "a \<notin> set as" using i p by (auto simp: queue_inv_def)
  show ?thesis using i p queue_rep_free [OF n, of "queue s" None] contents_other [OF n, of "queue s" None]
    unfolding queue_inv_def q by auto
qed

lemma inv_dequeue:
  assumes i: "queue_inv mx n s as" and w: "i < n" "workers s i = Idle"
    and d: "dequeue_region (queue s) = Some (DeqTask a, q)"
  shows "\<exists>bs. queue_inv mx n (s\<lparr>queue := q, workers := (workers s)(i := Busy a),
    started := started s @ [content (queue s) a]\<rparr>) bs"
proof -
  have r: "queue_rep (queue s) as" using i by (simp add: queue_inv_def)
  have p: "pop_task (queue s) = Some (a, q)" using d by (auto simp: dequeue_region_def split: if_splits)
  have "as \<noteq> []" using d queue_rep_head [OF r] by (auto simp: dequeue_region_def pop_task_def split: if_splits)
  then obtain b bs where as: "as = b # bs" by (cases as) auto
  then have b: "b = a" "queue_rep q bs" using tasks.get_rep [of "queue s" b bs] r p by auto
  have c: "content q x = content (queue s) x" "q_heap q = q_heap (queue s)" "shutting_down q = shutting_down (queue s)" for x
    using pop_task_content [OF p] by (simp_all add: content_def)
  have "a \<notin> set bs" "q_heap (queue s) a \<noteq> None" using r as b queue_rep_in_heap [OF r, of a] by (auto simp: queue_rep_def)
  moreover have "workers s j \<noteq> Busy a" "producer s \<noteq> Some a" for j using i as b unfolding queue_inv_def by auto
  ultimately have "queue_inv mx n (s\<lparr>queue := q, workers := (workers s)(i := Busy a),
      started := started s @ [content (queue s) a]\<rparr>) bs"
    using i as b c w unfolding queue_inv_def by (auto simp: fresh_task_def)
  then show ?thesis ..
qed

lemma inv_exit:
  assumes i: "queue_inv mx n s as" and d: "dequeue_region (queue s) = Some (DeqExit, q)"
  shows "queue_inv mx n (s\<lparr>queue := q, workers := (workers s)(i := Exited)\<rparr>) as"
proof -
  have r: "queue_rep (queue s) as" using i by (simp add: queue_inv_def)
  have "q = queue s" "shutting_down (queue s)" "as = []"
    using d queue_rep_head [OF r] by (auto simp: dequeue_region_def split: if_splits)
  then show ?thesis using i unfolding queue_inv_def by auto
qed

lemma inv_finish:
  assumes i: "queue_inv mx n s as" and w: "workers s i = Busy a"
  shows "queue_inv mx n (s\<lparr>queue := (queue s)\<lparr>q_heap := (q_heap (queue s))(a := None)\<rparr>,
    workers := (workers s)(i := Idle)\<rparr>) as"
proof -
  have n: "a \<notin> set as" "producer s \<noteq> Some a" using i w by (auto simp: queue_inv_def)
  moreover have "workers s j = Busy a \<Longrightarrow> j = i" for j using i w unfolding queue_inv_def by blast
  ultimately show ?thesis
    using i queue_rep_free [OF n(1), of "queue s" None] contents_other [OF n(1), of "queue s" None] content_other [of _ a "queue s" None]
    unfolding queue_inv_def fresh_task_def by auto
qed

lemma inv_shutdown: "queue_inv mx n s as \<Longrightarrow> queue_inv mx n (s\<lparr>queue := (queue s)\<lparr>shutting_down := True\<rparr>\<rparr>) as"
  by (auto simp: queue_inv_def queue_rep_def fresh_task_def content_def)

lemma queue_inv_step:
  assumes "queue_inv mx n s as" "queue_step mx n s s'"
  shows "\<exists>bs. queue_inv mx n s' bs"
  using assms(2,1)
  by (cases rule: queue_stepE)
    (blast intro: inv_receive inv_allocate inv_enqueue inv_refuse inv_dequeue inv_exit inv_finish inv_shutdown)+

lemma queue_inv_reach: "queue_reach mx n s \<Longrightarrow> \<exists>as. queue_inv mx n s as"
  by (induction rule: queue_reach.induct) (blast intro: queue_inv_init queue_inv_step)+

text \<open>C32. The scan queue loses nothing. In every interleaving of the receiving thread, the workers and a
  shutdown: no lock region follows a dangling pointer and no task is held by two threads; tasks are
  started in the order they were accepted, each once, and what is accepted but not started is on the
  list, which never exceeds its bound; when every worker has exited, everything accepted has been
  started; and every accepted task stems from a scan request that really came from the kernel.\<close>

theorem scan_queue_safe:
  assumes "queue_reach mx n s"
  shows "(\<forall>a. producer s = Some a \<longrightarrow> enqueue_region mx a (queue s) \<noteq> None) \<and> dequeue_region (queue s) \<noteq> None \<and>
    (\<forall>i a. workers s i = Busy a \<longrightarrow> q_heap (queue s) a \<noteq> None \<and> producer s \<noteq> Some a \<and>
       (\<forall>j. workers s j = Busy a \<longrightarrow> j = i)) \<and>
    (\<exists>as. queue_rep (queue s) as \<and> length as \<le> mx \<and> accepted s = started s @ map (content (queue s)) as) \<and>
    (0 < n \<and> (\<forall>i < n. workers s i = Exited) \<longrightarrow> started s = accepted s) \<and>
    (\<forall>t \<in> set (accepted s). \<exists>m \<in> set (received s). sm_src m = Some 0 \<and> sm_cmd m = AV_C_SCAN_REQUEST \<and>
       snd (msg_handler m) = Some t)"
proof -
  obtain as where i: "queue_inv mx n s as" using queue_inv_reach [OF assms] by blast
  have r: "queue_rep (queue s) as" using i by (simp add: queue_inv_def)
  have e: "enqueue_region mx a (queue s) \<noteq> None" if "producer s = Some a" for a
    using tasks.put_rep [OF r, of a] i that by (auto simp: enqueue_region_def queue_inv_def)
  have d: "dequeue_region (queue s) \<noteq> None"
    using tasks.get_rep [of "queue s" "hd as" "tl as"] r queue_rep_head [OF r] by (cases as) (auto simp: dequeue_region_def)
  have x: "started s = accepted s" if "0 < n" "\<forall>i < n. workers s i = Exited"
    using i that by (auto simp: queue_inv_def)
  show ?thesis
    using i r e d x unfolding queue_inv_def kernel_task_def by blast
qed

definition kernel_msg :: scan_msg where
  "kernel_msg = \<lparr>sm_parsed = True, sm_cmd = AV_C_SCAN_REQUEST, sm_src = Some 0, sm_reqid = Some 1, sm_pid = None,
     sm_path = Some ''/x'', sm_sha256 = None\<rparr>"

theorem scan_queue_safe_witness:
  "\<exists>s. queue_reach 1 1 s \<and> accepted s = [new_task 1 0 ''/x'' []] \<and> (\<exists>as. queue_rep (queue s) as \<and> length as \<le> 1)"
proof -
  let ?t = "new_task 1 0 ''/x'' []"
  have m: "msg_handler kernel_msg = (True, Some ?t)" by (simp add: msg_handler_def kernel_msg_def)
  let ?s1 = "threads_init\<lparr>received := received threads_init @ [kernel_msg], producer := Some 5,
    queue := (queue threads_init)\<lparr>q_heap := (q_heap (queue threads_init))(5 \<mapsto> ?t)\<rparr>\<rparr>"
  have s1: "queue_reach 1 1 ?s1"
    by (rule queue_reach.step [OF queue_reach.start queue_step.allocate [OF _ m]]) (simp_all add: threads_init_def queue_init_def)
  let ?q = "(queue ?s1)\<lparr>queue_head := Some 5, queue_tail := Some 5, queue_len := 1\<rparr>"
  have e: "enqueue_region 1 5 (queue ?s1) = Some (EnqQueued, ?q)"
    by (simp add: enqueue_region_def append_task_def threads_init_def queue_init_def)
  let ?s2 = "?s1\<lparr>queue := ?q, producer := None, accepted := accepted ?s1 @ [content (queue ?s1) 5]\<rparr>"
  have s2: "queue_reach 1 1 ?s2"
    by (rule queue_reach.step [OF s1 queue_step.enqueue [OF _ e]]) simp
  have "accepted ?s2 = [?t]" by (simp add: threads_init_def content_def new_task_def)
  then show ?thesis using s2 scan_queue_safe [OF s2] by blast
qed

end
