(* ===== verification/AvctlState.thy ===== *)
theory AvctlState
  imports AvUser Hooks
begin

text \<open>
  Saving and loading the module's state with \<^verbatim>\<open>src/userspace/avctl/avctl.c\<close>: the dump \<^verbatim>\<open>do_save\<close> makes
  of the four files under \<^verbatim>\<open>/proc\<close>, and \<^verbatim>\<open>do_load\<close>, which replays it through \<^verbatim>\<open>write_command_to\<close>.
  The files are the kernel's own handlers, so that a load changes the state of the module. Opening
  a file, allocating and the conditions of the kernel handlers are fields of \<open>proc_env\<close>.
\<close>

section \<open>The C library's \<open>sscanf\<close>\<close>

definition uscan_s :: "nat \<Rightarrow> string \<Rightarrow> (string \<times> string) option" where
  "uscan_s w s =
     (let t = dropWhile c_isspace s; tok = take w (takeWhile (\<lambda>c. \<not> c_isspace c) t)
      in if tok = [] then None else Some (tok, drop (length tok) t))"

definition uconv :: "conv \<Rightarrow> string \<Rightarrow> (string \<times> string) option" where
  "uconv c s = (case c of ConvS w \<Rightarrow> uscan_s w s | ConvLine w \<Rightarrow> scan_line w s)"

fun uscanf :: "conv list \<Rightarrow> string \<Rightarrow> string list" where
  "uscanf [] s = []"
| "uscanf (c # cs) s =
     (case uconv c s of None \<Rightarrow> [] | Some (tok, r) \<Rightarrow> tok # uscanf cs (dropWhile c_isspace r))"

section \<open>Writing a command\<close>

datatype proc_file = ProcSig | ProcTrust | ProcProtected | ProcPolicy

record kernel_view =
  kv_sig :: sig_state
  kv_trust :: trust_table
  kv_protected :: protected_table
  kv_policy :: bool

record proc_env =
  px_open :: "proc_file \<Rightarrow> errno option"
  px_malloc :: bool
  px_capable :: bool
  px_mem :: bool
  px_fault :: bool

text \<open>The handler behind a file; every command is one write at offset 0.\<close>

definition proc_write :: "kapi \<Rightarrow> proc_env \<Rightarrow> proc_file \<Rightarrow> string \<Rightarrow> kernel_view \<Rightarrow> nat ret_val \<times> kernel_view" where
  "proc_write K E f buf kv =
     (case f of
        ProcSig \<Rightarrow> (case sig_proc_write K (px_capable E) (px_mem E) (px_fault E) buf (kv_sig kv) of
          (r, t) \<Rightarrow> (r, kv\<lparr>kv_sig := t\<rparr>))
      | ProcTrust \<Rightarrow> (case trust_proc_write K (px_capable E) (px_mem E) (px_fault E) buf (kv_trust kv) of
          (r, t) \<Rightarrow> (r, kv\<lparr>kv_trust := t\<rparr>))
      | ProcProtected \<Rightarrow> (case protected_proc_write K (px_capable E) 0 (px_mem E) (px_mem E) (px_fault E) buf (kv_protected kv) of
          (r, t) \<Rightarrow> (r, kv\<lparr>kv_protected := t\<rparr>))
      | ProcPolicy \<Rightarrow> (case daemon_policy_proc_write (px_fault E) 0 buf (kv_policy kv) of
          (r, t) \<Rightarrow> (r, kv\<lparr>kv_policy := t\<rparr>)))"

definition write_command_to :: "kapi \<Rightarrow> proc_env \<Rightarrow> proc_file \<Rightarrow> string \<Rightarrow> kernel_view \<Rightarrow> ret \<times> kernel_view" where
  "write_command_to K E path cmd kv =
     (case px_open E path of
        Some e \<Rightarrow> (Inl e, kv)
      | None \<Rightarrow>
          if \<not> px_malloc E then (Inl ENOMEM, kv)
          else (case proc_write K E path (cmd @ [NL]) kv of
              (Inl e, kv') \<Rightarrow> (Inl e, kv') | (Inr _, kv') \<Rightarrow> (OK, kv')))"

definition write_command :: "kapi \<Rightarrow> proc_env \<Rightarrow> string \<Rightarrow> kernel_view \<Rightarrow> ret \<times> kernel_view" where
  "write_command K E cmd kv = write_command_to K E ProcSig cmd kv"

section \<open>Checks on the fields\<close>

abbreviation AVCTL_HASH_HEX_MAXLEN :: nat where "AVCTL_HASH_HEX_MAXLEN \<equiv> 64"
abbreviation AVCTL_NAME_MAXLEN :: nat where "AVCTL_NAME_MAXLEN \<equiv> 63"

definition check_field_len :: "string \<Rightarrow> nat \<Rightarrow> bool" where
  "check_field_len s mx \<longleftrightarrow> NL \<notin> set s \<and> length s \<le> mx"

text \<open>\<^verbatim>\<open>strcasecmp\<close> of the C locale folds the ASCII letters only.\<close>

definition u_lower :: "char \<Rightarrow> char" where
  "u_lower c = (if 65 \<le> ccode c \<and> ccode c \<le> 90 then char_of (ccode c + 32) else c)"

definition check_algo :: "string \<Rightarrow> bool" where
  "check_algo algo \<longleftrightarrow> map u_lower algo \<in> {''md5'', ''sha1'', ''sha256''}"

definition validate_sig_fields :: "string \<Rightarrow> bool" where
  "validate_sig_fields rest =
     (case uscanf [ConvS 7, ConvS 7, ConvS 511, ConvLine 511] rest of
        [op, algo, a] \<Rightarrow> check_algo algo \<and> check_field_len a AVCTL_HASH_HEX_MAXLEN
      | [op, algo, a, b] \<Rightarrow> check_algo algo \<and> check_field_len a AVCTL_HASH_HEX_MAXLEN \<and> check_field_len b AVCTL_NAME_MAXLEN
      | _ \<Rightarrow> True)"

definition validate_trust_fields :: "string \<Rightarrow> bool" where
  "validate_trust_fields rest =
     (case uscanf [ConvS 7, ConvS 511, ConvLine 511] rest of
        [op, a] \<Rightarrow> check_field_len a AVCTL_HASH_HEX_MAXLEN
      | [op, a, b] \<Rightarrow> check_field_len a AVCTL_HASH_HEX_MAXLEN \<and> check_field_len b AVCTL_NAME_MAXLEN
      | _ \<Rightarrow> True)"

section \<open>Saving\<close>

abbreviation LINE_MAX :: nat where "LINE_MAX \<equiv> AvUser.PATH_MAX + 16"

definition save_sig_line :: "string \<Rightarrow> string" where
  "save_sig_line line =
     (case uscanf [ConvS 7, ConvS 64, ConvLine 127] line of
        [algo, hex, name] \<Rightarrow> ''sig add '' @ algo @ '' '' @ hex @ '' '' @ name @ [NL] | _ \<Rightarrow> [])"

definition save_trust_line :: "string \<Rightarrow> string" where
  "save_trust_line line =
     (case uscanf [ConvS 64, ConvLine 127] line of
        [hex, name] \<Rightarrow> ''trust add '' @ hex @ '' '' @ name @ [NL] | _ \<Rightarrow> [])"

definition save_named_line :: "string \<Rightarrow> string \<Rightarrow> string" where
  "save_named_line pre line = (let l = strip_nl line in if l = [] then [] else pre @ l @ [NL])"

definition file_lines :: "string \<Rightarrow> string list" where
  "file_lines txt = map cstr (fgets_lines LINE_MAX txt)"

text \<open>What the four files show, or \<open>None\<close> for one that cannot be opened; the flag is false when the
  dump was given up.\<close>

definition save_dump :: "(proc_file \<Rightarrow> string option) \<Rightarrow> bool \<times> string" where
  "save_dump proc =
     (case proc ProcSig of None \<Rightarrow> (False, []) | Some s \<Rightarrow>
        let d1 = concat (map save_sig_line (file_lines s)) in
      case proc ProcTrust of None \<Rightarrow> (False, d1) | Some t \<Rightarrow>
        let d2 = d1 @ concat (map save_trust_line (file_lines t)) in
      case proc ProcProtected of None \<Rightarrow> (False, d2) | Some p \<Rightarrow>
        let d3 = d2 @ concat (map (save_named_line ''protect add '') (file_lines p)) in
      case proc ProcPolicy of None \<Rightarrow> (False, d3) | Some y \<Rightarrow>
        (True, d3 @ (case file_lines y of [] \<Rightarrow> [] | l # _ \<Rightarrow> save_named_line ''policy '' l)))"

definition save_header :: "string \<Rightarrow> string" where
  "save_header path = ''# kernel-av state dump - replay with: avctl load '' @ path @ [NL]"

section \<open>Loading\<close>

text \<open>The lines \<^verbatim>\<open>do_load\<close> sees: a line that does not fit its buffer is drained and rejected whole.\<close>

function load_lines :: "string \<Rightarrow> string option list" where
  "load_lines s =
     (if s = [] then []
      else
        let l = fgets_line LINE_MAX s; rest = drop (length l) s; c = cstr l in
        if c \<noteq> [] \<and> last c \<noteq> NL \<and> rest \<noteq> []
        then None # load_lines (drop 1 (dropWhile (\<lambda>c. c \<noteq> NL) rest))
        else Some (strip_nl c) # load_lines rest)"
  by pat_completeness auto
termination
proof (relation "measure length")
  fix s :: string and l rest c
  assume s: "s \<noteq> []" and l: "l = fgets_line LINE_MAX s" and rest: "rest = drop (length l) s"
  have "l \<noteq> []" using s unfolding l by (cases s) (auto simp: fgets_line_def Let_def)
  then have r: "length rest < length s" using s unfolding rest by simp
  show "(rest, s) \<in> measure length" using r by simp
  have "length (drop 1 (dropWhile (\<lambda>c. c \<noteq> NL) rest)) \<le> length rest"
    by (simp add: length_dropWhile_le le_trans [OF diff_le_self])
  then show "(drop 1 (dropWhile (\<lambda>c. c \<noteq> NL) rest), s) \<in> measure length" using r by simp
qed simp

declare load_lines.simps [simp del]

datatype load_outcome = Loaded | AlreadyPresent | LoadError | Ignored

definition load_result :: "ret \<times> kernel_view \<Rightarrow> load_outcome \<times> kernel_view" where
  "load_result rk = (case rk of
     (Inl e, kv) \<Rightarrow> (if e = EEXIST then AlreadyPresent else LoadError, kv) | (Inr _, kv) \<Rightarrow> (Loaded, kv))"

definition load_line :: "kapi \<Rightarrow> proc_env \<Rightarrow> string option \<Rightarrow> kernel_view \<Rightarrow> load_outcome \<times> kernel_view" where
  "load_line K E ln kv =
     (case ln of
        None \<Rightarrow> (LoadError, kv)
      | Some line \<Rightarrow>
          if line = [] \<or> hd line = CHR ''#'' then (Ignored, kv)
          else if starts_with ''sig '' line then
            if \<not> validate_sig_fields (drop 4 line) then (LoadError, kv)
            else load_result (write_command K E (drop 4 line) kv)
          else if starts_with ''trust '' line then
            if \<not> validate_trust_fields (drop 6 line) then (LoadError, kv)
            else load_result (write_command_to K E ProcTrust (drop 6 line) kv)
          else if starts_with ''protect '' line then load_result (write_command_to K E ProcProtected (drop 8 line) kv)
          else if starts_with ''policy '' line then load_result (write_command_to K E ProcPolicy (drop 7 line) kv)
          else (LoadError, kv))"

text \<open>The state after the lines, and whether an error was counted.\<close>

primrec load_all :: "kapi \<Rightarrow> proc_env \<Rightarrow> string option list \<Rightarrow> kernel_view \<Rightarrow> bool \<times> kernel_view" where
  "load_all K E [] kv = (False, kv)"
| "load_all K E (l # ls) kv =
     (let (r, kv1) = load_line K E l kv; (err, kv2) = load_all K E ls kv1 in (r = LoadError \<or> err, kv2))"

definition do_load :: "kapi \<Rightarrow> proc_env \<Rightarrow> string option \<Rightarrow> kernel_view \<Rightarrow> int \<times> kernel_view" where
  "do_load K E file kv =
     (case file of
        None \<Rightarrow> (1, kv)
      | Some txt \<Rightarrow> let (errors, kv') = load_all K E (load_lines txt) kv in (if errors then 1 else 0, kv'))"

section \<open>Scanning what was printed\<close>

lemma c_isspace_isspace: "c_isspace c \<Longrightarrow> isspace c"
  by (auto simp: c_isspace_def isspace_def)

lemma uscanf_word:
  assumes "tok \<noteq> []" "\<forall>c \<in> set tok. \<not> c_isspace c" "length tok \<le> w" "r \<noteq> []" "\<not> c_isspace (hd r)"
  shows "uscanf (ConvS w # cs) (tok @ CHR '' '' # r) = tok # uscanf cs r"
proof -
  have sp: "c_isspace CHR '' ''" by code_simp
  have "dropWhile c_isspace (tok @ CHR '' '' # r) = tok @ CHR '' '' # r"
    using assms(1,2) by (cases tok) auto
  moreover have "takeWhile (\<lambda>c. \<not> c_isspace c) (tok @ CHR '' '' # r) = tok"
    using assms(2) sp by (intro takeWhile_stop) auto
  moreover have "dropWhile c_isspace (CHR '' '' # r) = r" using sp assms(4,5) by (cases r) auto
  moreover have "take w tok = tok" "w \<noteq> 0" using assms(1,3) by (cases tok; simp)+
  ultimately show ?thesis using assms(1) by (simp add: uconv_def uscan_s_def Let_def)
qed

lemma uscanf_line:
  assumes "tok \<noteq> []" "NL \<notin> set tok" "length tok \<le> w"
  shows "uscanf [ConvLine w] (tok @ [NL]) = [tok]" "uscanf [ConvLine w] tok = [tok]"
  using scan_line_token [OF assms, of "[NL]"] scan_line_token [OF assms, of "[]"] by (simp_all add: uconv_def)

lemma file_lines_of:
  assumes "\<forall>l \<in> set ls. NL \<notin> set l \<and> NUL \<notin> set l \<and> length l + 1 < LINE_MAX"
  shows "file_lines (concat (map (\<lambda>l. l @ [NL]) ls)) = map (\<lambda>l. l @ [NL]) ls"
proof -
  have n: "NUL \<noteq> NL" by (simp add: NUL_def NL_def)
  have "\<forall>l \<in> set ls. NL \<notin> set l \<and> length l + 1 < LINE_MAX" using assms by blast
  from fgets_lines_file [OF this]
  have "file_lines (concat (map (\<lambda>l. l @ [NL]) ls)) = map cstr (map (\<lambda>l. l @ [NL]) ls)" unfolding file_lines_def by simp
  also have "\<dots> = map (\<lambda>l. l @ [NL]) ls" using assms n by (auto intro!: cstr_id)
  finally show ?thesis .
qed

lemma load_lines_of:
  assumes "\<forall>l \<in> set ls. NL \<notin> set l \<and> NUL \<notin> set l \<and> length l + 1 < LINE_MAX"
  shows "load_lines (concat (map (\<lambda>l. l @ [NL]) ls)) = map Some ls"
  using assms
proof (induction ls)
  case (Cons l ls)
  let ?r = "concat (map (\<lambda>l. l @ [NL]) ls)"
  have n: "NUL \<noteq> NL" by (simp add: NUL_def NL_def)
  have t: "takeWhile (\<lambda>c. c \<noteq> NL) (l @ NL # ?r) = l" using Cons.prems by (intro takeWhile_stop) auto
  have "take (LINE_MAX - 1) (l @ [NL]) = l @ [NL]" using Cons.prems by (intro take_all) auto
  then have f: "fgets_line LINE_MAX (l @ NL # ?r) = l @ [NL]" by (simp add: fgets_line_def t)
  have c: "cstr (l @ [NL]) = l @ [NL]" using Cons.prems n by (intro cstr_id) auto
  show ?case using Cons by (subst load_lines.simps) (simp add: f [simplified] c Let_def)
qed (simp add: load_lines.simps)

lemma load_all_append:
  "load_all K E (xs @ ys) kv = (case load_all K E xs kv of (e1, kv1) \<Rightarrow>
     case load_all K E ys kv1 of (e2, kv2) \<Rightarrow> (e1 \<or> e2, kv2))"
  by (induction xs arbitrary: kv) (auto simp: Let_def split: prod.split)

section \<open>A saved signature line replays\<close>

text \<open>What the module's files hold once entries came in through them: words without white space, and
  names that start with a printing character and fit on a line.\<close>

definition name_ok :: "string \<Rightarrow> bool" where
  "name_ok s \<longleftrightarrow> s \<noteq> [] \<and> \<not> isspace (hd s) \<and> NL \<notin> set s \<and> NUL \<notin> set s \<and> length s \<le> 63"

definition word_ok :: "string \<Rightarrow> bool" where
  "word_ok s \<longleftrightarrow> s \<noteq> [] \<and> (\<forall>c \<in> set s. \<not> isspace c \<and> c \<noteq> NUL)"

definition sig_clean :: "av_sig_entry \<Rightarrow> bool" where
  "sig_clean e \<longleftrightarrow> sig_valid (se_algo e) (se_hex e) \<and> map tolower (se_hex e) = se_hex e \<and> name_ok (se_name e)"

definition sig_text :: "av_sig_entry \<Rightarrow> string" where
  "sig_text e = algo_names (se_algo e) @ CHR '' '' # se_hex e @ CHR '' '' # se_name e"

lemma word_ok_facts:
  "word_ok s \<Longrightarrow> s \<noteq> [] \<and> (\<forall>c \<in> set s. \<not> isspace c) \<and> (\<forall>c \<in> set s. \<not> c_isspace c) \<and> \<not> isspace (hd s) \<and> \<not> c_isspace (hd s) \<and>
    NL \<notin> set s \<and> NUL \<notin> set s"
  using c_isspace_isspace by (cases s) (auto simp: word_ok_def)

lemma name_ok_facts: "name_ok s \<Longrightarrow> s \<noteq> [] \<and> \<not> isspace (hd s) \<and> \<not> c_isspace (hd s) \<and> NL \<notin> set s \<and> NUL \<notin> set s \<and> length s \<le> 63"
  using c_isspace_isspace by (auto simp: name_ok_def)

lemma xdigit_not_space: "isxdigit c \<Longrightarrow> \<not> isspace c \<and> c \<noteq> NUL"
  by (auto simp: isxdigit_def isspace_def NUL_def ccode_def)

lemma sig_valid_word: "sig_valid a h \<Longrightarrow> word_ok h \<and> length h \<le> 64"
  using xdigit_not_space by (cases a) (auto simp: sig_valid_def word_ok_def)

lemma algo_name_word: "a \<noteq> AV_ALGO_COUNT \<Longrightarrow> word_ok (algo_names a) \<and> length (algo_names a) \<le> 6 \<and>
    parse_algo (algo_names a) = Some a \<and> check_algo (algo_names a)"
  by (cases a) (simp_all add: word_ok_def; code_simp)+

lemma add_word: "word_ok ''add''"
  unfolding word_ok_def by code_simp

lemma sig_clean_parts:
  assumes "sig_clean e"
  shows "se_algo e \<noteq> AV_ALGO_COUNT" "word_ok (algo_names (se_algo e))" "length (algo_names (se_algo e)) \<le> 6"
    "word_ok (se_hex e)" "length (se_hex e) \<le> 64" "name_ok (se_name e)"
proof -
  show "se_algo e \<noteq> AV_ALGO_COUNT" using assms by (simp add: sig_clean_def sig_valid_def)
  then show "word_ok (algo_names (se_algo e))" "length (algo_names (se_algo e)) \<le> 6" using algo_name_word by blast+
  show "word_ok (se_hex e)" "length (se_hex e) \<le> 64" "name_ok (se_name e)"
    using assms sig_valid_word by (auto simp: sig_clean_def)
qed

lemma sig_text_line:
  assumes "sig_clean e"
  shows "NL \<notin> set (sig_text e) \<and> NUL \<notin> set (sig_text e) \<and> length (sig_text e) \<le> 135"
proof -
  have c: "NL \<noteq> CHR '' ''" "NUL \<noteq> CHR '' ''" by (simp_all add: NL_def NUL_def)
  note p = sig_clean_parts [OF assms]
  show ?thesis using word_ok_facts [OF p(2)] word_ok_facts [OF p(4)] name_ok_facts [OF p(6)] p(3,5) c
    by (auto simp: sig_text_def)
qed

lemma sig_scan:
  assumes "sig_clean e" "7 \<le> w1" "64 \<le> w2" "63 \<le> w3"
  shows "uscanf [ConvS w1, ConvS w2, ConvLine w3] (sig_text e @ [NL]) = [algo_names (se_algo e), se_hex e, se_name e]"
    "uscanf [ConvS 7, ConvS w1, ConvS w2, ConvLine w3] (''add'' @ CHR '' '' # sig_text e) =
       [''add'', algo_names (se_algo e), se_hex e, se_name e]"
    "sscanf [ConvS 7, ConvS 7, ConvS 64, ConvLine 63] (''add'' @ CHR '' '' # sig_text e @ [NL]) =
       [''add'', algo_names (se_algo e), se_hex e, se_name e]"
proof -
  note p = sig_clean_parts [OF assms(1)]
  note a = word_ok_facts [OF p(2)] and h = word_ok_facts [OF p(4)] and n = name_ok_facts [OF p(6)] and d = word_ok_facts [OF add_word]
  have l: "length (algo_names (se_algo e)) \<le> w1" "length (se_hex e) \<le> w2" "length (se_name e) \<le> w3" using p n assms by auto
  have t: "sig_text e @ x = algo_names (se_algo e) @ CHR '' '' # (se_hex e @ CHR '' '' # (se_name e @ x))" for x
    by (simp add: sig_text_def)
  have u: "uscanf [ConvS w1, ConvS w2, ConvLine w3] (sig_text e @ x) = [algo_names (se_algo e), se_hex e, se_name e]"
    if "x = [] \<or> x = [NL]" for x
    unfolding t using that uscanf_line [of "se_name e" w3] a h n l
    by (subst uscanf_word; (subst uscanf_word)?) auto
  then show "uscanf [ConvS w1, ConvS w2, ConvLine w3] (sig_text e @ [NL]) = [algo_names (se_algo e), se_hex e, se_name e]" by simp
  show "uscanf [ConvS 7, ConvS w1, ConvS w2, ConvLine w3] (''add'' @ CHR '' '' # sig_text e) =
       [''add'', algo_names (se_algo e), se_hex e, se_name e]"
    using u [of "[]"] a d by (subst uscanf_word) (auto simp: sig_text_def)
  have s: "sscanf [ConvS 7, ConvS 64, ConvLine 63] (sig_text e @ [NL]) = [algo_names (se_algo e), se_hex e, se_name e]"
    unfolding t using sscanf_line_end [of "se_name e" 63] a h n p
    by (subst sscanf_word; (subst sscanf_word)?) auto
  show "sscanf [ConvS 7, ConvS 7, ConvS 64, ConvLine 63] (''add'' @ CHR '' '' # sig_text e @ [NL]) =
       [''add'', algo_names (se_algo e), se_hex e, se_name e]"
    using s a d by (subst sscanf_word) (auto simp: sig_text_def)
qed

definition writable :: "proc_env \<Rightarrow> bool" where
  "writable E \<longleftrightarrow> px_open E = (\<lambda>_. None) \<and> px_malloc E \<and> px_capable E \<and> px_mem E \<and> \<not> px_fault E"

lemma strcaseeq_add [simp]: "strcaseeq ''add'' ''add''"
  by simp

lemma replay_sig:
  assumes e: "sig_clean e" and E: "writable E" and inv: "sig_inv K (kv_sig kv)"
    and m: "sig_abs (kv_sig kv) \<subseteq>\<^sub>m m" "m (sig_key e) = Some (se_name e)" "finite (dom m)" "card (dom m) \<le> 8192"
  shows "\<exists>r t. load_line K E (Some (''sig add '' @ sig_text e)) kv = (r, kv\<lparr>kv_sig := t\<rparr>) \<and> r \<noteq> LoadError \<and>
    sig_inv K t \<and> sig_abs t = (sig_abs (kv_sig kv))(sig_key e \<mapsto> se_name e)"
proof -
  let ?st = "kv_sig kv" and ?a = "se_algo e" and ?h = "se_hex e" and ?n = "se_name e"
  obtain r t where a: "av_sigtable_add K True ?a ?h ?n ?st = (r, t)" by fastforce
  note p = sig_clean_parts [OF e]
  have l: "map tolower ?h = ?h" "sig_valid ?a ?h" using e by (auto simp: sig_clean_def)
  have k: "sig_key e = (?a, ?h)" by (simp add: sig_key_def)
  have n63: "take 63 ?n = ?n" using name_ok_facts [OF p(6)] by simp
  have inv': "sig_inv K t" by (rule av_sigtable_add_invD [OF a inv])
  have room: "card (dom (sig_abs ?st)) < 8192" if "sig_key e \<notin> dom (sig_abs ?st)"
  proof -
    have "dom (sig_abs ?st) \<subseteq> dom m" "sig_key e \<in> dom m" using map_le_implies_dom_le [OF m(1)] m(2) by blast+
    then have "dom (sig_abs ?st) \<subset> dom m" using that by blast
    then show ?thesis using psubset_card_mono [OF m(3)] m(4) by (meson less_le_trans)
  qed
  have s: "map_prod id sig_abs (r, t) = sig_spec_add True ?a ?h ?n (sig_abs ?st)"
    using av_sigtable_add_abs [OF inv, of True ?a ?h ?n] unfolding a .
  have rt: "(if sig_key e \<in> dom (sig_abs ?st) then r = Inl EEXIST \<and> sig_abs t = sig_abs ?st
     else r = OK \<and> sig_abs t = (sig_abs ?st)(sig_key e \<mapsto> ?n))"
    using s room l k n63 by (auto simp: sig_spec_add_def split: if_splits)
  have abs: "sig_abs t = (sig_abs ?st)(sig_key e \<mapsto> ?n)"
  proof (cases "sig_key e \<in> dom (sig_abs ?st)")
    case True
    then have "sig_abs ?st (sig_key e) = Some ?n" using m(1,2) by (auto simp: map_le_def)
    then show ?thesis using rt True by (simp add: fun_upd_idem)
  qed (use rt in simp)
  have line: "NUL \<notin> set (''add '' @ sig_text e @ [NL])" "length (''add '' @ sig_text e @ [NL]) < 256"
    using sig_text_line [OF e] by (auto simp: NUL_def NL_def)
  have w: "sig_proc_write K True True False (''add '' @ sig_text e @ [NL]) ?st =
      (case r of Inl err \<Rightarrow> (Inl err, t) | Inr _ \<Rightarrow> (Inr (length (''add '' @ sig_text e @ [NL])), t))"
    using sig_scan(3) [OF e, of 7 64 63] line algo_name_word [OF p(1)] a
    unfolding sig_proc_write_def cstr_id [OF line(1)] by (simp split: sum.split)
  have v: "validate_sig_fields (''add '' @ sig_text e)"
    using sig_scan(2) [OF e, of 7 511 511] algo_name_word [OF p(1)] p(5) word_ok_facts [OF p(4)] name_ok_facts [OF p(6)]
    by (simp add: validate_sig_fields_def check_field_len_def)
  have "load_line K E (Some (''sig add '' @ sig_text e)) kv = load_result (write_command K E (''add '' @ sig_text e) kv)"
    using v by (simp add: load_line_def starts_with_def strneq_def)
  also have "write_command K E (''add '' @ sig_text e) kv = (r, kv\<lparr>kv_sig := t\<rparr>)"
    using E w rt by (auto simp: write_command_def write_command_to_def proc_write_def writable_def split: if_splits)
  finally have "load_line K E (Some (''sig add '' @ sig_text e)) kv = load_result (r, kv\<lparr>kv_sig := t\<rparr>)" .
  then show ?thesis using rt abs inv' by (auto simp: load_result_def split: if_splits)
qed

lemma replay_sigs:
  assumes "\<forall>e \<in> set es. sig_clean e \<and> m (sig_key e) = Some (se_name e)" and E: "writable E"
    and m: "finite (dom m)" "card (dom m) \<le> 8192"
  shows "sig_inv K (kv_sig kv) \<Longrightarrow> sig_abs (kv_sig kv) \<subseteq>\<^sub>m m \<Longrightarrow>
    \<exists>t. load_all K E (map (\<lambda>e. Some (''sig add '' @ sig_text e)) es) kv = (False, kv\<lparr>kv_sig := t\<rparr>) \<and> sig_inv K t \<and>
      sig_abs t \<subseteq>\<^sub>m m \<and> dom (sig_abs t) = dom (sig_abs (kv_sig kv)) \<union> sig_key ` set es"
  using assms(1)
proof (induction es arbitrary: kv)
  case Nil
  then show ?case by (intro exI [of _ "kv_sig kv"]) simp
next
  case (Cons e es)
  have e: "sig_clean e" "m (sig_key e) = Some (se_name e)" using Cons.prems(3) by auto
  obtain r t where t: "load_line K E (Some (''sig add '' @ sig_text e)) kv = (r, kv\<lparr>kv_sig := t\<rparr>)" "r \<noteq> LoadError"
    "sig_inv K t" "sig_abs t = (sig_abs (kv_sig kv))(sig_key e \<mapsto> se_name e)"
    using replay_sig [OF e(1) E Cons.prems(1,2) e(2) m] by blast
  have "sig_abs t \<subseteq>\<^sub>m m" using Cons.prems(2) e(2) t(4) by (auto simp: map_le_def)
  with Cons.IH [of "kv\<lparr>kv_sig := t\<rparr>"] Cons.prems(3) t(3) obtain u where
    u: "load_all K E (map (\<lambda>e. Some (''sig add '' @ sig_text e)) es) (kv\<lparr>kv_sig := t\<rparr>) = (False, kv\<lparr>kv_sig := u\<rparr>)" "sig_inv K u"
      "sig_abs u \<subseteq>\<^sub>m m" "dom (sig_abs u) = dom (sig_abs t) \<union> sig_key ` set es"
    by auto
  then show ?case using t by (intro exI [of _ u]) auto
qed

section \<open>Trusted binaries, protected paths and the policy replay\<close>

definition trust_clean :: "av_trust_entry \<Rightarrow> bool" where
  "trust_clean e \<longleftrightarrow> length (te_sha256_hex e) = 64 \<and> word_ok (te_sha256_hex e) \<and>
     map tolower (te_sha256_hex e) = te_sha256_hex e \<and> name_ok (te_name e)"

definition trust_text :: "av_trust_entry \<Rightarrow> string" where
  "trust_text e = te_sha256_hex e @ CHR '' '' # te_name e"

lemma trust_text_line:
  assumes "trust_clean e"
  shows "NL \<notin> set (trust_text e) \<and> NUL \<notin> set (trust_text e) \<and> length (trust_text e) \<le> 128"
proof -
  have c: "NL \<noteq> CHR '' ''" "NUL \<noteq> CHR '' ''" by (simp_all add: NL_def NUL_def)
  show ?thesis using assms word_ok_facts [of "te_sha256_hex e"] name_ok_facts [of "te_name e"] c
    by (auto simp: trust_text_def trust_clean_def)
qed

lemma trust_scan:
  assumes "trust_clean e" "64 \<le> w2" "63 \<le> w3"
  shows "uscanf [ConvS w2, ConvLine w3] (trust_text e @ [NL]) = [te_sha256_hex e, te_name e]"
    "uscanf [ConvS 7, ConvS w2, ConvLine w3] (''add'' @ CHR '' '' # trust_text e) = [''add'', te_sha256_hex e, te_name e]"
    "sscanf [ConvS 7, ConvS 64, ConvLine 63] (''add'' @ CHR '' '' # trust_text e @ [NL]) = [''add'', te_sha256_hex e, te_name e]"
proof -
  have h: "word_ok (te_sha256_hex e)" "length (te_sha256_hex e) = 64" and n: "name_ok (te_name e)"
    using assms(1) by (simp_all add: trust_clean_def)
  note h' = word_ok_facts [OF h(1)] and n' = name_ok_facts [OF n] and d = word_ok_facts [OF add_word]
  have t: "trust_text e @ x = te_sha256_hex e @ CHR '' '' # (te_name e @ x)" for x by (simp add: trust_text_def)
  have u: "uscanf [ConvS w2, ConvLine w3] (trust_text e @ x) = [te_sha256_hex e, te_name e]" if "x = [] \<or> x = [NL]" for x
    unfolding t using that uscanf_line [of "te_name e" w3] h' h n' assms by (subst uscanf_word) auto
  then show "uscanf [ConvS w2, ConvLine w3] (trust_text e @ [NL]) = [te_sha256_hex e, te_name e]" by simp
  show "uscanf [ConvS 7, ConvS w2, ConvLine w3] (''add'' @ CHR '' '' # trust_text e) = [''add'', te_sha256_hex e, te_name e]"
    using u [of "[]"] h' d by (subst uscanf_word) (auto simp: trust_text_def)
  have s: "sscanf [ConvS 64, ConvLine 63] (trust_text e @ [NL]) = [te_sha256_hex e, te_name e]"
    unfolding t using sscanf_line_end [of "te_name e" 63] h' h n' by (subst sscanf_word) auto
  show "sscanf [ConvS 7, ConvS 64, ConvLine 63] (''add'' @ CHR '' '' # trust_text e @ [NL]) = [''add'', te_sha256_hex e, te_name e]"
    using s h' d by (subst sscanf_word) (auto simp: trust_text_def)
qed

lemma replay_trust:
  assumes e: "trust_clean e" and E: "writable E" and inv: "trust_inv K (kv_trust kv)"
    and new: "te_sha256_hex e \<notin> dom (trust_abs (kv_trust kv))"
  shows "\<exists>t. load_line K E (Some (''trust add '' @ trust_text e)) kv = (Loaded, kv\<lparr>kv_trust := t\<rparr>) \<and> trust_inv K t \<and>
    trust_abs t = (trust_abs (kv_trust kv))(te_sha256_hex e \<mapsto> te_name e)"
proof -
  let ?h = "te_sha256_hex e" and ?n = "te_name e" and ?t = "kv_trust kv"
  have f: "length ?h = 64" "map tolower ?h = ?h" "word_ok ?h" "name_ok ?n" using e by (simp_all add: trust_clean_def)
  have n63: "take 63 ?n = ?n" using name_ok_facts [OF f(4)] by simp
  obtain r t where a: "av_behavior_trust_add K True ?h ?n ?t = (r, t)" by fastforce
  have rt: "r = OK" "trust_abs t = (trust_abs ?t)(?h \<mapsto> ?n)" "trust_inv K t"
    using trust_add_refined [OF inv, of True ?h ?n] f new n63 unfolding a by (auto simp: trust_spec_add_def)
  have line: "NUL \<notin> set (''add '' @ trust_text e @ [NL])" "length (''add '' @ trust_text e @ [NL]) < 192"
    using trust_text_line [OF e] by (auto simp: NUL_def NL_def)
  have w: "trust_proc_write K True True False (''add '' @ trust_text e @ [NL]) ?t = (Inr (length (''add '' @ trust_text e @ [NL])), t)"
    using trust_scan(3) [OF e, of 64 63] line a rt(1)
    unfolding trust_proc_write_def cstr_id [OF line(1)] by simp
  have v: "validate_trust_fields (''add '' @ trust_text e)"
    using trust_scan(2) [OF e, of 511 511] f word_ok_facts [OF f(3)] name_ok_facts [OF f(4)]
    by (simp add: validate_trust_fields_def check_field_len_def)
  have "load_line K E (Some (''trust add '' @ trust_text e)) kv = load_result (write_command_to K E ProcTrust (''add '' @ trust_text e) kv)"
    using v by (simp add: load_line_def starts_with_def strneq_def)
  also have "write_command_to K E ProcTrust (''add '' @ trust_text e) kv = (OK, kv\<lparr>kv_trust := t\<rparr>)"
    using E w by (auto simp: write_command_to_def proc_write_def writable_def)
  finally show ?thesis using rt by (intro exI [of _ t]) (simp add: load_result_def)
qed

lemma replay_trusts:
  assumes E: "writable E"
  shows "\<forall>e \<in> set es. trust_clean e \<Longrightarrow> distinct (map te_sha256_hex es) \<Longrightarrow> trust_inv K (kv_trust kv) \<Longrightarrow>
    dom (trust_abs (kv_trust kv)) \<inter> te_sha256_hex ` set es = {} \<Longrightarrow>
    \<exists>t. load_all K E (map (\<lambda>e. Some (''trust add '' @ trust_text e)) es) kv = (False, kv\<lparr>kv_trust := t\<rparr>) \<and> trust_inv K t \<and>
      trust_abs t = trust_abs (kv_trust kv) ++ map_of (map (\<lambda>e. (te_sha256_hex e, te_name e)) es)"
proof (induction es arbitrary: kv)
  case Nil
  then show ?case by (intro exI [of _ "kv_trust kv"]) simp
next
  case (Cons e es)
  obtain t where t: "load_line K E (Some (''trust add '' @ trust_text e)) kv = (Loaded, kv\<lparr>kv_trust := t\<rparr>)" "trust_inv K t"
    "trust_abs t = (trust_abs (kv_trust kv))(te_sha256_hex e \<mapsto> te_name e)"
    using replay_trust [of e E K kv] E Cons.prems by auto
  obtain u where u: "load_all K E (map (\<lambda>e. Some (''trust add '' @ trust_text e)) es) (kv\<lparr>kv_trust := t\<rparr>) = (False, kv\<lparr>kv_trust := u\<rparr>)"
    "trust_inv K u" "trust_abs u = trust_abs t ++ map_of (map (\<lambda>e. (te_sha256_hex e, te_name e)) es)"
  proof -
    have d: "dom (trust_abs t) = insert (te_sha256_hex e) (dom (trust_abs (kv_trust kv)))" unfolding t(3) by simp
    have "dom (trust_abs (kv_trust (kv\<lparr>kv_trust := t\<rparr>))) \<inter> te_sha256_hex ` set es = {}"
      using Cons.prems(2,4) by (simp add: d)
    then show ?thesis using Cons.IH [of "kv\<lparr>kv_trust := t\<rparr>"] Cons.prems(1,2) t(2) that by auto
  qed
  have "te_sha256_hex e \<notin> dom (map_of (map (\<lambda>e. (te_sha256_hex e, te_name e)) es))"
    using Cons.prems(2) by (auto simp: dom_map_of_conv_image_fst)
  then have "trust_abs u = trust_abs (kv_trust kv) ++ map_of (map (\<lambda>e. (te_sha256_hex e, te_name e)) (e # es))"
    using u(3) t(3) by (auto simp: map_add_def fun_eq_iff split: option.splits)
  moreover have "load_all K E (map (\<lambda>e. Some (''trust add '' @ trust_text e)) (e # es)) kv = (False, kv\<lparr>kv_trust := u\<rparr>)"
    using t(1) u(1) by simp
  ultimately show ?case using u(2) by blast
qed

definition path_clean :: "string \<Rightarrow> bool" where
  "path_clean p \<longleftrightarrow> take 1 p = ''/'' \<and> length p < 4096 \<and> NL \<notin> set p \<and> NUL \<notin> set p \<and> last p \<noteq> CR"

lemma replay_paths:
  assumes E: "writable E"
  shows "\<forall>p \<in> set ps. path_clean p \<Longrightarrow> protected_inv K (kv_protected kv) \<Longrightarrow>
    \<exists>t. load_all K E (map (\<lambda>p. Some (''protect add '' @ p)) ps) kv = (False, kv\<lparr>kv_protected := t\<rparr>) \<and> protected_inv K t \<and>
      protected_abs t = protected_abs (kv_protected kv) \<union> set ps"
proof (induction ps arbitrary: kv)
  case Nil
  then show ?case by (intro exI [of _ "kv_protected kv"]) simp
next
  case (Cons p ps)
  have p: "take 1 p = ''/''" "length p < 4096" "NUL \<notin> set p" "last p \<noteq> CR" using Cons.prems(1) by (auto simp: path_clean_def)
  obtain r t where a: "av_behavior_protect_add K True p (kv_protected kv) = (r, t)" by fastforce
  have rt: "r \<in> {OK, Inl EEXIST}" "protected_abs t = insert p (protected_abs (kv_protected kv))" "protected_inv K t"
    using protect_add_refined [OF Cons.prems(2), of True p] p unfolding a by (auto split: if_splits)
  have "load_line K E (Some (''protect add '' @ p)) kv = load_result (write_command_to K E ProcProtected (''add '' @ p) kv)"
    by (simp add: load_line_def starts_with_def strneq_def)
  also have "write_command_to K E ProcProtected (''add '' @ p) kv = (r, kv\<lparr>kv_protected := t\<rparr>)"
    using E rt(1) protect_add_command [OF p, of K "kv_protected kv"] a
    by (auto simp: write_command_to_def proc_write_def writable_def)
  finally have l: "load_line K E (Some (''protect add '' @ p)) kv = load_result (r, kv\<lparr>kv_protected := t\<rparr>)" .
  obtain u where u: "load_all K E (map (\<lambda>p. Some (''protect add '' @ p)) ps) (kv\<lparr>kv_protected := t\<rparr>) = (False, kv\<lparr>kv_protected := u\<rparr>)"
    "protected_inv K u" "protected_abs u = protected_abs t \<union> set ps"
    using Cons.IH [of "kv\<lparr>kv_protected := t\<rparr>"] Cons.prems(1) rt(3) by auto
  then show ?case using l rt by (intro exI [of _ u]) (auto simp: load_result_def)
qed

lemma replay_policy:
  assumes "writable E"
  shows "load_line K E (Some (''policy '' @ (if b then ''fail-closed'' else ''fail-open''))) kv = (Loaded, kv\<lparr>kv_policy := b\<rparr>)"
proof -
  have w: "daemon_policy_proc_write False 0 ((if b then ''fail-closed'' else ''fail-open'') @ [NL]) c =
      (Inr (length ((if b then ''fail-closed'' else ''fail-open'') @ [NL])), b)" for c
    using policy_roundtrip by (cases b; cases c) (simp_all add: daemon_policy_proc_show_def)
  have "load_line K E (Some (''policy '' @ (if b then ''fail-closed'' else ''fail-open''))) kv =
      load_result (write_command_to K E ProcPolicy (if b then ''fail-closed'' else ''fail-open'') kv)"
    by (simp add: load_line_def starts_with_def strneq_def)
  also have "write_command_to K E ProcPolicy (if b then ''fail-closed'' else ''fail-open'') kv = (OK, kv\<lparr>kv_policy := b\<rparr>)"
    using assms w [of "kv_policy kv"] by (simp add: write_command_to_def proc_write_def writable_def)
  finally show ?thesis by (simp add: load_result_def)
qed

section \<open>A saved state loads back\<close>

text \<open>What the four files show of a state, and the states whose entries all came in through the
  handlers; protected paths hold no newline and do not end in a carriage return.\<close>

definition proc_files :: "kernel_view \<Rightarrow> proc_file \<Rightarrow> string option" where
  "proc_files kv f = Some (case f of
      ProcSig \<Rightarrow> sig_proc_show (kv_sig kv) | ProcTrust \<Rightarrow> trust_proc_show (kv_trust kv)
    | ProcProtected \<Rightarrow> protected_proc_show (kv_protected kv) | ProcPolicy \<Rightarrow> daemon_policy_proc_show (kv_policy kv))"

definition kernel_inv :: "kapi \<Rightarrow> kernel_view \<Rightarrow> bool" where
  "kernel_inv K kv \<longleftrightarrow> sig_inv K (kv_sig kv) \<and> trust_inv K (kv_trust kv) \<and> protected_inv K (kv_protected kv)"

definition saveable :: "kernel_view \<Rightarrow> bool" where
  "saveable kv \<longleftrightarrow> (\<forall>e \<in> set (hash_for_each (sig_table (kv_sig kv))). sig_clean e) \<and>
     (\<forall>e \<in> set (hash_for_each (kv_trust kv)). trust_clean e) \<and>
     (\<forall>e \<in> set (hash_for_each (kv_protected kv)). path_clean (pe_path e))"

definition dump_lines :: "kernel_view \<Rightarrow> string list" where
  "dump_lines kv =
     map (\<lambda>e. ''sig add '' @ sig_text e) (hash_for_each (sig_table (kv_sig kv))) @
     map (\<lambda>e. ''trust add '' @ trust_text e) (hash_for_each (kv_trust kv)) @
     map (\<lambda>e. ''protect add '' @ pe_path e) (hash_for_each (kv_protected kv)) @
     [''policy '' @ (if kv_policy kv then ''fail-closed'' else ''fail-open'')]"

lemma save_dump_lines:
  assumes "saveable kv"
  shows "save_dump (proc_files kv) = (True, concat (map (\<lambda>l. l @ [NL]) (dump_lines kv)))"
proof -
  let ?s = "hash_for_each (sig_table (kv_sig kv))" and ?t = "hash_for_each (kv_trust kv)"
    and ?p = "map pe_path (hash_for_each (kv_protected kv))"
  have c: "\<forall>e \<in> set ?s. sig_clean e" "\<forall>e \<in> set ?t. trust_clean e" "\<forall>p \<in> set ?p. path_clean p"
    using assms by (auto simp: saveable_def)
  have s: "file_lines (sig_proc_show (kv_sig kv)) = map (\<lambda>e. sig_text e @ [NL]) ?s"
    using file_lines_of [of "map sig_text ?s"] c(1) sig_text_line
    by (fastforce simp: sig_proc_show_def sig_proc_line_def [abs_def] sig_text_def comp_def)
  have t: "file_lines (trust_proc_show (kv_trust kv)) = map (\<lambda>e. trust_text e @ [NL]) ?t"
    using file_lines_of [of "map trust_text ?t"] c(2) trust_text_line
    by (fastforce simp: trust_proc_show_def trust_proc_line_def [abs_def] trust_text_def comp_def)
  have p: "file_lines (protected_proc_show (kv_protected kv)) = map (\<lambda>l. l @ [NL]) ?p"
    using file_lines_of [of ?p] c(3) by (fastforce simp: protected_proc_show_def path_clean_def comp_def)
  have y: "file_lines (daemon_policy_proc_show (kv_policy kv)) = [(if kv_policy kv then ''fail-closed'' else ''fail-open'') @ [NL]]"
    using file_lines_of [of "[if kv_policy kv then ''fail-closed'' else ''fail-open'']"]
    by (simp add: daemon_policy_proc_show_def NL_def NUL_def)
  have sl: "save_sig_line (sig_text e @ [NL]) = ''sig add '' @ sig_text e @ [NL]" if "e \<in> set ?s" for e
    using sig_scan(1) [of e 7 64 127] c(1) that by (simp add: save_sig_line_def sig_text_def)
  have tl: "save_trust_line (trust_text e @ [NL]) = ''trust add '' @ trust_text e @ [NL]" if "e \<in> set ?t" for e
    using trust_scan(1) [of e 64 127] c(2) that by (simp add: save_trust_line_def trust_text_def)
  have pl: "save_named_line ''protect add '' (q @ [NL]) = ''protect add '' @ q @ [NL]" if "q \<in> set ?p" for q
    using c(3) that by (auto simp: save_named_line_def path_clean_def Let_def)
  have "concat (map save_sig_line (file_lines (sig_proc_show (kv_sig kv)))) = concat (map (\<lambda>e. ''sig add '' @ sig_text e @ [NL]) ?s)"
    unfolding s map_map comp_def by (rule arg_cong [where f = concat], rule map_cong [OF refl]) (rule sl)
  moreover have "concat (map save_trust_line (file_lines (trust_proc_show (kv_trust kv)))) =
      concat (map (\<lambda>e. ''trust add '' @ trust_text e @ [NL]) ?t)"
    unfolding t map_map comp_def by (rule arg_cong [where f = concat], rule map_cong [OF refl]) (rule tl)
  moreover have "concat (map (save_named_line ''protect add '') (file_lines (protected_proc_show (kv_protected kv)))) =
      concat (map (\<lambda>q. ''protect add '' @ q @ [NL]) ?p)"
    unfolding p map_map comp_def by (rule arg_cong [where f = concat], rule map_cong [OF refl]) (rule pl, simp)
  ultimately show ?thesis
    by (simp add: save_dump_def proc_files_def y Let_def dump_lines_def save_named_line_def comp_def)
qed

lemma dump_line_ok:
  assumes "pre \<in> {''sig add '', ''trust add '', ''protect add '', ''policy ''}" "NL \<notin> set x" "NUL \<notin> set x" "length x < 4096"
  shows "NL \<notin> set (pre @ x) \<and> NUL \<notin> set (pre @ x) \<and> length (pre @ x) + 1 < LINE_MAX"
proof -
  have "NL \<notin> set pre" "NUL \<notin> set pre" "length pre \<le> 12" using assms(1) by (auto simp: NL_def NUL_def)
  then show ?thesis using assms by simp
qed

lemma in_four:
  "l \<in> set (map f xs @ map g ys @ map h zs @ [w]) \<Longrightarrow>
    (\<exists>x \<in> set xs. l = f x) \<or> (\<exists>y \<in> set ys. l = g y) \<or> (\<exists>z \<in> set zs. l = h z) \<or> l = w"
  by auto

lemma dump_lines_short:
  assumes "saveable kv"
  shows "\<forall>l \<in> set (dump_lines kv). NL \<notin> set l \<and> NUL \<notin> set l \<and> length l + 1 < LINE_MAX"
proof
  fix l assume "l \<in> set (dump_lines kv)"
  then consider
      (sig) e where "e \<in> set (hash_for_each (sig_table (kv_sig kv)))" "l = ''sig add '' @ sig_text e"
    | (trust) e where "e \<in> set (hash_for_each (kv_trust kv))" "l = ''trust add '' @ trust_text e"
    | (path) e where "e \<in> set (hash_for_each (kv_protected kv))" "l = ''protect add '' @ pe_path e"
    | (policy) "l = ''policy '' @ (if kv_policy kv then ''fail-closed'' else ''fail-open'')"
    using in_four [OF \<open>l \<in> set (dump_lines kv)\<close> [unfolded dump_lines_def]] by metis
  then show "NL \<notin> set l \<and> NUL \<notin> set l \<and> length l + 1 < LINE_MAX"
  proof cases
    case sig
    then have "sig_clean e" using assms by (simp add: saveable_def)
    from sig_text_line [OF this] show ?thesis unfolding sig(2) by (intro dump_line_ok) simp_all
  next
    case trust
    then have "trust_clean e" using assms by (simp add: saveable_def)
    from trust_text_line [OF this] show ?thesis unfolding trust(2) by (intro dump_line_ok) simp_all
  next
    case path
    have "path_clean (pe_path e)" using assms path(1) by (simp add: saveable_def)
    then show ?thesis unfolding path(2) path_clean_def by (intro dump_line_ok) simp_all
  next
    case policy
    show ?thesis unfolding policy by (intro dump_line_ok) (simp_all add: NL_def NUL_def)
  qed
qed

lemma sig_room: "sig_inv K st \<Longrightarrow> finite (dom (sig_abs st)) \<and> card (dom (sig_abs st)) \<le> 8192"
  using card_sig_abs [of K st] by (simp add: sig_abs_def dom_node_map sig_inv_def MAX_SIG_ENTRIES_def word_le_nat_alt)

lemma header_ignored: "load_line K E (Some (''# kernel-av state dump - replay with: avctl load '' @ p)) kv = (Ignored, kv)"
  by (simp add: load_line_def)

text \<open>C34. Saving and loading keeps the protection. For any state of the module whose entries came in as
  clean lines, the dump \<^verbatim>\<open>avctl save\<close> writes, loaded into another instance of the module (another
  kernel with another hash, holding at most some of the same signatures and paths, as the seeded test
  signature), is replayed without an error and gives exactly the same signatures with their names, the
  same trusted binaries, the same protected paths and the same policy, with all invariants intact.\<close>

theorem save_load_roundtrip:
  assumes inv: "kernel_inv K kv" and clean: "saveable kv" and inv0: "kernel_inv K' kv0" and E: "writable E"
    and sub: "sig_abs (kv_sig kv0) \<subseteq>\<^sub>m sig_abs (kv_sig kv)" "trust_abs (kv_trust kv0) = Map.empty"
      "protected_abs (kv_protected kv0) \<subseteq> protected_abs (kv_protected kv)"
    and path: "NL \<notin> set path" "NUL \<notin> set path" "length path \<le> 4000"
  shows "\<exists>dump kv'. save_dump (proc_files kv) = (True, dump) \<and>
    do_load K' E (Some (save_header path @ dump)) kv0 = (0, kv') \<and> kernel_inv K' kv' \<and>
    sig_abs (kv_sig kv') = sig_abs (kv_sig kv) \<and> trust_abs (kv_trust kv') = trust_abs (kv_trust kv) \<and>
    protected_abs (kv_protected kv') = protected_abs (kv_protected kv) \<and> kv_policy kv' = kv_policy kv"
proof -
  let ?s = "hash_for_each (sig_table (kv_sig kv))" and ?t = "hash_for_each (kv_trust kv)"
    and ?p = "map pe_path (hash_for_each (kv_protected kv))" and ?m = "sig_abs (kv_sig kv)"
  let ?h = "''# kernel-av state dump - replay with: avctl load '' @ path"
  have i: "sig_inv K (kv_sig kv)" "sig_inv K' (kv_sig kv0)" "trust_inv K' (kv_trust kv0)" "protected_inv K' (kv_protected kv0)"
    using inv inv0 by (simp_all add: kernel_inv_def)
  note m = sig_room [OF i(1), THEN conjunct1] sig_room [OF i(1), THEN conjunct2]
  have "\<forall>e \<in> set ?s. sig_clean e \<and> ?m (sig_key e) = Some (se_name e)"
    using clean sig_abs_Some [OF i(1)] by (auto simp: saveable_def)
  from replay_sigs [OF this E m i(2) sub(1)] obtain st where
    st: "load_all K' E (map (\<lambda>e. Some (''sig add '' @ sig_text e)) ?s) kv0 = (False, kv0\<lparr>kv_sig := st\<rparr>)" "sig_inv K' st"
      "sig_abs st \<subseteq>\<^sub>m ?m" "dom (sig_abs st) = dom (sig_abs (kv_sig kv0)) \<union> sig_key ` set ?s" by blast
  have "dom (sig_abs st) = dom ?m"
    using st(4) map_le_implies_dom_le [OF sub(1)] by (auto simp: sig_abs_def dom_node_map)
  then have s: "sig_abs st = ?m" using st(3) by (metis map_le_antisym map_le_def)
  let ?kv1 = "kv0\<lparr>kv_sig := st\<rparr>"
  have "distinct (map te_sha256_hex ?t)" using trust.store_distinct [of K] inv by (simp add: kernel_inv_def)
  then obtain tt where
    tt: "load_all K' E (map (\<lambda>e. Some (''trust add '' @ trust_text e)) ?t) ?kv1 = (False, ?kv1\<lparr>kv_trust := tt\<rparr>)" "trust_inv K' tt"
      "trust_abs tt = trust_abs (kv_trust kv)"
    using replay_trusts [OF E, of ?t K' ?kv1] clean i(3) sub(2) by (auto simp: saveable_def trust_abs_def node_map_def)
  let ?kv2 = "?kv1\<lparr>kv_trust := tt\<rparr>"
  have "\<forall>p \<in> set ?p. path_clean p" using clean by (simp add: saveable_def)
  moreover have "protected_inv K' (kv_protected ?kv2)" using i(4) by simp
  ultimately obtain pt where
    pt: "load_all K' E (map (\<lambda>p. Some (''protect add '' @ p)) ?p) ?kv2 = (False, ?kv2\<lparr>kv_protected := pt\<rparr>)" "protected_inv K' pt"
      and pt': "protected_abs pt = protected_abs (kv_protected ?kv2) \<union> set ?p"
    using replay_paths [OF E, of ?p K' ?kv2] by blast
  have "set ?p = protected_abs (kv_protected kv)" by (simp add: protected_abs_def)
  then have "protected_abs pt = protected_abs (kv_protected kv)"
    using pt' Un_absorb1 [OF sub(3)] by simp
  note pt = pt this
  let ?kv3 = "?kv2\<lparr>kv_protected := pt\<rparr>"
  have short: "\<forall>l \<in> set (?h # dump_lines kv). NL \<notin> set l \<and> NUL \<notin> set l \<and> length l + 1 < LINE_MAX"
    using dump_lines_short [OF clean] path by (simp add: NL_def NUL_def)
  have "save_header path @ concat (map (\<lambda>l. l @ [NL]) (dump_lines kv)) = concat (map (\<lambda>l. l @ [NL]) (?h # dump_lines kv))"
    by (simp add: save_header_def)
  with load_lines_of [OF short]
  have ll: "load_lines (save_header path @ concat (map (\<lambda>l. l @ [NL]) (dump_lines kv))) = map Some (?h # dump_lines kv)" by simp
  have "load_all K' E (map Some (dump_lines kv)) kv0 = (False, ?kv3\<lparr>kv_policy := kv_policy kv\<rparr>)"
    using st(1) tt(1) pt(1) replay_policy [OF E, of K' "kv_policy kv" ?kv3]
    unfolding dump_lines_def map_append map_map comp_def load_all_append by simp
  then have "do_load K' E (Some (save_header path @ concat (map (\<lambda>l. l @ [NL]) (dump_lines kv)))) kv0 =
      (0, ?kv3\<lparr>kv_policy := kv_policy kv\<rparr>)"
    unfolding do_load_def option.case ll by (simp only: list.map load_all.simps header_ignored Let_def prod.case) simp
  moreover note save_dump_lines [OF clean]
  moreover have "kernel_inv K' (?kv3\<lparr>kv_policy := kv_policy kv\<rparr>)" using st(2) tt(2) pt(2) by (simp add: kernel_inv_def)
  ultimately show ?thesis using s tt(3) pt(3) by (intro exI conjI) (assumption | simp)+
qed

section \<open>A concrete state\<close>

definition fresh_view :: kernel_view where
  "fresh_view = \<lparr>kv_sig = av_sigtable_init, kv_trust = hash_init TRUST_BITS, kv_protected = hash_init TRUST_BITS, kv_policy = False\<rparr>"

definition saved_view :: kernel_view where
  "saved_view = fresh_view\<lparr>kv_protected := snd (av_behavior_protect_add kapi0 True ''/x'' (hash_init TRUST_BITS)), kv_policy := True\<rparr>"

definition plain_env :: proc_env where
  "plain_env = \<lparr>px_open = (\<lambda>_. None), px_malloc = True, px_capable = True, px_mem = True, px_fault = False\<rparr>"

lemma fresh_view_facts:
  "kernel_inv kapi0 fresh_view" "sig_abs (kv_sig fresh_view) = Map.empty" "trust_abs (kv_trust fresh_view) = Map.empty"
  "protected_abs (kv_protected fresh_view) = {}" "writable plain_env"
  using sig_inv_init trust_inv_init protected_inv_init
  by (simp_all add: fresh_view_def kernel_inv_def sig_abs_def trust_abs_def protected_abs_def node_map_def
      av_sigtable_init_def plain_env_def writable_def)

lemma saved_view_facts:
  "protected_abs (kv_protected saved_view) = {''/x''}" "kernel_inv kapi0 saved_view" "saveable saved_view"
proof -
  obtain r t where a: "av_behavior_protect_add kapi0 True ''/x'' (hash_init TRUST_BITS) = (r, t)" by fastforce
  have f: "protected_abs t = {''/x''}" "protected_inv kapi0 t"
    using protect_add_refined [OF protected_inv_init, of kapi0 True "''/x''"] fresh_view_facts(4) unfolding a
    by (simp_all add: fresh_view_def)
  show "protected_abs (kv_protected saved_view) = {''/x''}" "kernel_inv kapi0 saved_view"
    using f fresh_view_facts(1) by (simp_all add: saved_view_def a kernel_inv_def)
  have "path_clean (pe_path e)" if "e \<in> set (hash_for_each t)" for e
  proof -
    have "pe_path e \<in> protected_abs t" using that by (simp add: protected_abs_def)
    then have "pe_path e = ''/x''" unfolding f(1) by (rule singletonD)
    then show ?thesis by (simp add: path_clean_def NL_def NUL_def CR_def)
  qed
  then show "saveable saved_view" by (simp add: saveable_def saved_view_def a fresh_view_def av_sigtable_init_def)
qed

theorem save_load_roundtrip_witness:
  "\<exists>dump kv'. save_dump (proc_files saved_view) = (True, dump) \<and>
    do_load kapi0 plain_env (Some (save_header ''/s'' @ dump)) fresh_view = (0, kv') \<and>
    protected_abs (kv_protected kv') = {''/x''} \<and> kv_policy kv'"
proof -
  have p: "NL \<notin> set ''/s''" "NUL \<notin> set ''/s''" "length ''/s'' \<le> 4000" by (simp_all add: NL_def NUL_def)
  have s: "sig_abs (kv_sig fresh_view) \<subseteq>\<^sub>m sig_abs (kv_sig saved_view)"
    "protected_abs (kv_protected fresh_view) \<subseteq> protected_abs (kv_protected saved_view)"
    by (simp_all add: fresh_view_facts)
  from save_load_roundtrip [OF saved_view_facts(2,3) fresh_view_facts(1,5) s(1) fresh_view_facts(3) s(2) p]
  show ?thesis using saved_view_facts(1) by (auto simp: saved_view_def)
qed

end
