(* ===== verification/AvctlSock.thy ===== *)
theory AvctlSock
  imports AvdControl AvctlState
begin

text \<open>
  The client side of the control socket in \<^verbatim>\<open>src/userspace/avctl/avctl.c\<close>: sending a request and
  reading the whole reply, the checks on the reply, and the commands \<^verbatim>\<open>scan\<close> and \<^verbatim>\<open>quarantine\<close>.
  The peer is a function from the bytes sent to its reply and its effects; the properties take the
  daemon's own \<^verbatim>\<open>control_conn_main\<close> for it. A command gives its exit status and what it prints on
  the standard output; error messages are not modelled.
\<close>

section \<open>One request\<close>

text \<open>One \<^verbatim>\<open>read\<close> of the reply: at most \<open>Suc k\<close> bytes, or a failure. Past the end of the script a read
  takes all that fits; it reports the end of the connection when nothing is left.\<close>

datatype rd_event = RdUpTo nat | RdIntr | RdErr

lemma read_smaller:
  assumes "take m s \<noteq> []"
  shows "length (drop 1 es) + length (drop (length (take m s)) s) < length es + length s"
proof -
  have "0 < length (take m s)" "length (take m s) \<le> length s" using assms by auto
  then show ?thesis unfolding length_drop by linarith
qed

function read_reply :: "(nat \<Rightarrow> bool) \<Rightarrow> rd_event list \<Rightarrow> string \<Rightarrow> nat \<Rightarrow> string \<Rightarrow> string option" where
  "read_reply grow es stream cap buf =
     (if es \<noteq> [] \<and> hd es = RdIntr then read_reply grow (drop 1 es) stream cap buf
      else if es \<noteq> [] \<and> hd es = RdErr then None
      else
        let k = (case es of RdUpTo k # _ \<Rightarrow> Suc k | _ \<Rightarrow> length stream);
            chunk = take (min k (cap - length buf - 1)) stream; buf' = buf @ chunk
        in if chunk = [] then Some buf
           else if cap - 1 \<le> length buf'
           then if grow (cap * 2) then read_reply grow (drop 1 es) (drop (length chunk) stream) (cap * 2) buf' else None
           else read_reply grow (drop 1 es) (drop (length chunk) stream) cap buf')"
  by pat_completeness auto
termination
proof (relation "measure (\<lambda>(_, es, stream, _, _). length es + length stream)")
  show "((g, drop 1 es, s, c, b), g, es, s, c, b) \<in> measure (\<lambda>(_, es, stream, _, _). length es + length stream)"
    if "es \<noteq> [] \<and> hd es = RdIntr" for g :: "nat \<Rightarrow> bool" and es :: "rd_event list" and s b :: string and c :: nat
    using that by (cases es) auto
qed (use read_smaller in \<open>simp_all only: in_measure prod.case, blast+\<close>)

declare read_reply.simps [simp del]

record sock_env =
  sx_path :: string
  sx_socket :: bool
  sx_connect :: bool
  sx_malloc_req :: bool
  sx_write :: "nat \<Rightarrow> nat option"
  sx_malloc_buf :: bool
  sx_grow :: "nat \<Rightarrow> bool"
  sx_reads :: "rd_event list"

text \<open>The size of \<^verbatim>\<open>sun_path\<close>.\<close>

definition SUN_PATH_MAX :: nat where "SUN_PATH_MAX = 108"

definition control_request :: "sock_env \<Rightarrow> (string \<Rightarrow> string \<times> 'e) \<Rightarrow> string \<Rightarrow> string option \<times> 'e option" where
  "control_request X peer cmd =
     (if \<not> sx_socket X then (None, None)
      else if truncates SUN_PATH_MAX (sx_path X) then (None, None)
      else if \<not> sx_connect X then (None, None)
      else
        let req = cmd @ [NL];
            bytes = (if sx_malloc_req X then take (case sx_write X (length req) of None \<Rightarrow> 0 | Some n \<Rightarrow> n) req else []);
            (reply, eff) = peer bytes
        in (if sx_malloc_req X \<and> sx_write X (length req) = Some (length req) \<and> sx_malloc_buf X
            then map_option cstr (read_reply (sx_grow X) (sx_reads X) reply 65536 []) else None,
            Some eff))"

section \<open>Reading a reply\<close>

definition next_line :: "string \<Rightarrow> (string \<times> string) option" where
  "next_line s =
     (if s = [] then None else Some (takeWhile (\<lambda>c. c \<noteq> NL) s, drop 1 (dropWhile (\<lambda>c. c \<noteq> NL) s)))"

definition expect_ok :: "string \<Rightarrow> string option" where
  "expect_ok s = (case next_line s of Some (line, r) \<Rightarrow> (if line = ''OK'' then Some r else None) | None \<Rightarrow> None)"

definition skip_line :: "string \<Rightarrow> string" where
  "skip_line s = (case next_line s of Some (_, r) \<Rightarrow> r | None \<Rightarrow> s)"

function tab_fields :: "string \<Rightarrow> string list" where
  "tab_fields s =
     (if TAB \<in> set s then takeWhile (\<lambda>c. c \<noteq> TAB) s # tab_fields (drop 1 (dropWhile (\<lambda>c. c \<noteq> TAB) s)) else [s])"
  by pat_completeness auto
termination
proof (relation "measure length")
  fix s :: string
  assume "TAB \<in> set s"
  then have "s \<noteq> []" "length (dropWhile (\<lambda>c. c \<noteq> TAB) s) \<le> length s" by (auto simp: length_dropWhile_le)
  then show "(drop 1 (dropWhile (\<lambda>c. c \<noteq> TAB) s), s) \<in> measure length" by (cases s) auto
qed simp

declare tab_fields.simps [simp del]

text \<open>\<^verbatim>\<open>strtol\<close> with its end pointer and \<^verbatim>\<open>errno\<close>, and the check that the value fits an \<^verbatim>\<open>int\<close>.\<close>

definition scan_int :: "string \<Rightarrow> int option" where
  "scan_int s =
     (let (neg, ds, rest) = scan_number 10 s; v = int (digits_value 10 ds); w = (if neg then - v else v) in
      if ds = [] \<or> rest \<noteq> [] \<or> w < - (2 ^ 31) \<or> w > 2 ^ 31 - 1 then None else Some w)"

definition scan_output :: "string \<Rightarrow> string \<Rightarrow> string option" where
  "scan_output path line =
     (case tab_fields line of
        [verdict, rule, num, sha] \<Rightarrow>
          if verdict = [] \<or> truncates 16 verdict \<or> truncates 128 rule \<or> sha = [] \<or> truncates 128 sha then None
          else (case scan_int num of
              None \<Rightarrow> None
            | Some score \<Rightarrow>
                if verdict = ''MALICIOUS''
                then Some (''MALICIOUS: '' @ path @ (if rule \<noteq> [] then '' - '' else []) @ rule @ '' (score='' @ show_int score @
                       '')'' @ NL # ''sha256: '' @ sha @ [NL])
                else if verdict = ''CLEAN'' then Some (''CLEAN: '' @ path @ NL # ''sha256: '' @ sha @ [NL])
                else None)
      | _ \<Rightarrow> None)"

section \<open>The commands\<close>

definition do_scan :: "sock_env \<Rightarrow> (string \<Rightarrow> string \<times> 'e) \<Rightarrow> string \<Rightarrow> (int \<times> string) \<times> 'e option" where
  "do_scan X peer path =
     (if path = [] \<or> hd path \<noteq> CHR ''/'' then ((1, []), None)
      else if \<not> check_field_len path (AvUser.PATH_MAX - 1) then ((1, []), None)
      else if truncates (AvUser.PATH_MAX + 8) (''SCAN '' @ path) then ((1, []), None)
      else case control_request X peer (''SCAN '' @ path) of
        (None, eff) \<Rightarrow> ((1, []), eff)
      | (Some resp, eff) \<Rightarrow>
          (case expect_ok resp of
             None \<Rightarrow> (1, [])
           | Some rest \<Rightarrow>
               (case next_line (skip_line rest) of
                  None \<Rightarrow> (1, [])
                | Some (line, _) \<Rightarrow> (case scan_output path line of None \<Rightarrow> (1, []) | Some txt \<Rightarrow> (0, txt))), eff))"

text \<open>\<^verbatim>\<open>sscanf(line, "%255[^\t]\t%4095[^\t]\t%ld\t%127[^\t]\t%127[^\t\n]", ...)\<close>; a tab of the format skips any
  white space.\<close>

definition scan_set :: "nat \<Rightarrow> char set \<Rightarrow> string \<Rightarrow> (string \<times> string) option" where
  "scan_set w stop s = (let t = take w (takeWhile (\<lambda>c. c \<notin> stop) s) in if t = [] then None else Some (t, drop (length t) s))"

definition quarantine_row :: "string \<Rightarrow> (string \<times> string \<times> u64 \<times> string) option" where
  "quarantine_row line =
     (case scan_set 255 {TAB} line of None \<Rightarrow> None | Some (qid, r1) \<Rightarrow>
      case scan_set (AvUser.PATH_MAX - 1) {TAB} (dropWhile c_isspace r1) of None \<Rightarrow> None | Some (path, r2) \<Rightarrow>
      case scan_number 10 r2 of (neg, ds, r3) \<Rightarrow>
        if ds = [] then None
        else
          case scan_set 127 {TAB} (dropWhile c_isspace r3) of None \<Rightarrow> None | Some (rule, r4) \<Rightarrow>
          case scan_set 127 {TAB, NL} (dropWhile c_isspace r4) of None \<Rightarrow> None | Some (sha, _) \<Rightarrow>
            Some (qid, path, strtoll 10 r2, rule))"

definition pad_to :: "nat \<Rightarrow> string \<Rightarrow> string" where
  "pad_to w s = s @ replicate (w - length s) CHR '' ''"

definition show_row :: "string \<times> string \<times> u64 \<times> string \<Rightarrow> string" where
  "show_row r = (case r of (qid, path, ts, rule) \<Rightarrow>
     pad_to 40 qid @ CHR '' '' # pad_to 6 rule @ CHR '' '' # pad_to 20 (show_int (sint ts)) @ CHR '' '' # path @ [NL])"

function list_output :: "string \<Rightarrow> string" where
  "list_output s =
     (case next_line s of
        None \<Rightarrow> []
      | Some (line, r) \<Rightarrow>
          if line = ''END'' then []
          else (case quarantine_row line of None \<Rightarrow> [] | Some row \<Rightarrow> show_row row) @ list_output r)"
  by pat_completeness auto
termination
proof (relation "measure length")
  fix s r :: string and x line
  assume "next_line s = Some x" "(line, r) = x"
  then have "s \<noteq> []" "r = drop 1 (dropWhile (\<lambda>c. c \<noteq> NL) s)" by (auto simp: next_line_def split: if_splits)
  moreover have "length (dropWhile (\<lambda>c. c \<noteq> NL) s) \<le> length s" by (rule length_dropWhile_le)
  ultimately show "(r, s) \<in> measure length" by (cases s) auto
qed simp

declare list_output.simps [simp del]

definition list_header :: string where
  "list_header = pad_to 40 ''ID'' @ CHR '' '' # pad_to 6 ''RULE'' @ CHR '' '' # pad_to 20 ''TIMESTAMP'' @ CHR '' '' # ''ORIGINAL PATH'' @ [NL]"

definition do_quarantine_list :: "sock_env \<Rightarrow> (string \<Rightarrow> string \<times> 'e) \<Rightarrow> (int \<times> string) \<times> 'e option" where
  "do_quarantine_list X peer =
     (case control_request X peer ''QUARANTINE LIST'' of
        (None, eff) \<Rightarrow> ((1, []), eff)
      | (Some resp, eff) \<Rightarrow>
          (case expect_ok resp of None \<Rightarrow> (1, []) | Some rest \<Rightarrow> (0, list_header @ list_output (skip_line rest)), eff))"

definition AVCTL_ID_MAXLEN :: nat where "AVCTL_ID_MAXLEN = 255"

text \<open>A command on one entry: \<^verbatim>\<open>restore\<close> and \<^verbatim>\<open>delete\<close> differ in the verb and the message.\<close>

definition do_quarantine_entry ::
  "string \<Rightarrow> string \<Rightarrow> sock_env \<Rightarrow> (string \<Rightarrow> string \<times> 'e) \<Rightarrow> string \<Rightarrow> (int \<times> string) \<times> 'e option" where
  "do_quarantine_entry verb done X peer qid =
     (if \<not> check_field_len qid AVCTL_ID_MAXLEN then ((1, []), None)
      else if truncates 300 (verb @ qid) then ((1, []), None)
      else case control_request X peer (verb @ qid) of
        (None, eff) \<Rightarrow> ((1, []), eff)
      | (Some resp, eff) \<Rightarrow> (case expect_ok resp of None \<Rightarrow> (1, []) | Some _ \<Rightarrow> (0, done @ qid @ [NL]), eff))"

definition do_quarantine_restore :: "sock_env \<Rightarrow> (string \<Rightarrow> string \<times> 'e) \<Rightarrow> string \<Rightarrow> (int \<times> string) \<times> 'e option" where
  "do_quarantine_restore = do_quarantine_entry ''QUARANTINE RESTORE '' ''restored: ''"

definition do_quarantine_delete :: "sock_env \<Rightarrow> (string \<Rightarrow> string \<times> 'e) \<Rightarrow> string \<Rightarrow> (int \<times> string) \<times> 'e option" where
  "do_quarantine_delete = do_quarantine_entry ''QUARANTINE DELETE '' ''deleted: ''"


section \<open>The daemon as the peer\<close>

text \<open>\<open>delivers es bytes\<close>: the reads of the daemon bring these bytes in time, with any interruptions.\<close>

definition delivers :: "(bool \<times> rl_event) list \<Rightarrow> string \<Rightarrow> bool" where
  "delivers es bytes \<longleftrightarrow> (\<forall>e \<in> set es. \<not> fst e) \<and> filter (\<lambda>e. e \<noteq> RlIntr) (map snd es) = map RlByte bytes"

definition daemon_peer ::
  "ctl_env \<Rightarrow> ctl_status \<Rightarrow> string \<Rightarrow> history \<Rightarrow> u32 \<Rightarrow> (string \<Rightarrow> (bool \<times> rl_event) list) \<Rightarrow> string \<Rightarrow> string \<times> fs_op list" where
  "daemon_peer E S qdir h uid script bytes =
     (let (out, ops) = control_conn_main E S qdir h (Some uid) (script bytes) in (concat out, ops))"

definition sock_ok :: "sock_env \<Rightarrow> bool" where
  "sock_ok X \<longleftrightarrow> sx_socket X \<and> \<not> truncates SUN_PATH_MAX (sx_path X) \<and> sx_connect X \<and> sx_malloc_req X \<and> sx_write X = Some \<and>
     sx_malloc_buf X \<and> sx_grow X = (\<lambda>_. True) \<and> RdErr \<notin> set (sx_reads X)"

lemma take_rest: "take m s @ drop (length (take m s)) s = s"
  by (cases "m \<le> length s") simp_all

lemma read_reply_exact:
  "length buf + 1 < cap \<Longrightarrow> read_reply grow es stream cap buf = Some r \<Longrightarrow> r = buf @ stream"
proof (induction grow es stream cap buf rule: read_reply.induct)
  case (1 grow es stream cap buf)
  let ?k = "case es of RdUpTo k # _ \<Rightarrow> Suc k | _ \<Rightarrow> length stream"
  let ?c = "take (min ?k (cap - length buf - 1)) stream"
  consider (intr) "es \<noteq> [] \<and> hd es = RdIntr" | (err) "es \<noteq> [] \<and> hd es = RdErr" "\<not> (es \<noteq> [] \<and> hd es = RdIntr)"
    | (data) "\<not> (es \<noteq> [] \<and> hd es = RdIntr)" "\<not> (es \<noteq> [] \<and> hd es = RdErr)" by blast
  then show ?case
  proof cases
    case intr
    then show ?thesis using 1 by (subst (asm) (2) read_reply.simps) simp
  next
    case err
    then show ?thesis using 1(5) by (subst (asm) read_reply.simps) simp
  next
    case data
    note u = 1(5) [unfolded read_reply.simps [of grow es stream] if_not_P [OF data(1)] if_not_P [OF data(2)] Let_def]
    have split: "?c @ drop (length ?c) stream = stream" by (rule take_rest)
    show ?thesis
    proof (cases "?c = []")
      case True
      then have "stream = []" using 1(4) data by (cases es; cases "hd es") (auto simp: min_def split: list.splits rd_event.splits if_splits)
      then show ?thesis using u True by simp
    next
      case False
      have len: "length (buf @ ?c) < cap" using 1(4) by simp
      show ?thesis
      proof (cases "cap - 1 \<le> length (buf @ ?c)")
        case True
        note u1 = u [unfolded if_not_P [OF False] if_P [OF True]]
        then have g: "grow (cap * 2)" by (metis option.distinct(1))
        have "length (buf @ ?c) + 1 < cap * 2" using len 1(4) by linarith
        from 1(2) [OF data refl refl refl False True g this u1 [unfolded if_P [OF g]]] show ?thesis by (metis append_assoc split)
      next
        case small: False
        then have "length (buf @ ?c) + 1 < cap" by linarith
        from 1(3) [OF data refl refl refl False small this u [unfolded if_not_P [OF False] if_not_P [OF small]]]
        show ?thesis by (metis append_assoc split)
      qed
    qed
  qed
qed

lemma read_reply_complete:
  "length buf + 1 < cap \<Longrightarrow> RdErr \<notin> set es \<Longrightarrow> grow = (\<lambda>_. True) \<Longrightarrow> read_reply grow es stream cap buf \<noteq> None"
proof (induction grow es stream cap buf rule: read_reply.induct)
  case (1 grow es stream cap buf)
  have d: "RdErr \<notin> set (drop 1 es)" using 1(5) by (meson in_set_dropD)
  have h: "\<not> (es \<noteq> [] \<and> hd es = RdErr)" using 1(5) by (metis hd_in_set)
  let ?k = "case es of RdUpTo k # _ \<Rightarrow> Suc k | _ \<Rightarrow> length stream"
  let ?c = "take (min ?k (cap - length buf - 1)) stream"
  have len: "length (buf @ ?c) < cap" using 1(4) by simp
  then have l: "length (buf @ ?c) + 1 < cap * 2" "cap - 1 \<le> length (buf @ ?c) \<or> length (buf @ ?c) + 1 < cap" using 1(4) by linarith+
  show ?case
  proof (cases "es \<noteq> [] \<and> hd es = RdIntr")
    case True
    then show ?thesis using 1(1) [OF True 1(4) d 1(6)] by (subst read_reply.simps) simp
  next
    case False
    show ?thesis
      unfolding read_reply.simps [of grow es stream] if_not_P [OF False] if_not_P [OF h] Let_def
      using 1(2) [OF False h refl refl refl _ _ _ l(1) d 1(6)] 1(3) [OF False h refl refl refl _ _ _ d 1(6)] l(2) 1(6)
      by (simp split del: if_split list.split rd_event.split) auto
  qed
qed

lemma read_line_delivers:
  "delivers es (cmd @ [NL]) \<Longrightarrow> NL \<notin> set cmd \<Longrightarrow> length buf + length cmd + 1 < sz \<Longrightarrow> read_line es sz buf = Line (buf @ cmd)"
proof (induction es arbitrary: cmd buf)
  case Nil
  then show ?case by (simp add: delivers_def)
next
  case (Cons e es)
  show ?case
  proof (cases "snd e = RlIntr")
    case True
    then have "delivers es (cmd @ [NL])" using Cons.prems(1) by (simp add: delivers_def)
    from Cons.IH [OF this Cons.prems(2,3)] show ?thesis using Cons.prems True by (simp add: delivers_def)
  next
    case byte: False
    show ?thesis
    proof (cases cmd)
      case Nil
      then have "snd e = RlByte NL" using Cons.prems(1) byte by (simp add: delivers_def)
      then show ?thesis using Cons.prems Nil by (simp add: delivers_def)
    next
      case (Cons c cs)
      then have e: "snd e = RlByte c" and d: "delivers es (cs @ [NL])" using Cons.prems(1) byte by (auto simp: delivers_def)
      have "NL \<notin> set cs" "length (buf @ [c]) + length cs + 1 < sz" using Cons.prems(2,3) Cons by auto
      moreover have "c \<noteq> NL" using Cons.prems(2) Cons by auto
      ultimately show ?thesis using Cons.IH [OF d, of "buf @ [c]"] Cons.prems Cons e by (simp add: delivers_def)
    qed
  qed
qed

text \<open>The request that reaches the dispatcher is the one the client formed, and the reply the client
  looks at is the whole one; with a working socket there is one.\<close>

lemma request_served:
  assumes script: "\<forall>b. delivers (script b) b" and cmd: "cmd \<noteq> []" "NL \<notin> set cmd" "NUL \<notin> set cmd" "length cmd + 1 < AVD_SOCK_LINE_MAX"
    and hl: "handle_control_line E S qdir h cmd uid (uid = 0) = (out, ops)"
    and req: "control_request X (daemon_peer E S qdir h uid script) cmd = (r, eff)"
  shows "r = None \<and> \<not> sock_ok X \<or> r = Some (cstr (concat out)) \<and> eff = Some ops"
proof -
  let ?peer = "daemon_peer E S qdir h uid script"
  have line: "read_line (script (cmd @ [NL])) AVD_SOCK_LINE_MAX [] = Line cmd"
    using read_line_delivers [of "script (cmd @ [NL])" cmd "[]"] script cmd by simp
  have peer: "?peer (cmd @ [NL]) = (concat out, ops)"
    unfolding daemon_peer_def control_conn_main_def line using cmd hl by (simp add: cstr_id Let_def)
  show ?thesis
  proof (cases r)
    case None
    have "\<not> sock_ok X"
    proof
      assume "sock_ok X"
      with req peer have "read_reply (sx_grow X) (sx_reads X) (concat out) 65536 [] = None"
        unfolding control_request_def sock_ok_def None by (simp add: Let_def)
      moreover have "read_reply (sx_grow X) (sx_reads X) (concat out) 65536 [] \<noteq> None"
        using \<open>sock_ok X\<close> by (intro read_reply_complete) (simp_all add: sock_ok_def)
      ultimately show False by contradiction
    qed
    with None show ?thesis by blast
  next
    case (Some resp)
    then have w: "sx_malloc_req X" "sx_write X (length cmd + 1) = Some (length cmd + 1)"
      using req by (auto simp: control_request_def Let_def split: if_splits prod.splits)
    then have "map_option cstr (read_reply (sx_grow X) (sx_reads X) (concat out) 65536 []) = Some resp \<and> eff = Some ops"
      using req peer Some by (auto simp: control_request_def Let_def split: if_splits)
    moreover then obtain s where "read_reply (sx_grow X) (sx_reads X) (concat out) 65536 [] = Some s" by auto
    moreover from read_reply_exact [OF _ this] have "s = concat out" by simp
    ultimately show ?thesis using Some by simp
  qed
qed

lemma expect_ok_err: "expect_ok (cstr (snprintf 256 (''ERR '' @ m))) = None"
  by (simp add: expect_ok_def next_line_def cstr_def snprintf_def NUL_def NL_def)

lemma expect_ok_send_err [simp]: "expect_ok (cstr (send_err m)) = None"
  using expect_ok_err [of "m @ [NL]"] by (simp add: send_err_def)

lemma until_sep: "x \<notin> set l \<Longrightarrow> takeWhile (\<lambda>c. c \<noteq> x) (l @ x # r) = l \<and> dropWhile (\<lambda>c. c \<noteq> x) (l @ x # r) = x # r"
  by (induction l) auto

lemma next_line_line: "NL \<notin> set l \<Longrightarrow> next_line (l @ NL # r) = Some (l, r)"
  using until_sep [of NL l r] by (simp add: next_line_def)

section \<open>Scanning on demand\<close>

lemma tab_fields_tab: "TAB \<notin> set a \<Longrightarrow> tab_fields (a @ TAB # s) = a # tab_fields s"
  using until_sep [of TAB a s] by (subst tab_fields.simps) simp

lemma tab_fields_last: "TAB \<notin> set s \<Longrightarrow> tab_fields s = [s]"
  by (subst tab_fields.simps) simp

definition clean_field :: "nat \<Rightarrow> string \<Rightarrow> bool" where
  "clean_field w s \<longleftrightarrow> TAB \<notin> set s \<and> NL \<notin> set s \<and> NUL \<notin> set s \<and> length s \<le> w"

lemma digit_chars: "is_digit 10 c \<Longrightarrow> c \<notin> {TAB, NL, NUL}"
  by (auto simp: is_digit_def TAB_def NL_def NUL_def ccode_def)

lemma clean_show_int: "\<bar>i\<bar> < 10 ^ k \<Longrightarrow> 0 < k \<Longrightarrow> clean_field (k + 1) (show_int i)"
proof -
  assume k: "\<bar>i\<bar> < 10 ^ k" "0 < k"
  have "\<forall>c \<in> set (show_nat n). c \<notin> {TAB, NL, NUL}" for n
    using show_base_digits [of 10 n] digit_chars by (simp add: show_base_10)
  then have "\<forall>c \<in> set (show_int i). c \<notin> {TAB, NL, NUL}" by (auto simp: show_int_def TAB_def NL_def NUL_def)
  moreover have "length (show_int i) \<le> k + 1" using k by (intro length_show_int) auto
  ultimately show ?thesis by (auto simp: clean_field_def)
qed

lemma scan_int_show: "scan_int (show_int (sint (w :: u32))) = Some (sint w)"
proof -
  have r: "- (2 ^ 31) \<le> sint w" "sint w < 2 ^ 31" using sint_greater_eq [of w] sint_less [of w] by simp_all
  note d = show_base_digits [of 10, unfolded show_base_10]
  have p: "scan_number 10 (show_nat n) = (False, show_nat n, [])" "scan_number 10 (CHR ''-'' # show_nat n) = (True, show_nat n, [])"
    for n using d [of n] scan_number_digits [of 10 "show_nat n"] by auto
  show ?thesis using r d p by (auto simp: scan_int_def show_int_def Let_def)
qed

text \<open>What \<^verbatim>\<open>avctl scan\<close> prints for a verdict.\<close>

definition verdict_text :: "string \<Rightarrow> scan_result \<Rightarrow> string" where
  "verdict_text path r =
     (if sr_verdict r = AV_VERDICT_MALICIOUS
      then ''MALICIOUS: '' @ path @ (if sr_rule r \<noteq> [] then '' - '' else []) @ sr_rule r @ '' (score='' @
        show_int (sint (sr_score r)) @ '')'' @ NL # ''sha256: '' @ sr_sha256 r @ [NL]
      else ''CLEAN: '' @ path @ NL # ''sha256: '' @ sr_sha256 r @ [NL])"

definition scan_row :: "scan_result \<Rightarrow> string" where
  "scan_row r = (if sr_verdict r = AV_VERDICT_MALICIOUS then ''MALICIOUS'' else ''CLEAN'') @ TAB # sr_rule r @ TAB #
     show_int (sint (sr_score r)) @ TAB # sr_sha256 r"

lemma verdict_words:
  "clean_field 9 ''MALICIOUS''" "clean_field 9 ''CLEAN''" "''CLEAN'' \<noteq> ''MALICIOUS''"
  by (simp_all add: clean_field_def TAB_def NL_def NUL_def)

lemma scan_row_clean:
  assumes "clean_field 127 (sr_rule r)" "clean_field 127 (sr_sha256 r)"
  shows "NL \<notin> set (scan_row r)" "NUL \<notin> set (scan_row r)" "length (scan_row r) \<le> 300"
    "scan_output path (scan_row r) = (if sr_sha256 r = [] then None else Some (verdict_text path r))"
proof -
  have i: "clean_field 11 (show_int (sint (sr_score r)))"
    using clean_show_int [of "sint (sr_score r)" 10] sint_greater_eq [of "sr_score r"] sint_less [of "sr_score r"] by simp
  have t: "TAB \<noteq> NL" "TAB \<noteq> NUL" by (simp_all add: TAB_def NL_def NUL_def)
  show "NL \<notin> set (scan_row r)" "NUL \<notin> set (scan_row r)" "length (scan_row r) \<le> 300"
    using assms i verdict_words t by (auto simp: scan_row_def clean_field_def)
  have "tab_fields (scan_row r) = [if sr_verdict r = AV_VERDICT_MALICIOUS then ''MALICIOUS'' else ''CLEAN'', sr_rule r,
      show_int (sint (sr_score r)), sr_sha256 r]"
    using assms i verdict_words by (simp add: scan_row_def tab_fields_tab tab_fields_last clean_field_def)
  then show "scan_output path (scan_row r) = (if sr_sha256 r = [] then None else Some (verdict_text path r))"
    using assms scan_int_show [of "sr_score r"] by (simp add: scan_output_def truncates_def clean_field_def verdict_text_def)
qed

definition scannable :: "ctl_env \<Rightarrow> u32 \<Rightarrow> string \<Rightarrow> bool" where
  "scannable E uid path \<longleftrightarrow> path \<noteq> [] \<and> hd path = CHR ''/'' \<and> NL \<notin> set path \<and> length path \<le> 4095 \<and> uid = 0 \<and>
     ce_open E path \<and> ce_isreg E path \<and> ce_fcntl E"

lemma dispatch_scan:
  "handle_control_line E S qdir h (''SCAN '' @ path) uid root =
     (if \<not> root then ([send_err ''permission denied (use: pkexec avctl scan <path>)''], []) else cmd_scan E path)"
  by (simp add: handle_control_line_def starts_with_def strneq_def)

lemma show_nat_1: "show_nat 1 = ''1''"
  by code_simp

lemma count_line_1: "count_line 1 = ''COUNT 1'' @ [NL]"
  by (simp add: count_line_def show_nat_1 [unfolded One_nat_def] snprintf_def)

lemma scan_reply:
  assumes "scannable E uid path" "clean_field 127 (sr_rule (ce_scan E path))" "clean_field 127 (sr_sha256 (ce_scan E path))"
  shows "\<exists>out. cmd_scan E path = (out, [ScanFile path]) \<and>
    concat out = ''OK'' @ NL # ''COUNT 1'' @ NL # scan_row (ce_scan E path) @ NL # ''END'' @ [NL]"
proof -
  let ?r = "ce_scan E path"
  note c = scan_row_clean [OF assms(2,3)]
  have row: "snprintf (AvUser.PATH_MAX + 256) (join_tab [if sr_verdict ?r = AV_VERDICT_MALICIOUS then ''MALICIOUS'' else ''CLEAN'',
      sr_rule ?r, show_int (sint (sr_score ?r)), sr_sha256 ?r]) = scan_row ?r @ [NL]"
    using c(3) by (simp add: snprintf_def scan_row_def)
  show ?thesis using assms(1) row unfolding cmd_scan_def count_line_1 by (simp add: scannable_def Let_def)
qed

text \<open>C38. Scanning on demand, from the command line of the client to the daemon and back. \<^verbatim>\<open>avctl scan\<close>
  exits with status 0 and prints a verdict only when the daemon scanned exactly the named file for
  root, and then it prints the daemon's verdict, rule, score and digest for it, however the transfer of
  request and reply was split or interrupted; otherwise it exits with 1 and prints no verdict. With a
  working connection it always succeeds on a readable regular file whose digest could be computed.\<close>

theorem scan_client_agrees:
  assumes script: "\<forall>b. delivers (script b) b" and path: "NUL \<notin> set path"
    and r: "r = ce_scan E path" "clean_field 127 (sr_rule r)" "clean_field 127 (sr_sha256 r)"
    and run: "do_scan X (daemon_peer E S qdir h uid script) path = ((code, txt), eff)"
  shows "(code = 0 \<and> scannable E uid path \<and> sr_sha256 r \<noteq> [] \<and> txt = verdict_text path r \<and> eff = Some [ScanFile path] \<or>
      code = 1 \<and> txt = []) \<and>
    (sock_ok X \<longrightarrow> (code = 0 \<longleftrightarrow> scannable E uid path \<and> sr_sha256 r \<noteq> []))"
proof (cases "path \<noteq> [] \<and> hd path = CHR ''/'' \<and> check_field_len path 4095")
  case False
  then show ?thesis using run by (auto simp: do_scan_def scannable_def check_field_len_def split: if_splits)
next
  case True
  let ?cmd = "''SCAN '' @ path"
  obtain q eff' where req: "control_request X (daemon_peer E S qdir h uid script) ?cmd = (q, eff')" by fastforce
  obtain out ops where hl: "handle_control_line E S qdir h ?cmd uid (uid = 0) = (out, ops)" by fastforce
  have c: "?cmd \<noteq> []" "NL \<notin> set ?cmd" "NUL \<notin> set ?cmd" "length ?cmd + 1 < AVD_SOCK_LINE_MAX"
    using True path by (auto simp: check_field_len_def NL_def NUL_def)
  note served = request_served [OF script c hl req]
  have d: "do_scan X (daemon_peer E S qdir h uid script) path =
      (case q of None \<Rightarrow> ((1, []), eff') | Some resp \<Rightarrow>
        (case expect_ok resp of None \<Rightarrow> (1, []) | Some rest \<Rightarrow>
          case next_line (skip_line rest) of None \<Rightarrow> (1, [])
          | Some (line, _) \<Rightarrow> (case scan_output path line of None \<Rightarrow> (1, []) | Some txt \<Rightarrow> (0, txt)), eff'))"
    using True req by (auto simp: do_scan_def check_field_len_def truncates_def split: option.split)
  show ?thesis
  proof (cases "scannable E uid path")
    case True
    obtain out' where o: "cmd_scan E path = (out', [ScanFile path])"
      "concat out' = ''OK'' @ NL # ''COUNT 1'' @ NL # scan_row r @ NL # ''END'' @ [NL]"
      using scan_reply [OF True] r by blast
    have oo: "out = out'" "ops = [ScanFile path]" using hl [unfolded dispatch_scan] o(1) True by (simp_all add: scannable_def)
    note row = scan_row_clean [OF r(2,3)]
    have "cstr (concat out) = concat out" using row(2) unfolding oo o(2) by (intro cstr_id) (auto simp: NL_def NUL_def)
    then have resp: "cstr (concat out) = ''OK'' @ NL # ''COUNT 1'' @ NL # scan_row r @ NL # ''END'' @ [NL]"
      unfolding oo o(2) by simp
    have e: "expect_ok (cstr (concat out)) = Some (''COUNT 1'' @ NL # scan_row r @ NL # ''END'' @ [NL])"
      unfolding resp expect_ok_def by (subst next_line_line) (simp_all add: NL_def)
    have k: "skip_line (''COUNT 1'' @ NL # scan_row r @ NL # ''END'' @ [NL]) = scan_row r @ NL # ''END'' @ [NL]"
      unfolding skip_line_def by (subst next_line_line) (simp_all add: NL_def)
    note n = next_line_line [OF row(1), of "''END'' @ [NL]"]
    show ?thesis using served run d e k n row(4) [of path] oo(2) True by (auto split: if_splits)
  next
    case no: False
    then obtain m where "out = [send_err m]"
      using hl [unfolded dispatch_scan] True by (auto simp: cmd_scan_def scannable_def check_field_len_def split: if_splits)
    then show ?thesis using served run d no by auto
  qed
qed

section \<open>Commands on the quarantine\<close>

definition id_sendable :: "string \<Rightarrow> bool" where
  "id_sendable qid \<longleftrightarrow> NL \<notin> set qid \<and> length qid \<le> 255"

lemma dispatch_restore:
  "handle_control_line E S qdir h (''QUARANTINE RESTORE '' @ qid) uid root =
     (if \<not> root then ([send_err ''permission denied (use: pkexec avctl quarantine restore <id>)''], [])
      else cmd_quarantine_restore E qdir qid)"
  by (simp add: handle_control_line_def starts_with_def strneq_def)

lemma dispatch_delete:
  "handle_control_line E S qdir h (''QUARANTINE DELETE '' @ qid) uid root =
     (if \<not> root then ([send_err ''permission denied (use: pkexec avctl quarantine delete <id>)''], [])
      else cmd_quarantine_delete E qdir qid)"
  by (simp add: handle_control_line_def starts_with_def strneq_def)

lemma expect_ok_line: "expect_ok (cstr ok_line) = Some []"
  by (simp add: cstr_def expect_ok_def next_line_def NUL_def NL_def)

text \<open>A command on one entry is answered with one line, and the client's exit status is that answer.\<close>

lemma entry_served:
  assumes script: "\<forall>b. delivers (script b) b" and qid: "NUL \<notin> set qid"
    and verb: "verb \<noteq> []" "NL \<notin> set verb" "NUL \<notin> set verb" "length verb \<le> 30"
    and hl: "handle_control_line E S qdir h (verb @ qid) uid (uid = 0) = (out, ops)"
    and out: "out = [ok_line] \<or> (\<exists>m. out = [send_err m])"
    and run: "do_quarantine_entry verb done X (daemon_peer E S qdir h uid script) qid = ((code, txt), eff)"
  shows "(code = 0 \<and> id_sendable qid \<and> out = [ok_line] \<and> eff = Some ops \<and> txt = done @ qid @ [NL] \<or> code = 1 \<and> txt = []) \<and>
    (sock_ok X \<and> id_sendable qid \<longrightarrow> (code = 0 \<longleftrightarrow> out = [ok_line]) \<and> eff = Some ops) \<and> (id_sendable qid \<or> eff = None)"
proof (cases "id_sendable qid")
  case False
  then show ?thesis
    using run by (auto simp: do_quarantine_entry_def id_sendable_def check_field_len_def AVCTL_ID_MAXLEN_def split: if_splits)
next
  case True
  obtain q eff' where req: "control_request X (daemon_peer E S qdir h uid script) (verb @ qid) = (q, eff')" by fastforce
  have c: "verb @ qid \<noteq> []" "NL \<notin> set (verb @ qid)" "NUL \<notin> set (verb @ qid)" "length (verb @ qid) + 1 < AVD_SOCK_LINE_MAX"
    using True verb qid by (auto simp: id_sendable_def)
  have neq: "[ok_line] \<noteq> [send_err m]" for m by (simp add: send_err_def snprintf_def)
  have "do_quarantine_entry verb done X (daemon_peer E S qdir h uid script) qid =
      (case q of None \<Rightarrow> ((1, []), eff') | Some resp \<Rightarrow>
        (case expect_ok resp of None \<Rightarrow> (1, []) | Some _ \<Rightarrow> (0, done @ qid @ [NL]), eff'))"
    using True verb(4) req
    by (simp add: do_quarantine_entry_def id_sendable_def check_field_len_def AVCTL_ID_MAXLEN_def truncates_def split: option.split)
  then show ?thesis
    using request_served [OF script c hl req] run out expect_ok_line neq True by (auto split: if_splits)
qed

lemma restore_replies:
  assumes "cmd_quarantine_restore E qdir qid = (out, ops)"
  shows "out = [ok_line] \<or> (\<exists>m. out = [send_err m])"
    "out = [ok_line] \<longleftrightarrow> (\<exists>meta. read_quarantine_meta (ce_meta1 E (quarantine_dest qdir qid @ ''.meta'')) = Some meta \<and>
       Rename (quarantine_dest qdir qid) (original_path meta) \<in> set ops)"
proof -
  have neq: "send_err m \<noteq> ok_line" for m by (simp add: send_err_def snprintf_def)
  show "out = [ok_line] \<or> (\<exists>m. out = [send_err m])"
    using assms by (auto simp: cmd_quarantine_restore_def Let_def split: if_splits option.splits)
  show "out = [ok_line] \<longleftrightarrow> (\<exists>meta. read_quarantine_meta (ce_meta1 E (quarantine_dest qdir qid @ ''.meta'')) = Some meta \<and>
       Rename (quarantine_dest qdir qid) (original_path meta) \<in> set ops)"
    using assms neq unfolding cmd_quarantine_restore_def Let_def by (auto split: if_splits option.splits)
qed

lemma delete_replies:
  assumes "cmd_quarantine_delete E qdir qid = (out, ops)"
  shows "out = [ok_line] \<or> (\<exists>m. out = [send_err m])"
  using assms by (auto simp: cmd_quarantine_delete_def Let_def split: if_splits)

text \<open>C40. Restoring from the command line. \<^verbatim>\<open>avctl quarantine restore\<close> exits with status 0 only when the
  daemon, asked by root, renamed the quarantined file with exactly this id back to the path recorded
  for it, and with a working connection it exits with 0 whenever that happened; an id that is too long
  or holds a newline is never sent, so no other entry is ever touched in its place.\<close>

theorem restore_client_agrees:
  assumes script: "\<forall>b. delivers (script b) b" and qid: "NUL \<notin> set qid"
    and run: "do_quarantine_restore X (daemon_peer E S qdir h uid script) qid = ((code, txt), eff)"
    and moved: "moved = (\<exists>meta ops. eff = Some ops \<and>
      read_quarantine_meta (ce_meta1 E (quarantine_dest qdir qid @ ''.meta'')) = Some meta \<and>
      Rename (quarantine_dest qdir qid) (original_path meta) \<in> set ops)"
  shows "(code = 0 \<and> uid = 0 \<and> moved \<and> txt = ''restored: '' @ qid @ [NL] \<or> code = 1 \<and> txt = []) \<and>
    (sock_ok X \<and> moved \<longrightarrow> code = 0) \<and> (\<not> id_sendable qid \<longrightarrow> eff = None)"
proof -
  obtain out ops where hl: "handle_control_line E S qdir h (''QUARANTINE RESTORE '' @ qid) uid (uid = 0) = (out, ops)" by fastforce
  have neq: "[send_err m] \<noteq> [ok_line]" for m by (simp add: send_err_def snprintf_def)
  have one: "out = [ok_line] \<or> (\<exists>m. out = [send_err m])"
    using hl [unfolded dispatch_restore] restore_replies(1) by (cases "uid = 0") auto
  let ?m = "\<exists>meta. read_quarantine_meta (ce_meta1 E (quarantine_dest qdir qid @ ''.meta'')) = Some meta \<and>
       Rename (quarantine_dest qdir qid) (original_path meta) \<in> set ops"
  have "uid = 0 \<and> (out = [ok_line] \<longleftrightarrow> ?m) \<or> out \<noteq> [ok_line] \<and> \<not> ?m"
    using hl [unfolded dispatch_restore] restore_replies(2) neq by (cases "uid = 0") auto
  then have ok: "out = [ok_line] \<longleftrightarrow> ?m" "out = [ok_line] \<Longrightarrow> uid = 0" by blast+
  have v: "''QUARANTINE RESTORE '' \<noteq> []" "NL \<notin> set ''QUARANTINE RESTORE ''" "NUL \<notin> set ''QUARANTINE RESTORE ''"
    "length ''QUARANTINE RESTORE '' \<le> 30" by (simp_all add: NL_def NUL_def)
  note e = entry_served [OF script qid v hl one run [unfolded do_quarantine_restore_def]]
  have mv: "moved \<longleftrightarrow> ?m" if "eff = Some ops" using moved that by simp
  have none: "\<not> moved" if "eff = None" using moved that by simp
  show ?thesis using e ok mv none by metis
qed

text \<open>Deleting: status 0 tells that the entry is gone.\<close>

lemma delete_client:
  assumes script: "\<forall>b. delivers (script b) b" and qid: "NUL \<notin> set qid"
    and run: "do_quarantine_delete X (daemon_peer E S qdir h uid script) qid = ((code, txt), eff)"
  shows "code = 0 \<and> uid = 0 \<and> quarantine_id_valid qid \<and> ce_unlink E (quarantine_dest qdir qid) \<in> {None, Some ENOENT} \<or>
    code = 1 \<and> txt = []"
proof -
  obtain out ops where hl: "handle_control_line E S qdir h (''QUARANTINE DELETE '' @ qid) uid (uid = 0) = (out, ops)" by fastforce
  have neq: "send_err m \<noteq> ok_line" for m by (simp add: send_err_def snprintf_def)
  have one: "out = [ok_line] \<or> (\<exists>m. out = [send_err m])"
    using hl [unfolded dispatch_delete] delete_replies by (cases "uid = 0") auto
  have ok: "out = [ok_line] \<Longrightarrow> uid = 0 \<and> quarantine_id_valid qid \<and> ce_unlink E (quarantine_dest qdir qid) \<in> {None, Some ENOENT}"
    using hl [unfolded dispatch_delete] neq by (auto simp: cmd_quarantine_delete_def Let_def split: if_splits)
  have v: "''QUARANTINE DELETE '' \<noteq> []" "NL \<notin> set ''QUARANTINE DELETE ''" "NUL \<notin> set ''QUARANTINE DELETE ''"
    "length ''QUARANTINE DELETE '' \<le> 30" by (simp_all add: NL_def NUL_def)
  note e = entry_served [OF script qid v hl one run [unfolded do_quarantine_delete_def]]
  show ?thesis using e ok by metis
qed

section \<open>Listing the quarantine\<close>

lemma scan_set_field:
  assumes "t \<noteq> []" "\<forall>c \<in> set t. c \<notin> stop" "length t \<le> w" "r = [] \<or> hd r \<in> stop"
  shows "scan_set w stop (t @ r) = Some (t, r)"
proof -
  have "takeWhile (\<lambda>c. c \<notin> stop) (t @ r) = t" using assms(2,4) by (cases r) auto
  then show ?thesis using assms by (simp add: scan_set_def Let_def)
qed

lemma scan_number_rest:
  assumes "scan_number 10 x = (neg, ds, [])" "ds \<noteq> []" "\<not> is_digit 10 c"
  shows "scan_number 10 (x @ c # r) = (neg, ds, c # r)"
proof -
  let ?t = "dropWhile c_isspace x"
  have t: "?t \<noteq> []"
  proof
    assume "?t = []"
    then have "scan_number 10 x = (False, [], [])" by (simp only: scan_number_def Let_def) simp
    then show False using assms(1,2) by simp
  qed
  obtain y where y: "y \<in> set x" "\<not> c_isspace y" using t by (auto simp: dropWhile_eq_Nil_conv)
  have d: "dropWhile c_isspace (x @ c # r) = ?t @ c # r" by (rule dropWhile_append1 [where P = c_isspace, OF y])
  define u where "u = (if hd ?t = CHR ''-'' \<or> hd ?t = CHR ''+'' then tl ?t else ?t)"
  have "(if ?t \<noteq> [] \<and> (hd ?t = CHR ''-'' \<or> hd ?t = CHR ''+'') then tl ?t else ?t) = u" using t by (simp add: u_def)
  then have "scan_number 10 x = (hd ?t = CHR ''-'', takeWhile (is_digit 10) u, dropWhile (is_digit 10) u)"
    unfolding scan_number_def Let_def using t by simp
  then have u: "takeWhile (is_digit 10) u = ds" "dropWhile (is_digit 10) u = []" "neg = (hd ?t = CHR ''-'')"
    using assms(1) by simp_all
  then have "\<forall>y \<in> set u. is_digit 10 y" by (simp add: dropWhile_eq_Nil_conv)
  then have "takeWhile (is_digit 10) (u @ c # r) = u" "dropWhile (is_digit 10) (u @ c # r) = c # r" "u = ds"
    using assms(3) u(1) takeWhile_eq_all_conv [of "is_digit 10" u] by (simp_all add: takeWhile_append2 dropWhile_append2)
  moreover have "(if ?t @ c # r \<noteq> [] \<and> (hd (?t @ c # r) = CHR ''-'' \<or> hd (?t @ c # r) = CHR ''+'') then tl (?t @ c # r) else ?t @ c # r) = u @ c # r"
    using t by (simp add: u_def)
  ultimately show ?thesis unfolding scan_number_def d Let_def using t u(3) by simp
qed

lemma scan_number_int: "\<exists>neg ds. scan_number 10 (show_int i) = (neg, ds, []) \<and> ds \<noteq> []"
proof -
  note d = show_base_digits [of 10, unfolded show_base_10]
  show ?thesis using d scan_number_digits [of 10 "show_nat (nat (if i < 0 then - i else i))"] by (auto simp: show_int_def)
qed

text \<open>The fields that survive the row format: no tab, newline or NUL, no leading white space, not empty.\<close>

definition row_field :: "nat \<Rightarrow> string \<Rightarrow> bool" where
  "row_field w s \<longleftrightarrow> clean_field w s \<and> s \<noteq> [] \<and> \<not> c_isspace (hd s)"

lemma quarantine_row_of:
  assumes "row_field 255 qid" "row_field 4095 path" "row_field 127 rule" "row_field 127 sha"
  shows "quarantine_row (qid @ TAB # path @ TAB # show_int (sint ts) @ TAB # rule @ TAB # sha) = Some (qid, path, ts, rule)"
proof -
  let ?r4 = "TAB # sha" let ?r3 = "TAB # rule @ ?r4"
  obtain neg ds where n: "scan_number 10 (show_int (sint ts)) = (neg, ds, [])" "ds \<noteq> []" using scan_number_int by blast
  have td: "\<not> is_digit 10 TAB" and ts: "c_isspace TAB" by (simp_all add: is_digit_def TAB_def ccode_def c_isspace_def)
  have sp: "dropWhile c_isspace (TAB # f @ r) = f @ r" if "row_field w f" for f w r
    using that ts by (cases f) (auto simp: row_field_def)
  have f: "scan_set w {TAB} (g @ TAB # r) = Some (g, TAB # r)" if "row_field w g" for g w r
    using that by (intro scan_set_field) (auto simp: row_field_def clean_field_def)
  have m: "scan_number 10 (show_int (sint ts) @ ?r3) = (neg, ds, ?r3)" by (rule scan_number_rest [OF n td])
  have sp1: "dropWhile c_isspace (TAB # show_int (sint ts) @ ?r3) = dropWhile c_isspace (show_int (sint ts) @ ?r3)" using ts by simp
  have m': "scan_number 10 (TAB # show_int (sint ts) @ ?r3) = (neg, ds, ?r3)"
    using m sp1 by (simp add: scan_number_def)
  have v: "strtoll 10 (TAB # show_int (sint ts) @ ?r3) = ts"
    using strtoll_show_int64 [of ts] m' n(1) by (simp add: strtoll_def Let_def)
  have l: "scan_set 127 {TAB, NL} sha = Some (sha, [])"
    using scan_set_field [of sha "{TAB, NL}" 127 "[]"] assms(4) by (auto simp: row_field_def clean_field_def)
  show ?thesis
    using f [OF assms(1)] sp [OF assms(2)] f [OF assms(2)] m' n(2) sp [OF assms(3)] f [OF assms(3)] sp [OF assms(4), of "[]"] l v
    by (simp add: quarantine_row_def)
qed

definition entry_id :: "string \<Rightarrow> string" where
  "entry_id d = take (length d - length quarantined_suffix) d"

definition listable :: "ctl_env \<Rightarrow> string \<Rightarrow> string \<Rightarrow> bool" where
  "listable E qdir d \<longleftrightarrow> (case read_quarantine_meta (ce_meta2 E (list_meta_path qdir d)) of
     None \<Rightarrow> False
   | Some meta \<Rightarrow> row_field 255 (entry_id d) \<and> row_field 4095 (original_path meta) \<and> row_field 127 (qm_rule meta) \<and>
       row_field 127 (qm_sha256 meta))"

definition listed :: "ctl_env \<Rightarrow> string \<Rightarrow> string \<Rightarrow> string" where
  "listed E qdir d = (case read_quarantine_meta (ce_meta2 E (list_meta_path qdir d)) of
     None \<Rightarrow> [] | Some meta \<Rightarrow> show_row (entry_id d, original_path meta, qm_timestamp meta, qm_rule meta))"

lemma list_rows_all:
  "ce_sent E = (\<lambda>_. True) \<Longrightarrow> list_rows E qdir uid root ds i = (map (list_row E qdir) (filter (list_visible E qdir uid root) ds), True)"
  by (induction ds arbitrary: i) auto

lemma listable_row:
  assumes "listable E qdir d"
  shows "\<exists>l. list_row E qdir d = l @ [NL] \<and> NL \<notin> set l \<and> NUL \<notin> set l \<and> TAB \<in> set l \<and>
    (\<exists>row. quarantine_row l = Some row \<and> show_row row = listed E qdir d)"
proof -
  obtain meta where m: "read_quarantine_meta (ce_meta2 E (list_meta_path qdir d)) = Some meta"
    and f: "row_field 255 (entry_id d)" "row_field 4095 (original_path meta)" "row_field 127 (qm_rule meta)"
      "row_field 127 (qm_sha256 meta)"
    using assms by (auto simp: listable_def split: option.splits)
  let ?ts = "show_int (sint (qm_timestamp meta))"
  let ?l = "entry_id d @ TAB # original_path meta @ TAB # ?ts @ TAB # qm_rule meta @ TAB # qm_sha256 meta"
  have i: "clean_field 20 ?ts"
    using clean_show_int [of "sint (qm_timestamp meta)" 19] sint_greater_eq [of "qm_timestamp meta"] sint_less [of "qm_timestamp meta"]
    by simp
  have t: "TAB \<noteq> NL" "TAB \<noteq> NUL" by (simp_all add: TAB_def NL_def NUL_def)
  have e: "snprintf AvUser.PATH_MAX (take (length d - length quarantined_suffix) d) = entry_id d"
    using f(1) by (simp add: snprintf_def entry_id_def row_field_def clean_field_def)
  have "length (?l @ [NL]) \<le> 5000" using f i unfolding row_field_def clean_field_def length_append length_Cons list.size by linarith
  then have "list_row E qdir d = ?l @ [NL]" unfolding list_row_def e m by (simp add: Let_def snprintf_def)
  moreover have "NL \<notin> set ?l" "NUL \<notin> set ?l" using f i t by (auto simp: row_field_def clean_field_def)
  moreover have "quarantine_row ?l = Some (entry_id d, original_path meta, qm_timestamp meta, qm_rule meta)"
    by (rule quarantine_row_of [OF f])
  ultimately show ?thesis using m by (intro exI [of _ ?l]) (simp add: listed_def)
qed

lemma list_output_rows:
  "\<forall>d \<in> set ds. listable E qdir d \<Longrightarrow>
    list_output (concat (map (list_row E qdir) ds) @ ''END'' @ [NL]) = concat (map (listed E qdir) ds) \<and>
    NUL \<notin> set (concat (map (list_row E qdir) ds))"
proof (induction ds)
  case Nil
  have "next_line (''END'' @ NL # []) = Some (''END'', [])" by (rule next_line_line) (simp add: NL_def)
  then show ?case by (subst list_output.simps) simp
next
  case (Cons d ds)
  obtain l row where l: "list_row E qdir d = l @ [NL]" "NL \<notin> set l" "NUL \<notin> set l" "TAB \<in> set l"
    "quarantine_row l = Some row" "show_row row = listed E qdir d"
    using listable_row [of E qdir d] Cons.prems by auto
  have "l \<noteq> ''END''" using l(4) by (auto simp: TAB_def)
  moreover have "next_line (l @ NL # concat (map (list_row E qdir) ds) @ ''END'' @ [NL]) =
      Some (l, concat (map (list_row E qdir) ds) @ ''END'' @ [NL])" by (rule next_line_line [OF l(2)])
  ultimately show ?case using Cons.IH Cons.prems l
    by (subst list_output.simps) (simp add: NL_def NUL_def)
qed

lemma count_line_fits:
  assumes "n < 10 ^ 20"
  shows "\<exists>c. count_line n = c @ [NL] \<and> NL \<notin> set c \<and> NUL \<notin> set c"
proof -
  have "clean_field 21 (show_int (int n))" using clean_show_int [of "int n" 20] assms by simp
  then have c: "clean_field 21 (show_nat n)" by (simp add: show_int_def)
  then have "length (''COUNT '' @ show_nat n @ [NL]) \<le> 31" by (simp add: clean_field_def)
  then have "count_line n = (''COUNT '' @ show_nat n) @ [NL]" unfolding count_line_def snprintf_def by (subst take_all) simp_all
  moreover have "NL \<notin> set (''COUNT '' @ show_nat n)" "NUL \<notin> set (''COUNT '' @ show_nat n)"
    using c by (auto simp: clean_field_def NL_def NUL_def)
  ultimately show ?thesis by blast
qed

text \<open>Listing the quarantine. For entries whose recorded fields are not empty and hold no tab or
  newline, \<^verbatim>\<open>avctl quarantine list\<close> prints, after the heading, exactly one row with the identifier,
  rule, time and path of each entry the daemon lets the caller see, in the daemon's order and nothing
  else; root sees every entry and another user those of his own files.\<close>

theorem list_client_shows:
  assumes script: "\<forall>b. delivers (script b) b" and X: "sock_ok X"
    and E: "ce_scandir E = Some entries" "ce_malloc E" "ce_sent E = (\<lambda>_. True)"
    and vis: "vis = filter (\<lambda>d. filter_quarantined d \<and> list_visible E qdir uid (uid = 0) d) entries" "length vis < 10 ^ 20"
      "\<forall>d \<in> set vis. listable E qdir d"
  shows "do_quarantine_list X (daemon_peer E S qdir h uid script) =
    ((0, list_header @ concat (map (listed E qdir) vis)), Some [])"
proof -
  let ?cmd = "''QUARANTINE LIST''" and ?names = "filter filter_quarantined entries"
  obtain q eff where req: "control_request X (daemon_peer E S qdir h uid script) ?cmd = (q, eff)" by fastforce
  have v: "filter (list_visible E qdir uid (uid = 0)) ?names = vis" by (simp add: vis(1) conj_commute)
  define out where "out = [ok_line, count_line (length vis)] @ map (list_row E qdir) vis @ [end_line]"
  have hl: "handle_control_line E S qdir h ?cmd uid (uid = 0) = (out, [])"
    using E v unfolding out_def
    by (simp add: handle_control_line_def starts_with_def strneq_def cmd_quarantine_list_def list_rows_all Let_def)
  have c: "?cmd \<noteq> []" "NL \<notin> set ?cmd" "NUL \<notin> set ?cmd" "length ?cmd + 1 < AVD_SOCK_LINE_MAX" by (simp_all add: NL_def NUL_def)
  obtain cl where cl: "count_line (length vis) = cl @ [NL]" "NL \<notin> set cl" "NUL \<notin> set cl" using count_line_fits [OF vis(2)] by blast
  let ?rows = "concat (map (list_row E qdir) vis) @ ''END'' @ [NL]"
  note rows = list_output_rows [OF vis(3)]
  have co: "concat out = ''OK'' @ NL # cl @ NL # ?rows" by (simp add: out_def cl)
  have "cstr (concat out) = concat out" unfolding co using rows cl(3) by (intro cstr_id) (auto simp: NL_def NUL_def)
  then have q: "q = Some (''OK'' @ NL # cl @ NL # ?rows)" "eff = Some []"
    using request_served [OF script c hl req] X unfolding co by auto
  have e: "expect_ok (''OK'' @ NL # cl @ NL # ?rows) = Some (cl @ NL # ?rows)"
    unfolding expect_ok_def by (subst next_line_line) (simp_all add: NL_def)
  have k: "skip_line (cl @ NL # ?rows) = ?rows" unfolding skip_line_def next_line_line [OF cl(2)] by simp
  show ?thesis unfolding do_quarantine_list_def req q using e k rows by simp
qed

section \<open>The format of replies\<close>

definition reply_form :: "string list \<Rightarrow> bool" where
  "reply_form out \<longleftrightarrow> out = [] \<or> out = [ok_line] \<or> (\<exists>m. NL \<notin> set m \<and> out = [''ERR '' @ m @ [NL]]) \<or>
     (\<exists>n rows. length rows \<le> n \<and> out = ok_line # count_line n # rows) \<or>
     (\<exists>rows. out = ok_line # count_line (length rows) # rows @ [end_line])"

lemma send_err_form: "length m \<le> 250 \<Longrightarrow> NL \<notin> set m \<Longrightarrow> reply_form [send_err m]"
  by (auto simp: reply_form_def send_err_def snprintf_def)

lemma whole_form: "reply_form (ok_line # count_line (length rows) # rows @ [end_line])"
  unfolding reply_form_def by blast

lemma cut_form: "length rows \<le> n \<Longrightarrow> reply_form (ok_line # count_line n # rows)"
  unfolding reply_form_def by blast

lemma ok_form: "reply_form [ok_line]" "reply_form []"
  unfolding reply_form_def by blast+

lemma verdicts_form: "reply_form (cmd_verdicts_recent mo sent n uid root h)"
proof -
  define V where "V = take n (filter (\<lambda>r. verdict_visible_to r uid root) (snapshot h))"
  have e: "reply_form [send_err ''out of memory'']" by (rule send_err_form) (simp_all add: NL_def)
  have c: "reply_form ([ok_line, count_line (length V)] @ map verdict_row (take k V))" for k
    using cut_form [of "map verdict_row (take k V)" "length V"] by simp
  have w: "reply_form ([ok_line, count_line (length V)] @ map verdict_row V @ [end_line])"
    using whole_form [of "map verdict_row V"] by simp
  show ?thesis using cmd_verdicts_recent_shape [of mo sent n uid root h] e c w unfolding V_def Let_def by metis
qed

lemma list_rows_length:
  "length (fst (list_rows E qdir uid root ds i)) \<le> length (filter (list_visible E qdir uid root) ds) \<and>
    (snd (list_rows E qdir uid root ds i) \<longrightarrow>
       length (fst (list_rows E qdir uid root ds i)) = length (filter (list_visible E qdir uid root) ds))"
  by (induction ds arbitrary: i) (auto simp: split_def Let_def)

lemma quarantine_list_form: "reply_form (cmd_quarantine_list E qdir uid root)"
proof (cases "ce_scandir E")
  case None
  have "reply_form [send_err ''could not read quarantine directory'']" by (rule send_err_form) (simp_all add: NL_def)
  then show ?thesis by (simp add: cmd_quarantine_list_def None)
next
  case (Some names0)
  let ?names = "filter filter_quarantined names0"
  obtain rows ok where r: "list_rows E qdir uid root ?names 0 = (rows, ok)" by fastforce
  have e: "reply_form [send_err ''out of memory'']" by (rule send_err_form) (simp_all add: NL_def)
  let ?n = "length (filter (list_visible E qdir uid root) ?names)"
  have n: "length rows \<le> ?n" "ok \<Longrightarrow> length rows = ?n" using list_rows_length [of E qdir uid root ?names 0] r by auto
  have c: "reply_form ([ok_line, count_line ?n] @ rows @ (if ok then [end_line] else []))"
    using cut_form [OF n(1)] whole_form [of rows] n(2) by (cases ok) simp_all
  show ?thesis using c e r unfolding cmd_quarantine_list_def Some by (simp add: Let_def del: filter_filter)
qed

lemma restore_form: "reply_form (fst (cmd_quarantine_restore E qdir qid))"
  unfolding cmd_quarantine_restore_def Let_def
  using ok_form by (simp split: option.split add: send_err_form NL_def)

lemma delete_form: "reply_form (fst (cmd_quarantine_delete E qdir qid))"
  unfolding cmd_quarantine_delete_def Let_def using ok_form by (simp add: send_err_form NL_def)

lemma scan_form: "reply_form (fst (cmd_scan E path))"
  unfolding cmd_scan_def Let_def using whole_form [of "[row]" for row] by (simp add: send_err_form NL_def)

lemma status_form: "reply_form (cmd_status S)"
  unfolding cmd_status_def using whole_form [of "[row]" for row] by simp

lemma line_form: "reply_form (fst (handle_control_line E S qdir h line uid root))"
  unfolding handle_control_line_def Let_def
  using verdicts_form quarantine_list_form restore_form delete_form scan_form status_form
  by (simp add: send_err_form NL_def)


section \<open>A plain connection\<close>

definition plain_script :: "string \<Rightarrow> (bool \<times> rl_event) list" where
  "plain_script b = map (\<lambda>c. (False, RlByte c)) b"

definition plain_sock :: sock_env where
  "plain_sock = \<lparr>sx_path = ''/run/avd/control.sock'', sx_socket = True, sx_connect = True, sx_malloc_req = True,
     sx_write = Some, sx_malloc_buf = True, sx_grow = (\<lambda>_. True), sx_reads = [RdUpTo 2, RdIntr]\<rparr>"

definition demo_ctl :: ctl_env where
  "demo_ctl = \<lparr>ce_malloc = True, ce_sent = (\<lambda>_. True), ce_scandir = Some [''.'', ''e.quarantined''],
     ce_meta1 = (\<lambda>_. Some ''ORIGINAL_PATH=/x\<newline>RULE_NAME=R\<newline>SHA256=ab\<newline>''), ce_meta2 = (\<lambda>_. Some ''ORIGINAL_PATH=/x\<newline>RULE_NAME=R\<newline>SHA256=ab\<newline>''),
     ce_open = (\<lambda>_. True), ce_isreg = (\<lambda>_. True), ce_lstat = (\<lambda>_. False), ce_fchmod = True, ce_fchown = True,
     ce_rename = True, ce_unlink = (\<lambda>_. None), ce_fcntl = True,
     ce_scan = (\<lambda>_. \<lparr>sr_verdict = AV_VERDICT_MALICIOUS, sr_rule = ''R'', sr_score = 9, sr_sha256 = ''ab''\<rparr>)\<rparr>"

definition demo_status :: ctl_status where
  "demo_status = \<lparr>cs_uptime = 1, cs_rules = True, cs_fuzzy = 0, cs_tlsh = 0, cs_queue = 0, cs_threads = 4\<rparr>"

lemma plain_delivers: "delivers (plain_script b) b"
  by (induction b) (auto simp: delivers_def plain_script_def)

lemma plain_sock_ok: "sock_ok plain_sock"
  by (simp add: sock_ok_def plain_sock_def truncates_def SUN_PATH_MAX_def)

theorem scan_client_agrees_witness:
  "do_scan plain_sock (daemon_peer demo_ctl demo_status ''/q'' history_init 0 plain_script) ''/x'' =
    ((0, verdict_text ''/x'' (ce_scan demo_ctl ''/x'')), Some [ScanFile ''/x''])"
proof -
  obtain code t eff where
    run: "do_scan plain_sock (daemon_peer demo_ctl demo_status ''/q'' history_init 0 plain_script) ''/x'' = ((code, t), eff)"
    by (metis surj_pair)
  have s: "scannable demo_ctl 0 ''/x''" by (simp add: scannable_def demo_ctl_def NL_def)
  have c: "clean_field 127 (sr_rule (ce_scan demo_ctl ''/x''))" "clean_field 127 (sr_sha256 (ce_scan demo_ctl ''/x''))"
    "sr_sha256 (ce_scan demo_ctl ''/x'') \<noteq> []"
    by (simp_all add: clean_field_def demo_ctl_def TAB_def NL_def NUL_def)
  show ?thesis
    using scan_client_agrees [OF _ _ refl c(1,2) run] plain_delivers plain_sock_ok s c(3) unfolding run by (auto simp: NUL_def)
qed

lemma demo_meta: "read_quarantine_meta (ce_meta1 demo_ctl p) = Some \<lparr>original_path = ''/x'', original_mode = 384, original_uid = 0,
    original_gid = 0, qm_timestamp = 0, qm_rule = ''R'', qm_sha256 = ''ab''\<rparr>"
  unfolding demo_ctl_def ctl_env.simps by code_simp

theorem restore_client_agrees_witness:
  "fst (do_quarantine_restore plain_sock (daemon_peer demo_ctl demo_status ''/q'' history_init 0 plain_script) ''e'') =
    (0, ''restored: e'' @ [NL])"
proof -
  let ?E = demo_ctl and ?dest = "quarantine_dest ''/q'' ''e''"
  obtain code t eff where
    run: "do_quarantine_restore plain_sock (daemon_peer ?E demo_status ''/q'' history_init 0 plain_script) ''e'' = ((code, t), eff)"
    by (metis surj_pair)
  have hl: "handle_control_line ?E demo_status ''/q'' history_init (''QUARANTINE RESTORE '' @ ''e'') 0 True =
      cmd_quarantine_restore ?E ''/q'' ''e''" by (simp only: dispatch_restore) simp
  have v: "quarantine_id_valid ''e''" "\<not> truncates (AvUser.PATH_MAX * 2) ?dest" "\<not> truncates (AvUser.PATH_MAX * 2 + 8) (?dest @ ''.meta'')"
    by (simp_all add: quarantine_id_valid_def truncates_def quarantine_dest_def quarantined_suffix_def)
  obtain ops where c: "cmd_quarantine_restore ?E ''/q'' ''e'' = ([ok_line], ops)" "Rename ?dest ''/x'' \<in> set ops"
    using v demo_meta by (simp add: cmd_quarantine_restore_def Let_def) (simp add: demo_ctl_def)
  have req: "control_request plain_sock (daemon_peer ?E demo_status ''/q'' history_init 0 plain_script) (''QUARANTINE RESTORE '' @ ''e'') =
      (Some (cstr (concat [ok_line])), Some ops)"
    using request_served [of plain_script "''QUARANTINE RESTORE '' @ ''e''" ?E demo_status "''/q''" history_init 0 "[ok_line]" ops plain_sock]
      plain_delivers plain_sock_ok hl c(1) by (cases "control_request plain_sock (daemon_peer ?E demo_status ''/q'' history_init 0 plain_script)
        (''QUARANTINE RESTORE '' @ ''e'')") (simp add: NL_def NUL_def)
  have eff: "eff = Some ops"
    using run req by (simp add: do_quarantine_restore_def do_quarantine_entry_def check_field_len_def AVCTL_ID_MAXLEN_def truncates_def NL_def)
  have "code = 0" "t = ''restored: '' @ ''e'' @ [NL]"
    using restore_client_agrees [OF _ _ run refl] plain_delivers plain_sock_ok eff demo_meta c(2) by (auto simp: NUL_def)
  then show ?thesis unfolding run by simp
qed

theorem list_client_shows_witness:
  "do_quarantine_list plain_sock (daemon_peer demo_ctl demo_status ''/q'' history_init 0 plain_script) =
    ((0, list_header @ listed demo_ctl ''/q'' ''e.quarantined''), Some [])"
proof -
  have f: "filter (\<lambda>d. filter_quarantined d \<and> list_visible demo_ctl ''/q'' 0 (0 = (0 :: u32)) d) [''.'', ''e.quarantined''] = [''e.quarantined'']"
    by (simp add: filter_quarantined_def quarantined_suffix_def list_visible_def)
  have m: "read_quarantine_meta (ce_meta2 demo_ctl p) = read_quarantine_meta (ce_meta1 demo_ctl p)" for p by (simp add: demo_ctl_def)
  have l: "listable demo_ctl ''/q'' ''e.quarantined''"
    by (simp add: listable_def m demo_meta row_field_def clean_field_def entry_id_def quarantined_suffix_def TAB_def NL_def NUL_def
        c_isspace_def ccode_def)
  have "ce_scandir demo_ctl = Some [''.'', ''e.quarantined'']" "ce_malloc demo_ctl" "ce_sent demo_ctl = (\<lambda>_. True)"
    by (simp_all add: demo_ctl_def)
  from list_client_shows [OF _ plain_sock_ok this f [symmetric]] plain_delivers l show ?thesis by simp
qed

end
