(* ===== verification/AvctlSave.thy ===== *)
theory AvctlSave
  imports AvctlState AvdTrust
begin

text \<open>
  How \<^verbatim>\<open>do_save\<close> of \<^verbatim>\<open>src/userspace/avctl/avctl.c\<close> puts the dump in place: the walk that pins the parent
  directory (\<^verbatim>\<open>pin_save_parent\<close>, \<^verbatim>\<open>save_dir_trusted_fd\<close>), the temporary file, the checks that it is still
  the program's own (\<^verbatim>\<open>save_stat_is_ours\<close>, \<^verbatim>\<open>save_abort\<close>) and the rename. A directory is an inode with named
  entries and a descriptor is an inode; before every system call other processes act through
  \<open>sv_adv\<close> and \<open>sv_later\<close>. The result carries the program's own changes in order; messages are not modelled.
\<close>

section \<open>The file system\<close>

record save_stat =
  ss_mode :: u32
  ss_uid :: u32
  ss_nlink :: nat

record tree =
  tr_entries :: "nat \<Rightarrow> string \<Rightarrow> nat option"
  tr_stat :: "nat \<Rightarrow> save_stat"
  tr_data :: "nat \<Rightarrow> string"

datatype sv_op = Created nat string nat | Unlinked nat string nat | Renamed nat string string nat

text \<open>What a system call refuses for other reasons; \<open>sv_room\<close> is how much of the output reached the
  file, \<open>sv_new\<close> the inode number a new file gets, which is not one in use by a directory.\<close>

record sv_env =
  sv_euid :: u32
  sv_root :: nat
  sv_cwd :: nat
  sv_start :: bool
  sv_openat :: "nat \<Rightarrow> bool"
  sv_fstat_dir :: "nat \<Rightarrow> bool"
  sv_create :: bool
  sv_new :: nat
  sv_fdopen :: bool
  sv_proc :: "proc_file \<Rightarrow> string option"
  sv_written :: bool
  sv_room :: nat
  sv_fsync :: bool
  sv_fstat :: "nat \<Rightarrow> bool"
  sv_lstat :: "nat \<Rightarrow> bool"
  sv_fclose :: bool
  sv_unlink :: bool
  sv_rename :: bool
  sv_adv :: "nat \<Rightarrow> tree \<Rightarrow> tree"
  sv_later :: "nat \<Rightarrow> tree \<Rightarrow> tree"

definition S_ISREG :: "u32 \<Rightarrow> bool" where "S_ISREG m \<longleftrightarrow> m AND S_IFMT = 0x8000"

section \<open>The code\<close>

definition save_dir_trusted :: "u32 \<Rightarrow> save_stat \<Rightarrow> bool" where
  "save_dir_trusted euid st \<longleftrightarrow>
     (if \<not> S_ISDIR (ss_mode st) then False
      else if ss_uid st \<noteq> euid \<and> ss_uid st \<noteq> 0 then False
      else if ss_mode st AND S_IWGRP_IWOTH \<noteq> 0 \<and> ss_mode st AND S_ISVTX = 0 then False
      else True)"

definition save_dir_trusted_fd :: "sv_env \<Rightarrow> nat \<Rightarrow> nat \<Rightarrow> tree \<Rightarrow> bool" where
  "save_dir_trusted_fd E n fd s \<longleftrightarrow> sv_fstat_dir E n \<and> save_dir_trusted (sv_euid E) (tr_stat s fd)"

definition save_stat_is_ours :: "u32 \<Rightarrow> save_stat \<Rightarrow> bool" where
  "save_stat_is_ours euid st \<longleftrightarrow> S_ISREG (ss_mode st) \<and> ss_uid st = euid \<and> ss_nlink st = 1"

text \<open>\<^verbatim>\<open>openat\<close> with \<^verbatim>\<open>O_DIRECTORY | O_NOFOLLOW\<close>: a symbolic link is not a directory.\<close>

definition openat_dir :: "sv_env \<Rightarrow> nat \<Rightarrow> nat \<Rightarrow> string \<Rightarrow> tree \<Rightarrow> nat option" where
  "openat_dir E n cur seg s =
     (case tr_entries s cur seg of
        None \<Rightarrow> None
      | Some i \<Rightarrow> if sv_openat E n \<and> S_ISDIR (ss_mode (tr_stat s i)) then Some i else None)"

lemma rest_shorter: "length (dropWhile P (dropWhile Q s)) < length s" if "s \<noteq> []" "Q (hd s) \<or> P (hd s)"
proof -
  have a: "length (dropWhile P (dropWhile Q s)) \<le> length (dropWhile Q s)" "length (dropWhile Q s) \<le> length s"
    by (simp_all add: length_dropWhile_le)
  show ?thesis
  proof (cases "Q (hd s)")
    case True
    then have "length (dropWhile Q s) < length s" using that(1) length_dropWhile_le [of Q "tl s"] by (cases s) auto
    then show ?thesis using a by linarith
  next
    case False
    then have q: "dropWhile Q s = s" using that(1) by (cases s) auto
    have "P (hd s)" using False that(2) by blast
    then show ?thesis using that(1) length_dropWhile_le [of P "tl s"] unfolding q by (cases s) auto
  qed
qed

function pin_walk :: "sv_env \<Rightarrow> nat \<Rightarrow> nat \<Rightarrow> string \<Rightarrow> tree \<Rightarrow> nat option \<times> tree" where
  "pin_walk E n cur rem s =
     (let r = dropWhile (\<lambda>c. c = CHR ''/'') rem in
      if r = [] then (Some cur, s)
      else
        let seg = takeWhile (\<lambda>c. c \<noteq> CHR ''/'') r; rest = dropWhile (\<lambda>c. c \<noteq> CHR ''/'') r in
        if AvUser.PATH_MAX \<le> length seg then (None, s)
        else if seg = ''.'' then pin_walk E n cur rest s
        else
          let s1 = sv_adv E n s in
          case openat_dir E n cur seg s1 of
            None \<Rightarrow> (None, s1)
          | Some next \<Rightarrow>
              let s2 = sv_adv E (n + 1) s1 in
              if \<not> save_dir_trusted_fd E (n + 1) next s2 then (None, s2) else pin_walk E (n + 2) next rest s2)"
  by pat_completeness auto
termination
proof (relation "measure (\<lambda>(_, _, _, rem, _). length rem)")
  have shorter: "length (dropWhile (\<lambda>c. c \<noteq> CHR ''/'') (dropWhile (\<lambda>c. c = CHR ''/'') rem)) < length rem"
    if "dropWhile (\<lambda>c. c = CHR ''/'') rem \<noteq> []" for rem :: string
    using that by (intro rest_shorter) auto
  fix E :: sv_env and n cur nx :: nat and rem :: string and s :: tree and r seg rest
  assume "r = dropWhile (\<lambda>c. c = CHR ''/'') rem" "r \<noteq> []" "rest = dropWhile (\<lambda>c. c \<noteq> CHR ''/'') r"
  then have "length rest < length rem" using shorter by simp
  then show "((E, n, cur, rest, s), E, n, cur, rem, s) \<in> measure (\<lambda>(_, _, _, rem, _). length rem)" by simp
  fix s2 :: tree and m x :: nat
  show "((E, m, x, rest, s2), E, n, cur, rem, s) \<in> measure (\<lambda>(_, _, _, rem, _). length rem)"
    using \<open>length rest < length rem\<close> by simp
qed simp

declare pin_walk.simps [simp del]

definition save_base :: "string \<Rightarrow> string" where
  "save_base path = (case strrchr_after (CHR ''/'') path of Some b \<Rightarrow> b | None \<Rightarrow> path)"

definition save_parent_part :: "string \<Rightarrow> string" where
  "save_parent_part path = (case strrchr_after (CHR ''/'') path of
     Some b \<Rightarrow> take (length path - length b - 1) path | None \<Rightarrow> [])"

definition pin_save_parent :: "sv_env \<Rightarrow> string \<Rightarrow> tree \<Rightarrow> nat option \<times> tree" where
  "pin_save_parent E path s =
     (let base = save_base path in
      if AvUser.PATH_MAX \<le> length base \<or> AvUser.PATH_MAX \<le> length base + 4 then (None, s)
      else if \<not> sv_start E then (None, s)
      else
        let cur = (if path \<noteq> [] \<and> hd path = CHR ''/'' then sv_root E else sv_cwd E); s1 = sv_adv E 0 s in
        if \<not> save_dir_trusted_fd E 0 cur s1 then (None, s1) else pin_walk E 1 cur (save_parent_part path) s1)"

text \<open>Whether the name still refers to the file opened as \<open>i\<close>; and removing the name.\<close>

definition tmp_is_ours :: "sv_env \<Rightarrow> nat \<Rightarrow> nat \<Rightarrow> string \<Rightarrow> nat \<Rightarrow> tree \<Rightarrow> bool" where
  "tmp_is_ours E n d tmp i s \<longleftrightarrow>
     sv_lstat E n \<and> tr_entries s d tmp = Some i \<and> save_stat_is_ours (sv_euid E) (tr_stat s i)"

definition set_entry :: "nat \<Rightarrow> string \<Rightarrow> nat option \<Rightarrow> tree \<Rightarrow> tree" where
  "set_entry d name v s = s\<lparr>tr_entries := (tr_entries s)(d := (tr_entries s d)(name := v))\<rparr>"

definition unlink_tmp :: "sv_env \<Rightarrow> nat \<Rightarrow> string \<Rightarrow> tree \<Rightarrow> sv_op list \<times> tree" where
  "unlink_tmp E d tmp s =
     (case tr_entries s d tmp of
        None \<Rightarrow> ([], s)
      | Some i \<Rightarrow> if sv_unlink E then ([Unlinked d tmp i], set_entry d tmp None s) else ([], s))"

definition save_abort :: "sv_env \<Rightarrow> nat \<Rightarrow> string \<Rightarrow> nat \<Rightarrow> tree \<Rightarrow> sv_op list \<times> tree" where
  "save_abort E d tmp i s =
     (let s1 = sv_later E 1 s in
      if sv_fstat E 1 \<and> tmp_is_ours E 1 d tmp i s1 then unlink_tmp E d tmp (sv_later E 2 s1) else ([], s1))"

definition create_tmp :: "sv_env \<Rightarrow> nat \<Rightarrow> string \<Rightarrow> tree \<Rightarrow> (sv_op \<times> tree) option" where
  "create_tmp E d tmp s =
     (if \<not> sv_create E \<or> tr_entries s d tmp \<noteq> None \<or> S_ISDIR (ss_mode (tr_stat s (sv_new E))) then None
      else Some (Created d tmp (sv_new E),
        set_entry d tmp (Some (sv_new E)) (s\<lparr>tr_stat := (tr_stat s)(sv_new E := \<lparr>ss_mode = 0x8180, ss_uid = sv_euid E, ss_nlink = 1\<rparr>),
          tr_data := (tr_data s)(sv_new E := [])\<rparr>)))"

definition write_data :: "sv_env \<Rightarrow> nat \<Rightarrow> string \<Rightarrow> tree \<Rightarrow> tree" where
  "write_data E i text s = s\<lparr>tr_data := (tr_data s)(i := (if sv_written E then text else take (sv_room E) text))\<rparr>"

text \<open>\<^verbatim>\<open>renameat\<close>; two names of one file are left as they are.\<close>

definition rename_tmp :: "sv_env \<Rightarrow> nat \<Rightarrow> string \<Rightarrow> string \<Rightarrow> tree \<Rightarrow> (sv_op \<times> tree) option" where
  "rename_tmp E d tmp base s =
     (case tr_entries s d tmp of
        None \<Rightarrow> None
      | Some j \<Rightarrow>
          if \<not> sv_rename E \<or> base = [] \<or>
             (case tr_entries s d base of Some k \<Rightarrow> S_ISDIR (ss_mode (tr_stat s k)) | None \<Rightarrow> False) then None
          else Some (Renamed d tmp base j,
            if tr_entries s d base = Some j then s else set_entry d tmp None (set_entry d base (Some j) s)))"

definition install_tmp :: "sv_env \<Rightarrow> nat \<Rightarrow> string \<Rightarrow> string \<Rightarrow> nat \<Rightarrow> tree \<Rightarrow> int \<times> sv_op list \<times> tree" where
  "install_tmp E d tmp base i s =
     (let s1 = sv_later E 3 s;
          replaced = (\<not> sv_fstat E 2 \<or> \<not> tmp_is_ours E 2 d tmp i s1);
          have_written = sv_fstat E 3;
          werr = (\<not> sv_written E \<or> \<not> sv_fsync E \<or> replaced \<or> \<not> sv_fclose E);
          s2 = sv_later E 4 s1;
          still_ours = (have_written \<and> tmp_is_ours E 3 d tmp i s2)
      in if werr then
           (if still_ours \<or> \<not> have_written then (1, unlink_tmp E d tmp (sv_later E 5 s2)) else (1, [], s2))
         else if \<not> still_ours then
           (if have_written then (1, [], s2) else (1, unlink_tmp E d tmp (sv_later E 5 s2)))
         else
           let s3 = sv_later E 6 s2 in
           case rename_tmp E d tmp base s3 of
             Some (op, s4) \<Rightarrow> (0, [op], s4)
           | None \<Rightarrow>
               let s4 = sv_later E 7 s3 in
               if have_written \<and> tmp_is_ours E 4 d tmp i s4 then (1, unlink_tmp E d tmp (sv_later E 8 s4)) else (1, [], s4))"

definition do_save :: "sv_env \<Rightarrow> string \<Rightarrow> tree \<Rightarrow> (int \<times> string) \<times> sv_op list \<times> tree" where
  "do_save E path s =
     (if path = ''-'' then
        (case save_dump (sv_proc E) of (done, text) \<Rightarrow>
           ((if done \<and> sv_written E then 0 else 1, if sv_written E then text else take (sv_room E) text), [], s))
      else if AvUser.PATH_MAX \<le> length path then ((1, []), [], s)
      else if truncates (AvUser.PATH_MAX + 8) (path @ ''.tmp'') then ((1, []), [], s)
      else case pin_save_parent E path s of
        (None, s1) \<Rightarrow> ((1, []), [], s1)
      | (Some d, s1) \<Rightarrow>
          let base = save_base path; tmp = base @ ''.tmp'' in
          case create_tmp E d tmp (sv_later E 9 s1) of
            None \<Rightarrow> ((1, []), [], sv_later E 9 s1)
          | Some (op, s2) \<Rightarrow>
              let i = sv_new E; s3 = sv_later E 0 s2 in
              if \<not> sv_fdopen E then (case unlink_tmp E d tmp s3 of (ops, s4) \<Rightarrow> ((1, []), op # ops, s4))
              else case save_dump (sv_proc E) of (done, text) \<Rightarrow>
                let s4 = write_data E i (save_header path @ text) s3 in
                if \<not> done then (case save_abort E d tmp i s4 of (ops, s5) \<Rightarrow> ((1, []), op # ops, s5))
                else (case install_tmp E d tmp base i s4 of (r, ops, s5) \<Rightarrow> ((r, []), op # ops, s5)))"

section \<open>What other users can do\<close>

text \<open>The permission rules of the system for processes of other users than root and the caller: in a
  trusted directory they cannot remove or replace the name of the caller's private file, nor take the
  trust from the directory, and they cannot write to the file or change its owner and mode. They may
  do anything else, as adding a link to the file.\<close>

definition private_file :: "u32 \<Rightarrow> save_stat \<Rightarrow> bool" where
  "private_file u st \<longleftrightarrow> ss_uid st = u \<and> ss_mode st = 0x8180"

definition others_step :: "u32 \<Rightarrow> tree \<Rightarrow> tree \<Rightarrow> bool" where
  "others_step u s s' \<longleftrightarrow>
     (\<forall>d. save_dir_trusted u (tr_stat s d) \<longrightarrow> save_dir_trusted u (tr_stat s' d) \<and>
        (\<forall>n i. tr_entries s d n = Some i \<and> private_file u (tr_stat s i) \<longrightarrow> tr_entries s' d n = Some i)) \<and>
     (\<forall>i. private_file u (tr_stat s i) \<longrightarrow> private_file u (tr_stat s' i) \<and> tr_data s' i = tr_data s i)"

definition others_only :: "sv_env \<Rightarrow> bool" where
  "others_only E \<longleftrightarrow> (\<forall>n s. others_step (sv_euid E) s (sv_adv E n s) \<and> others_step (sv_euid E) s (sv_later E n s))"

section \<open>The parent directory is pinned\<close>

lemma pin_walk_trusted:
  "others_only E \<Longrightarrow> save_dir_trusted (sv_euid E) (tr_stat s cur) \<Longrightarrow> pin_walk E n cur rem s = (Some d, s') \<Longrightarrow>
    save_dir_trusted (sv_euid E) (tr_stat s' d)"
proof (induction E n cur rem s rule: pin_walk.induct)
  case (1 E n cur rem s)
  let ?r = "dropWhile (\<lambda>c. c = CHR ''/'') rem"
  let ?seg = "takeWhile (\<lambda>c. c \<noteq> CHR ''/'') ?r" and ?rest = "dropWhile (\<lambda>c. c \<noteq> CHR ''/'') ?r"
  let ?s1 = "sv_adv E n s" let ?s2 = "sv_adv E (n + 1) ?s1"
  show ?case
  proof (cases "?r = []")
    case True
    then show ?thesis using 1(4,5) by (subst (asm) pin_walk.simps) (simp add: Let_def)
  next
    case r: False
    note w = 1(5) [unfolded pin_walk.simps [of E n cur rem s] Let_def if_not_P [OF r]]
    then have l: "\<not> AvUser.PATH_MAX \<le> length ?seg" by (auto split: if_splits)
    note w = w [unfolded if_not_P [OF l]]
    show ?thesis
    proof (cases "?seg = ''.''")
      case True
      from 1(1) [OF refl r refl refl l True 1(3,4) w [unfolded if_P [OF True]]] show ?thesis .
    next
      case nodot: False
      note w = w [unfolded if_not_P [OF nodot]]
      then obtain nx where o: "openat_dir E n cur ?seg ?s1 = Some nx" by (auto split: option.splits)
      note w = w [unfolded o option.case]
      then have t: "save_dir_trusted_fd E (n + 1) nx ?s2" by (auto split: if_splits)
      then have "save_dir_trusted (sv_euid E) (tr_stat ?s2 nx)" by (simp add: save_dir_trusted_fd_def)
      moreover have "pin_walk E (n + 2) nx ?rest ?s2 = (Some d, s')" using w t by simp
      ultimately show ?thesis using 1(2) [OF refl r refl refl l nodot refl o refl _ 1(3)] t by blast
    qed
  qed
qed

lemma pin_save_parent_trusted:
  assumes "others_only E" "pin_save_parent E path s = (Some d, s')"
  shows "save_dir_trusted (sv_euid E) (tr_stat s' d)"
proof -
  let ?cur = "if path \<noteq> [] \<and> hd path = CHR ''/'' then sv_root E else sv_cwd E"
  have w: "save_dir_trusted_fd E 0 ?cur (sv_adv E 0 s)" "pin_walk E 1 ?cur (save_parent_part path) (sv_adv E 0 s) = (Some d, s')"
    using assms(2) by (auto simp: pin_save_parent_def Let_def split: if_splits)
  then show ?thesis using pin_walk_trusted [OF assms(1) _ w(2)] by (simp only: save_dir_trusted_fd_def)
qed

section \<open>The temporary file stays the program's own\<close>

definition holds_tmp :: "sv_env \<Rightarrow> nat \<Rightarrow> string \<Rightarrow> string \<Rightarrow> tree \<Rightarrow> bool" where
  "holds_tmp E d tmp text s \<longleftrightarrow> save_dir_trusted (sv_euid E) (tr_stat s d) \<and> tr_entries s d tmp = Some (sv_new E) \<and>
     private_file (sv_euid E) (tr_stat s (sv_new E)) \<and> tr_data s (sv_new E) = text"

lemma holds_later: "others_only E \<Longrightarrow> holds_tmp E d tmp text s \<Longrightarrow> holds_tmp E d tmp text (sv_later E k s)"
  unfolding others_only_def others_step_def holds_tmp_def by metis

lemma trusted_later: "others_only E \<Longrightarrow> save_dir_trusted (sv_euid E) (tr_stat s d) \<Longrightarrow> save_dir_trusted (sv_euid E) (tr_stat (sv_later E k s) d)"
  unfolding others_only_def others_step_def by blast

lemma create_holds:
  assumes "create_tmp E d tmp s = Some (op, s')" "save_dir_trusted (sv_euid E) (tr_stat s d)"
  shows "op = Created d tmp (sv_new E) \<and> holds_tmp E d tmp [] s'"
proof -
  have "S_ISDIR (ss_mode (tr_stat s d))" using assms(2) by (auto simp: save_dir_trusted_def split: if_splits)
  then have "d \<noteq> sv_new E" using assms(1) by (auto simp: create_tmp_def split: if_splits)
  then show ?thesis using assms by (auto simp: create_tmp_def holds_tmp_def set_entry_def private_file_def split: if_splits)
qed

lemma write_holds:
  "holds_tmp E d tmp t0 s \<Longrightarrow> holds_tmp E d tmp (if sv_written E then text else take (sv_room E) text) (write_data E (sv_new E) text s)"
  by (simp add: holds_tmp_def write_data_def)

text \<open>What may remain of a save that failed after the file was created.\<close>

definition tidy :: "sv_env \<Rightarrow> nat \<Rightarrow> string \<Rightarrow> sv_op list \<Rightarrow> tree \<Rightarrow> bool" where
  "tidy E d tmp ops s \<longleftrightarrow> ops \<in> {[], [Unlinked d tmp (sv_new E)]} \<and> save_dir_trusted (sv_euid E) (tr_stat s d)"

lemma unlink_tidy:
  assumes "holds_tmp E d tmp text s"
  shows "tidy E d tmp (fst (unlink_tmp E d tmp s)) (snd (unlink_tmp E d tmp s))"
  using assms by (auto simp: tidy_def unlink_tmp_def holds_tmp_def set_entry_def)

lemma keep_tidy: "holds_tmp E d tmp text s \<Longrightarrow> tidy E d tmp [] s"
  by (simp add: tidy_def holds_tmp_def)

lemma abort_tidy:
  assumes "others_only E" "holds_tmp E d tmp text s"
  shows "tidy E d tmp (fst (save_abort E d tmp i s)) (snd (save_abort E d tmp i s))"
proof -
  have h: "holds_tmp E d tmp text (sv_later E 1 s)" "holds_tmp E d tmp text (sv_later E 2 (sv_later E 1 s))"
    using holds_later [OF assms(1)] assms(2) by blast+
  show ?thesis using unlink_tidy [OF h(2)] keep_tidy [OF h(1)] unfolding save_abort_def Let_def by auto
qed

lemma install_outcome:
  assumes E: "others_only E" and h: "holds_tmp E d tmp (if sv_written E then text else part) s"
    and run: "install_tmp E d tmp base i s = (r, ops, s')" and ne: "tmp \<noteq> base"
  shows "r = 0 \<and> ops = [Renamed d tmp base (sv_new E)] \<and> tr_entries s' d base = Some (sv_new E) \<and>
      tr_data s' (sv_new E) = text \<and> save_dir_trusted (sv_euid E) (tr_stat s' d) \<or>
    r = 1 \<and> tidy E d tmp ops s'"
proof -
  note l = holds_later [OF E]
  have u: "tidy E d tmp os y" if "holds_tmp E d tmp t x" "unlink_tmp E d tmp (sv_later E n x) = (os, y)" for n t x os y
    using unlink_tidy [OF l [OF that(1)], of n] that(2) by simp
  let ?s2 = "sv_later E 4 (sv_later E 3 s)"
  have h2: "holds_tmp E d tmp (if sv_written E then text else part) ?s2" by (intro l h)
  let ?s3 = "sv_later E 6 ?s2"
  have h3: "holds_tmp E d tmp (if sv_written E then text else part) ?s3" by (intro l h2)
  have h4: "holds_tmp E d tmp (if sv_written E then text else part) (sv_later E 7 ?s3)" by (intro l h3)
  let ?t = "tr_entries ?s3 d base = Some (sv_new E)"
  show ?thesis
  proof (cases "r = 0")
    case True
    then obtain op where w: "sv_written E" and rn: "rename_tmp E d tmp base ?s3 = Some (op, s')" "ops = [op]"
      using run by (auto simp: install_tmp_def Let_def split: if_splits option.splits prod.splits)
    have e: "tr_entries ?s3 d tmp = Some (sv_new E)" "tr_data ?s3 (sv_new E) = text" "save_dir_trusted (sv_euid E) (tr_stat ?s3 d)"
      using h3 w by (simp_all add: holds_tmp_def)
    have "op = Renamed d tmp base (sv_new E) \<and> s' = (if ?t then ?s3 else set_entry d tmp None (set_entry d base (Some (sv_new E)) ?s3))"
      using rn(1) e(1) by (auto simp: rename_tmp_def split: if_splits option.splits)
    then show ?thesis using rn(2) e ne True by (auto simp: set_entry_def)
  next
    case False
    then have "r = 1 \<and> tidy E d tmp ops s'"
      using run u [OF h2] u [OF h4] keep_tidy [OF h2] keep_tidy [OF h4]
      unfolding install_tmp_def Let_def by (auto split: if_splits option.splits prod.splits)
    then show ?thesis by blast
  qed
qed

section \<open>A save installs the whole dump or nothing\<close>

text \<open>The two ways a save may end: the changes made in the directory \<open>d\<close>, and the state left.\<close>

definition installed :: "sv_env \<Rightarrow> string \<Rightarrow> nat \<Rightarrow> sv_op list \<Rightarrow> tree \<Rightarrow> bool" where
  "installed E path d ops s \<longleftrightarrow> (\<exists>dumped. save_dump (sv_proc E) = (True, dumped) \<and>
     ops = [Created d (save_base path @ ''.tmp'') (sv_new E), Renamed d (save_base path @ ''.tmp'') (save_base path) (sv_new E)] \<and>
     tr_entries s d (save_base path) = Some (sv_new E) \<and> tr_data s (sv_new E) = save_header path @ dumped)"

definition withdrawn :: "sv_env \<Rightarrow> string \<Rightarrow> nat \<Rightarrow> sv_op list \<Rightarrow> bool" where
  "withdrawn E path d ops \<longleftrightarrow> (let tmp = save_base path @ ''.tmp'' in
     ops = [] \<or> ops = [Created d tmp (sv_new E)] \<or> ops = [Created d tmp (sv_new E), Unlinked d tmp (sv_new E)])"

definition save_result :: "sv_env \<Rightarrow> string \<Rightarrow> int \<Rightarrow> sv_op list \<Rightarrow> tree \<Rightarrow> bool" where
  "save_result E path code ops s \<longleftrightarrow> (\<exists>d. (ops \<noteq> [] \<longrightarrow> save_dir_trusted (sv_euid E) (tr_stat s d)) \<and>
     (code = 0 \<and> installed E path d ops s \<or> code = 1 \<and> withdrawn E path d ops))"

lemma save_result_none: "save_result E path 1 [] s"
  by (simp add: save_result_def withdrawn_def)

lemma save_result_tidy:
  "tidy E d (save_base path @ ''.tmp'') ops s \<Longrightarrow> save_result E path 1 (Created d (save_base path @ ''.tmp'') (sv_new E) # ops) s"
  unfolding save_result_def withdrawn_def tidy_def Let_def by (intro exI [of _ d]) auto

lemma save_result_install:
  assumes E: "others_only E" and h: "holds_tmp E d (save_base path @ ''.tmp'') (if sv_written E then save_header path @ dumped else part) s"
    and dump: "save_dump (sv_proc E) = (True, dumped)"
    and run: "install_tmp E d (save_base path @ ''.tmp'') (save_base path) i s = (r, ops, s')"
  shows "save_result E path r (Created d (save_base path @ ''.tmp'') (sv_new E) # ops) s'"
proof -
  have ne: "save_base path @ ''.tmp'' \<noteq> save_base path" by simp
  from install_outcome [OF E h run ne] show ?thesis
  proof
    assume "r = 1 \<and> tidy E d (save_base path @ ''.tmp'') ops s'"
    then show ?thesis using save_result_tidy by blast
  next
    assume *: "r = 0 \<and> ops = [Renamed d (save_base path @ ''.tmp'') (save_base path) (sv_new E)] \<and>
      tr_entries s' d (save_base path) = Some (sv_new E) \<and> tr_data s' (sv_new E) = save_header path @ dumped \<and>
      save_dir_trusted (sv_euid E) (tr_stat s' d)"
    then have "installed E path d (Created d (save_base path @ ''.tmp'') (sv_new E) # ops) s'"
      unfolding installed_def using dump by (intro exI [of _ dumped]) simp
    then show ?thesis unfolding save_result_def using * by blast
  qed
qed


definition calm_env :: sv_env where
  "calm_env = \<lparr>sv_euid = 0, sv_root = 2, sv_cwd = 2, sv_start = True, sv_openat = (\<lambda>_. True), sv_fstat_dir = (\<lambda>_. True),
     sv_create = True, sv_new = 7, sv_fdopen = True, sv_proc = (\<lambda>_. Some []), sv_written = True, sv_room = 0, sv_fsync = True,
     sv_fstat = (\<lambda>_. True), sv_lstat = (\<lambda>_. True), sv_fclose = True, sv_unlink = True, sv_rename = True,
     sv_adv = (\<lambda>_ s. s), sv_later = (\<lambda>_ s. s)\<rparr>"

definition root_tree :: tree where
  "root_tree = \<lparr>tr_entries = (\<lambda>_ _. None), tr_stat = (\<lambda>i. if i = 2 then \<lparr>ss_mode = 0x41ED, ss_uid = 0, ss_nlink = 2\<rparr>
     else \<lparr>ss_mode = 0, ss_uid = 0, ss_nlink = 0\<rparr>), tr_data = (\<lambda>_. [])\<rparr>"

lemma calm_others: "others_only calm_env"
  by (simp add: others_only_def others_step_def calm_env_def)

lemma calm_dump: "save_dump (sv_proc calm_env) = (True, [])"
  by (simp add: save_dump_def calm_env_def file_lines_def fgets_lines.simps)


end
