(* ===== verification/AvctlCli.thy ===== *)
theory AvctlCli
  imports AvctlSock AvctlSave
begin

text \<open>
  The commands of \<^verbatim>\<open>src/userspace/avctl/avctl.c\<close> and \<^verbatim>\<open>main\<close>, which picks one: adding and removing
  signatures, trusted binaries and protected paths, the policy, the listings, and the commands of the
  other theories on saving, loading, scanning and the quarantine. A command gives its exit status and what it
  prints on the standard output; the world it acts on is the module and the directory tree.
\<close>

record world =
  w_kernel :: kernel_view
  w_tree :: tree

text \<open>\<open>cl_readable\<close>: which of the proc files can be opened for reading; \<open>cl_file\<close>: what \<^verbatim>\<open>load\<close> reads.\<close>

record cli_env =
  cl_proc :: proc_env
  cl_readable :: "proc_file \<Rightarrow> bool"
  cl_file :: "string \<Rightarrow> string option"
  cl_sock :: sock_env
  cl_save :: sv_env

definition read_proc :: "cli_env \<Rightarrow> kernel_view \<Rightarrow> proc_file \<Rightarrow> string option" where
  "read_proc E kv f = (if cl_readable E f then proc_files kv f else None)"

section \<open>Listings\<close>

definition list_sig_line :: "string \<Rightarrow> string" where
  "list_sig_line line =
     (case uscanf [ConvS 7, ConvS 64, ConvLine 127] line of
        [algo, hex, name] \<Rightarrow> pad_to 8 algo @ CHR '' '' # pad_to 64 hex @ CHR '' '' # name @ [NL] | _ \<Rightarrow> [])"

definition list_trust_line :: "string \<Rightarrow> string" where
  "list_trust_line line =
     (case uscanf [ConvS 64, ConvLine 127] line of [hex, name] \<Rightarrow> pad_to 64 hex @ CHR '' '' # name @ [NL] | _ \<Rightarrow> [])"

definition do_list_generic :: "string option \<Rightarrow> string option \<Rightarrow> int \<times> string" where
  "do_list_generic proc header_algo =
     (case proc of
        None \<Rightarrow> (1, [])
      | Some s \<Rightarrow>
          let ls = map cstr (fgets_lines 512 s) in
          case header_algo of
            Some h \<Rightarrow> (0, pad_to 8 h @ CHR '' '' # pad_to 64 ''HASH'' @ '' NAME'' @ NL # concat (map list_sig_line ls))
          | None \<Rightarrow> (0, pad_to 64 ''SHA256'' @ '' NAME'' @ NL # concat (map list_trust_line ls)))"

definition do_list :: "cli_env \<Rightarrow> kernel_view \<Rightarrow> int \<times> string" where
  "do_list E kv = do_list_generic (read_proc E kv ProcSig) (Some ''ALGO'')"

definition do_trust_list :: "cli_env \<Rightarrow> kernel_view \<Rightarrow> int \<times> string" where
  "do_trust_list E kv = do_list_generic (read_proc E kv ProcTrust) None"

definition do_protect_list :: "cli_env \<Rightarrow> kernel_view \<Rightarrow> int \<times> string" where
  "do_protect_list E kv =
     (case read_proc E kv ProcProtected of
        None \<Rightarrow> (1, [])
      | Some s \<Rightarrow> (0, ''PROTECTED PATH'' @ NL #
          concat (map (save_named_line []) (map cstr (fgets_lines (AvUser.PATH_MAX + 8) s)))))"

section \<open>Commands on the module\<close>

text \<open>A command line that did not fit is refused; otherwise it is written and the outcome reported.\<close>

definition send_command ::
  "kapi \<Rightarrow> cli_env \<Rightarrow> proc_file \<Rightarrow> nat \<Rightarrow> string \<Rightarrow> string \<Rightarrow> kernel_view \<Rightarrow> (int \<times> string) \<times> kernel_view" where
  "send_command K E f bufsz cmd done kv =
     (if truncates bufsz cmd then ((1, []), kv)
      else case write_command_to K (cl_proc E) f cmd kv of
          (Inl _, kv') \<Rightarrow> ((1, []), kv') | (Inr _, kv') \<Rightarrow> ((0, done), kv'))"

text \<open>The name of a trusted binary: the remaining arguments joined in a buffer of 192 bytes.\<close>

primrec join_words :: "string list \<Rightarrow> bool \<Rightarrow> string \<Rightarrow> string option" where
  "join_words [] first name = Some name"
| "join_words (w # ws) first name =
     (if length name < 191 then
        let piece = (if first then [] else '' '') @ w in
        if 192 - length name \<le> length piece then None else join_words ws False (name @ piece)
      else Some name)"

definition do_trust :: "kapi \<Rightarrow> cli_env \<Rightarrow> string list \<Rightarrow> kernel_view \<Rightarrow> (int \<times> string) \<times> kernel_view" where
  "do_trust K E argv kv =
     (if length argv < 3 then ((1, []), kv)
      else if argv ! 2 = ''list'' then (do_trust_list E kv, kv)
      else if argv ! 2 = ''add'' then
        if length argv < 5 then ((1, []), kv)
        else if \<not> check_field_len (argv ! 3) AVCTL_HASH_HEX_MAXLEN then ((1, []), kv)
        else (case join_words (drop 4 argv) True [] of
            None \<Rightarrow> ((1, []), kv)
          | Some name \<Rightarrow>
              if \<not> check_field_len name AVCTL_NAME_MAXLEN then ((1, []), kv)
              else send_command K E ProcTrust 256 (''add '' @ argv ! 3 @ CHR '' '' # name)
                (''trusted: '' @ argv ! 3 @ '' ('' @ name @ '')'' @ [NL]) kv)
      else if argv ! 2 = ''del'' then
        if length argv < 4 then ((1, []), kv)
        else if \<not> check_field_len (argv ! 3) AVCTL_HASH_HEX_MAXLEN then ((1, []), kv)
        else send_command K E ProcTrust 256 (''del '' @ argv ! 3) (''untrusted: '' @ argv ! 3 @ [NL]) kv
      else ((1, []), kv))"

definition do_protect :: "kapi \<Rightarrow> cli_env \<Rightarrow> string list \<Rightarrow> kernel_view \<Rightarrow> (int \<times> string) \<times> kernel_view" where
  "do_protect K E argv kv =
     (if length argv < 3 then ((1, []), kv)
      else if argv ! 2 = ''list'' then (do_protect_list E kv, kv)
      else if argv ! 2 = ''add'' then
        if length argv < 4 then ((1, []), kv)
        else if take 1 (argv ! 3) \<noteq> ''/'' then ((1, []), kv)
        else if \<not> check_field_len (argv ! 3) (AvUser.PATH_MAX - 1) then ((1, []), kv)
        else send_command K E ProcProtected (AvUser.PATH_MAX + 8) (''add '' @ argv ! 3) (''protected: '' @ argv ! 3 @ [NL]) kv
      else if argv ! 2 = ''del'' then
        if length argv < 4 then ((1, []), kv)
        else if \<not> check_field_len (argv ! 3) (AvUser.PATH_MAX - 1) then ((1, []), kv)
        else send_command K E ProcProtected (AvUser.PATH_MAX + 8) (''del '' @ argv ! 3) (''unprotected: '' @ argv ! 3 @ [NL]) kv
      else ((1, []), kv))"

definition do_policy :: "kapi \<Rightarrow> cli_env \<Rightarrow> string list \<Rightarrow> kernel_view \<Rightarrow> (int \<times> string) \<times> kernel_view" where
  "do_policy K E argv kv =
     (if length argv < 3 then ((1, []), kv)
      else if argv ! 2 = ''get'' then
        (case read_proc E kv ProcPolicy of
           None \<Rightarrow> ((1, []), kv)
         | Some s \<Rightarrow> ((0, case fgets_lines 32 s of [] \<Rightarrow> [] | l # _ \<Rightarrow> cstr l), kv))
      else if argv ! 2 = ''set'' then
        if length argv < 4 then ((1, []), kv)
        else if argv ! 3 \<noteq> ''fail-open'' \<and> argv ! 3 \<noteq> ''fail-closed'' then ((1, []), kv)
        else (case write_command_to K (cl_proc E) ProcPolicy (argv ! 3) kv of
            (Inl _, kv') \<Rightarrow> ((1, []), kv')
          | (Inr _, kv') \<Rightarrow> ((0, ''daemon-unavailable policy: '' @ argv ! 3 @ [NL]), kv'))
      else ((1, []), kv))"

definition do_add :: "kapi \<Rightarrow> cli_env \<Rightarrow> string list \<Rightarrow> kernel_view \<Rightarrow> (int \<times> string) \<times> kernel_view" where
  "do_add K E argv kv =
     (if length argv < 5 then ((1, []), kv)
      else if \<not> check_algo (argv ! 2) then ((1, []), kv)
      else if \<not> check_field_len (argv ! 3) AVCTL_HASH_HEX_MAXLEN then ((1, []), kv)
      else if \<not> check_field_len (argv ! 4) AVCTL_NAME_MAXLEN then ((1, []), kv)
      else send_command K E ProcSig 256 (''add '' @ argv ! 2 @ CHR '' '' # argv ! 3 @ CHR '' '' # argv ! 4)
        (''added '' @ argv ! 2 @ '' signature: '' @ argv ! 3 @ '' ('' @ argv ! 4 @ '')'' @ [NL]) kv)"

definition do_del :: "kapi \<Rightarrow> cli_env \<Rightarrow> string list \<Rightarrow> kernel_view \<Rightarrow> (int \<times> string) \<times> kernel_view" where
  "do_del K E argv kv =
     (if length argv < 4 then ((1, []), kv)
      else if \<not> check_algo (argv ! 2) then ((1, []), kv)
      else if \<not> check_field_len (argv ! 3) AVCTL_HASH_HEX_MAXLEN then ((1, []), kv)
      else send_command K E ProcSig 256 (''del '' @ argv ! 2 @ CHR '' '' # argv ! 3)
        (''removed '' @ argv ! 2 @ '' signature: '' @ argv ! 3 @ [NL]) kv)"

section \<open>The dispatcher\<close>

definition do_quarantine ::
  "sock_env \<Rightarrow> (string \<Rightarrow> string \<times> 'e) \<Rightarrow> string list \<Rightarrow> (int \<times> string) \<times> 'e option" where
  "do_quarantine X peer argv =
     (if length argv < 3 then ((1, []), None)
      else if argv ! 2 = ''list'' then do_quarantine_list X peer
      else if argv ! 2 = ''restore'' then (if length argv < 4 then ((1, []), None) else do_quarantine_restore X peer (argv ! 3))
      else if argv ! 2 = ''delete'' then (if length argv < 4 then ((1, []), None) else do_quarantine_delete X peer (argv ! 3))
      else ((1, []), None))"

definition on_kernel :: "(int \<times> string) \<times> kernel_view \<Rightarrow> world \<Rightarrow> (int \<times> string) \<times> 'e option \<times> world" where
  "on_kernel rk w = (fst rk, None, w\<lparr>w_kernel := snd rk\<rparr>)"

definition avctl_main ::
  "kapi \<Rightarrow> cli_env \<Rightarrow> (string \<Rightarrow> string \<times> 'e) \<Rightarrow> string list \<Rightarrow> world \<Rightarrow> (int \<times> string) \<times> 'e option \<times> world" where
  "avctl_main K E peer argv w =
     (let kv = w_kernel w in
      if length argv < 2 then ((1, []), None, w)
      else if argv ! 1 = ''list'' then (do_list E kv, None, w)
      else if argv ! 1 = ''trust'' then on_kernel (do_trust K E argv kv) w
      else if argv ! 1 = ''protect'' then on_kernel (do_protect K E argv kv) w
      else if argv ! 1 = ''policy'' then on_kernel (do_policy K E argv kv) w
      else if argv ! 1 = ''save'' then
        (if length argv < 3 then ((1, []), None, w)
         else case do_save ((cl_save E)\<lparr>sv_proc := read_proc E kv\<rparr>) (argv ! 2) (w_tree w) of
             (r, _, t) \<Rightarrow> (r, None, w\<lparr>w_tree := t\<rparr>))
      else if argv ! 1 = ''load'' then
        (if length argv < 3 then ((1, []), None, w)
         else case do_load K (cl_proc E) (cl_file E (argv ! 2)) kv of (r, kv') \<Rightarrow> ((r, []), None, w\<lparr>w_kernel := kv'\<rparr>))
      else if argv ! 1 = ''scan'' then
        (if length argv < 3 then ((1, []), None, w)
         else case do_scan (cl_sock E) peer (argv ! 2) of (r, eff) \<Rightarrow> (r, eff, w))
      else if argv ! 1 = ''quarantine'' then (case do_quarantine (cl_sock E) peer argv of (r, eff) \<Rightarrow> (r, eff, w))
      else if argv ! 1 = ''add'' then on_kernel (do_add K E argv kv) w
      else if argv ! 1 = ''del'' then on_kernel (do_del K E argv kv) w
      else ((1, []), None, w))"

section \<open>What a well-formed command does\<close>

text \<open>The commands that change the module, as an operation on the sets it keeps; the first component says
  whether the command is reported as a success.\<close>

datatype cli_cmd = AddSig string string string | DelSig string string | AddTrust string "string list" | DelTrust string |
  AddPath string | DelPath string | SetPolicy bool

type_synonym view = "(av_algo \<times> string \<rightharpoonup> string) \<times> (string \<rightharpoonup> string) \<times> string set \<times> bool"

definition abs_view :: "kernel_view \<Rightarrow> view" where
  "abs_view kv = (sig_abs (kv_sig kv), trust_abs (kv_trust kv), protected_abs (kv_protected kv), kv_policy kv)"

fun unwords :: "string list \<Rightarrow> string" where
  "unwords [] = []"
| "unwords [w] = w"
| "unwords (w # v # ws) = w @ CHR '' '' # unwords (v # ws)"

fun argv_of :: "cli_cmd \<Rightarrow> string list" where
  "argv_of (AddSig a h n) = [''add'', a, h, n]"
| "argv_of (DelSig a h) = [''del'', a, h]"
| "argv_of (AddTrust h ws) = ''trust'' # ''add'' # h # ws"
| "argv_of (DelTrust h) = [''trust'', ''del'', h]"
| "argv_of (AddPath p) = [''protect'', ''add'', p]"
| "argv_of (DelPath p) = [''protect'', ''del'', p]"
| "argv_of (SetPolicy b) = [''policy'', ''set'', if b then ''fail-closed'' else ''fail-open'']"

text \<open>A word is what the kernel's scanner reads as one field; a digest to remove has its algorithm's
  length.\<close>

fun cmd_ok :: "cli_cmd \<Rightarrow> bool" where
  "cmd_ok (AddSig a h n) = (parse_algo a \<noteq> None \<and> word_ok h \<and> length h \<le> 64 \<and> name_ok n)"
| "cmd_ok (DelSig a h) = (case parse_algo a of None \<Rightarrow> False | Some x \<Rightarrow> word_ok h \<and> length h = algo_hexlen x)"
| "cmd_ok (AddTrust h ws) = (word_ok h \<and> length h \<le> 64 \<and> ws \<noteq> [] \<and> name_ok (unwords ws))"
| "cmd_ok (DelTrust h) = (word_ok h \<and> length h \<le> 64)"
| "cmd_ok (AddPath p) = path_clean p"
| "cmd_ok (DelPath p) = path_clean p"
| "cmd_ok (SetPolicy b) = True"

fun cli_spec :: "cli_cmd \<Rightarrow> view \<Rightarrow> bool \<times> view" where
  "cli_spec (AddSig a h n) (S, T, P, y) = (case sig_spec_add True (the (parse_algo a)) h n S of (r, S') \<Rightarrow> (r = OK, S', T, P, y))"
| "cli_spec (DelSig a h) (S, T, P, y) = (case sig_spec_del (the (parse_algo a)) h S of (r, S') \<Rightarrow> (r = OK, S', T, P, y))"
| "cli_spec (AddTrust h ws) (S, T, P, y) = (case trust_spec_add True h (unwords ws) T of (r, T') \<Rightarrow> (r = OK, S, T', P, y))"
| "cli_spec (DelTrust h) (S, T, P, y) = (case trust_spec_del h T of (r, T') \<Rightarrow> (r = OK, S, T', P, y))"
| "cli_spec (AddPath p) (S, T, P, y) = (p \<notin> P, S, T, insert p P, y)"
| "cli_spec (DelPath p) (S, T, P, y) = (p \<in> P, S, T, P - {p}, y)"
| "cli_spec (SetPolicy b) (S, T, P, y) = (True, S, T, P, b)"

section \<open>The commands reach the handlers\<close>

lemma word_char: "48 \<le> ccode (tolower c) \<Longrightarrow> ccode (tolower c) \<le> 122 \<Longrightarrow> \<not> isspace c \<and> c \<noteq> NUL \<and> u_lower c = tolower c"
  by (auto simp: tolower_def isupper_def isspace_def NUL_def u_lower_def ccode_char_of ccode_def split: if_splits)

lemma case_word:
  assumes "strcaseeq a w" "w \<in> {''md5'', ''sha1'', ''sha256''}"
  shows "word_ok a \<and> length a \<le> 6 \<and> check_algo a"
proof -
  have w: "w \<noteq> [] \<and> length w \<le> 6 \<and> map tolower w = w \<and> (\<forall>c \<in> set w. 48 \<le> ccode c \<and> ccode c \<le> 122)"
    using assms(2) by (elim insertE emptyE) (simp_all only:, code_simp+)
  then have a: "map tolower a = w" using assms(1) by (simp add: strcaseeq_def)
  have c: "\<forall>c \<in> set a. \<not> isspace c \<and> c \<noteq> NUL \<and> u_lower c = tolower c"
  proof
    fix c assume "c \<in> set a"
    then have "tolower c \<in> set w" using a by auto
    then show "\<not> isspace c \<and> c \<noteq> NUL \<and> u_lower c = tolower c" using w word_char by blast
  qed
  from c have "map u_lower a = w" using a by (metis map_cong)
  moreover have "length a = length w" using a by (metis length_map)
  ultimately show ?thesis using w c assms(2) by (auto simp: word_ok_def check_algo_def)
qed

lemma algo_word: "parse_algo a = Some x \<Longrightarrow> word_ok a \<and> length a \<le> 6 \<and> check_algo a"
  using case_word [of a "''md5''"] case_word [of a "''sha1''"] case_word [of a "''sha256''"]
  by (simp add: parse_algo_def split: if_splits)

lemma command_word: "word_ok ''add''" "word_ok ''del''" "\<not> strcaseeq ''del'' ''add''" "strcaseeq ''del'' ''del''" "strcaseeq ''add'' ''add''"
  unfolding word_ok_def by code_simp+

lemma no_nul_line: "NUL \<notin> set x \<Longrightarrow> NUL \<notin> set ((x :: string) @ [NL])"
  by (simp add: NUL_def NL_def)

text \<open>The fields the kernel's scanner finds in a command line.\<close>

lemma scan_names:
  assumes "word_ok h" "length h \<le> 64" "name_ok n"
  shows "sscanf [ConvS 64, ConvLine 63] (h @ CHR '' '' # n @ [NL]) = [h, n]"
  using word_ok_facts [OF assms(1)] name_ok_facts [OF assms(3)] sscanf_line_end [of n 63] assms(2)
  by (subst sscanf_word) auto

lemma scan_word:
  assumes "word_ok h" "length h \<le> 64"
  shows "sscanf (ConvS 64 # cs) (h @ [NL]) = [h]"
  using word_ok_facts [OF assms(1)] sscanf_word_end(1) [of h 64 cs] assms(2) by simp

lemma scan_command:
  assumes "word_ok v" "length v \<le> 7" "r \<noteq> []" "\<not> isspace (hd r)"
  shows "sscanf (ConvS 7 # cs) (v @ CHR '' '' # r) = v # sscanf cs r"
  using word_ok_facts [OF assms(1)] assms by (intro sscanf_word) auto

lemma word_hd: "word_ok h \<Longrightarrow> h @ x \<noteq> [] \<and> \<not> isspace (hd (h @ x))"
  using word_ok_facts by (cases h) auto

lemma sig_write_add:
  assumes "parse_algo a = Some x" "word_ok h" "length h \<le> 64" "name_ok n"
  shows "sig_proc_write K True True False ((''add '' @ a @ CHR '' '' # h @ CHR '' '' # n) @ [NL]) st =
    (case av_sigtable_add K True x h n st of
       (Inl e, t) \<Rightarrow> (Inl e, t) | (Inr _, t) \<Rightarrow> (Inr (length ((''add '' @ a @ CHR '' '' # h @ CHR '' '' # n) @ [NL])), t))"
proof -
  note a = algo_word [OF assms(1)]
  let ?l = "(''add '' @ a @ CHR '' '' # h @ CHR '' '' # n) @ [NL]"
  have l: "?l = ''add'' @ CHR '' '' # (a @ CHR '' '' # (h @ CHR '' '' # n @ [NL]))" by simp
  have "sscanf [ConvS 7, ConvS 7, ConvS 64, ConvLine 63] ?l = [''add'', a, h, n]"
    unfolding l using scan_command [OF command_word(1), of "a @ CHR '' '' # (h @ CHR '' '' # n @ [NL])"] a word_hd
      scan_command [of a "h @ CHR '' '' # n @ [NL]"] scan_names [OF assms(2,3,4)] assms(2) by simp
  moreover have c: "cstr ?l = ?l"
    using word_ok_facts [OF assms(2)] name_ok_facts [OF assms(4)] word_ok_facts [of a] a
    by (intro cstr_id no_nul_line) (auto simp: NUL_def)
  moreover have "length ?l < 256" using assms(3) name_ok_facts [OF assms(4)] a by simp
  ultimately show ?thesis using assms(1) unfolding sig_proc_write_def c by (simp add: command_word split: sum.split)
qed

lemma sig_write_del:
  assumes "parse_algo a = Some x" "word_ok h" "length h \<le> 64"
  shows "sig_proc_write K True True False ((''del '' @ a @ CHR '' '' # h) @ [NL]) st =
    (case av_sigtable_del K x h st of
       (Inl e, t) \<Rightarrow> (Inl ENOENT, t) | (Inr _, t) \<Rightarrow> (Inr (length ((''del '' @ a @ CHR '' '' # h) @ [NL])), t))"
proof -
  note a = algo_word [OF assms(1)]
  let ?l = "(''del '' @ a @ CHR '' '' # h) @ [NL]"
  have l: "?l = ''del'' @ CHR '' '' # (a @ CHR '' '' # (h @ [NL]))" by simp
  have "sscanf [ConvS 7, ConvS 7, ConvS 64, ConvLine 63] ?l = [''del'', a, h]"
    unfolding l using scan_command [OF command_word(2), of "a @ CHR '' '' # (h @ [NL])"] a word_hd
      scan_command [of a "h @ [NL]"] scan_word [OF assms(2,3)] assms(2) by simp
  moreover have c: "cstr ?l = ?l" using word_ok_facts [OF assms(2)] word_ok_facts [of a] a
    by (intro cstr_id no_nul_line) (auto simp: NUL_def)
  moreover have "length ?l < 256" using assms(3) a by simp
  ultimately show ?thesis using assms(1) unfolding sig_proc_write_def c by (simp add: command_word)
qed

lemma trust_write_add:
  assumes "word_ok h" "length h \<le> 64" "name_ok n"
  shows "trust_proc_write K True True False ((''add '' @ h @ CHR '' '' # n) @ [NL]) t =
    (case av_behavior_trust_add K True h n t of
       (Inl _, t') \<Rightarrow> (Inl EINVAL, t') | (Inr _, t') \<Rightarrow> (Inr (length ((''add '' @ h @ CHR '' '' # n) @ [NL])), t'))"
proof -
  let ?l = "(''add '' @ h @ CHR '' '' # n) @ [NL]"
  have l: "?l = ''add'' @ CHR '' '' # (h @ CHR '' '' # n @ [NL])" by simp
  have "sscanf [ConvS 7, ConvS 64, ConvLine 63] ?l = [''add'', h, n]"
    unfolding l using scan_command [OF command_word(1), of "h @ CHR '' '' # n @ [NL]"] word_hd [OF assms(1)]
      scan_names [OF assms] by simp
  moreover have c: "cstr ?l = ?l" using word_ok_facts [OF assms(1)] name_ok_facts [OF assms(3)]
    by (intro cstr_id no_nul_line) (auto simp: NUL_def)
  moreover have "length ?l < 192" using assms(2) name_ok_facts [OF assms(3)] by simp
  ultimately show ?thesis unfolding trust_proc_write_def c by (simp add: command_word)
qed

lemma trust_write_del:
  assumes "word_ok h" "length h \<le> 64"
  shows "trust_proc_write K True True False ((''del '' @ h) @ [NL]) t =
    (case av_behavior_trust_del K h t of
       (Inl _, t') \<Rightarrow> (Inl ENOENT, t') | (Inr _, t') \<Rightarrow> (Inr (length ((''del '' @ h) @ [NL])), t'))"
proof -
  let ?l = "(''del '' @ h) @ [NL]"
  have l: "?l = ''del'' @ CHR '' '' # (h @ [NL])" by simp
  have "sscanf [ConvS 7, ConvS 64, ConvLine 63] ?l = [''del'', h]"
    unfolding l using scan_command [OF command_word(2), of "h @ [NL]"] word_hd [OF assms(1)] scan_word [OF assms] by simp
  moreover have c: "cstr ?l = ?l" using word_ok_facts [OF assms(1)] by (intro cstr_id no_nul_line) (auto simp: NUL_def)
  moreover have "length ?l < 192" using assms(2) by simp
  ultimately show ?thesis unfolding trust_proc_write_def c by (simp add: command_word)
qed

lemma protect_write_del:
  assumes "path_clean p"
  shows "protected_proc_write K True 0 True True False ((''del '' @ p) @ [NL]) t =
    (case av_behavior_protect_del K p t of
       (Inl _, t') \<Rightarrow> (Inl ENOENT, t') | (Inr _, t') \<Rightarrow> (Inr (length ((''del '' @ p) @ [NL])), t'))"
proof -
  let ?l = "(''del '' @ p) @ [NL]"
  have p: "take 1 p = ''/''" "length p < 4096" "NUL \<notin> set p" "last p \<noteq> CR" using assms by (simp_all add: path_clean_def)
  then have ne: "p \<noteq> []" and hd: "hd p = CHR ''/''" by (cases p; simp)+
  have slash: "\<not> is_blank (hd p)" "\<not> isspace (hd (p @ [NL]))" using ne unfolding hd_append2 [OF ne] hd by code_simp+
  have l: "?l = ''del'' @ CHR '' '' # (p @ [NL])" by simp
  have d: "''del'' \<noteq> []" "\<forall>c \<in> set ''del''. \<not> isspace c" by code_simp+
  have "sscanf [ConvS 7] ?l = [''del'']" unfolding l using scan_command [OF command_word(2) _ _ slash(2)] by simp
  moreover have "protected_arg ?l = Some p" unfolding l by (rule protected_arg_command [OF d ne slash(1) p(4,2)])
  moreover have c: "cstr ?l = ?l" using p(3) by (intro cstr_id no_nul_line) (auto simp: NUL_def)
  moreover have "\<not> PROTECTED_WRITE_MAXLEN \<le> length ?l" using p(2) by (simp add: PROTECTED_WRITE_MAXLEN_def PATH_MAX_def)
  ultimately show ?thesis unfolding protected_proc_write_def c by (simp add: command_word)
qed

lemma unwords_Cons: "unwords (w # ws) = w @ concat (map (\<lambda>v. CHR '' '' # v) ws)"
  by (induction ws arbitrary: w) auto

lemma join_words_rest:
  "length (name @ concat (map (\<lambda>v. CHR '' '' # v) ws)) < 191 \<Longrightarrow>
    join_words ws False name = Some (name @ concat (map (\<lambda>v. CHR '' '' # v) ws))"
proof (induction ws arbitrary: name)
  case (Cons w ws)
  have "length name < 191" "\<not> 192 - length name \<le> length ('' '' @ w)" using Cons.prems by simp_all
  then show ?case using Cons.IH [of "name @ '' '' @ w"] Cons.prems by (simp add: Let_def)
qed simp

lemma join_words_unwords:
  assumes "ws \<noteq> []" "length (unwords ws) < 191"
  shows "join_words ws True [] = Some (unwords ws)"
proof (cases ws)
  case (Cons w vs)
  then show ?thesis using assms join_words_rest [of w vs] by (simp add: unwords_Cons Let_def)
qed (use assms in simp)

lemma send_written:
  assumes "writable (cl_proc E)" "length cmd < bufsz"
  shows "send_command K E f bufsz cmd done kv =
    (case proc_write K (cl_proc E) f (cmd @ [NL]) kv of (Inl _, kv') \<Rightarrow> ((1, []), kv') | (Inr _, kv') \<Rightarrow> ((0, done), kv'))"
  using assms by (auto simp: send_command_def write_command_to_def writable_def truncates_def split: prod.split sum.split)

text \<open>A write whose handler refines an operation on the sets is a refinement of the command.\<close>

definition refined :: "kapi \<Rightarrow> (int \<times> string) \<times> kernel_view \<Rightarrow> bool \<times> view \<Rightarrow> bool" where
  "refined K r s \<longleftrightarrow> kernel_inv K (snd r) \<and> (fst (fst r) = 0, abs_view (snd r)) = s"

lemma refined_written:
  assumes "writable (cl_proc E)" "length cmd < bufsz"
    and "proc_write K (cl_proc E) f (cmd @ [NL]) kv = ((case r of Inl e \<Rightarrow> Inl (g e) | Inr _ \<Rightarrow> Inr m), kv')" "kernel_inv K kv'"
  shows "refined K (send_command K E f bufsz cmd done kv) (r = OK, abs_view kv')"
  unfolding refined_def send_written [OF assms(1,2)] using assms(3,4) by (cases r) auto

lemma plain_access: "writable E \<Longrightarrow> px_capable E = True \<and> px_mem E = True \<and> px_fault E = False"
  by (simp add: writable_def)

lemma add_sig_refines:
  assumes w: "writable (cl_proc E)" and inv: "kernel_inv K kv" and c: "cmd_ok (AddSig a h n)"
  shows "refined K (do_add K E (prog # argv_of (AddSig a h n)) kv) (cli_spec (AddSig a h n) (abs_view kv))"
proof -
  obtain x where x: "parse_algo a = Some x" using c by auto
  have f: "word_ok h" "length h \<le> 64" "name_ok n" using c by simp_all
  obtain r t where r: "av_sigtable_add K True x h n (kv_sig kv) = (r, t)" by fastforce
  have i: "sig_inv K (kv_sig kv)" using inv by (simp add: kernel_inv_def)
  have s: "sig_spec_add True x h n (sig_abs (kv_sig kv)) = (r, sig_abs t)" "sig_inv K t"
    using av_sigtable_add_abs [OF i, of True x h n] av_sigtable_add_invD [OF r i] unfolding r by simp_all
  note a = algo_word [OF x] and h = word_ok_facts [OF f(1)] and n = name_ok_facts [OF f(3)]
  let ?cmd = "''add '' @ a @ CHR '' '' # h @ CHR '' '' # n"
  have d: "do_add K E (prog # argv_of (AddSig a h n)) kv = send_command K E ProcSig 256 ?cmd
      (''added '' @ a @ '' signature: '' @ h @ '' ('' @ n @ '')'' @ [NL]) kv"
    using a h n f by (simp add: do_add_def check_field_len_def)
  have len: "length ?cmd < 256" using a n f by simp
  have p: "proc_write K (cl_proc E) ProcSig (?cmd @ [NL]) kv =
      ((case r of Inl e \<Rightarrow> Inl (id e) | Inr _ \<Rightarrow> Inr (length (?cmd @ [NL]))), kv\<lparr>kv_sig := t\<rparr>)"
    using sig_write_add [OF x f, of K "kv_sig kv"] plain_access [OF w] unfolding r proc_write_def
    by (simp split: sum.split)
  have k: "kernel_inv K (kv\<lparr>kv_sig := t\<rparr>)" using inv s(2) by (simp add: kernel_inv_def)
  have e: "cli_spec (AddSig a h n) (abs_view kv) = (r = OK, abs_view (kv\<lparr>kv_sig := t\<rparr>))" using s(1) x by (simp add: abs_view_def)
  show ?thesis unfolding d e by (rule refined_written [OF w len p k])
qed

lemma del_sig_refines:
  assumes w: "writable (cl_proc E)" and inv: "kernel_inv K kv" and c: "cmd_ok (DelSig a h)"
  shows "refined K (do_del K E (prog # argv_of (DelSig a h)) kv) (cli_spec (DelSig a h) (abs_view kv))"
proof -
  obtain x where x: "parse_algo a = Some x" and f: "word_ok h" "length h = algo_hexlen x" using c by (auto split: option.splits)
  have h64: "length h \<le> 64" using f(2) algo_hexlen_le by simp
  obtain r t where r: "av_sigtable_del K x h (kv_sig kv) = (r, t)" by fastforce
  have i: "sig_inv K (kv_sig kv)" using inv by (simp add: kernel_inv_def)
  have s: "sig_spec_del x h (sig_abs (kv_sig kv)) = (r, sig_abs t)" "sig_inv K t"
    using sigtable_del_refines [OF i f(2)] unfolding r by simp_all
  note a = algo_word [OF x] and h = word_ok_facts [OF f(1)]
  let ?cmd = "''del '' @ a @ CHR '' '' # h"
  have d: "do_del K E (prog # argv_of (DelSig a h)) kv = send_command K E ProcSig 256 ?cmd
      (''removed '' @ a @ '' signature: '' @ h @ [NL]) kv"
    using a h h64 by (simp add: do_del_def check_field_len_def)
  have len: "length ?cmd < 256" using a h64 by simp
  have p: "proc_write K (cl_proc E) ProcSig (?cmd @ [NL]) kv =
      ((case r of Inl e \<Rightarrow> Inl ENOENT | Inr _ \<Rightarrow> Inr (length (?cmd @ [NL]))), kv\<lparr>kv_sig := t\<rparr>)"
    using sig_write_del [OF x f(1) h64, of K "kv_sig kv"] plain_access [OF w] unfolding r proc_write_def
    by (simp split: sum.split)
  have k: "kernel_inv K (kv\<lparr>kv_sig := t\<rparr>)" using inv s(2) by (simp add: kernel_inv_def)
  have e: "cli_spec (DelSig a h) (abs_view kv) = (r = OK, abs_view (kv\<lparr>kv_sig := t\<rparr>))" using s(1) x by (simp add: abs_view_def)
  show ?thesis unfolding d e by (rule refined_written [OF w len p k])
qed

lemma add_trust_refines:
  assumes w: "writable (cl_proc E)" and inv: "kernel_inv K kv" and c: "cmd_ok (AddTrust h ws)"
  shows "refined K (do_trust K E (prog # argv_of (AddTrust h ws)) kv) (cli_spec (AddTrust h ws) (abs_view kv))"
proof -
  let ?n = "unwords ws"
  have f: "word_ok h" "length h \<le> 64" "name_ok ?n" "ws \<noteq> []" using c by simp_all
  obtain r t where r: "av_behavior_trust_add K True h ?n (kv_trust kv) = (r, t)" by fastforce
  have i: "trust_inv K (kv_trust kv)" using inv by (simp add: kernel_inv_def)
  have s: "trust_spec_add True h ?n (trust_abs (kv_trust kv)) = (r, trust_abs t)" "trust_inv K t"
    using trust_add_refined [OF i, of True h ?n] unfolding r by simp_all
  note h = word_ok_facts [OF f(1)] and n = name_ok_facts [OF f(3)]
  have j: "join_words ws True [] = Some ?n" using f(4) n by (intro join_words_unwords) auto
  let ?cmd = "''add '' @ h @ CHR '' '' # ?n"
  have args: "\<not> length (prog # argv_of (AddTrust h ws)) < 5" using f(4) by (cases ws) auto
  have d: "do_trust K E (prog # argv_of (AddTrust h ws)) kv = send_command K E ProcTrust 256 ?cmd
      (''trusted: '' @ h @ '' ('' @ ?n @ '')'' @ [NL]) kv"
    using args h n f j by (simp add: do_trust_def check_field_len_def)
  have len: "length ?cmd < 256" using n f by simp
  have p: "proc_write K (cl_proc E) ProcTrust (?cmd @ [NL]) kv =
      ((case r of Inl e \<Rightarrow> Inl EINVAL | Inr _ \<Rightarrow> Inr (length (?cmd @ [NL]))), kv\<lparr>kv_trust := t\<rparr>)"
    using trust_write_add [OF f(1-3), of K "kv_trust kv"] plain_access [OF w] unfolding r proc_write_def
    by (simp split: sum.split)
  have k: "kernel_inv K (kv\<lparr>kv_trust := t\<rparr>)" using inv s(2) by (simp add: kernel_inv_def)
  have e: "cli_spec (AddTrust h ws) (abs_view kv) = (r = OK, abs_view (kv\<lparr>kv_trust := t\<rparr>))" using s(1) by (simp add: abs_view_def)
  show ?thesis unfolding d e by (rule refined_written [OF w len p k])
qed

lemma del_trust_refines:
  assumes w: "writable (cl_proc E)" and inv: "kernel_inv K kv" and c: "cmd_ok (DelTrust h)"
  shows "refined K (do_trust K E (prog # argv_of (DelTrust h)) kv) (cli_spec (DelTrust h) (abs_view kv))"
proof -
  have f: "word_ok h" "length h \<le> 64" using c by simp_all
  obtain r t where r: "av_behavior_trust_del K h (kv_trust kv) = (r, t)" by fastforce
  have i: "trust_inv K (kv_trust kv)" using inv by (simp add: kernel_inv_def)
  have s: "trust_spec_del h (trust_abs (kv_trust kv)) = (r, trust_abs t)" "trust_inv K t"
    using trust_del_refined [OF i, of h] unfolding r by simp_all
  let ?cmd = "''del '' @ h"
  have d: "do_trust K E (prog # argv_of (DelTrust h)) kv = send_command K E ProcTrust 256 ?cmd (''untrusted: '' @ h @ [NL]) kv"
    using word_ok_facts [OF f(1)] f by (simp add: do_trust_def check_field_len_def)
  have len: "length ?cmd < 256" using f by simp
  have p: "proc_write K (cl_proc E) ProcTrust (?cmd @ [NL]) kv =
      ((case r of Inl e \<Rightarrow> Inl ENOENT | Inr _ \<Rightarrow> Inr (length (?cmd @ [NL]))), kv\<lparr>kv_trust := t\<rparr>)"
    using trust_write_del [OF f, of K "kv_trust kv"] plain_access [OF w] unfolding r proc_write_def
    by (simp split: sum.split)
  have k: "kernel_inv K (kv\<lparr>kv_trust := t\<rparr>)" using inv s(2) by (simp add: kernel_inv_def)
  have e: "cli_spec (DelTrust h) (abs_view kv) = (r = OK, abs_view (kv\<lparr>kv_trust := t\<rparr>))" using s(1) by (simp add: abs_view_def)
  show ?thesis unfolding d e by (rule refined_written [OF w len p k])
qed

lemma add_path_refines:
  assumes w: "writable (cl_proc E)" and inv: "kernel_inv K kv" and c: "cmd_ok (AddPath p)"
  shows "refined K (do_protect K E (prog # argv_of (AddPath p)) kv) (cli_spec (AddPath p) (abs_view kv))"
proof -
  have f: "take 1 p = ''/''" "length p < 4096" "NUL \<notin> set p" "last p \<noteq> CR" "NL \<notin> set p" using c by (simp_all add: path_clean_def)
  obtain r t where r: "av_behavior_protect_add K True p (kv_protected kv) = (r, t)" by fastforce
  have i: "protected_inv K (kv_protected kv)" using inv by (simp add: kernel_inv_def)
  have s: "protected_abs t = insert p (protected_abs (kv_protected kv))" "(r = OK) = (p \<notin> protected_abs (kv_protected kv))" "protected_inv K t"
    using protect_add_refined [OF i, of True p] f unfolding r by (auto split: if_splits)
  let ?cmd = "''add '' @ p"
  have d: "do_protect K E (prog # argv_of (AddPath p)) kv = send_command K E ProcProtected (AvUser.PATH_MAX + 8) ?cmd (''protected: '' @ p @ [NL]) kv"
    using f by (simp add: do_protect_def check_field_len_def)
  have len: "length ?cmd < AvUser.PATH_MAX + 8" using f by simp
  have p: "proc_write K (cl_proc E) ProcProtected (?cmd @ [NL]) kv =
      ((case r of Inl e \<Rightarrow> Inl (id e) | Inr _ \<Rightarrow> Inr (length p + 5)), kv\<lparr>kv_protected := t\<rparr>)"
    using protect_add_command [OF f(1-4), of K "kv_protected kv"] plain_access [OF w] unfolding r proc_write_def
    by (simp split: sum.split)
  have k: "kernel_inv K (kv\<lparr>kv_protected := t\<rparr>)" using inv s(3) by (simp add: kernel_inv_def)
  have e: "cli_spec (AddPath p) (abs_view kv) = (r = OK, abs_view (kv\<lparr>kv_protected := t\<rparr>))" using s(1,2) by (simp add: abs_view_def)
  show ?thesis unfolding d e by (rule refined_written [OF w len p k])
qed

lemma del_path_refines:
  assumes w: "writable (cl_proc E)" and inv: "kernel_inv K kv" and c: "cmd_ok (DelPath p)"
  shows "refined K (do_protect K E (prog # argv_of (DelPath p)) kv) (cli_spec (DelPath p) (abs_view kv))"
proof -
  have f: "path_clean p" "length p < 4096" "NL \<notin> set p" using c by (simp_all add: path_clean_def)
  obtain r t where r: "av_behavior_protect_del K p (kv_protected kv) = (r, t)" by fastforce
  have i: "protected_inv K (kv_protected kv)" using inv by (simp add: kernel_inv_def)
  have s: "protected_abs t = protected_abs (kv_protected kv) - {p}" "(r = OK) = (p \<in> protected_abs (kv_protected kv))" "protected_inv K t"
    using protect_del_refined [OF i, of p] unfolding r by (auto split: if_splits)
  let ?cmd = "''del '' @ p"
  have d: "do_protect K E (prog # argv_of (DelPath p)) kv = send_command K E ProcProtected (AvUser.PATH_MAX + 8) ?cmd (''unprotected: '' @ p @ [NL]) kv"
    using f by (simp add: do_protect_def check_field_len_def)
  have len: "length ?cmd < AvUser.PATH_MAX + 8" using f by simp
  have p: "proc_write K (cl_proc E) ProcProtected (?cmd @ [NL]) kv =
      ((case r of Inl e \<Rightarrow> Inl ENOENT | Inr _ \<Rightarrow> Inr (length (?cmd @ [NL]))), kv\<lparr>kv_protected := t\<rparr>)"
    using protect_write_del [OF f(1), of K "kv_protected kv"] plain_access [OF w] unfolding r proc_write_def
    by (simp split: sum.split)
  have k: "kernel_inv K (kv\<lparr>kv_protected := t\<rparr>)" using inv s(3) by (simp add: kernel_inv_def)
  have e: "cli_spec (DelPath p) (abs_view kv) = (r = OK, abs_view (kv\<lparr>kv_protected := t\<rparr>))" using s(1,2) by (simp add: abs_view_def)
  show ?thesis unfolding d e by (rule refined_written [OF w len p k])
qed

lemma policy_refines:
  assumes w: "writable (cl_proc E)" and inv: "kernel_inv K kv"
  shows "refined K (do_policy K E (prog # argv_of (SetPolicy b)) kv) (cli_spec (SetPolicy b) (abs_view kv))"
proof -
  let ?v = "if b then ''fail-closed'' else ''fail-open''"
  have p: "daemon_policy_proc_write False 0 (?v @ [NL]) (kv_policy kv) = (Inr (length (?v @ [NL])), b)"
    using policy_roundtrip by (cases b; cases "kv_policy kv") (simp_all add: daemon_policy_proc_show_def)
  have wr: "write_command_to K (cl_proc E) ProcPolicy ?v kv = (OK, kv\<lparr>kv_policy := b\<rparr>)"
    using w p by (simp add: write_command_to_def proc_write_def writable_def)
  have "do_policy K E (prog # argv_of (SetPolicy b)) kv = ((0, ''daemon-unavailable policy: '' @ ?v @ [NL]), kv\<lparr>kv_policy := b\<rparr>)"
    using wr by (cases b) (simp_all add: do_policy_def)
  then show ?thesis using inv by (simp add: refined_def kernel_inv_def abs_view_def)
qed


definition demo_cli :: cli_env where
  "demo_cli = \<lparr>cl_proc = plain_env, cl_readable = (\<lambda>_. True), cl_file = (\<lambda>_. None), cl_sock = plain_sock, cl_save = calm_env\<rparr>"


end
