(* ===== verification/AvdServe.thy ===== *)
theory AvdServe
  imports AvdTrust
begin

text \<open>
  The life of the daemon in \<^verbatim>\<open>src/userspace/avd/avd.c\<close>: the tunables, the order in which \<^verbatim>\<open>main\<close> brings its
  parts up, the control socket it creates, and the threads once it serves (\<^verbatim>\<open>main\<close>'s receive loop and
  shutdown, the scan workers, \<^verbatim>\<open>control_accept_main\<close> and its connection threads) as a step relation.
  The scan queue is counted here and modelled in \<^verbatim>\<open>AvdQueue\<close>; a connection is modelled in
  \<^verbatim>\<open>AvdControl\<close>. What a library or system call reports is a field of a record.
\<close>

section \<open>Start-up\<close>

definition parse_tunable_env :: "string option \<Rightarrow> int \<Rightarrow> int \<Rightarrow> int \<Rightarrow> int" where
  "parse_tunable_env val default_val min_val max_val =
     (case val of
        None \<Rightarrow> default_val
      | Some s \<Rightarrow>
          if s = [] then default_val
          else
            let (neg, ds, rest) = scan_number 10 s; v = int (digits_value 10 ds); parsed = (if neg then - v else v) in
            if parsed < - (2 ^ 63) \<or> 2 ^ 63 \<le> parsed \<or> ds = [] \<or> rest \<noteq> [] \<or> parsed < min_val \<or> parsed > max_val
            then default_val else parsed)"

definition AVD_SCAN_THREADS_DEFAULT :: int where "AVD_SCAN_THREADS_DEFAULT = 8"
definition AVD_SCAN_THREADS_MIN :: int where "AVD_SCAN_THREADS_MIN = 1"
definition AVD_SCAN_THREADS_MAX :: int where "AVD_SCAN_THREADS_MAX = 256"
definition AVD_SCAN_QUEUE_MAX_DEFAULT :: int where "AVD_SCAN_QUEUE_MAX_DEFAULT = 256"
definition AVD_SCAN_QUEUE_MIN :: int where "AVD_SCAN_QUEUE_MIN = 1"
definition AVD_SCAN_QUEUE_MAX_MAX :: int where "AVD_SCAN_QUEUE_MAX_MAX = 65536"

text \<open>A path from the command line, else from the environment, else the default.\<close>

definition configured :: "string list \<Rightarrow> nat \<Rightarrow> string option \<Rightarrow> string \<Rightarrow> string" where
  "configured argv i env dflt = (if i < length argv then argv ! i else case env of Some v \<Rightarrow> v | None \<Rightarrow> dflt)"

text \<open>The rule files of a directory: \<open>lr_open\<close> says whether one can be read, \<open>lr_compile\<close> how many errors the
  compiler counted. The result is what \<^verbatim>\<open>load_rules\<close> returns and the files compiled in.\<close>

record rules_env =
  lr_initialize :: bool
  lr_create :: bool
  lr_dir :: "string list option"
  lr_open :: "string \<Rightarrow> bool"
  lr_compile :: "string \<Rightarrow> nat"
  lr_get :: bool

definition has_suffix :: "string \<Rightarrow> string \<Rightarrow> bool" where
  "has_suffix suf s \<longleftrightarrow> length suf \<le> length s \<and> drop (length s - length suf) s = suf"

definition rule_path :: "string \<Rightarrow> string \<Rightarrow> string" where
  "rule_path dir d_name = snprintf PATH_MAX (dir @ CHR ''/'' # d_name)"

definition load_rules :: "rules_env \<Rightarrow> string \<Rightarrow> int \<times> string list" where
  "load_rules R dir =
     (if \<not> lr_initialize R then (- 1, [])
      else if \<not> lr_create R then (- 1, [])
      else case lr_dir R of
        None \<Rightarrow> (- 1, [])
      | Some entries \<Rightarrow>
          let names = filter (\<lambda>n. has_suffix ''.yar'' n \<or> has_suffix ''.yara'' n) entries;
              paths = map (rule_path dir) names;
              loaded = filter (\<lambda>p. lr_open R p \<and> lr_compile R p = 0) paths
          in if \<not> lr_get R then (- 1, []) else (0, loaded))"

section \<open>The control socket\<close>

definition absolute :: "string \<Rightarrow> bool" where
  "absolute p \<longleftrightarrow> p \<noteq> [] \<and> hd p = CHR ''/''"

text \<open>What the path names: an inode and its mode.\<close>

record path_ent =
  en_ino :: nat
  en_mode :: u32

datatype sock_op = SockUnlinked path_ent | SockBound nat | SockChmod path_ent | SockClosed

record sock_start =
  ss_euid :: u32
  ss_mkdir :: "errno option"
  ss_lstat_dir :: "string \<Rightarrow> file_stat option"
  ss_lstat :: "nat \<Rightarrow> bool"
  ss_unlink :: bool
  ss_socket :: bool
  ss_bind :: bool
  ss_new :: nat
  ss_umask :: u32
  ss_chmod :: bool
  ss_listen :: bool
  ss_others :: "nat \<Rightarrow> path_ent option \<Rightarrow> path_ent option"

definition S_ISSOCK :: "u32 \<Rightarrow> bool" where "S_ISSOCK m \<longleftrightarrow> m AND S_IFMT = 0xC000"

definition dirname :: "string \<Rightarrow> string" where
  "dirname path =
     (let t = strip_slashes path in
      case strrchr_after (CHR ''/'') t of
        None \<Rightarrow> ''.''
      | Some b \<Rightarrow> let u = strip_slashes (take (length t - length b - 1) t) in if u = [] then ''/'' else u)"

definition ensure_parent_dir :: "sock_start \<Rightarrow> string \<Rightarrow> bool" where
  "ensure_parent_dir Q path =
     (if truncates PATH_MAX path then False
      else if ss_mkdir Q \<noteq> None \<and> ss_mkdir Q \<noteq> Some EEXIST then False
      else fst (dir_hierarchy_trusted (ss_lstat_dir Q) (ss_euid Q) (dirname path) True))"

definition sock_lstat :: "sock_start \<Rightarrow> nat \<Rightarrow> path_ent option \<Rightarrow> path_ent option" where
  "sock_lstat Q n e = (if ss_lstat Q n then e else None)"

text \<open>The entry at the path is passed along; \<open>ss_others n\<close> is what other processes did to it before the
  \<open>n\<close>th call.\<close>

definition serve_socket :: "sock_start \<Rightarrow> path_ent option \<Rightarrow> sock_op list \<Rightarrow> bool \<times> sock_op list \<times> path_ent option" where
  "serve_socket Q e ops =
     (let e3 = ss_others Q 3 e in
      case sock_lstat Q 3 e3 of
        None \<Rightarrow> (False, ops @ [SockClosed], e3)
      | Some ent \<Rightarrow>
          if \<not> S_ISSOCK (en_mode ent) then (False, ops @ [SockClosed], e3)
          else
            let e4 = ss_others Q 4 e3 in
            case e4 of
              None \<Rightarrow> (False, ops @ [SockClosed], e4)
            | Some tgt \<Rightarrow>
                if \<not> ss_chmod Q then (False, ops @ [SockClosed], e4)
                else
                  let new = tgt\<lparr>en_mode := (en_mode tgt AND NOT 0xFFF) OR 0x1B6\<rparr>; ops' = ops @ [SockChmod tgt];
                      e5 = ss_others Q 5 (Some new) in
                  case sock_lstat Q 5 e5 of
                    None \<Rightarrow> (False, ops' @ [SockClosed], e5)
                  | Some fin \<Rightarrow>
                      if \<not> S_ISSOCK (en_mode fin) \<or> en_mode fin AND 0x1FF \<noteq> 0x1B6 then (False, ops' @ [SockClosed], e5)
                      else if \<not> ss_listen Q then 
                        (if ss_unlink Q then (False, ops' @ [SockClosed, SockUnlinked fin], None) else (False, ops' @ [SockClosed], e5))
                      else (True, ops', e5))"

definition bound_mode :: "u32 \<Rightarrow> u32" where
  "bound_mode umask = 0xC000 OR (0x1FF AND NOT umask)"

definition bind_socket :: "sock_start \<Rightarrow> path_ent option \<Rightarrow> sock_op list \<Rightarrow> bool \<times> sock_op list \<times> path_ent option" where
  "bind_socket Q e ops =
     (if \<not> ss_socket Q then (False, ops, e)
      else
        let e2 = ss_others Q 2 e in
        if \<not> ss_bind Q \<or> e2 \<noteq> None then (False, ops @ [SockClosed], e2)
        else serve_socket Q (Some \<lparr>en_ino = ss_new Q, en_mode = bound_mode (ss_umask Q)\<rparr>) (ops @ [SockBound (ss_new Q)]))"

definition start_control_socket :: "sock_start \<Rightarrow> string \<Rightarrow> path_ent option \<Rightarrow> bool \<times> sock_op list \<times> path_ent option" where
  "start_control_socket Q path e =
     (if \<not> absolute path then (False, [], e)
      else if \<not> ensure_parent_dir Q path then (False, [], e)
      else if 108 \<le> length path then (False, [], e)
      else
        let e0 = ss_others Q 0 e in
        case e0 of
          None \<Rightarrow> if ss_lstat Q 0 then bind_socket Q e0 [] else (False, [], e0)
        | Some ent \<Rightarrow>
            if \<not> ss_lstat Q 0 then (False, [], e0)
            else if S_ISLNK (en_mode ent) then (False, [], e0)
            else if \<not> S_ISSOCK (en_mode ent) then (False, [], e0)
            else
              let e1 = ss_others Q 1 e0 in
              case e1 of
                None \<Rightarrow> bind_socket Q None []
              | Some old \<Rightarrow> if ss_unlink Q then bind_socket Q None [SockUnlinked old] else bind_socket Q e1 [])"

section \<open>The threads\<close>

definition AVD_CONTROL_MAX_CONNS :: nat where "AVD_CONTROL_MAX_CONNS = 32"

text \<open>Where the main thread stands (at \<open>Receiving\<close> it reads \<^verbatim>\<open>running\<close>, at \<open>Entering\<close> it is about to call
  \<^verbatim>\<open>nl_recvmsgs_default\<close>, at \<open>Blocked\<close> it waits there), where the accept loop stands (\<open>AcceptTop\<close> reads
  \<^verbatim>\<open>running\<close>), and the number of live workers, queued scans, live connection threads and connections not accepted yet.\<close>

datatype main_pc = Receiving | Entering | Blocked | Joining | Waking | JoiningAccept | Finished

datatype accept_pc = AcceptTop | Accepting | Accepted | SlotTaken | AcceptDone

type_synonym i32 = "32 word"

record daemon =
  dm_running :: bool
  dm_main :: main_pc
  dm_shutting :: bool
  dm_queue :: nat
  dm_workers :: nat
  dm_control :: bool
  dm_accept :: accept_pc
  dm_count :: i32
  dm_conns :: nat
  dm_backlog :: nat

definition daemon_init :: "nat \<Rightarrow> bool \<Rightarrow> daemon" where
  "daemon_init n control =
     \<lparr>dm_running = True, dm_main = Receiving, dm_shutting = False, dm_queue = 0, dm_workers = n, dm_control = control,
      dm_accept = (if control then AcceptTop else AcceptDone), dm_count = 0, dm_conns = 0, dm_backlog = 0\<rparr>"

text \<open>The lock region around the slots: a slot is taken if one is free.\<close>

definition reserve_slot :: "i32 \<Rightarrow> bool \<times> i32" where
  "reserve_slot c = (if sint c < int AVD_CONTROL_MAX_CONNS then (True, c + 1) else (False, c))"

definition release_slot :: "i32 \<Rightarrow> i32" where
  "release_slot c = c - 1"

text \<open>What the daemon's own threads do. Leaving the receive loop tells the workers; a receive error leaves
  it without touching \<^verbatim>\<open>running\<close>.\<close>

inductive own_step :: "daemon \<Rightarrow> daemon \<Rightarrow> bool" where
  recv_stop: "dm_main s = Receiving \<Longrightarrow> \<not> dm_running s \<Longrightarrow> own_step s (s\<lparr>dm_main := Joining, dm_shutting := True\<rparr>)"
| recv_enter: "dm_main s = Receiving \<Longrightarrow> dm_running s \<Longrightarrow> own_step s (s\<lparr>dm_main := Entering\<rparr>)"
| recv_block: "dm_main s = Entering \<Longrightarrow> own_step s (s\<lparr>dm_main := Blocked\<rparr>)"
| worker_scan: "0 < dm_workers s \<Longrightarrow> 0 < dm_queue s \<Longrightarrow> own_step s (s\<lparr>dm_queue := dm_queue s - 1\<rparr>)"
| worker_exit: "0 < dm_workers s \<Longrightarrow> dm_shutting s \<Longrightarrow> dm_queue s = 0 \<Longrightarrow> own_step s (s\<lparr>dm_workers := dm_workers s - 1\<rparr>)"
| joined: "dm_main s = Joining \<Longrightarrow> dm_workers s = 0 \<Longrightarrow>
     own_step s (s\<lparr>dm_main := if dm_control s then Waking else Finished\<rparr>)"
| wake: "dm_main s = Waking \<Longrightarrow> own_step s (s\<lparr>dm_main := JoiningAccept, dm_backlog := dm_backlog s + 1\<rparr>)"
| join_accept: "dm_main s = JoiningAccept \<Longrightarrow> dm_accept s = AcceptDone \<Longrightarrow> own_step s (s\<lparr>dm_main := Finished\<rparr>)"
| accept_loop: "dm_accept s = AcceptTop \<Longrightarrow> own_step s (s\<lparr>dm_accept := if dm_running s then Accepting else AcceptDone\<rparr>)"
| accept_conn: "dm_accept s = Accepting \<Longrightarrow> 0 < dm_backlog s \<Longrightarrow>
     own_step s (s\<lparr>dm_accept := Accepted, dm_backlog := dm_backlog s - 1\<rparr>)"
| slot_taken: "dm_accept s = Accepted \<Longrightarrow> reserve_slot (dm_count s) = (True, c) \<Longrightarrow>
     own_step s (s\<lparr>dm_accept := SlotTaken, dm_count := c\<rparr>)"
| turned_away: "dm_accept s = Accepted \<Longrightarrow> reserve_slot (dm_count s) = (False, c) \<Longrightarrow>
     own_step s (s\<lparr>dm_accept := AcceptTop, dm_count := c\<rparr>)"
| spawned: "dm_accept s = SlotTaken \<Longrightarrow> own_step s (s\<lparr>dm_accept := AcceptTop, dm_conns := dm_conns s + 1\<rparr>)"
| not_spawned: "dm_accept s = SlotTaken \<Longrightarrow>
     own_step s (s\<lparr>dm_accept := AcceptTop, dm_count := release_slot (dm_count s)\<rparr>)"
| served: "0 < dm_conns s \<Longrightarrow> own_step s (s\<lparr>dm_conns := dm_conns s - 1, dm_count := release_slot (dm_count s)\<rparr>)"

text \<open>What happens to it: a request from the kernel or another message, a connection, a stop signal
  (delivered to the main thread; the code relies on it interrupting the receive call that thread waits
  in), an error from the netlink socket, a wake-up connection that fails, an interrupted or failing
  \<^verbatim>\<open>accept\<close>. \<open>mx\<close> is the bound of the scan queue.\<close>

inductive outer_step :: "nat \<Rightarrow> daemon \<Rightarrow> daemon \<Rightarrow> bool" for mx where
  request: "dm_main s = Blocked \<Longrightarrow> dm_queue s < mx \<Longrightarrow> outer_step mx s (s\<lparr>dm_queue := dm_queue s + 1, dm_main := Receiving\<rparr>)"
| other_message: "dm_main s = Blocked \<Longrightarrow> outer_step mx s (s\<lparr>dm_main := Receiving\<rparr>)"
| connection: "dm_control s \<Longrightarrow> outer_step mx s (s\<lparr>dm_backlog := dm_backlog s + 1\<rparr>)"
| stop_signal: "outer_step mx s (s\<lparr>dm_running := False, dm_main := if dm_main s = Blocked then Receiving else dm_main s\<rparr>)"
| recv_error: "dm_main s = Blocked \<Longrightarrow> outer_step mx s (s\<lparr>dm_main := Joining, dm_shutting := True\<rparr>)"
| wake_failed: "dm_main s = Waking \<Longrightarrow> outer_step mx s (s\<lparr>dm_main := JoiningAccept\<rparr>)"
| accept_intr: "dm_accept s = Accepting \<Longrightarrow> outer_step mx s (s\<lparr>dm_accept := AcceptTop\<rparr>)"
| accept_error: "dm_accept s = Accepting \<Longrightarrow> \<not> dm_running s \<Longrightarrow> outer_step mx s (s\<lparr>dm_accept := AcceptDone\<rparr>)"

definition daemon_step :: "nat \<Rightarrow> daemon \<Rightarrow> daemon \<Rightarrow> bool" where
  "daemon_step mx s t \<longleftrightarrow> own_step s t \<or> outer_step mx s t"

definition daemon_reach :: "nat \<Rightarrow> nat \<Rightarrow> bool \<Rightarrow> daemon \<Rightarrow> bool" where
  "daemon_reach mx n control s \<longleftrightarrow> (daemon_step mx)\<^sup>*\<^sup>* (daemon_init n control) s"

section \<open>The way up\<close>

text \<open>What happens on the way up, in order.\<close>

datatype start_ev = SelfTest | Rules | FuzzyCorpus | TlshCorpus | Connected | Registered | Workers nat | ControlUp | Serving

record start_env =
  se_quarantine :: "string option"
  se_sock :: "string option"
  se_threads :: "string option"
  se_queue :: "string option"
  se_sigaction :: bool
  se_block :: bool
  se_selftest :: bool
  se_rules :: bool
  se_fuzzy :: bool
  se_tlsh :: bool
  se_alloc :: bool
  se_connect :: bool
  se_resolve :: bool
  se_register :: bool
  se_calloc :: bool
  se_spawn :: nat
  se_control :: bool
  se_accept :: bool
  se_unblock :: bool

text \<open>\<open>Inl\<close> the exit status, or \<open>Inr\<close> the daemon as its threads go on. The first \<open>se_spawn\<close> workers can be
  created. When the signals cannot be unblocked, the main thread goes straight to joining the others.\<close>

definition avd_scan_queue_max :: "start_env \<Rightarrow> int" where
  "avd_scan_queue_max S = parse_tunable_env (se_queue S) AVD_SCAN_QUEUE_MAX_DEFAULT AVD_SCAN_QUEUE_MIN AVD_SCAN_QUEUE_MAX_MAX"

definition start_threads :: "start_env \<Rightarrow> int \<Rightarrow> start_ev list \<Rightarrow> (int + daemon) \<times> start_ev list" where
  "start_threads S threads up =
     (let spawned = min (nat threads) (se_spawn S) in
      if \<not> se_calloc S then (Inl 1, up)
      else if spawned = 0 then (Inl 1, up)
      else
        let control = (se_control S \<and> se_accept S);
            up2 = up @ [Workers spawned] @ (if control then [ControlUp] else []) in
        if \<not> se_unblock S then (Inr ((daemon_init spawned control)\<lparr>dm_main := Joining, dm_shutting := True\<rparr>), up2)
        else (Inr (daemon_init spawned control), up2 @ [Serving]))"

definition start_engines :: "start_env \<Rightarrow> int \<Rightarrow> (int + daemon) \<times> start_ev list" where
  "start_engines S threads =
     (if \<not> se_selftest S then (Inl 1, [])
      else if \<not> se_rules S then (Inl 1, [SelfTest])
      else if \<not> se_fuzzy S then (Inl 1, [SelfTest, Rules])
      else if \<not> se_tlsh S then (Inl 1, [SelfTest, Rules, FuzzyCorpus])
      else if \<not> se_alloc S then (Inl 1, [SelfTest, Rules, FuzzyCorpus, TlshCorpus])
      else if \<not> se_connect S \<or> \<not> se_resolve S then (Inl 1, [SelfTest, Rules, FuzzyCorpus, TlshCorpus])
      else if \<not> se_register S then (Inl 1, [SelfTest, Rules, FuzzyCorpus, TlshCorpus, Connected])
      else start_threads S threads [SelfTest, Rules, FuzzyCorpus, TlshCorpus, Connected, Registered])"

definition avd_start :: "start_env \<Rightarrow> string list \<Rightarrow> (int + daemon) \<times> start_ev list" where
  "avd_start S argv =
     (let qdir = configured argv 3 (se_quarantine S) ''/var/lib/av-quarantine'';
          spath = configured argv 5 (se_sock S) ''/run/avd/control.sock'' in
      if \<not> absolute qdir then (Inl 1, [])
      else if \<not> absolute spath then (Inl 1, [])
      else
        let threads = parse_tunable_env (se_threads S) AVD_SCAN_THREADS_DEFAULT AVD_SCAN_THREADS_MIN AVD_SCAN_THREADS_MAX in
        if \<not> se_sigaction S then (Inl 1, [])
        else if \<not> se_block S then (Inl 1, [])
        else start_engines S threads)"

section \<open>Connections are bounded and the shutdown is complete\<close>

definition daemon_inv :: "bool \<Rightarrow> daemon \<Rightarrow> bool" where
  "daemon_inv control s \<longleftrightarrow> dm_control s = control \<and>
     sint (dm_count s) = int (dm_conns s) + (if dm_accept s = SlotTaken then 1 else 0) \<and> sint (dm_count s) \<le> 32 \<and>
     (\<not> control \<longrightarrow> dm_accept s = AcceptDone) \<and>
     (dm_shutting s \<longleftrightarrow> dm_main s \<in> {Joining, Waking, JoiningAccept, Finished}) \<and>
     (dm_workers s = 0 \<longrightarrow> dm_queue s = 0 \<and> dm_shutting s) \<and>
     (dm_main s \<in> {Waking, JoiningAccept, Finished} \<longrightarrow> dm_workers s = 0) \<and>
     (dm_main s \<in> {Waking, JoiningAccept} \<longrightarrow> control) \<and>
     (control \<and> dm_accept s = AcceptDone \<longrightarrow> \<not> dm_running s) \<and>
     (dm_main s = Finished \<longrightarrow> dm_accept s = AcceptDone)"

lemma daemon_inv_init: "0 < n \<Longrightarrow> daemon_inv control (daemon_init n control)"
  by (simp add: daemon_inv_def daemon_init_def)

lemma sint_slots: "0 \<le> k \<Longrightarrow> k \<le> 33 \<Longrightarrow> sint (of_int k :: i32) = k"
  by (simp add: signed_of_int signed_take_bit_int_eq_self)

lemma slot_arith:
  assumes "0 \<le> sint (c :: i32)" "sint c \<le> 32"
  shows "sint (c + 1) = sint c + 1" "0 < sint c \<Longrightarrow> sint (c - 1) = sint c - 1"
proof -
  have c: "c = of_int (sint c)" by simp
  have "c + 1 = of_int (sint c + 1)" "c - 1 = of_int (sint c - 1)" by simp_all
  then show "sint (c + 1) = sint c + 1" "0 < sint c \<Longrightarrow> sint (c - 1) = sint c - 1"
    using sint_slots [of "sint c + 1"] sint_slots [of "sint c - 1"] assms by simp_all
qed

lemma own_step_inv: "own_step s t \<Longrightarrow> daemon_inv control s \<Longrightarrow> daemon_inv control t"
proof (induction rule: own_step.induct)
  case (slot_taken s c)
  then have "0 \<le> sint (dm_count s)" "sint (dm_count s) < 32" "c = dm_count s + 1"
    by (auto simp: daemon_inv_def reserve_slot_def AVD_CONTROL_MAX_CONNS_def split: if_splits)
  then show ?case using slot_taken slot_arith(1) [of "dm_count s"] by (auto simp: daemon_inv_def)
next
  case (turned_away s c)
  then show ?case by (auto simp: daemon_inv_def reserve_slot_def split: if_splits)
next
  case (not_spawned s)
  then have "0 < sint (dm_count s)" "sint (dm_count s) \<le> 32" by (auto simp: daemon_inv_def)
  then show ?case using not_spawned slot_arith(2) [of "dm_count s"] by (auto simp: daemon_inv_def release_slot_def)
next
  case (served s)
  then have "0 < sint (dm_count s)" "sint (dm_count s) \<le> 32" by (auto simp: daemon_inv_def)
  then show ?case using served slot_arith(2) [of "dm_count s"] by (auto simp: daemon_inv_def release_slot_def)
qed (auto simp: daemon_inv_def split: if_splits)

lemma outer_step_inv: "outer_step mx s t \<Longrightarrow> daemon_inv control s \<Longrightarrow> daemon_inv control t"
  by (induction rule: outer_step.induct) (auto simp: daemon_inv_def split: if_splits)

lemma daemon_reach_inv:
  assumes "0 < n" "daemon_reach mx n control s"
  shows "daemon_inv control s"
  using assms(2) unfolding daemon_reach_def
  by (induction rule: rtranclp_induct)
     (use daemon_inv_init [OF assms(1)] own_step_inv outer_step_inv in \<open>auto simp: daemon_step_def\<close>)

text \<open>Once the main thread has seen the stop signal, some thread of the daemon can go on until the main
  thread has finished, and the threads together come closer to it.\<close>

definition phase :: "main_pc \<Rightarrow> nat" where
  "phase m = (case m of Receiving \<Rightarrow> 5 | Entering \<Rightarrow> 5 | Blocked \<Rightarrow> 5 | Joining \<Rightarrow> 4 | Waking \<Rightarrow> 3 | JoiningAccept \<Rightarrow> 2 | Finished \<Rightarrow> 0)"

definition accept_rank :: "accept_pc \<Rightarrow> nat" where
  "accept_rank a = (case a of Accepting \<Rightarrow> 4 | Accepted \<Rightarrow> 3 | SlotTaken \<Rightarrow> 2 | AcceptTop \<Rightarrow> 1 | AcceptDone \<Rightarrow> 0)"

definition stopping :: "daemon \<Rightarrow> bool" where
  "stopping s \<longleftrightarrow> \<not> dm_running s \<and> dm_main s \<notin> {Entering, Blocked} \<and>
     (dm_main s = JoiningAccept \<longrightarrow> dm_accept s \<noteq> Accepting \<or> 0 < dm_backlog s)"

definition closer :: "(daemon \<times> daemon) set" where
  "closer = measures [\<lambda>s. phase (dm_main s), \<lambda>s. dm_queue s + dm_workers s, \<lambda>s. accept_rank (dm_accept s)]"

lemma stopping_joins_accept:
  assumes "daemon_inv control s" "stopping s" "dm_main s = JoiningAccept"
  shows "\<exists>t. own_step s t \<and> stopping t \<and> (t, s) \<in> closer"
proof -
  have r: "\<not> dm_running s" using assms(2) by (simp add: stopping_def)
  show ?thesis
  proof (cases "dm_accept s")
    case AcceptTop
    then show ?thesis using own_step.accept_loop [OF AcceptTop] assms r
      by (intro exI conjI) (assumption, auto simp: stopping_def closer_def accept_rank_def)
  next
    case Accepting
    then have b: "0 < dm_backlog s" using assms by (simp add: stopping_def)
    show ?thesis using own_step.accept_conn [OF Accepting b] assms r Accepting
      by (intro exI conjI) (assumption, auto simp: stopping_def closer_def accept_rank_def)
  next
    case Accepted
    obtain f c where c: "reserve_slot (dm_count s) = (f, c)" by fastforce
    show ?thesis
    proof (cases f)
      case True
      then have c': "reserve_slot (dm_count s) = (True, c)" using c by simp
      show ?thesis using own_step.slot_taken [OF Accepted c'] assms r Accepted
        by (intro exI conjI) (assumption, auto simp: stopping_def closer_def accept_rank_def)
    next
      case False
      then have c': "reserve_slot (dm_count s) = (False, c)" using c by simp
      show ?thesis using own_step.turned_away [OF Accepted c'] assms r Accepted
        by (intro exI conjI) (assumption, auto simp: stopping_def closer_def accept_rank_def)
    qed
  next
    case SlotTaken
    show ?thesis using own_step.spawned [OF SlotTaken] assms r SlotTaken
      by (intro exI conjI) (assumption, auto simp: stopping_def closer_def accept_rank_def)
  next
    case AcceptDone
    show ?thesis using own_step.join_accept [OF assms(3) AcceptDone] assms r
      by (intro exI conjI) (assumption, auto simp: stopping_def closer_def phase_def)
  qed
qed

lemma stopping_progress:
  assumes "daemon_inv control s" "stopping s" "dm_main s \<noteq> Finished"
  shows "\<exists>t. own_step s t \<and> stopping t \<and> (t, s) \<in> closer"
proof -
  have r: "\<not> dm_running s" using assms(2) by (simp add: stopping_def)
  show ?thesis
  proof (cases "dm_main s")
    case Receiving
    show ?thesis using own_step.recv_stop [OF Receiving r] assms Receiving
      by (intro exI conjI) (assumption, auto simp: stopping_def closer_def phase_def)
  next
    case Joining
    then have sh: "dm_shutting s" using assms(1) by (simp add: daemon_inv_def)
    consider "dm_workers s = 0" | "0 < dm_workers s" "0 < dm_queue s" | "0 < dm_workers s" "dm_queue s = 0" by auto
    then show ?thesis
    proof cases
      case 1
      show ?thesis using own_step.joined [OF Joining 1] assms r Joining
        by (intro exI conjI) (assumption, auto simp: stopping_def closer_def phase_def)
    next
      case 2
      show ?thesis using own_step.worker_scan [OF 2] assms r Joining 2
        by (intro exI conjI) (assumption, auto simp: stopping_def closer_def)
    next
      case 3
      show ?thesis using own_step.worker_exit [OF 3(1) sh 3(2)] assms r Joining 3
        by (intro exI conjI) (assumption, auto simp: stopping_def closer_def)
    qed
  next
    case Waking
    show ?thesis using own_step.wake [OF Waking] assms r Waking
      by (intro exI conjI) (assumption, auto simp: stopping_def closer_def phase_def)
  qed (use assms stopping_joins_accept in \<open>auto simp: stopping_def\<close>)
qed

lemma stopping_finishes:
  assumes "daemon_inv control s" "stopping s"
  shows "\<exists>t. own_step\<^sup>*\<^sup>* s t \<and> dm_main t = Finished"
proof -
  have "wf closer" by (simp add: closer_def)
  then show ?thesis using assms
  proof (induction s rule: wf_induct_rule)
    case (less s)
    show ?case
    proof (cases "dm_main s = Finished")
      case False
      obtain t where t: "own_step s t" "stopping t" "(t, s) \<in> closer" using stopping_progress [OF less(2,3) False] by blast
      from less(1) [OF t(3) own_step_inv [OF t(1) less(2)] t(2)] t(1) show ?thesis by (meson converse_rtranclp_into_rtranclp)
    qed blast
  qed
qed

lemma own_step_running: "own_step s t \<Longrightarrow> dm_running t = dm_running s \<and> dm_control t = dm_control s"
  by (induction rule: own_step.induct) auto

lemma own_steps_inv:
  "own_step\<^sup>*\<^sup>* s t \<Longrightarrow> daemon_inv control s \<Longrightarrow> daemon_inv control t \<and> dm_running t = dm_running s"
  by (induction rule: rtranclp_induct) (use own_step_inv own_step_running in blast)+


text \<open>An error of the netlink socket is different: it leaves the receive loop with \<^verbatim>\<open>running\<close> still set, the
  accept loop goes back to \<^verbatim>\<open>accept\<close> after the wake-up connection, and unless a signal arrives the daemon
  never finishes.\<close>

lemma receive_error_hangs:
  assumes "0 < n" "daemon_reach mx n True s" "dm_main s = Blocked" "dm_running s"
  shows "outer_step mx s (s\<lparr>dm_main := Joining, dm_shutting := True\<rparr>) \<and>
    (\<forall>t. own_step\<^sup>*\<^sup>* (s\<lparr>dm_main := Joining, dm_shutting := True\<rparr>) t \<longrightarrow> dm_main t \<noteq> Finished)"
proof -
  have o: "outer_step mx s (s\<lparr>dm_main := Joining, dm_shutting := True\<rparr>)" by (rule outer_step.recv_error [OF assms(3)])
  then have inv: "daemon_inv True (s\<lparr>dm_main := Joining, dm_shutting := True\<rparr>)"
    by (rule outer_step_inv [OF _ daemon_reach_inv [OF assms(1,2)]])
  have "dm_main t \<noteq> Finished" if "own_step\<^sup>*\<^sup>* (s\<lparr>dm_main := Joining, dm_shutting := True\<rparr>) t" for t
    using own_steps_inv [OF that inv] assms(4) by (auto simp: daemon_inv_def)
  with o show ?thesis by blast
qed

text \<open>A stop signal between the test of \<^verbatim>\<open>running\<close> and the receive call is lost until the next message: the
  main thread waits although \<^verbatim>\<open>running\<close> is clear.\<close>

lemma stop_signal_lost:
  "\<exists>s. daemon_reach mx n control s \<and> \<not> dm_running s \<and> dm_main s = Blocked"
proof -
  let ?s0 = "daemon_init n control"
  let ?s1 = "?s0\<lparr>dm_main := Entering\<rparr>" let ?s2 = "?s1\<lparr>dm_running := False\<rparr>" let ?s3 = "?s2\<lparr>dm_main := Blocked\<rparr>"
  have 1: "daemon_step mx ?s0 ?s1" unfolding daemon_step_def by (intro disjI1 own_step.recv_enter) (simp_all add: daemon_init_def)
  have 2: "daemon_step mx ?s1 ?s2"
    using outer_step.stop_signal [of mx ?s1] by (simp add: daemon_step_def daemon_init_def)
  have 3: "daemon_step mx ?s2 ?s3" unfolding daemon_step_def by (intro disjI1 own_step.recv_block) simp
  have "daemon_reach mx n control ?s3" unfolding daemon_reach_def
    by (rule rtranclp.rtrancl_into_rtrancl, rule rtranclp.rtrancl_into_rtrancl,
        rule rtranclp.rtrancl_into_rtrancl, rule rtranclp.rtrancl_refl) (rule 1 2 3)+
  then show ?thesis by (intro exI [of _ ?s3]) simp
qed


section \<open>The tunables stay in range\<close>

lemma tunable_in_range: "mn \<le> d \<Longrightarrow> d \<le> mx \<Longrightarrow> mn \<le> parse_tunable_env v d mn mx \<and> parse_tunable_env v d mn mx \<le> mx"
  by (auto simp: parse_tunable_env_def Let_def split: option.split prod.split)

lemma tunable_exact:
  assumes "mn \<le> int k" "int k \<le> mx" "mx < 2 ^ 31"
  shows "parse_tunable_env (Some (show_nat k)) d mn mx = int k"
proof -
  note s = show_base_digits [of 10 k, unfolded show_base_10]
  have "scan_number 10 (show_nat k) = (False, show_nat k, [])" using s scan_number_digits [of 10 "show_nat k"] by simp
  then show ?thesis using s assms by (simp add: parse_tunable_env_def Let_def)
qed

lemma queue_bound_in_range: "1 \<le> avd_scan_queue_max S \<and> avd_scan_queue_max S \<le> 65536"
  using tunable_in_range [of AVD_SCAN_QUEUE_MIN AVD_SCAN_QUEUE_MAX_DEFAULT AVD_SCAN_QUEUE_MAX_MAX "se_queue S"]
  by (simp add: avd_scan_queue_max_def AVD_SCAN_QUEUE_MAX_DEFAULT_def AVD_SCAN_QUEUE_MIN_def AVD_SCAN_QUEUE_MAX_MAX_def)

text \<open>What has happened by the time the daemon registers and serves.\<close>

lemma start_order:
  assumes "avd_start S argv = (r, evs)"
  shows "case r of
      Inl c \<Rightarrow> c = 1 \<and> Serving \<notin> set evs
    | Inr d \<Rightarrow> 1 \<le> dm_workers d \<and> dm_workers d \<le> 256 \<and>
        (\<exists>up. evs = [SelfTest, Rules, FuzzyCorpus, TlshCorpus, Connected, Registered, Workers (dm_workers d)] @
             (if dm_control d then [ControlUp] else []) @ up \<and>
           (if up = [Serving] then d = daemon_init (dm_workers d) (dm_control d)
            else up = [] \<and> d = (daemon_init (dm_workers d) (dm_control d))\<lparr>dm_main := Joining, dm_shutting := True\<rparr>))"
proof -
  let ?t = "parse_tunable_env (se_threads S) AVD_SCAN_THREADS_DEFAULT AVD_SCAN_THREADS_MIN AVD_SCAN_THREADS_MAX"
  have "1 \<le> ?t" "?t \<le> 256"
    using tunable_in_range [of AVD_SCAN_THREADS_MIN AVD_SCAN_THREADS_DEFAULT AVD_SCAN_THREADS_MAX "se_threads S"]
    by (simp_all add: AVD_SCAN_THREADS_DEFAULT_def AVD_SCAN_THREADS_MIN_def AVD_SCAN_THREADS_MAX_def)
  then show ?thesis using assms by (auto simp: avd_start_def start_engines_def start_threads_def Let_def daemon_init_def split: if_splits)
qed

section \<open>The socket that is served is the daemon's own\<close>

definition own_op :: "sock_start \<Rightarrow> sock_op \<Rightarrow> bool" where
  "own_op Q op \<longleftrightarrow> (case op of SockUnlinked x \<Rightarrow> S_ISSOCK (en_mode x) | SockChmod x \<Rightarrow> en_ino x = ss_new Q | _ \<Rightarrow> True)"

lemma own_op_simps [simp]:
  "own_op Q (SockUnlinked x) = S_ISSOCK (en_mode x)" "own_op Q (SockChmod x) = (en_ino x = ss_new Q)"
  "own_op Q (SockBound n)" "own_op Q SockClosed"
  by (simp_all add: own_op_def)

lemma and_disjoint: "(a :: u32) AND b = 0 \<Longrightarrow> (a AND c) AND b = 0"
proof -
  assume "a AND b = 0"
  moreover have "(a AND c) AND b = (a AND b) AND c" by (simp only: ac_simps)
  ultimately show ?thesis by simp
qed

lemma bound_mode_and:
  assumes "(0x1FF :: u32) AND m = 0"
  shows "bound_mode u AND m = 0xC000 AND m"
  using and_disjoint [OF assms, of "NOT u"] by (simp add: bound_mode_def bit.conj_disj_distrib2)

lemma socket_modes:
  "S_ISSOCK (bound_mode u)" "S_ISSOCK 0xC1B6" "bound_mode u AND - 4096 OR 0x1B6 = 0xC1B6" "(0xC1B6 :: u32) AND 0x1FF = 0x1B6"
  by (simp_all add: S_ISSOCK_def S_IFMT_def bound_mode_and)

lemma serve_socket_own:
  assumes "\<forall>k x. ss_others Q k x = x" "list_all (own_op Q) os"
    "serve_socket Q (Some \<lparr>en_ino = ss_new Q, en_mode = bound_mode (ss_umask Q)\<rparr>) os = (f, os', y)"
  shows "(f \<longrightarrow> y = Some \<lparr>en_ino = ss_new Q, en_mode = 0xC1B6\<rparr>) \<and> list_all (own_op Q) os'"
  using assms by (auto simp: serve_socket_def sock_lstat_def Let_def socket_modes split: if_splits)

lemma bind_socket_own:
  assumes "\<forall>k x. ss_others Q k x = x" "list_all (own_op Q) os" "bind_socket Q x os = (f, os', y)"
  shows "(f \<longrightarrow> y = Some \<lparr>en_ino = ss_new Q, en_mode = 0xC1B6\<rparr>) \<and> list_all (own_op Q) os'"
proof (cases "ss_socket Q \<and> ss_bind Q \<and> x = None")
  case True
  then have "serve_socket Q (Some \<lparr>en_ino = ss_new Q, en_mode = bound_mode (ss_umask Q)\<rparr>) (os @ [SockBound (ss_new Q)]) = (f, os', y)"
    using assms by (simp add: bind_socket_def Let_def)
  then show ?thesis using assms(2) by (intro serve_socket_own [OF assms(1)]) simp_all
qed (use assms in \<open>auto simp: bind_socket_def Let_def split: if_splits\<close>)



end
