(* ===== verification/Spec2Isabelle.thy ===== *)
theory Spec2Isabelle
  imports ModuleSystem AvdScan AvdQueue AvctlCli AvdServe
begin

text \<open>
  A verification library for the antivirus: the kernel module under \<^verbatim>\<open>src/av\<close>, the scanning daemon
  under \<^verbatim>\<open>src/userspace/avd\<close> and the management tool under \<^verbatim>\<open>src/userspace/avctl\<close>.

  \<^bold>\<open>The program.\<close> The module hooks eight syscalls. A hook takes an admission slot, copies what it
  needs and queues a work item; the worker hashes an executable, looks it up in the signature table,
  asks the daemon over generic netlink, and follows what the process does (writing many files, renaming
  them with a new extension, opening sensitive files, deleting its own executable), and it may kill the
  process. Three lists (signatures, trusted binaries, protected paths) and a policy are managed by
  writing to files under \<^verbatim>\<open>/proc\<close>. The daemon answers each scan request with a verdict from YARA rules,
  two similarity corpora and, for a conviction, moves the file into quarantine; it also serves a control
  socket. The tool writes the proc files, saves and restores their contents, and is the client of
  the socket.

  \<^bold>\<open>Theories and sources.\<close> \<^verbatim>\<open>AvPrelude\<close> (machine integers, error numbers, C strings, the record of kernel
  services) and \<^verbatim>\<open>AvUser\<close> (the C library) are the prelude; \<^verbatim>\<open>KHash\<close> states the contract of a keyed kernel hash
  table as two locales, which the four tables of the module interpret on their own key, index and
  node definitions; the queue of the daemon interprets the locale \<^verbatim>\<open>fifo_buffer\<close>.
  Definitions keep the names of the functions they model.
  \<^item> \<^verbatim>\<open>SigTable\<close>: \<^verbatim>\<open>av/sigtable.c\<close>. \<^verbatim>\<open>TrustList\<close>, \<^verbatim>\<open>ProtectedList\<close>, \<^verbatim>\<open>PathRules\<close>, \<^verbatim>\<open>SlidingWindow\<close>,
    \<^verbatim>\<open>BehaviorTable\<close>: \<^verbatim>\<open>av/behavior.c\<close>.
  \<^item> \<^verbatim>\<open>PathNorm\<close>, \<^verbatim>\<open>Admission\<close>, \<^verbatim>\<open>HashPass\<close>, \<^verbatim>\<open>Hooks\<close>, \<^verbatim>\<open>ModuleLife\<close>: \<^verbatim>\<open>av/main.c\<close>. \<^verbatim>\<open>NetlinkChan\<close>:
    \<^verbatim>\<open>av/netlink_chan.c\<close>. \<^verbatim>\<open>ModuleSystem\<close> puts the module together as one transition system.
  \<^item> \<^verbatim>\<open>Sha256\<close>: \<^verbatim>\<open>avd/sha256.c\<close>. \<^verbatim>\<open>TlshDiffTable\<close>, \<^verbatim>\<open>TlshQuartile\<close>, \<^verbatim>\<open>TlshHash\<close>, \<^verbatim>\<open>TlshShim\<close>:
    \<^verbatim>\<open>avd/tlsh_diff_table.h\<close>, \<^verbatim>\<open>avd/tlsh_core.c\<close> and \<^verbatim>\<open>avd/tlsh_shim.c\<close>.
  \<^item> \<^verbatim>\<open>QuarantineMeta\<close>, \<^verbatim>\<open>AvdControl\<close>, \<^verbatim>\<open>AvdTrust\<close>, \<^verbatim>\<open>AvdCorpus\<close>, \<^verbatim>\<open>AvdQuarantine\<close>, \<^verbatim>\<open>AvdScan\<close>, \<^verbatim>\<open>AvdQueue\<close>,
    \<^verbatim>\<open>AvdServe\<close>: \<^verbatim>\<open>avd/avd.c\<close>, from the sidecar of a quarantined file to the threads of the daemon.
  \<^item> \<^verbatim>\<open>AvctlState\<close>, \<^verbatim>\<open>AvctlSave\<close>, \<^verbatim>\<open>AvctlSock\<close>, \<^verbatim>\<open>AvctlCli\<close>: \<^verbatim>\<open>avctl/avctl.c\<close>. They run against the
    module's proc handlers and the daemon's own \<^verbatim>\<open>control_conn_main\<close>, not against a stub.

  \<^bold>\<open>How code is modelled.\<close> State is passed explicitly in records; 32 and 64 bit integers are words and wrap
  around; an error is the left side of a sum or the negative number the code returns; every early
  return is a branch. Kernel services, YARA, libfuzzy and the system calls are not in the repository:
  what they report is an argument or the field of a record, so that every theorem holds for all of
  their outcomes. Where other processes or threads can act between two calls, they do: in \<^verbatim>\<open>AvdQuarantine\<close>,
  \<^verbatim>\<open>AvctlSave\<close> and \<^verbatim>\<open>AvdServe\<close> through a function applied to the file system before a call, and in
  \<^verbatim>\<open>NetlinkChan\<close>, \<^verbatim>\<open>AvdQueue\<close>, \<^verbatim>\<open>AvdServe\<close>, \<^verbatim>\<open>Admission\<close> and \<^verbatim>\<open>ModuleSystem\<close> through a step relation whose steps
  are the regions that run under one lock. Memory that is shared by reference has addresses, and following a
  pointer to memory that is not allocated is an outcome of its own.

  \<^bold>\<open>What is shown.\<close>
  \<^item> Tables: each operation refines the operation of a finite map or set, with the error of every branch,
    and keeps the table invariant and its caps.
  \<^item> Detection: the ring raises its first alarm exactly when an unbounded window would; a burst of writes, a
    sensitive file opened through any name, a deleted executable are caught; PID 1, a process gone and
    protected executables are never killed; trust silences exactly the volume heuristics.
  \<^item> Module: admission bounds, reference accounting and memory safety of the netlink
    channel in every interleaving; loading is all or nothing.
  \<^item> Digests: SHA-256 and the TLSH digest equal reference definitions for every split of the input;
    the distance is a symmetric bounded measure; the selection always ends with the order statistics.
  \<^item> Daemon: the verdict of a scan is exactly what the evidence says and reaches the waiting request in
    the kernel; quarantine removes only the scanned file and only when a locked copy exists; only root
    has an effect through the control socket; the queue and the threads are bounded, safe and stop.
  \<^item> Tool: each command is the specified change of the module's sets; a saved state loads to
    the same state; a save installs the whole dump or nothing; the client reports what the daemon did.

  \<^bold>\<open>Bounds and fuel.\<close> Recursion is structural or has a termination proof. Reads, writes and waits whose
  number the code does not bound follow a script of outcomes; past its end a
  read delivers what is left, so a script of any length is enough and no result depends on one being long.
  Selection by \<^verbatim>\<open>find_quartile\<close> has fuel, which \<^verbatim>\<open>TlshQuartile\<close> shows is never used up.

  \<^bold>\<open>What modelling showed.\<close> \<^verbatim>\<open>send_failure_use_after_free\<close>, \<^verbatim>\<open>unload_timeout_poisoned\<close> and
  \<^verbatim>\<open>unload_hands_out_no_verdict\<close> in \<^verbatim>\<open>NetlinkChan\<close>, \<^verbatim>\<open>newline_path_overrides_owner\<close> in \<^verbatim>\<open>QuarantineMeta\<close>,
  \<^verbatim>\<open>long_name_too_long\<close> in \<^verbatim>\<open>AvdQuarantine\<close>, \<^verbatim>\<open>receive_error_hangs\<close> and \<^verbatim>\<open>stop_signal_lost\<close> in \<^verbatim>\<open>AvdServe\<close> are
  behaviours the code does not mean to have.

  \<^bold>\<open>Not modelled.\<close> The registration of kprobes and proc files, module parameters' plumbing, signal masks and thread
  creation (whether they succeed is an input), the text of log and error messages, \<^verbatim>\<open>usage\<close> of the
  tool, the registration message of the daemon, and which thread a condition
  variable wakes. Outside the C code: the graphical front ends, packaging, scripts, tests and
  the YARA rules themselves.
\<close>

end
